(* ===== verification/Prelude.thy ===== *)
theory Prelude
  imports Main "HOL-Library.Word"
begin

text \<open>
  What every component shares: the Go integers that wrap (\<open>int32\<close>, \<open>int64\<close>), time as
  nanoseconds, and the functions of Go's \<open>strings\<close> and \<open>strconv\<close> packages that the
  sources call, over byte strings (\<open>string\<close> is a list of \<open>char\<close>). Case folding and white
  space are those of ASCII.
  The collections declared here gather the rules the component proofs share:
  \<open>prog\<close> (unfoldings of the session monad), \<open>keeps\<close> (an invariant is kept),
  \<open>clocks\<close> (a computation runs at one instant), \<open>triples\<close> (pre- and postconditions), \<open>str\<close>
  (executable string operations).
\<close>

named_theorems prog
named_theorems keeps
named_theorems clocks
named_theorems str
named_theorems triples

section \<open>Integers and time\<close>

type_synonym timestamp = int
type_synonym duration = int

definition second :: duration where "second = 1000000000"
definition minute :: duration where "minute = 60 * second"
definition hour :: duration where "hour = 60 * minute"

definition wrap64 :: "int \<Rightarrow> int" where
  "wrap64 x = sint (word_of_int x :: 64 word)"

definition wrap32 :: "int \<Rightarrow> int" where
  "wrap32 x = sint (word_of_int x :: 32 word)"

lemma wrap64_id: "- (2 ^ 63) \<le> x \<Longrightarrow> x < 2 ^ 63 \<Longrightarrow> wrap64 x = x"
  by (simp add: wrap64_def sint_sbintrunc' signed_take_bit_int_eq_self)

lemma wrap32_id: "- (2 ^ 31) \<le> x \<Longrightarrow> x < 2 ^ 31 \<Longrightarrow> wrap32 x = x"
  by (simp add: wrap32_def sint_sbintrunc' signed_take_bit_int_eq_self)

lemma wrap64_range: "- (2 ^ 63) \<le> wrap64 x \<and> wrap64 x < 2 ^ 63"
  using sint_ge [of "word_of_int x :: 64 word"] sint_lt [of "word_of_int x :: 64 word"]
  by (simp add: wrap64_def)

lemma wrap32_range: "- (2 ^ 31) \<le> wrap32 x \<and> wrap32 x < 2 ^ 31"
  using sint_ge [of "word_of_int x :: 32 word"] sint_lt [of "word_of_int x :: 32 word"]
  by (simp add: wrap32_def)

section \<open>Strings\<close>

definition upper_letters :: string where "upper_letters = ''ABCDEFGHIJKLMNOPQRSTUVWXYZ''"
definition lower_letters :: string where "lower_letters = ''abcdefghijklmnopqrstuvwxyz''"
definition decimal_digits :: string where "decimal_digits = ''0123456789''"

definition lower_char :: "char \<Rightarrow> char" where
  "lower_char c = (case map_of (zip upper_letters lower_letters) c of Some l \<Rightarrow> l | None \<Rightarrow> c)"

definition to_lower :: "string \<Rightarrow> string" where
  "to_lower s = map lower_char s"

definition equal_fold :: "string \<Rightarrow> string \<Rightarrow> bool" where
  "equal_fold s t = (to_lower s = to_lower t)"

definition white_space :: "char \<Rightarrow> bool" where
  "white_space c = (c \<in> set [CHR '' '', CHR 0x09, CHR 0x0A, CHR 0x0B, CHR 0x0C, CHR 0x0D])"

definition trim_space :: "string \<Rightarrow> string" where
  "trim_space s = rev (dropWhile white_space (rev (dropWhile white_space s)))"

definition trim_left :: "char \<Rightarrow> string \<Rightarrow> string" where
  "trim_left c s = dropWhile (\<lambda>x. x = c) s"

definition trim_right :: "char \<Rightarrow> string \<Rightarrow> string" where
  "trim_right c s = rev (dropWhile (\<lambda>x. x = c) (rev s))"

definition has_prefix :: "string \<Rightarrow> string \<Rightarrow> bool" where
  "has_prefix s p = (take (length p) s = p)"

fun contains_str :: "string \<Rightarrow> string \<Rightarrow> bool" where
  "contains_str [] t = (t = [])"
| "contains_str (c # s) t = (has_prefix (c # s) t \<or> contains_str s t)"

definition replace_char :: "char \<Rightarrow> char \<Rightarrow> string \<Rightarrow> string" where
  "replace_char a b s = map (\<lambda>c. if c = a then b else c) s"

text \<open>\<open>strings.SplitN(s, sep, 2)\<close> for a one-byte separator: at most two parts.\<close>

definition split_two :: "char \<Rightarrow> string \<Rightarrow> string list" where
  "split_two c s =
     (case dropWhile (\<lambda>x. x \<noteq> c) s of
        [] \<Rightarrow> [s]
      | _ # rest \<Rightarrow> [takeWhile (\<lambda>x. x \<noteq> c) s, rest])"

definition quote :: "string \<Rightarrow> string" where
  "quote s = [CHR 0x22] @ s @ [CHR 0x22]"

lemmas string_ops [str] =
  lower_char_def to_lower_def equal_fold_def white_space_def trim_space_def trim_left_def
  trim_right_def has_prefix_def replace_char_def split_two_def quote_def upper_letters_def
  lower_letters_def decimal_digits_def

section \<open>strconv\<close>

definition digit_char :: "nat \<Rightarrow> char" where
  "digit_char n = decimal_digits ! n"

definition digit_value :: "char \<Rightarrow> nat option" where
  "digit_value c = map_of (zip decimal_digits [0..<10]) c"

fun dec_of_nat :: "nat \<Rightarrow> string" where
  "dec_of_nat n = (if n < 10 then [digit_char n] else dec_of_nat (n div 10) @ [digit_char (n mod 10)])"

declare dec_of_nat.simps [simp del]

definition itoa :: "int \<Rightarrow> string" where
  "itoa n = (if n < 0 then ''-'' @ dec_of_nat (nat (- n)) else dec_of_nat (nat n))"

fun parse_digits :: "nat \<Rightarrow> string \<Rightarrow> nat option" where
  "parse_digits acc [] = Some acc"
| "parse_digits acc (c # cs) =
     (case digit_value c of None \<Rightarrow> None | Some v \<Rightarrow> parse_digits (10 * acc + v) cs)"

text \<open>\<open>strconv.Atoi\<close>: an optional sign, at least one digit, and the value in the range of
  \<open>int\<close> (64 bits); anything else is an error.\<close>

definition atoi_magnitude :: "string \<Rightarrow> nat option" where
  "atoi_magnitude s = (if s = [] then None else parse_digits 0 s)"

definition in_int64 :: "int \<Rightarrow> bool" where
  "in_int64 n = (- (2 ^ 63) \<le> n \<and> n < 2 ^ 63)"

definition atoi :: "string \<Rightarrow> int option" where
  "atoi s =
     (let v = (case s of
                 [] \<Rightarrow> None
               | c # cs \<Rightarrow>
                   if c = CHR ''-'' then map_option (\<lambda>n. - int n) (atoi_magnitude cs)
                   else if c = CHR ''+'' then map_option int (atoi_magnitude cs)
                   else map_option int (atoi_magnitude s))
      in case v of None \<Rightarrow> None | Some n \<Rightarrow> if in_int64 n then Some n else None)"

lemma digit_value_char: "n < 10 \<Longrightarrow> digit_value (digit_char n) = Some n"
proof -
  assume "n < 10"
  then have "n \<in> {0, 1, 2, 3, 4, 5, 6, 7, 8, 9}" by auto
  then show ?thesis
    by (elim insertE) (simp_all add: digit_value_def digit_char_def decimal_digits_def upt_rec)
qed

lemma digit_char_not_sign: "n < 10 \<Longrightarrow> digit_char n \<noteq> CHR ''-'' \<and> digit_char n \<noteq> CHR ''+''"
proof -
  assume "n < 10"
  then have "n \<in> {0, 1, 2, 3, 4, 5, 6, 7, 8, 9}" by auto
  then show ?thesis
    by (elim insertE) (simp_all add: digit_char_def decimal_digits_def)
qed

lemma dec_of_nat_nonempty [simp]: "dec_of_nat n \<noteq> []"
  by (subst dec_of_nat.simps) simp

lemma parse_digits_append:
  "parse_digits a (xs @ ys) = (case parse_digits a xs of None \<Rightarrow> None | Some b \<Rightarrow> parse_digits b ys)"
  by (induction xs arbitrary: a) (auto split: option.splits)

lemma parse_dec_of_nat: "parse_digits 0 (dec_of_nat n) = Some n"
proof (induction n rule: dec_of_nat.induct)
  case (1 n)
  show ?case
  proof (cases "n < 10")
    case True
    then show ?thesis by (simp add: dec_of_nat.simps [of n] digit_value_char)
  next
    case False
    with 1 show ?thesis
      by (simp add: dec_of_nat.simps [of n] parse_digits_append digit_value_char)
  qed
qed

lemma dec_of_nat_hd: "hd (dec_of_nat n) \<noteq> CHR ''-'' \<and> hd (dec_of_nat n) \<noteq> CHR ''+''"
proof (induction n rule: dec_of_nat.induct)
  case (1 n)
  then show ?case
    using digit_char_not_sign [of n] by (cases "n < 10") (simp_all add: dec_of_nat.simps [of n])
qed

lemma atoi_itoa: "in_int64 n \<Longrightarrow> atoi (itoa n) = Some n"
proof -
  assume n: "in_int64 n"
  show ?thesis
  proof (cases "n < 0")
    case True
    with n show ?thesis
      by (simp add: atoi_def itoa_def atoi_magnitude_def parse_dec_of_nat)
  next
    case False
    obtain c cs where d: "dec_of_nat (nat n) = c # cs"
      using dec_of_nat_nonempty neq_Nil_conv by metis
    with dec_of_nat_hd [of "nat n"] have "c \<noteq> CHR ''-''" "c \<noteq> CHR ''+''" by auto
    with n False d parse_dec_of_nat [of "nat n"] show ?thesis
      by (simp add: atoi_def itoa_def atoi_magnitude_def)
  qed
qed

lemma itoa_nonempty [simp]: "itoa n \<noteq> []"
  by (simp add: itoa_def)

section \<open>Lists as tables\<close>

text \<open>\<open>UPDATE .. SET .. WHERE\<close> on a list of rows, the number of affected rows, and the rows
  sorted by a timestamp (rows with the same timestamp stay in insertion order).\<close>

definition update_where :: "('a \<Rightarrow> bool) \<Rightarrow> ('a \<Rightarrow> 'a) \<Rightarrow> 'a list \<Rightarrow> 'a list" where
  "update_where p f xs = map (\<lambda>x. if p x then f x else x) xs"

definition count_where :: "('a \<Rightarrow> bool) \<Rightarrow> 'a list \<Rightarrow> nat" where
  "count_where p xs = length (filter p xs)"

definition order_asc :: "('a \<Rightarrow> int) \<Rightarrow> 'a list \<Rightarrow> 'a list" where
  "order_asc k xs = sort_key k xs"

definition order_desc :: "('a \<Rightarrow> int) \<Rightarrow> 'a list \<Rightarrow> 'a list" where
  "order_desc k xs = sort_key (\<lambda>x. - k x) xs"

lemma length_update_where [simp]: "length (update_where p f xs) = length xs"
  by (simp add: update_where_def)

lemma update_where_Nil [simp]: "update_where p f [] = []"
  by (simp add: update_where_def)

lemma update_where_Cons [simp]:
  "update_where p f (x # xs) = (if p x then f x else x) # update_where p f xs"
  by (simp add: update_where_def)

lemma count_where_Nil [simp]: "count_where p [] = 0"
  by (simp add: count_where_def)

lemma count_where_Cons [simp]: "count_where p (x # xs) = (if p x then Suc (count_where p xs) else count_where p xs)"
  by (simp add: count_where_def)

lemma count_where_0_iff: "count_where p xs = 0 \<longleftrightarrow> (\<forall>x \<in> set xs. \<not> p x)"
  by (simp add: count_where_def filter_empty_conv)

lemma update_where_none: "\<forall>x \<in> set xs. \<not> p x \<Longrightarrow> update_where p f xs = xs"
  by (induction xs) auto

lemma update_where_append: "update_where p f (xs @ ys) = update_where p f xs @ update_where p f ys"
  by (simp add: update_where_def)

lemma find_update_where:
  "(\<And>x. p x \<Longrightarrow> g (f x) = g x) \<Longrightarrow>
     find (\<lambda>x. g x = v) (update_where p f xs) = map_option (\<lambda>x. if p x then f x else x) (find (\<lambda>x. g x = v) xs)"
  by (induction xs) auto

lemma find_append: "find p (xs @ ys) = (case find p xs of Some x \<Rightarrow> Some x | None \<Rightarrow> find p ys)"
  by (induction xs) auto

lemma find_update_key:
  assumes "\<And>x. k (f x) = k x" "find (\<lambda>x. k x = v) xs = Some r"
  shows "find (\<lambda>x. k x = v) (update_where (\<lambda>x. k x = v) f xs) = Some (f r)"
  using assms(2) by (induction xs) (auto simp: assms(1) split: if_splits)

lemma find_notin: "v \<notin> k ` set xs \<Longrightarrow> find (\<lambda>x. k x = v) xs = None"
  by (auto simp: find_None_iff)

lemma set_update_where: "set (update_where p f xs) = (\<lambda>x. if p x then f x else x) ` set xs"
  by (simp add: update_where_def)

lemma map_update_where: "(\<And>x. p x \<Longrightarrow> g (f x) = g x) \<Longrightarrow> map g (update_where p f xs) = map g xs"
  by (induction xs) auto

lemma image_update_where: "(\<And>x. p x \<Longrightarrow> g (f x) = g x) \<Longrightarrow> g ` set (update_where p f xs) = g ` set xs"
  by (metis map_update_where set_map)

lemma set_order_asc [simp]: "set (order_asc k xs) = set xs"
  by (simp add: order_asc_def)

lemma set_order_desc [simp]: "set (order_desc k xs) = set xs"
  by (simp add: order_desc_def)

lemma length_order_asc [simp]: "length (order_asc k xs) = length xs"
  by (simp add: order_asc_def)

lemma length_order_desc [simp]: "length (order_desc k xs) = length xs"
  by (simp add: order_desc_def)

lemma distinct_map_order_desc [simp]: "distinct (map k (order_desc f xs)) = distinct (map k xs)"
  by (simp add: order_desc_def distinct_map)

lemma sorted_order_asc: "sorted (map k (order_asc k xs))"
  by (simp add: order_asc_def)

lemma sorted_order_desc: "sorted (map (\<lambda>x. - k x) (order_desc k xs))"
  unfolding order_desc_def by (rule sorted_sort_key)

lemma filter_key_unique:
  "distinct (map k xs) \<Longrightarrow> x \<in> set xs \<Longrightarrow> filter (\<lambda>y. k y = k x) xs = [x]"
proof (induction xs)
  case Nil
  then show ?case by simp
next
  case (Cons a xs)
  show ?case
  proof (cases "a = x")
    case True
    with Cons.prems have "\<forall>y \<in> set xs. k y \<noteq> k x" by (auto simp: image_iff)
    with True show ?thesis by (simp add: filter_empty_conv)
  next
    case False
    with Cons show ?thesis by (auto simp: rev_image_eqI)
  qed
qed

lemma find_key_unique:
  "distinct (map k xs) \<Longrightarrow> x \<in> set xs \<Longrightarrow> find (\<lambda>y. k y = k x) xs = Some x"
  by (induction xs) (auto simp: rev_image_eqI)

lemma find_Some_set: "find p xs = Some x \<Longrightarrow> x \<in> set xs \<and> p x"
  by (auto simp: find_Some_iff)

lemma count_key_le_1: "distinct (map k xs) \<Longrightarrow> count_where (\<lambda>y. k y = v \<and> p y) xs \<le> 1"
proof (induction xs)
  case Nil
  then show ?case by simp
next
  case (Cons a xs)
  have "k a = v \<Longrightarrow> count_where (\<lambda>y. k y = v \<and> p y) xs = 0"
    using Cons.prems by (auto simp: count_where_0_iff rev_image_eqI)
  with Cons show ?case by auto
qed

end
