(* ===== verification/Go_Values.thy ===== *)
theory Go_Values
  imports Prelude
begin

text \<open>
  The values the Go sources pass around: errors (the sentinels of \<open>internal/store/errors.go\<close>,
  gRPC status errors, driver errors, and errors wrapped by \<open>fmt.Errorf\<close> with \<open>%w\<close>), JSON values
  and raw messages. \<open>err_text\<close> is the method \<open>Error()\<close>; \<open>errors_is\<close> walks the chain of
  wrapped errors as \<open>errors.Is\<close> does.
\<close>

section \<open>Maps and optional strings\<close>

text \<open>A Go map read without the ok flag; a nullable string read and written.\<close>

definition map_get :: "'b \<Rightarrow> ('a \<times> 'b) list \<Rightarrow> 'a \<Rightarrow> 'b" where
  "map_get zero m k = (case map_of m k of None \<Rightarrow> zero | Some v \<Rightarrow> v)"

definition opt_string :: "string option \<Rightarrow> string" where
  "opt_string s = (case s of None \<Rightarrow> [] | Some x \<Rightarrow> x)"

definition null_if_empty :: "string \<Rightarrow> string option" where
  "null_if_empty s = (if s \<noteq> [] then Some s else None)"

section \<open>Errors\<close>

datatype code =
    InvalidArgument | NotFound | AlreadyExists | PermissionDenied | FailedPrecondition
  | ResourceExhausted | Unauthenticated | Internal | Unavailable

fun code_name :: "code \<Rightarrow> string" where
  "code_name InvalidArgument = ''InvalidArgument''"
| "code_name NotFound = ''NotFound''"
| "code_name AlreadyExists = ''AlreadyExists''"
| "code_name PermissionDenied = ''PermissionDenied''"
| "code_name FailedPrecondition = ''FailedPrecondition''"
| "code_name ResourceExhausted = ''ResourceExhausted''"
| "code_name Unauthenticated = ''Unauthenticated''"
| "code_name Internal = ''Internal''"
| "code_name Unavailable = ''Unavailable''"

text \<open>Errors of the PostgreSQL driver: the constraint violations the schema can raise, a
  statement or a commit in an aborted transaction, and any other failure (connection lost,
  serialization failure, invalid input syntax) with its text.\<close>

datatype pg_error =
    PgUnique string
  | PgForeignKey string string
  | PgNotNull string string
  | PgInFailedTx
  | PgCommitFailedTx
  | PgOther string

fun pg_text :: "pg_error \<Rightarrow> string" where
  "pg_text (PgUnique c) = ''pq: duplicate key value violates unique constraint '' @ quote c"
| "pg_text (PgForeignKey t c) =
     ''pq: insert or update on table '' @ quote t @ '' violates foreign key constraint '' @ quote c"
| "pg_text (PgNotNull t c) =
     ''pq: null value in column '' @ quote c @ '' of relation '' @ quote t @ '' violates not-null constraint''"
| "pg_text PgInFailedTx =
     ''pq: current transaction is aborted, commands ignored until end of transaction block''"
| "pg_text PgCommitFailedTx = ''pq: Could not complete operation in a failed transaction''"
| "pg_text (PgOther s) = s"

text \<open>The errors of the operating system, by their number; any other with its text.\<close>

datatype os_errno = ENOENT | EEXIST | ENOTDIR | EISDIR | ENOTEMPTY | OtherErrno string

fun errno_text :: "os_errno \<Rightarrow> string" where
  "errno_text ENOENT = ''no such file or directory''"
| "errno_text EEXIST = ''file exists''"
| "errno_text ENOTDIR = ''not a directory''"
| "errno_text EISDIR = ''is a directory''"
| "errno_text ENOTEMPTY = ''directory not empty''"
| "errno_text (OtherErrno s) = s"

text \<open>\<open>OsErr\<close> is a \<open>PathError\<close> or \<open>LinkError\<close>: the operation with its paths, and the error number.\<close>

datatype go_err =
    ErrNotFound | ErrConflict | ErrAlreadyExists | ErrPermissionDenied | ErrPrecondition
  | SqlNoRows
  | PgError pg_error
  | StatusErr code string
  | ErrInvalidTransition string string
  | OsErr string os_errno
  | GoErr string
  | Wrap string go_err string

text \<open>The UTF-8 bytes of a blank, the arrow U+2192 and a blank.\<close>

definition arrow :: string where
  "arrow = [CHR '' '', CHR 0xE2, CHR 0x86, CHR 0x92, CHR '' '']"

fun err_text :: "go_err \<Rightarrow> string" where
  "err_text ErrNotFound = ''not found''"
| "err_text ErrConflict = ''conflict''"
| "err_text ErrAlreadyExists = ''already exists''"
| "err_text ErrPermissionDenied = ''permission denied''"
| "err_text ErrPrecondition = ''precondition failed''"
| "err_text SqlNoRows = ''sql: no rows in result set''"
| "err_text (PgError p) = pg_text p"
| "err_text (StatusErr c m) = ''rpc error: code = '' @ code_name c @ '' desc = '' @ m"
| "err_text (ErrInvalidTransition a b) = ''invalid status transition: '' @ a @ arrow @ b"
| "err_text (OsErr op e) = op @ '': '' @ errno_text e"
| "err_text (GoErr s) = s"
| "err_text (Wrap p e s) = p @ err_text e @ s"

fun errors_is :: "go_err \<Rightarrow> go_err \<Rightarrow> bool" where
  "errors_is (Wrap p e s) t = (Wrap p e s = t \<or> errors_is e t)"
| "errors_is e t = (e = t)"

fun as_invalid_transition :: "go_err \<Rightarrow> bool" where
  "as_invalid_transition (ErrInvalidTransition a b) = True"
| "as_invalid_transition (Wrap p e s) = as_invalid_transition e"
| "as_invalid_transition e = False"

text \<open>\<open>status.FromError\<close>: a status error as it is; a wrapped one with the whole text as its
  message; no status otherwise.\<close>

fun wrapped_code :: "go_err \<Rightarrow> code option" where
  "wrapped_code (StatusErr c m) = Some c"
| "wrapped_code (Wrap p e s) = wrapped_code e"
| "wrapped_code e = None"

definition status_from_error :: "go_err \<Rightarrow> (code \<times> string) option" where
  "status_from_error e =
     (case e of StatusErr c m \<Rightarrow> Some (c, m)
      | _ \<Rightarrow> map_option (\<lambda>c. (c, err_text e)) (wrapped_code e))"

definition is_unique_violation :: "go_err \<Rightarrow> bool" where
  "is_unique_violation e =
     (contains_str (err_text e) ''duplicate key value violates unique constraint''
      \<or> contains_str (err_text e) ''23505'')"

definition is_foreign_key_violation :: "go_err \<Rightarrow> bool" where
  "is_foreign_key_violation e =
     (contains_str (err_text e) ''violates foreign key constraint'' \<or> contains_str (err_text e) ''23503'')"

lemma has_prefix_append [simp]: "has_prefix (p @ s) p"
  by (simp add: has_prefix_def)

lemma has_prefix_take [simp]: "has_prefix (c @ d) (c @ take n d)" "has_prefix d (take n d)"
  by (simp_all add: has_prefix_def min_def)

lemma contains_strI: "has_prefix s t \<Longrightarrow> contains_str s t"
  by (cases s) (auto simp: has_prefix_def)

lemma contains_str_append: "contains_str s t \<Longrightarrow> contains_str (u @ s) t"
  by (induction u) auto

lemma contains_str_infix: "contains_str (u @ t @ v) t"
  by (rule contains_str_append) (rule contains_strI, simp)

lemma unique_violation_recognised: "is_unique_violation (PgError (PgUnique c))"
proof -
  have "''pq: duplicate key value violates unique constraint '' @ quote c =
        ''pq: '' @ ''duplicate key value violates unique constraint'' @ ('' '' @ quote c)" by simp
  then have "contains_str (''pq: duplicate key value violates unique constraint '' @ quote c)
        ''duplicate key value violates unique constraint''"
    by (metis contains_str_infix)
  then show ?thesis unfolding is_unique_violation_def by (simp del: contains_str.simps)
qed

section \<open>JSON\<close>

text \<open>A JSON value; numbers that are not integers keep their text. A raw message is nil, the
  value its bytes denote, or bytes that are no JSON text.\<close>

datatype json =
    JNull | JBool bool | JNum int | JFrac string | JStr string
  | JArr "json list" | JObj "(string \<times> json) list"

datatype raw = Nil_Raw | Raw_JSON json | Raw_Text string

type_synonym smap = "(string \<times> string) list"

definition empty_object :: raw where "empty_object = Raw_JSON (JObj [])"

definition raw_empty :: "raw \<Rightarrow> bool" where
  "raw_empty r = (r = Nil_Raw \<or> r = Raw_Text [])"

definition json_of_smap :: "smap \<Rightarrow> json" where
  "json_of_smap m = JObj (map (\<lambda>(k, v). (k, JStr v)) m)"

text \<open>\<open>json.Unmarshal\<close> into a value that is zero: the flag says whether it returned no error;
  the value is what it stored, which on a type error is the part decoded so far. A null leaves
  the zero value; a struct field is found by its name up to case.\<close>

definition unmarshal_string :: "json \<Rightarrow> string \<Rightarrow> bool \<times> string" where
  "unmarshal_string j old =
     (case j of JStr s \<Rightarrow> (True, s) | JNull \<Rightarrow> (True, old) | _ \<Rightarrow> (False, old))"

definition unmarshal_int :: "json \<Rightarrow> int \<Rightarrow> bool \<times> int" where
  "unmarshal_int j old =
     (case j of JNum n \<Rightarrow> if in_int64 n then (True, n) else (False, old)
      | JNull \<Rightarrow> (True, old) | _ \<Rightarrow> (False, old))"

fun unmarshal_strings :: "json list \<Rightarrow> bool \<times> string list" where
  "unmarshal_strings [] = (True, [])"
| "unmarshal_strings (j # js) =
     (let (ok1, s) = unmarshal_string j []; (ok2, ss) = unmarshal_strings js in (ok1 \<and> ok2, s # ss))"

definition unmarshal_string_list :: "json \<Rightarrow> string list \<Rightarrow> bool \<times> string list" where
  "unmarshal_string_list j old =
     (case j of JArr js \<Rightarrow> unmarshal_strings js | JNull \<Rightarrow> (True, []) | _ \<Rightarrow> (False, old))"

fun unmarshal_entries :: "(string \<times> json) list \<Rightarrow> bool \<times> smap" where
  "unmarshal_entries [] = (True, [])"
| "unmarshal_entries ((k, j) # kjs) =
     (let (ok1, s) = unmarshal_string j []; (ok2, m) = unmarshal_entries kjs in (ok1 \<and> ok2, (k, s) # m))"

definition unmarshal_smap :: "json \<Rightarrow> smap \<Rightarrow> bool \<times> smap" where
  "unmarshal_smap j old =
     (case j of JObj kjs \<Rightarrow> unmarshal_entries kjs | JNull \<Rightarrow> (True, []) | _ \<Rightarrow> (False, old))"

definition unmarshal_raw :: "(json \<Rightarrow> 'a \<Rightarrow> bool \<times> 'a) \<Rightarrow> raw \<Rightarrow> 'a \<Rightarrow> bool \<times> 'a" where
  "unmarshal_raw dec r zero = (case r of Raw_JSON j \<Rightarrow> dec j zero | _ \<Rightarrow> (False, zero))"

lemma unmarshal_entries_json_of_smap:
  "unmarshal_entries (map (\<lambda>(k, v). (k, JStr v)) m) = (True, m)"
  by (induction m) (auto simp: unmarshal_string_def)

lemma unmarshal_smap_json_of_smap: "unmarshal_smap (json_of_smap m) old = (True, m)"
  by (simp add: unmarshal_smap_def json_of_smap_def unmarshal_entries_json_of_smap)

text \<open>Labels that do not parse, or none, are left out: the empty map here.\<close>

definition labels_of :: "raw \<Rightarrow> smap" where
  "labels_of r = (if raw_empty r then [] else case unmarshal_raw unmarshal_smap r [] of
     (ok, items) \<Rightarrow> if ok then items else [])"

lemma labels_of_smap: "labels_of (Raw_JSON (json_of_smap m)) = m"
  by (simp add: labels_of_def raw_empty_def unmarshal_raw_def unmarshal_smap_json_of_smap)

lemma labels_of_empty [simp]: "labels_of empty_object = []" "labels_of Nil_Raw = []"
  by (simp_all add: labels_of_def empty_object_def raw_empty_def unmarshal_raw_def unmarshal_smap_def)

lemma unmarshal_strings_map: "unmarshal_strings (map JStr xs) = (True, xs)"
  by (induction xs) (auto simp: unmarshal_string_def)

text \<open>The field of an object a struct field decodes from: the exact name, or else the last key that
  equals it up to case. \<open>json_text\<close> is the operator \<open>->>\<close> of PostgreSQL on the scalar values.\<close>

definition json_field :: "string \<Rightarrow> (string \<times> json) list \<Rightarrow> json option" where
  "json_field name kvs =
     (case map_of kvs name of
        Some j \<Rightarrow> Some j
      | None \<Rightarrow> (case filter (\<lambda>(k, _). equal_fold k name) kvs of [] \<Rightarrow> None | xs \<Rightarrow> Some (snd (last xs))))"

definition unmarshal_field ::
  "(json \<Rightarrow> 'a \<Rightarrow> bool \<times> 'a) \<Rightarrow> string \<Rightarrow> (string \<times> json) list \<Rightarrow> 'a \<Rightarrow> bool \<times> 'a" where
  "unmarshal_field dec name kvs zero =
     (case json_field name kvs of None \<Rightarrow> (True, zero) | Some j \<Rightarrow> dec j zero)"

definition json_text :: "raw \<Rightarrow> string \<Rightarrow> string option" where
  "json_text r k =
     (case r of
        Raw_JSON (JObj kvs) \<Rightarrow>
          (case map_of kvs k of
             Some (JStr s) \<Rightarrow> Some s
           | Some (JNum n) \<Rightarrow> Some (itoa n)
           | Some (JFrac s) \<Rightarrow> Some s
           | Some (JBool b) \<Rightarrow> Some (if b then ''true'' else ''false'')
           | _ \<Rightarrow> None)
      | _ \<Rightarrow> None)"

end
