(* ===== verification/Schema.thy ===== *)
theory Schema
  imports Go_Values
begin

text \<open>
  The rows of the database: one record per Go row struct, with the columns of \<open>migrations/\<close>.
  A nullable string or time is an option (\<open>sql.NullString\<close>, \<open>sql.NullTime\<close>), a JSONB column a
  raw message (\<open>Nil_Raw\<close> is SQL NULL). \<open>tables\<close> holds the twelve tables the services use, each a
  list of rows in insertion order.
\<close>

record gatewayRow =
  gw_ID :: string
  gw_Name :: string
  gw_Region :: string
  gw_Labels :: raw
  gw_Status :: string
  gw_Endpoint :: string
  gw_CreatedAt :: timestamp
  gw_UpdatedAt :: timestamp

record nodeRow =
  nd_ID :: string
  nd_GatewayID :: string
  nd_Labels :: raw
  nd_HardwareInfo :: raw
  nd_Status :: string
  nd_AgentVersion :: "string option"
  nd_Online :: bool
  nd_LastSeenAt :: "timestamp option"
  nd_CreatedAt :: timestamp
  nd_UpdatedAt :: timestamp

record identityRow =
  id_ID :: string
  id_NodeID :: string
  id_GatewayID :: string
  id_Serial :: string
  id_Fingerprint :: string
  id_Status :: string
  id_CertificatePEM :: string
  id_ExpiresAt :: timestamp
  id_IssuedAt :: timestamp
  id_RevokedAt :: "timestamp option"
  id_CreatedAt :: timestamp
  id_UpdatedAt :: timestamp

record TokenRecord =
  tk_ID :: string
  tk_GatewayID :: string
  tk_TokenHash :: string
  tk_Description :: string
  tk_Labels :: raw
  tk_MaxUses :: int
  tk_UsedCount :: int
  tk_Status :: string
  tk_ExpiresAt :: timestamp
  tk_CreatedAt :: timestamp
  tk_UpdatedAt :: timestamp

record TaskRow =
  t_ID :: string
  t_ParentTaskID :: "string option"
  t_Scope :: string
  t_Type :: string
  t_Status :: string
  t_TargetGatewayID :: "string option"
  t_TargetNodeID :: "string option"
  t_Payload :: raw
  t_Result :: raw
  t_DispatchStatus :: string
  t_OwnerInstance :: "string option"
  t_ClaimExpireAt :: "timestamp option"
  t_MaxRetries :: int
  t_RetryCount :: int
  t_TimeoutSeconds :: int
  t_IdempotencyKey :: "string option"
  t_CreatedBy :: string
  t_CreatedAt :: timestamp
  t_UpdatedAt :: timestamp

record TaskRunRow =
  r_ID :: string
  r_TaskID :: string
  r_NodeID :: string
  r_Attempt :: int
  r_Status :: string
  r_StartedAt :: timestamp
  r_FinishedAt :: "timestamp option"
  r_ErrorMsg :: "string option"
  r_Result :: raw
  r_CreatedAt :: timestamp

record TaskEventRow =
  e_ID :: string
  e_TaskID :: string
  e_Type :: string
  e_OldStatus :: string
  e_NewStatus :: string
  e_Actor :: string
  e_Detail :: raw
  e_CreatedAt :: timestamp

record ModelRow =
  m_ID :: string
  m_Name :: string
  m_Version :: string
  m_Format :: string
  m_Checksum :: string
  m_SizeBytes :: int
  m_ArtifactURI :: string
  m_SignatureURI :: string
  m_Labels :: raw
  m_CreatedAt :: timestamp

record CacheEntry =
  c_ID :: string
  c_GatewayID :: string
  c_ModelID :: string
  c_Version :: string
  c_CachedAt :: timestamp
  c_LastAccessAt :: timestamp
  c_SizeBytes :: int

record DeploymentRow =
  d_ID :: string
  d_ModelName :: string
  d_ModelVersion :: string
  d_Target :: raw
  d_Runtime :: string
  d_Rollout :: raw
  d_Status :: raw
  d_CreatedAt :: timestamp
  d_UpdatedAt :: timestamp

record RuntimeProfileRow =
  p_ID :: string
  p_Name :: string
  p_Selector :: raw
  p_Runtime :: string
  p_Priority :: int
  p_RuntimeConfig :: raw
  p_CreatedAt :: timestamp

record RuntimeStateRow =
  s_ID :: string
  s_NodeID :: string
  s_ModelName :: string
  s_ModelVersion :: string
  s_Runtime :: string
  s_Status :: string
  s_Metrics :: raw
  s_UpdatedAt :: timestamp

record tables =
  gateways :: "gatewayRow list"
  edge_nodes :: "nodeRow list"
  edge_identities :: "identityRow list"
  bootstrap_tokens :: "TokenRecord list"
  tasks :: "TaskRow list"
  task_runs :: "TaskRunRow list"
  task_events :: "TaskEventRow list"
  models :: "ModelRow list"
  gateway_cache_entries :: "CacheEntry list"
  runtime_profiles :: "RuntimeProfileRow list"
  model_deployments :: "DeploymentRow list"
  edge_runtime_states :: "RuntimeStateRow list"

definition empty_tables :: tables where
  "empty_tables = \<lparr>gateways = [], edge_nodes = [], edge_identities = [], bootstrap_tokens = [],
     tasks = [], task_runs = [], task_events = [], models = [], gateway_cache_entries = [],
     runtime_profiles = [], model_deployments = [], edge_runtime_states = []\<rparr>"

section \<open>Constraints of the schema\<close>

text \<open>
  What an INSERT or an UPDATE checks: a unique key (the primary key or a UNIQUE constraint), a
  foreign key that may be NULL, and that a JSONB NOT NULL column gets a JSON text. The first
  failing check is the error.
\<close>

definition check_unique :: "string \<Rightarrow> bool \<Rightarrow> pg_error option" where
  "check_unique c clash = (if clash then Some (PgUnique c) else None)"

definition check_fk :: "string \<Rightarrow> string \<Rightarrow> string option \<Rightarrow> string list \<Rightarrow> pg_error option" where
  "check_fk t c ref ids =
     (case ref of None \<Rightarrow> None
      | Some i \<Rightarrow> if i \<in> set ids then None else Some (PgForeignKey t c))"

definition invalid_json :: pg_error where
  "invalid_json = PgOther ''pq: invalid input syntax for type json''"

definition check_jsonb :: "string \<Rightarrow> string \<Rightarrow> raw \<Rightarrow> pg_error option" where
  "check_jsonb t c r =
     (case r of Nil_Raw \<Rightarrow> Some (PgNotNull t c) | Raw_JSON j \<Rightarrow> None | Raw_Text s \<Rightarrow> Some invalid_json)"

definition check_jsonb_null :: "raw \<Rightarrow> pg_error option" where
  "check_jsonb_null r = (case r of Raw_Text s \<Rightarrow> Some invalid_json | _ \<Rightarrow> None)"

fun first_error :: "pg_error option list \<Rightarrow> pg_error option" where
  "first_error [] = None"
| "first_error (Some e # cs) = Some e"
| "first_error (None # cs) = first_error cs"

definition guarded :: "pg_error option list \<Rightarrow> 'a \<Rightarrow> pg_error + 'a" where
  "guarded cs x = (case first_error cs of Some e \<Rightarrow> Inl e | None \<Rightarrow> Inr x)"

lemma first_error_None: "first_error cs = None \<longleftrightarrow> (\<forall>c \<in> set cs. c = None)"
  by (induction cs rule: first_error.induct) auto

lemma guarded_Inr: "guarded cs x = Inr y \<longleftrightarrow> (\<forall>c \<in> set cs. c = None) \<and> y = x"
  by (auto simp: guarded_def first_error_None [symmetric] split: option.splits)

lemma check_unique_None [simp]: "check_unique c b = None \<longleftrightarrow> \<not> b"
  by (simp add: check_unique_def)

lemma check_fk_None: "check_fk t c r ids = None \<longleftrightarrow> (\<forall>i. r = Some i \<longrightarrow> i \<in> set ids)"
  by (auto simp: check_fk_def split: option.splits)

lemma check_jsonb_None: "check_jsonb t c r = None \<longleftrightarrow> (\<exists>j. r = Raw_JSON j)"
  by (auto simp: check_jsonb_def split: raw.splits)

lemma check_jsonb_null_None: "check_jsonb_null r = None \<longleftrightarrow> (\<forall>s. r \<noteq> Raw_Text s)"
  by (auto simp: check_jsonb_null_def split: raw.splits)

end
