(* ===== verification/Error_Monad.thy ===== *)
theory Error_Monad
  imports Go_Values
begin

text \<open>
  A Go function that returns \<open>(T, error)\<close> and changes a state: it takes the state and returns an
  error or a value, with the new state. The state is the database session of the services
  (\<open>Session\<close>) or the file system and network of a process (\<open>Host\<close>).
\<close>

type_synonym ('s, 'a) em = "'s \<Rightarrow> (go_err + 'a) \<times> 's"

section \<open>Combinators\<close>

definition returnE :: "'a \<Rightarrow> ('s, 'a) em" where
  "returnE x = (\<lambda>d. (Inr x, d))"

definition failE :: "go_err \<Rightarrow> ('s, 'a) em" where
  "failE e = (\<lambda>d. (Inl e, d))"

definition bindE :: "('s, 'a) em \<Rightarrow> ('a \<Rightarrow> ('s, 'b) em) \<Rightarrow> ('s, 'b) em" where
  "bindE m f = (\<lambda>d. case m d of (Inl e, d1) \<Rightarrow> (Inl e, d1) | (Inr x, d1) \<Rightarrow> f x d1)"

text \<open>\<open>if err != nil { return g(err) }\<close>, and a handler that may go on.\<close>

definition map_err :: "(go_err \<Rightarrow> go_err) \<Rightarrow> ('s, 'a) em \<Rightarrow> ('s, 'a) em" where
  "map_err g m = (\<lambda>d. case m d of (Inl e, d1) \<Rightarrow> (Inl (g e), d1) | (Inr x, d1) \<Rightarrow> (Inr x, d1))"

definition catchE :: "('s, 'a) em \<Rightarrow> (go_err \<Rightarrow> ('s, 'a) em) \<Rightarrow> ('s, 'a) em" where
  "catchE m h = (\<lambda>d. case m d of (Inl e, d1) \<Rightarrow> h e d1 | (Inr x, d1) \<Rightarrow> (Inr x, d1))"

text \<open>The error of a call as a value, for code that looks at it and goes on.\<close>

definition result_of :: "('s, 'a) em \<Rightarrow> ('s, go_err + 'a) em" where
  "result_of m = (\<lambda>d. case m d of (r, d1) \<Rightarrow> (Inr r, d1))"

text \<open>\<open>fmt.Errorf\<close> with the wrapped error last.\<close>

definition wrap :: "string \<Rightarrow> go_err \<Rightarrow> go_err" where
  "wrap p e = Wrap (p @ '': '') e []"

section \<open>Rules\<close>

lemma returnE_run [prog]: "returnE x d = (Inr x, d)"
  by (simp add: returnE_def)

lemma failE_run [prog]: "failE e d = (Inl e, d)"
  by (simp add: failE_def)

lemma bindE_Inl: "m d = (Inl e, d1) \<Longrightarrow> bindE m f d = (Inl e, d1)"
  by (simp add: bindE_def)

lemma bindE_Inr: "m d = (Inr x, d1) \<Longrightarrow> bindE m f d = f x d1"
  by (simp add: bindE_def)

lemma bindE_InrD:
  "bindE m f d = (Inr y, d2) \<Longrightarrow> \<exists>x d1. m d = (Inr x, d1) \<and> f x d1 = (Inr y, d2)"
  by (auto simp: bindE_def split: prod.splits sum.splits)

lemma bindE_assoc: "bindE (bindE m f) g = bindE m (\<lambda>x. bindE (f x) g)"
  by (auto simp: bindE_def fun_eq_iff split: prod.splits sum.splits)

lemma map_err_InrD: "map_err g m d = (Inr x, d1) \<Longrightarrow> m d = (Inr x, d1)"
  by (auto simp: map_err_def split: prod.splits sum.splits)

lemma map_err_Inr: "m d = (Inr x, d1) \<Longrightarrow> map_err g m d = (Inr x, d1)"
  by (simp add: map_err_def)

lemma map_err_Inl: "m d = (Inl e, d1) \<Longrightarrow> map_err g m d = (Inl (g e), d1)"
  by (simp add: map_err_def)

section \<open>Triples\<close>

text \<open>From a state with \<open>P\<close> the computation returns a value with \<open>Q\<close> or an error with \<open>E\<close>. The
  collection \<open>triples\<close> holds the rules of the combinators and of the calls.\<close>

definition triple ::
  "('s \<Rightarrow> bool) \<Rightarrow> ('s, 'a) em \<Rightarrow> ('a \<Rightarrow> 's \<Rightarrow> bool) \<Rightarrow> (go_err \<Rightarrow> 's \<Rightarrow> bool) \<Rightarrow> bool" where
  "triple P m Q E = (\<forall>s. P s \<longrightarrow> (case m s of (Inr x, s1) \<Rightarrow> Q x s1 | (Inl e, s1) \<Rightarrow> E e s1))"

lemma tripleI:
  "(\<And>s x s1. P s \<Longrightarrow> m s = (Inr x, s1) \<Longrightarrow> Q x s1) \<Longrightarrow> (\<And>s e s1. P s \<Longrightarrow> m s = (Inl e, s1) \<Longrightarrow> E e s1)
     \<Longrightarrow> triple P m Q E"
  by (auto simp: triple_def split: prod.splits sum.splits)

lemma triple_InrD: "triple P m Q E \<Longrightarrow> P s \<Longrightarrow> m s = (Inr x, s1) \<Longrightarrow> Q x s1"
  by (force simp: triple_def)

lemma triple_InlD: "triple P m Q E \<Longrightarrow> P s \<Longrightarrow> m s = (Inl e, s1) \<Longrightarrow> E e s1"
  by (force simp: triple_def)

lemma triple_weaken:
  "triple P m Q E \<Longrightarrow> (\<And>s. P' s \<Longrightarrow> P s) \<Longrightarrow> (\<And>x s. Q x s \<Longrightarrow> Q' x s) \<Longrightarrow> (\<And>e s. E e s \<Longrightarrow> E' e s)
     \<Longrightarrow> triple P' m Q' E'"
  by (fastforce simp: triple_def split: prod.splits sum.splits)

lemma triple_returnE [triples]: "(\<And>s. P s \<Longrightarrow> Q x s) \<Longrightarrow> triple P (returnE x) Q E"
  by (simp add: triple_def returnE_def)

lemma triple_failE [triples]: "(\<And>s. P s \<Longrightarrow> E e s) \<Longrightarrow> triple P (failE e) Q E"
  by (simp add: triple_def failE_def)

lemma triple_bindE: "triple P m R E \<Longrightarrow> (\<And>x. triple (R x) (f x) Q E) \<Longrightarrow> triple P (bindE m f) Q E"
  by (fastforce simp: triple_def bindE_def split: prod.splits sum.splits)

lemma triple_map_err [triples]: "triple P m Q (\<lambda>e. E (g e)) \<Longrightarrow> triple P (map_err g m) Q E"
  by (fastforce simp: triple_def map_err_def split: prod.splits sum.splits)

lemma triple_catchE: "triple P m Q R \<Longrightarrow> (\<And>e. triple (R e) (f e) Q E) \<Longrightarrow> triple P (catchE m f) Q E"
  by (fastforce simp: triple_def catchE_def split: prod.splits sum.splits)

lemma triple_result_of [triples]: "triple P m (\<lambda>x. Q (Inr x)) (\<lambda>e. Q (Inl e)) \<Longrightarrow> triple P (result_of m) Q E"
proof (rule tripleI)
  fix s x s1
  assume t: "triple P m (\<lambda>x. Q (Inr x)) (\<lambda>e. Q (Inl e))" and P: "P s" and run: "result_of m s = (Inr x, s1)"
  then have "m s = (x, s1)" by (auto simp: result_of_def split: prod.splits)
  with t P show "Q x s1" by (cases x) (auto dest: triple_InrD triple_InlD)
qed (auto simp: result_of_def split: prod.splits)

lemma triple_if [triples]:
  "(c \<Longrightarrow> triple P a Q E) \<Longrightarrow> (\<not> c \<Longrightarrow> triple P b Q E) \<Longrightarrow> triple P (if c then a else b) Q E"
  by simp

lemma triple_pure: "(b \<Longrightarrow> triple P m Q E) \<Longrightarrow> triple (\<lambda>s. b \<and> P s) m Q E"
  by (auto simp: triple_def)

section \<open>Invariants of the state\<close>

definition stable :: "('s \<Rightarrow> bool) \<Rightarrow> ('s, 'a) em \<Rightarrow> bool" where
  "stable I m = (\<forall>s. I s \<longrightarrow> I (snd (m s)))"

lemma stableI: "(\<And>s r s1. I s \<Longrightarrow> m s = (r, s1) \<Longrightarrow> I s1) \<Longrightarrow> stable I m"
  unfolding stable_def by (metis prod.collapse)

lemma stableD: "stable I m \<Longrightarrow> I s \<Longrightarrow> m s = (r, s1) \<Longrightarrow> I s1"
  by (force simp: stable_def)

lemma stable_basic [keeps]: "stable I (returnE x)" "stable I (failE e)"
  by (simp_all add: stable_def returnE_def failE_def)

lemma stable_bindE [keeps]: "stable I m \<Longrightarrow> (\<And>x. stable I (f x)) \<Longrightarrow> stable I (bindE m f)"
  by (auto simp: stable_def bindE_def split: prod.splits sum.splits)

lemma stable_map_err [keeps]: "stable I m \<Longrightarrow> stable I (map_err g m)"
  by (auto simp: stable_def map_err_def split: prod.splits sum.splits)

lemma stable_catchE [keeps]: "stable I m \<Longrightarrow> (\<And>e. stable I (f e)) \<Longrightarrow> stable I (catchE m f)"
  by (auto simp: stable_def catchE_def split: prod.splits sum.splits)

lemma stable_result_of [keeps]: "stable I m \<Longrightarrow> stable I (result_of m)"
  by (auto simp: stable_def result_of_def split: prod.splits)

lemma stable_if [keeps]: "stable I a \<Longrightarrow> stable I b \<Longrightarrow> stable I (if c then a else b)"
  by simp

lemma stable_let [keeps]: "(\<And>x. stable I (f x)) \<Longrightarrow> stable I (let x = v in f x)"
  by simp

lemma stable_sum [keeps]:
  "(\<And>x. stable I (a x)) \<Longrightarrow> (\<And>x. stable I (b x)) \<Longrightarrow> stable I (case r of Inl x \<Rightarrow> a x | Inr x \<Rightarrow> b x)"
  by (cases r) auto

lemma stable_option [keeps]:
  "stable I a \<Longrightarrow> (\<And>x. stable I (b x)) \<Longrightarrow> stable I (case r of None \<Rightarrow> a | Some x \<Rightarrow> b x)"
  by (cases r) auto

end
