(* ===== verification/Session.thy ===== *)
theory Session
  imports Schema Error_Monad
begin

text \<open>
  The database session every service works on (\<open>internal/store/db.go\<close>) and the way a Go
  function threads it: a computation takes the session and returns an error or a value with the
  new session. A session holds the tables, the clock (\<open>time.Now()\<close> and \<open>now()\<close> read the same
  clock: an operation runs at one instant), the supply of row ids (\<open>gen_random_uuid()\<close>), and the
  schedule of driver faults: each statement (and each BEGIN and COMMIT) takes the next entry of
  \<open>faults\<close> and fails with its text if there is one. A theorem that does not restrict \<open>faults\<close>
  holds whatever statement fails. \<open>conn_busy\<close> is what the driver does with a statement on a
  connection that still has an open result set, which \<open>database/sql\<close> leaves to the driver:
  \<open>Some msg\<close> if it refuses the statement with that text, \<open>None\<close> if it runs it.

  A failing statement inside a transaction aborts it: the later statements fail, and the COMMIT
  is a rollback that the driver reports as an error. Transactions are serializable, so they are
  run one after the other; a serialization failure is a fault of a statement or of the COMMIT.
\<close>

record session =
  tabs :: tables
  clock :: timestamp
  uuid_gen :: "nat \<Rightarrow> nat \<Rightarrow> string"
  stmt_no :: nat
  faults :: "string option list"
  in_tx :: bool
  aborted :: bool
  conn_busy :: "string option"

type_synonym 'a dbm = "(session, 'a) em"

section \<open>Time and wrapped errors\<close>

definition get_clock :: "timestamp dbm" where
  "get_clock = (\<lambda>d. (Inr (clock d), d))"

text \<open>\<open>err == sql.ErrNoRows\<close> becomes \<open>ErrNotFound\<close>, any other error is wrapped.\<close>

definition not_found_or :: "string \<Rightarrow> go_err \<Rightarrow> go_err" where
  "not_found_or p e = (if e = SqlNoRows then ErrNotFound else wrap p e)"

text \<open>\<open>status.Errorf(codes.Internal, "...: %v", err)\<close>.\<close>

definition internal_error :: "string \<Rightarrow> go_err \<Rightarrow> go_err" where
  "internal_error p e = StatusErr Internal (p @ '': '' @ err_text e)"

text \<open>\<open>err == sql.ErrNoRows\<close> becomes the status NotFound, any other error Internal.\<close>

definition not_found_status :: "string \<Rightarrow> string \<Rightarrow> go_err \<Rightarrow> go_err" where
  "not_found_status what op e =
     (if e = SqlNoRows then StatusErr NotFound (what @ '' not found'') else internal_error op e)"

section \<open>Statements\<close>

text \<open>
  One SQL statement: a function of the ids it may use for new rows, of the time and of the
  tables, returning a constraint violation or its result and the new tables.
\<close>

definition sql :: "((nat \<Rightarrow> string) \<Rightarrow> timestamp \<Rightarrow> tables \<Rightarrow> pg_error + ('a \<times> tables)) \<Rightarrow> 'a dbm" where
  "sql f = (\<lambda>d.
     if aborted d then (Inl (PgError PgInFailedTx), d)
     else
       let d1 = d\<lparr>faults := tl (faults d), stmt_no := Suc (stmt_no d)\<rparr> in
       case faults d of
         Some msg # _ \<Rightarrow> (Inl (PgError (PgOther msg)), d1\<lparr>aborted := in_tx d\<rparr>)
       | _ \<Rightarrow>
           (case f (uuid_gen d (stmt_no d)) (clock d) (tabs d) of
              Inl p \<Rightarrow> (Inl (PgError p), d1\<lparr>aborted := in_tx d\<rparr>)
            | Inr (x, t) \<Rightarrow> (Inr x, d1\<lparr>tabs := t\<rparr>)))"

definition sql_read :: "(tables \<Rightarrow> 'a) \<Rightarrow> 'a dbm" where
  "sql_read q = sql (\<lambda>_ _ t. Inr (q t, t))"

definition sql_read_or :: "(tables \<Rightarrow> pg_error + 'a) \<Rightarrow> 'a dbm" where
  "sql_read_or q = sql (\<lambda>_ _ t. case q t of Inl p \<Rightarrow> Inl p | Inr x \<Rightarrow> Inr (x, t))"

text \<open>\<open>QueryRow(..).Scan(..)\<close> of a query with at most one row of interest.\<close>

definition sql_row :: "(tables \<Rightarrow> 'a option) \<Rightarrow> 'a dbm" where
  "sql_row q = bindE (sql_read q) (\<lambda>r. case r of None \<Rightarrow> failE SqlNoRows | Some x \<Rightarrow> returnE x)"

text \<open>A statement of a transaction issued while a result set of it is open.\<close>

definition with_open_rows :: "'a dbm \<Rightarrow> 'a dbm" where
  "with_open_rows m = (\<lambda>d. case conn_busy d of
     Some msg \<Rightarrow> (Inl (PgError (PgOther msg)), d) | None \<Rightarrow> m d)"

text \<open>LIMIT and OFFSET: the server refuses negative values.\<close>

definition limit_offset :: "int \<Rightarrow> int \<Rightarrow> 'a list \<Rightarrow> pg_error + 'a list" where
  "limit_offset lim off xs =
     (if lim < 0 then Inl (PgOther ''pq: LIMIT must not be negative'')
      else if off < 0 then Inl (PgOther ''pq: OFFSET must not be negative'')
      else Inr (take (nat lim) (drop (nat off) xs)))"

section \<open>Transactions\<close>

definition rollback :: "session \<Rightarrow> session \<Rightarrow> session" where
  "rollback d0 d = d\<lparr>tabs := tabs d0, in_tx := False, aborted := False\<rparr>"

definition begin_tx :: "unit dbm" where
  "begin_tx = bindE (sql_read (\<lambda>_. ())) (\<lambda>_ d. (Inr (), d\<lparr>in_tx := True, aborted := False\<rparr>))"

definition commit_tx :: "session \<Rightarrow> 'a \<Rightarrow> 'a dbm" where
  "commit_tx d0 x = (\<lambda>d.
     if aborted d then (Inl (PgError PgCommitFailedTx), rollback d0 d)
     else case sql_read (\<lambda>_. ()) d of
       (Inl e, d1) \<Rightarrow> (Inl e, rollback d0 d1)
     | (Inr _, d1) \<Rightarrow> (Inr x, d1\<lparr>in_tx := False\<rparr>))"

definition WithTx :: "'a dbm \<Rightarrow> 'a dbm" where
  "WithTx fn = (\<lambda>d0.
     case begin_tx d0 of
       (Inl e, d) \<Rightarrow> (Inl (wrap ''store: begin tx'' e), d)
     | (Inr _, d) \<Rightarrow>
         (case fn d of
            (Inl e, d1) \<Rightarrow> (Inl e, rollback d0 d1)
          | (Inr x, d1) \<Rightarrow> commit_tx d0 x d1))"

definition ForUpdate :: "string \<Rightarrow> string" where
  "ForUpdate query = query @ '' FOR UPDATE''"

definition ForUpdateNoWait :: "string \<Rightarrow> string" where
  "ForUpdateNoWait query = query @ '' FOR UPDATE NOWAIT''"

section \<open>The rules of the session monad\<close>

text \<open>An idle session: no transaction open. A quiet one: also no fault ahead.\<close>

definition idle :: "session \<Rightarrow> bool" where
  "idle d = (\<not> in_tx d \<and> \<not> aborted d)"

definition quiet :: "session \<Rightarrow> bool" where
  "quiet d = (faults d = [] \<and> \<not> aborted d)"

text \<open>Running a computation: the error monad unfolded on a given session.\<close>

lemmas run_defs = bindE_def map_err_def catchE_def returnE_def failE_def get_clock_def

text \<open>A statement in a quiet session runs its query.\<close>

lemma sql_quiet:
  "quiet d \<Longrightarrow> sql f d =
     (case f (uuid_gen d (stmt_no d)) (clock d) (tabs d) of
        Inl p \<Rightarrow> (Inl (PgError p), d\<lparr>stmt_no := Suc (stmt_no d), aborted := in_tx d\<rparr>)
      | Inr (x, t) \<Rightarrow> (Inr x, d\<lparr>stmt_no := Suc (stmt_no d), tabs := t\<rparr>))"
  by (simp add: sql_def quiet_def split: sum.splits)

lemma sql_read_quiet: "quiet d \<Longrightarrow> sql_read q d = (Inr (q (tabs d)), d\<lparr>stmt_no := Suc (stmt_no d)\<rparr>)"
  by (simp add: sql_read_def sql_quiet)

lemma sql_read_or_quiet:
  "quiet d \<Longrightarrow> q (tabs d) = Inr x \<Longrightarrow> sql_read_or q d = (Inr x, d\<lparr>stmt_no := Suc (stmt_no d)\<rparr>)"
  by (simp add: sql_read_or_def sql_quiet)

lemma sql_row_quiet:
  "quiet d \<Longrightarrow> sql_row q d =
     (case q (tabs d) of None \<Rightarrow> Inl SqlNoRows | Some x \<Rightarrow> Inr x, d\<lparr>stmt_no := Suc (stmt_no d)\<rparr>)"
  by (simp add: sql_row_def bindE_def sql_read_quiet returnE_def failE_def split: option.splits)

lemma quiet_stmt [simp]: "quiet (d\<lparr>stmt_no := n\<rparr>) = quiet d"
  by (simp add: quiet_def)

lemma quiet_tabs [simp]: "quiet (d\<lparr>tabs := t\<rparr>) = quiet d"
  by (simp add: quiet_def)

lemma quiet_in_tx [simp]: "quiet (d\<lparr>in_tx := b\<rparr>) = quiet d"
  by (simp add: quiet_def)

lemma quiet_clock [simp]: "quiet (d\<lparr>clock := b\<rparr>) = quiet d"
  by (simp add: quiet_def)

lemma sql_read_InrD: "sql_read q d = (Inr x, d1) \<Longrightarrow> x = q (tabs d) \<and> tabs d1 = tabs d"
  by (auto simp: sql_read_def sql_def Let_def split: if_splits list.splits option.splits)

lemma sql_InrD:
  "sql f d = (Inr x, d1) \<Longrightarrow>
     f (uuid_gen d (stmt_no d)) (clock d) (tabs d) = Inr (x, tabs d1) \<and> clock d1 = clock d
     \<and> in_tx d1 = in_tx d \<and> \<not> aborted d1 \<and> uuid_gen d1 = uuid_gen d
     \<and> stmt_no d1 = Suc (stmt_no d)"
  by (auto simp: sql_def Let_def split: if_splits list.splits option.splits sum.splits)

lemma sql_InlD: "sql f d = (Inl e, d1) \<Longrightarrow> tabs d1 = tabs d \<and> clock d1 = clock d \<and> in_tx d1 = in_tx d"
  by (auto simp: sql_def Let_def split: if_splits list.splits option.splits sum.splits)

lemma sql_read_tabs: "sql_read q d = (r, d1) \<Longrightarrow> tabs d1 = tabs d \<and> clock d1 = clock d"
  by (cases r) (auto simp: sql_read_def dest: sql_InrD sql_InlD)

text \<open>
  A transaction that returns an error leaves the tables as they were, whatever its body is and
  wherever the faults fall; one that returns a value has run its body without an aborted
  statement and committed it.
\<close>

lemma begin_tx_tabs: "begin_tx d0 = (r, d) \<Longrightarrow> tabs d = tabs d0 \<and> clock d = clock d0"
  by (auto simp: begin_tx_def bindE_def dest!: sql_read_tabs split: prod.splits sum.splits)

lemma WithTx_error_tabs: "WithTx fn d0 = (Inl e, d1) \<Longrightarrow> tabs d1 = tabs d0"
  by (auto simp: WithTx_def commit_tx_def rollback_def dest: begin_tx_tabs
      split: prod.splits sum.splits if_splits)

lemma WithTx_InrD:
  assumes "WithTx fn d0 = (Inr x, d1)"
  shows "\<exists>d d2. begin_tx d0 = (Inr (), d) \<and> fn d = (Inr x, d2) \<and> \<not> aborted d2
           \<and> tabs d = tabs d0 \<and> clock d = clock d0 \<and> tabs d1 = tabs d2"
  using assms
  by (fastforce simp: WithTx_def commit_tx_def dest: begin_tx_tabs sql_read_tabs
      split: prod.splits sum.splits if_splits)

text \<open>A transaction in a quiet session: the session its body starts in, and its outcome.\<close>

definition start_tx :: "session \<Rightarrow> session" where
  "start_tx d = d\<lparr>stmt_no := Suc (stmt_no d), in_tx := True\<rparr>"

lemma start_tx_simps [simp]:
  "tabs (start_tx d) = tabs d" "clock (start_tx d) = clock d" "stmt_no (start_tx d) = Suc (stmt_no d)"
  "uuid_gen (start_tx d) = uuid_gen d" "quiet (start_tx d) = quiet d" "in_tx (start_tx d)"
  "conn_busy (start_tx d) = conn_busy d"
  by (simp_all add: start_tx_def quiet_def)

lemma begin_tx_quiet: "quiet d0 \<Longrightarrow> begin_tx d0 = (Inr (), start_tx d0)"
  by (simp add: begin_tx_def bindE_def sql_read_quiet) (simp add: quiet_def start_tx_def)

lemma WithTx_quiet:
  "quiet d0 \<Longrightarrow> WithTx fn d0 =
     (case fn (start_tx d0) of
        (Inl e, d1) \<Rightarrow> (Inl e, rollback d0 d1) | (Inr x, d1) \<Rightarrow> commit_tx d0 x d1)"
  by (simp add: WithTx_def begin_tx_quiet)

lemma commit_tx_quiet:
  "quiet d \<Longrightarrow> commit_tx d0 x d = (Inr x, d\<lparr>stmt_no := Suc (stmt_no d), in_tx := False\<rparr>)"
  by (simp add: commit_tx_def sql_read_quiet) (simp add: quiet_def)

lemma rollback_tabs [simp]: "tabs (rollback d0 d) = tabs d0"
  by (simp add: rollback_def)

section \<open>Invariants of the tables\<close>

text \<open>\<open>keep I m\<close>: whatever \<open>m\<close> returns, the tables it leaves satisfy \<open>I\<close> if the ones it found
  did. Every combinator keeps an invariant its parts keep, so an operation keeps it as soon as
  its statements do.\<close>

definition keep :: "(tables \<Rightarrow> bool) \<Rightarrow> 'a dbm \<Rightarrow> bool" where
  "keep I m = (\<forall>d. I (tabs d) \<longrightarrow> I (tabs (snd (m d))))"

lemma keepI: "(\<And>d r d1. I (tabs d) \<Longrightarrow> m d = (r, d1) \<Longrightarrow> I (tabs d1)) \<Longrightarrow> keep I m"
  unfolding keep_def by (metis prod.collapse)

lemma keepD: "keep I m \<Longrightarrow> I (tabs d) \<Longrightarrow> m d = (r, d1) \<Longrightarrow> I (tabs d1)"
  by (force simp: keep_def)

lemma keep_returnE [keeps]: "keep I (returnE x)"
  by (simp add: keep_def returnE_def)

lemma keep_failE [keeps]: "keep I (failE e)"
  by (simp add: keep_def failE_def)

lemma keep_get_clock [keeps]: "keep I get_clock"
  by (simp add: keep_def get_clock_def)

lemma keep_pure_state [keeps]: "keep I (\<lambda>d. (f d, d))"
  by (simp add: keep_def)

lemma keep_bindE [keeps]: "keep I m \<Longrightarrow> (\<And>x. keep I (f x)) \<Longrightarrow> keep I (bindE m f)"
  by (auto simp: keep_def bindE_def split: prod.splits sum.splits)

lemma keep_map_err [keeps]: "keep I m \<Longrightarrow> keep I (map_err g m)"
  by (auto simp: keep_def map_err_def split: prod.splits sum.splits)

lemma keep_catchE [keeps]: "keep I m \<Longrightarrow> (\<And>e. keep I (h e)) \<Longrightarrow> keep I (catchE m h)"
  by (auto simp: keep_def catchE_def split: prod.splits sum.splits)

lemma keep_if [keeps]: "keep I a \<Longrightarrow> keep I b \<Longrightarrow> keep I (if c then a else b)"
  by simp

lemma keep_option [keeps]:
  "keep I a \<Longrightarrow> (\<And>x. keep I (b x)) \<Longrightarrow> keep I (case r of None \<Rightarrow> a | Some x \<Rightarrow> b x)"
  by (cases r) auto

lemma keep_let [keeps]: "(\<And>x. keep I (f x)) \<Longrightarrow> keep I (let x = v in f x)"
  by simp

lemma keep_sql:
  "(\<And>ids now t x t'. I t \<Longrightarrow> f ids now t = Inr (x, t') \<Longrightarrow> I t') \<Longrightarrow> keep I (sql f)"
  by (rule keepI) (metis sql_InrD sql_InlD sum.exhaust)

lemma keep_sql_read [keeps]: "keep I (sql_read q)"
  unfolding sql_read_def by (rule keep_sql) auto

lemma keep_sql_read_or [keeps]: "keep I (sql_read_or q)"
  unfolding sql_read_or_def by (rule keep_sql) (auto split: sum.splits)

lemma keep_sql_row [keeps]: "keep I (sql_row q)"
  unfolding sql_row_def by (intro keeps)

lemma keep_with_open_rows [keeps]: "keep I m \<Longrightarrow> keep I (with_open_rows m)"
  by (auto simp: keep_def with_open_rows_def split: option.splits)

lemma keep_WithTx [keeps]: "keep I m \<Longrightarrow> keep I (WithTx m)"
proof (rule keepI)
  fix d r d1
  assume m: "keep I m" and I: "I (tabs d)" and run: "WithTx m d = (r, d1)"
  show "I (tabs d1)"
  proof (cases r)
    case (Inl e)
    with run I show ?thesis by (auto dest: WithTx_error_tabs)
  next
    case (Inr x)
    with run obtain d' d2 where "m d' = (Inr x, d2)" "tabs d' = tabs d" "tabs d1 = tabs d2"
      by (auto dest!: WithTx_InrD)
    with m I show ?thesis by (metis keepD)
  qed
qed

section \<open>Computations run at one instant\<close>

definition timeless :: "'a dbm \<Rightarrow> bool" where
  "timeless m = (\<forall>d. clock (snd (m d)) = clock d)"

lemma timelessD: "timeless m \<Longrightarrow> m d = (r, d1) \<Longrightarrow> clock d1 = clock d"
  unfolding timeless_def by (metis snd_conv)

lemma timeless_sql: "timeless (sql f)"
  unfolding timeless_def by (metis prod.collapse sql_InrD sql_InlD sum.exhaust)

lemma timeless_basic [clocks]:
  "timeless (returnE x)" "timeless (failE e)" "timeless get_clock" "timeless (sql_read q)"
  "timeless (sql_read_or h)"
  using timeless_sql
  by (simp_all add: sql_read_def sql_read_or_def, simp_all add: timeless_def run_defs)

lemma timeless_bindE [clocks]: "timeless m \<Longrightarrow> (\<And>x. timeless (f x)) \<Longrightarrow> timeless (bindE m f)"
  by (auto simp: timeless_def bindE_def split: prod.splits sum.splits) (metis snd_conv)+

lemma timeless_map_err [clocks]: "timeless m \<Longrightarrow> timeless (map_err g m)"
  by (auto simp: timeless_def map_err_def split: prod.splits sum.splits) (metis snd_conv)+

lemma timeless_if [clocks]: "timeless a \<Longrightarrow> timeless b \<Longrightarrow> timeless (if c then a else b)"
  by simp

lemma timeless_let [clocks]: "(\<And>x. timeless (f x)) \<Longrightarrow> timeless (let x = v in f x)"
  by simp

lemma begin_tx_clock: "clock (snd (begin_tx d)) = clock d"
  using begin_tx_tabs by (metis prod.collapse)

lemma commit_tx_clock: "clock (snd (commit_tx d0 x d)) = clock d"
  by (auto simp: commit_tx_def rollback_def dest: sql_read_tabs split: prod.splits sum.splits)

lemma timeless_WithTx [clocks]:
  assumes "timeless m" shows "timeless (WithTx m)"
  unfolding timeless_def
proof
  fix d
  obtain r d1 where b: "begin_tx d = (r, d1)" by force
  obtain q d2 where m: "m d1 = (q, d2)" by force
  have "clock d1 = clock d" "clock d2 = clock d1"
    using b begin_tx_clock [of d] timelessD [OF assms m] by auto
  with b m show "clock (snd (WithTx m d)) = clock d"
    by (cases r; cases q) (auto simp: WithTx_def rollback_def commit_tx_clock)
qed

end
