(* ===== verification/Task_State.thy ===== *)
theory Task_State
  imports Session
begin

text \<open>
  The task state machine (\<open>internal/task/state_machine.go\<close>) and the retry policy
  (\<open>internal/task/retry.go\<close>). The proto enums keep the source's names; a request may carry a
  number outside the enum, the constructors ending in \<open>_OTHER\<close>. The Go maps are association
  lists read with \<open>map_of\<close>; reading a map without the ok flag gives the zero value.
\<close>

section \<open>Status and scope\<close>

datatype TaskStatus =
    TASK_STATUS_UNSPECIFIED | TASK_STATUS_PENDING | TASK_STATUS_DISPATCHING | TASK_STATUS_RUNNING
  | TASK_STATUS_SUCCESS | TASK_STATUS_FAILED | TASK_STATUS_RETRYING | TASK_STATUS_TIMEOUT
  | TASK_STATUS_CANCELLED | TASK_STATUS_PARTIALLY_SUCCEEDED | TASK_STATUS_OTHER int

datatype DispatchStatus =
    DISPATCH_STATUS_UNSPECIFIED | DISPATCH_STATUS_UNCLAIMED | DISPATCH_STATUS_CLAIMED
  | DISPATCH_STATUS_DELIVERED

datatype TaskScope =
    TASK_SCOPE_UNSPECIFIED | TASK_SCOPE_REGION | TASK_SCOPE_NODE | TASK_SCOPE_OTHER int

definition statusToProto :: "(string \<times> TaskStatus) list" where
  "statusToProto =
    [(''Pending'', TASK_STATUS_PENDING),
     (''Dispatching'', TASK_STATUS_DISPATCHING),
     (''Running'', TASK_STATUS_RUNNING),
     (''Success'', TASK_STATUS_SUCCESS),
     (''Failed'', TASK_STATUS_FAILED),
     (''Retrying'', TASK_STATUS_RETRYING),
     (''Timeout'', TASK_STATUS_TIMEOUT),
     (''Cancelled'', TASK_STATUS_CANCELLED),
     (''PartiallySucceeded'', TASK_STATUS_PARTIALLY_SUCCEEDED)]"

definition protoToStatus :: "(TaskStatus \<times> string) list" where
  "protoToStatus =
    [(TASK_STATUS_PENDING, ''Pending''),
     (TASK_STATUS_DISPATCHING, ''Dispatching''),
     (TASK_STATUS_RUNNING, ''Running''),
     (TASK_STATUS_SUCCESS, ''Success''),
     (TASK_STATUS_FAILED, ''Failed''),
     (TASK_STATUS_RETRYING, ''Retrying''),
     (TASK_STATUS_TIMEOUT, ''Timeout''),
     (TASK_STATUS_CANCELLED, ''Cancelled''),
     (TASK_STATUS_PARTIALLY_SUCCEEDED, ''PartiallySucceeded'')]"

definition dispatchToProto :: "(string \<times> DispatchStatus) list" where
  "dispatchToProto =
    [(''Unclaimed'', DISPATCH_STATUS_UNCLAIMED),
     (''Claimed'', DISPATCH_STATUS_CLAIMED),
     (''Delivered'', DISPATCH_STATUS_DELIVERED)]"

definition scopeToProto :: "(string \<times> TaskScope) list" where
  "scopeToProto = [(''Region'', TASK_SCOPE_REGION), (''Node'', TASK_SCOPE_NODE)]"

definition protoToScope :: "(TaskScope \<times> string) list" where
  "protoToScope = [(TASK_SCOPE_REGION, ''Region''), (TASK_SCOPE_NODE, ''Node'')]"

definition status_proto :: "string \<Rightarrow> TaskStatus" where
  "status_proto s = map_get TASK_STATUS_UNSPECIFIED statusToProto s"

definition status_text :: "TaskStatus \<Rightarrow> string" where
  "status_text s = map_get [] protoToStatus s"

section \<open>Transitions\<close>

definition terminalStatuses :: "TaskStatus list" where
  "terminalStatuses =
    [TASK_STATUS_SUCCESS, TASK_STATUS_CANCELLED, TASK_STATUS_TIMEOUT, TASK_STATUS_PARTIALLY_SUCCEEDED]"

definition allowedTransitions :: "(TaskStatus \<times> TaskStatus list) list" where
  "allowedTransitions =
    [(TASK_STATUS_PENDING, [TASK_STATUS_DISPATCHING, TASK_STATUS_CANCELLED]),
     (TASK_STATUS_DISPATCHING, [TASK_STATUS_RUNNING, TASK_STATUS_CANCELLED, TASK_STATUS_TIMEOUT]),
     (TASK_STATUS_RUNNING,
       [TASK_STATUS_SUCCESS, TASK_STATUS_FAILED, TASK_STATUS_TIMEOUT, TASK_STATUS_CANCELLED,
        TASK_STATUS_PARTIALLY_SUCCEEDED]),
     (TASK_STATUS_FAILED, [TASK_STATUS_RETRYING, TASK_STATUS_CANCELLED]),
     (TASK_STATUS_RETRYING, [TASK_STATUS_RUNNING, TASK_STATUS_CANCELLED])]"

definition ValidateTransition :: "TaskStatus \<Rightarrow> TaskStatus \<Rightarrow> bool" where
  "ValidateTransition src dst =
     (case map_of allowedTransitions src of None \<Rightarrow> False | Some targets \<Rightarrow> dst \<in> set targets)"

definition IsTerminal :: "TaskStatus \<Rightarrow> bool" where
  "IsTerminal s = (s \<in> set terminalStatuses)"

definition invalid_transition :: "TaskStatus \<Rightarrow> TaskStatus \<Rightarrow> go_err" where
  "invalid_transition src dst = ErrInvalidTransition (status_text src) (status_text dst)"

inductive reaches :: "TaskStatus \<Rightarrow> TaskStatus \<Rightarrow> bool" where
  here: "reaches s s"
| next_step: "reaches s t \<Longrightarrow> ValidateTransition t u \<Longrightarrow> reaches s u"

inductive_cases reachesE: "reaches s t"

lemma validate_simps [simp]:
  "ValidateTransition TASK_STATUS_PENDING t = (t \<in> {TASK_STATUS_DISPATCHING, TASK_STATUS_CANCELLED})"
  "ValidateTransition TASK_STATUS_DISPATCHING t =
     (t \<in> {TASK_STATUS_RUNNING, TASK_STATUS_CANCELLED, TASK_STATUS_TIMEOUT})"
  "ValidateTransition TASK_STATUS_RUNNING t =
     (t \<in> {TASK_STATUS_SUCCESS, TASK_STATUS_FAILED, TASK_STATUS_TIMEOUT, TASK_STATUS_CANCELLED,
            TASK_STATUS_PARTIALLY_SUCCEEDED})"
  "ValidateTransition TASK_STATUS_FAILED t = (t \<in> {TASK_STATUS_RETRYING, TASK_STATUS_CANCELLED})"
  "ValidateTransition TASK_STATUS_RETRYING t = (t \<in> {TASK_STATUS_RUNNING, TASK_STATUS_CANCELLED})"
  "ValidateTransition TASK_STATUS_UNSPECIFIED t = False"
  "ValidateTransition TASK_STATUS_SUCCESS t = False"
  "ValidateTransition TASK_STATUS_TIMEOUT t = False"
  "ValidateTransition TASK_STATUS_CANCELLED t = False"
  "ValidateTransition TASK_STATUS_PARTIALLY_SUCCEEDED t = False"
  "ValidateTransition (TASK_STATUS_OTHER n) t = False"
  by (simp_all add: ValidateTransition_def allowedTransitions_def)

lemma terminal_simps [simp]:
  "IsTerminal TASK_STATUS_PENDING = False" "IsTerminal TASK_STATUS_DISPATCHING = False"
  "IsTerminal TASK_STATUS_RUNNING = False" "IsTerminal TASK_STATUS_FAILED = False"
  "IsTerminal TASK_STATUS_RETRYING = False" "IsTerminal TASK_STATUS_UNSPECIFIED = False"
  "IsTerminal TASK_STATUS_SUCCESS = True" "IsTerminal TASK_STATUS_TIMEOUT = True"
  "IsTerminal TASK_STATUS_CANCELLED = True" "IsTerminal TASK_STATUS_PARTIALLY_SUCCEEDED = True"
  "IsTerminal (TASK_STATUS_OTHER n) = False"
  by (simp_all add: IsTerminal_def terminalStatuses_def)

lemma status_proto_simps [simp]:
  "status_proto ''Pending'' = TASK_STATUS_PENDING"
  "status_proto ''Dispatching'' = TASK_STATUS_DISPATCHING"
  "status_proto ''Running'' = TASK_STATUS_RUNNING"
  "status_proto ''Success'' = TASK_STATUS_SUCCESS"
  "status_proto ''Failed'' = TASK_STATUS_FAILED"
  "status_proto ''Retrying'' = TASK_STATUS_RETRYING"
  "status_proto ''Timeout'' = TASK_STATUS_TIMEOUT"
  "status_proto ''Cancelled'' = TASK_STATUS_CANCELLED"
  "status_proto ''PartiallySucceeded'' = TASK_STATUS_PARTIALLY_SUCCEEDED"
  by (simp_all add: status_proto_def map_get_def statusToProto_def)

text \<open>The statuses a task row can hold, and the two tables as inverses of each other.\<close>

definition status_names :: "string list" where
  "status_names = map fst statusToProto"

lemma status_text_proto: "s \<in> set status_names \<Longrightarrow> status_text (status_proto s) = s"
  by (auto simp: status_names_def statusToProto_def status_proto_def status_text_def map_get_def
      protoToStatus_def)

lemma status_proto_text:
  "map_of protoToStatus p = Some s \<Longrightarrow> status_proto s = p \<and> s \<in> set status_names"
  by (auto simp: protoToStatus_def status_names_def statusToProto_def status_proto_def map_get_def
      split: if_splits)

lemma terminal_no_transition: "IsTerminal s \<Longrightarrow> \<not> ValidateTransition s t"
  by (cases s) auto

lemma cancel_allowed_iff:
  "status_proto s \<noteq> TASK_STATUS_UNSPECIFIED \<Longrightarrow>
     ValidateTransition (status_proto s) TASK_STATUS_CANCELLED = (\<not> IsTerminal (status_proto s))"
  by (auto simp: status_proto_def map_get_def statusToProto_def split: option.splits if_splits)

inductive_simps reaches_step_iff: "reaches s TASK_STATUS_DISPATCHING"

lemma reaches_step: "ValidateTransition s t \<Longrightarrow> reaches s t"
  by (meson reaches.intros)

lemma reaches_trans: "reaches s t \<Longrightarrow> reaches t u \<Longrightarrow> reaches s u"
  by (rotate_tac 1, induction rule: reaches.induct) (auto intro: reaches.next_step)

text \<open>The statuses are preordered by the paths of the table, with \<open>FAILED\<close>, \<open>RETRYING\<close> and \<open>RUNNING\<close> on a cycle: a task may fail
  and run again without end. The terminal statuses are maximal.\<close>

instantiation TaskStatus :: preorder
begin

definition less_eq_TaskStatus :: "TaskStatus \<Rightarrow> TaskStatus \<Rightarrow> bool" where
  "less_eq_TaskStatus s t = reaches s t"

definition less_TaskStatus :: "TaskStatus \<Rightarrow> TaskStatus \<Rightarrow> bool" where
  "less_TaskStatus s t = (reaches s t \<and> \<not> reaches t s)"

instance
  by intro_classes (auto simp: less_eq_TaskStatus_def less_TaskStatus_def intro: reaches.here reaches_trans)

end

lemma transition_le: "ValidateTransition s t \<Longrightarrow> s \<le> t"
  by (simp add: less_eq_TaskStatus_def reaches_step)

lemma terminal_maximal: "s \<le> t \<Longrightarrow> IsTerminal s \<Longrightarrow> t = s"
  unfolding less_eq_TaskStatus_def by (induction rule: reaches.induct) (auto dest: terminal_no_transition)

lemma terminal_is_last: "IsTerminal s \<Longrightarrow> \<not> s < t"
  using terminal_maximal [of s t] by (auto simp: less_le_not_le)

lemma retry_cycle: "TASK_STATUS_FAILED \<le> TASK_STATUS_RUNNING" "TASK_STATUS_RUNNING \<le> TASK_STATUS_FAILED"
proof -
  have "TASK_STATUS_FAILED \<le> TASK_STATUS_RETRYING" "TASK_STATUS_RETRYING \<le> TASK_STATUS_RUNNING" by (simp_all add: transition_le)
  then show "TASK_STATUS_FAILED \<le> TASK_STATUS_RUNNING" by (rule order_trans)
  show "TASK_STATUS_RUNNING \<le> TASK_STATUS_FAILED" by (simp add: transition_le)
qed

text \<open>No status leads to \<open>PENDING\<close> but itself, so a task that left it is never dispatched again.\<close>

lemma pending_minimal: "s \<le> TASK_STATUS_PENDING \<Longrightarrow> s = TASK_STATUS_PENDING"
  unfolding less_eq_TaskStatus_def by (erule reachesE) (auto simp: ValidateTransition_def allowedTransitions_def split: if_splits)

lemma dispatched_once: "ValidateTransition TASK_STATUS_DISPATCHING s \<Longrightarrow> \<not> s \<le> TASK_STATUS_DISPATCHING"
proof
  assume s: "ValidateTransition TASK_STATUS_DISPATCHING s" "s \<le> TASK_STATUS_DISPATCHING"
  from s(2) show False unfolding less_eq_TaskStatus_def reaches_step_iff
  proof (elim disjE exE conjE)
    fix t assume "reaches s t" "ValidateTransition t TASK_STATUS_DISPATCHING"
    then have "s \<le> TASK_STATUS_PENDING"
      by (auto simp: less_eq_TaskStatus_def ValidateTransition_def allowedTransitions_def split: if_splits)
    with s(1) show False by (auto dest: pending_minimal)
  qed (use s(1) in simp)
qed

section \<open>Retry policy\<close>

definition DefaultMaxRetries :: int where "DefaultMaxRetries = 3"
definition baseBackoffInterval :: duration where "baseBackoffInterval = 2 * second"
definition maxBackoffInterval :: duration where "maxBackoffInterval = 60 * second"

record RetryPolicy =
  rp_MaxRetries :: int
  rp_RetryCount :: int
  rp_TimeoutSeconds :: int

definition CanRetry :: "RetryPolicy \<Rightarrow> bool" where
  "CanRetry p = (rp_RetryCount p < rp_MaxRetries p)"

text \<open>
  \<open>time.Duration(float64(base) * math.Pow(2, float64(n)))\<close>. The product is a power of two times
  two billion, exact as a float64 up to the largest exponents; the conversion truncates, and of a
  value that does not fit in 64 bits it is implementation-dependent: the parameter
  \<open>conv_overflow\<close> gives it.
\<close>

definition scaled_backoff :: "(int \<Rightarrow> int) \<Rightarrow> int \<Rightarrow> duration" where
  "scaled_backoff conv_overflow n =
     (if n < 0 then baseBackoffInterval div 2 ^ nat (- n)
      else let v = baseBackoffInterval * 2 ^ nat n in if v < 2 ^ 63 then v else conv_overflow n)"

definition NextBackoff :: "(int \<Rightarrow> int) \<Rightarrow> RetryPolicy \<Rightarrow> duration" where
  "NextBackoff conv_overflow p =
     (let d = scaled_backoff conv_overflow (rp_RetryCount p)
      in if d > maxBackoffInterval then maxBackoffInterval else d)"

datatype retry_err = RecoverableError go_err | UnrecoverableError go_err | PlainError go_err

fun retry_err_text :: "retry_err \<Rightarrow> string" where
  "retry_err_text (RecoverableError e) = ''recoverable: '' @ err_text e"
| "retry_err_text (UnrecoverableError e) = ''unrecoverable: '' @ err_text e"
| "retry_err_text (PlainError e) = err_text e"

definition IsRecoverable :: "retry_err option \<Rightarrow> bool" where
  "IsRecoverable err =
     (case err of Some (RecoverableError e) \<Rightarrow> True | _ \<Rightarrow> False)"

definition ClassifyResultStatus :: "string \<Rightarrow> RetryPolicy \<Rightarrow> string" where
  "ClassifyResultStatus errMsg policy =
     (if errMsg = [] then ''Success'' else if CanRetry policy then ''Retrying'' else ''Failed'')"

text \<open>\<open>time.Duration(timeoutSeconds) * time.Second\<close> is a product of 64-bit integers.\<close>

definition TimeoutExceeded :: "timestamp \<Rightarrow> timestamp \<Rightarrow> int \<Rightarrow> bool" where
  "TimeoutExceeded now started timeoutSeconds =
     (if timeoutSeconds \<le> 0 then False
      else now - started > wrap64 (timeoutSeconds * second))"

lemma backoff_small: "0 \<le> n \<Longrightarrow> n \<le> 32 \<Longrightarrow> scaled_backoff conv n = baseBackoffInterval * 2 ^ nat n"
proof -
  assume n: "0 \<le> n" "n \<le> 32"
  then have "(2::int) ^ nat n \<le> 2 ^ 32" by (intro power_increasing) auto
  then have "baseBackoffInterval * 2 ^ nat n \<le> 2000000000 * 2 ^ 32"
    by (simp add: baseBackoffInterval_def second_def)
  also have "\<dots> < 2 ^ 63" by simp
  finally show ?thesis using n by (simp add: scaled_backoff_def)
qed

lemma backoff_large: "33 \<le> n \<Longrightarrow> scaled_backoff conv n = conv n"
proof -
  assume n: "33 \<le> n"
  then have "(2::int) ^ 33 \<le> 2 ^ nat n" by (intro power_increasing) auto
  then have "(2::int) ^ 63 \<le> baseBackoffInterval * 2 ^ nat n"
    by (simp add: baseBackoffInterval_def second_def)
  with n show ?thesis by (simp add: scaled_backoff_def Let_def)
qed

lemma backoff_capped: "5 \<le> n \<Longrightarrow> n \<le> 32 \<Longrightarrow> baseBackoffInterval * 2 ^ nat n > maxBackoffInterval"
proof -
  assume n: "5 \<le> n" "n \<le> 32"
  then have "(2::int) ^ 5 \<le> 2 ^ nat n" by (intro power_increasing) auto
  then show ?thesis by (simp add: baseBackoffInterval_def maxBackoffInterval_def second_def)
qed

section \<open>Properties\<close>

text \<open>The state machine. The statuses reachable from Pending are exactly the nine a row can
  hold; a terminal status is left by no sequence of transitions; a status that is not terminal can
  be cancelled; and only Success, Timeout, Cancelled and PartiallySucceeded are terminal.\<close>

lemma task_state_machine:
  "(\<forall>t. reaches TASK_STATUS_PENDING t \<longleftrightarrow> t \<in> status_proto ` set status_names)
   \<and> (\<forall>s t. IsTerminal s \<longrightarrow> reaches s t \<longrightarrow> t = s)
   \<and> (\<forall>s \<in> status_proto ` set status_names.
        ValidateTransition s TASK_STATUS_CANCELLED = (\<not> IsTerminal s))
   \<and> (\<forall>s. IsTerminal s \<longleftrightarrow> status_text s \<in> {''Success'', ''Timeout'', ''Cancelled'', ''PartiallySucceeded''})"
proof (intro conjI allI)
  fix t
  have names: "status_proto ` set status_names =
      {TASK_STATUS_PENDING, TASK_STATUS_DISPATCHING, TASK_STATUS_RUNNING, TASK_STATUS_SUCCESS,
       TASK_STATUS_FAILED, TASK_STATUS_RETRYING, TASK_STATUS_TIMEOUT, TASK_STATUS_CANCELLED,
       TASK_STATUS_PARTIALLY_SUCCEEDED}"
    by (simp add: status_names_def statusToProto_def status_proto_def map_get_def)
  show "reaches TASK_STATUS_PENDING t \<longleftrightarrow> t \<in> status_proto ` set status_names"
  proof
    assume "reaches TASK_STATUS_PENDING t"
    then show "t \<in> status_proto ` set status_names"
      unfolding names by (induction TASK_STATUS_PENDING t rule: reaches.induct) auto
  next
    have d: "reaches TASK_STATUS_PENDING TASK_STATUS_DISPATCHING" by (rule reaches_step) simp
    have r: "reaches TASK_STATUS_PENDING TASK_STATUS_RUNNING" by (rule reaches.next_step [OF d]) simp
    have f: "reaches TASK_STATUS_PENDING TASK_STATUS_FAILED" by (rule reaches.next_step [OF r]) simp
    assume "t \<in> status_proto ` set status_names"
    then show "reaches TASK_STATUS_PENDING t"
      unfolding names by (elim insertE)
        (use d r f in \<open>auto intro: reaches.here reaches.next_step [OF r] reaches.next_step [OF f]\<close>)
  qed
  show "\<forall>s \<in> status_proto ` set status_names. ValidateTransition s TASK_STATUS_CANCELLED = (\<not> IsTerminal s)"
    unfolding names by simp
next
  fix s t
  show "IsTerminal s \<longrightarrow> reaches s t \<longrightarrow> t = s" by (simp add: terminal_maximal flip: less_eq_TaskStatus_def)
next
  fix s
  show "IsTerminal s \<longleftrightarrow> status_text s \<in> {''Success'', ''Timeout'', ''Cancelled'', ''PartiallySucceeded''}"
    by (cases s) (simp_all add: status_text_def map_get_def protoToStatus_def)
qed

lemma task_state_machine_witness:
  "reaches TASK_STATUS_PENDING TASK_STATUS_FAILED \<and> \<not> reaches TASK_STATUS_PENDING TASK_STATUS_UNSPECIFIED
   \<and> ValidateTransition TASK_STATUS_FAILED TASK_STATUS_CANCELLED"
  using task_state_machine by (auto simp: status_names_def statusToProto_def status_proto_def map_get_def)

text \<open>The backoff. For retry counts from 0 to 32 it is 2 seconds times two to the count, at most
  60 seconds: 2, 4, 8, 16 and 32 seconds and then 60, and it never decreases as the count grows. From
  33 on the product no longer fits a duration, and the result is whatever the out-of-range conversion
  yields, capped at 60 seconds but possibly negative.\<close>

lemma backoff_formula:
  "(\<forall>p conv. 0 \<le> rp_RetryCount p \<longrightarrow> rp_RetryCount p \<le> 32 \<longrightarrow>
      NextBackoff conv p = min (2 * second * 2 ^ nat (rp_RetryCount p)) (60 * second)
      \<and> (5 \<le> rp_RetryCount p \<longrightarrow> NextBackoff conv p = 60 * second))
   \<and> (\<forall>p q conv. 0 \<le> rp_RetryCount p \<longrightarrow> rp_RetryCount p \<le> rp_RetryCount q \<longrightarrow> rp_RetryCount q \<le> 32 \<longrightarrow>
      NextBackoff conv p \<le> NextBackoff conv q)
   \<and> (\<forall>p conv. 33 \<le> rp_RetryCount p \<longrightarrow> NextBackoff conv p = min (conv (rp_RetryCount p)) (60 * second))"
proof (intro conjI allI impI)
  fix p q :: RetryPolicy and conv
  let ?n = "rp_RetryCount p"
  assume n: "0 \<le> ?n" "?n \<le> 32"
  show f: "NextBackoff conv p = min (2 * second * 2 ^ nat ?n) (60 * second)"
    using backoff_small [OF n] by (simp add: NextBackoff_def baseBackoffInterval_def maxBackoffInterval_def)
  assume "5 \<le> ?n"
  with n backoff_capped [of ?n] show "NextBackoff conv p = 60 * second"
    by (simp add: f baseBackoffInterval_def maxBackoffInterval_def)
next
  fix p q :: RetryPolicy and conv
  let ?m = "rp_RetryCount p" and ?n = "rp_RetryCount q"
  assume n: "0 \<le> ?m" "?m \<le> ?n" "?n \<le> 32"
  then have "(2::int) ^ nat ?m \<le> 2 ^ nat ?n" by (intro power_increasing) auto
  with n have "scaled_backoff conv ?m \<le> scaled_backoff conv ?n"
    by (simp add: backoff_small baseBackoffInterval_def second_def)
  then show "NextBackoff conv p \<le> NextBackoff conv q"
    by (simp add: NextBackoff_def Let_def)
next
  fix p :: RetryPolicy and conv
  assume "33 \<le> rp_RetryCount p"
  then show "NextBackoff conv p = min (conv (rp_RetryCount p)) (60 * second)"
    by (simp add: NextBackoff_def backoff_large maxBackoffInterval_def Let_def)
qed

lemma backoff_formula_witness:
  "NextBackoff (\<lambda>_. - (2 ^ 63)) \<lparr>rp_MaxRetries = 3, rp_RetryCount = 2, rp_TimeoutSeconds = 600\<rparr> = 8 * second
   \<and> NextBackoff (\<lambda>_. - (2 ^ 63)) \<lparr>rp_MaxRetries = 99, rp_RetryCount = 40, rp_TimeoutSeconds = 600\<rparr> = - (2 ^ 63)"
  using conjunct1 [OF backoff_formula, rule_format,
      of "\<lparr>rp_MaxRetries = 3, rp_RetryCount = 2, rp_TimeoutSeconds = 600\<rparr>" "\<lambda>_. - (2 ^ 63)"]
    conjunct2 [OF conjunct2 [OF backoff_formula], rule_format,
      of "\<lparr>rp_MaxRetries = 99, rp_RetryCount = 40, rp_TimeoutSeconds = 600\<rparr>" "\<lambda>_. - (2 ^ 63)"]
  by (simp add: second_def)

end
