(* ===== verification/Integrity.thy ===== *)
theory Integrity
  imports Session
begin

text \<open>
  The constraints of the schema as one invariant of the tables, \<open>db_wf\<close>: primary keys and UNIQUE
  constraints hold, and every foreign key names a row that exists (no statement of the sources
  deletes a referenced row). A statement that inserts into or updates a table goes through one of
  the operations of this theory, which check the constraints the server checks; the lemmas in
  \<open>keeps\<close> show that each of them keeps \<open>db_wf\<close>.
\<close>

section \<open>The invariant\<close>

definition gateways_wf :: "gatewayRow list \<Rightarrow> bool" where
  "gateways_wf gs = (distinct (map gw_ID gs) \<and> distinct (map gw_Name gs))"

definition nodes_wf :: "string set \<Rightarrow> nodeRow list \<Rightarrow> bool" where
  "nodes_wf G ns = (distinct (map nd_ID ns) \<and> nd_GatewayID ` set ns \<subseteq> G)"

definition live_identity :: "identityRow \<Rightarrow> bool" where
  "live_identity i = (id_Status i = ''Active'' \<or> id_Status i = ''Suspended'')"

definition identities_wf :: "string set \<Rightarrow> string set \<Rightarrow> identityRow list \<Rightarrow> bool" where
  "identities_wf G N ids =
     (distinct (map id_ID ids) \<and> distinct (map id_NodeID ids) \<and> distinct (map id_Fingerprint ids)
      \<and> distinct (map id_Serial (filter live_identity ids))
      \<and> id_GatewayID ` set ids \<subseteq> G \<and> id_NodeID ` set ids \<subseteq> N)"

definition tokens_wf :: "string set \<Rightarrow> TokenRecord list \<Rightarrow> bool" where
  "tokens_wf G ks =
     (distinct (map tk_ID ks) \<and> distinct (map tk_TokenHash ks) \<and> tk_GatewayID ` set ks \<subseteq> G)"

definition task_refs :: "string set \<Rightarrow> string set \<Rightarrow> string set \<Rightarrow> TaskRow \<Rightarrow> bool" where
  "task_refs G N T r =
     ((\<forall>i. t_ParentTaskID r = Some i \<longrightarrow> i \<in> T) \<and> (\<forall>i. t_TargetGatewayID r = Some i \<longrightarrow> i \<in> G)
      \<and> (\<forall>i. t_TargetNodeID r = Some i \<longrightarrow> i \<in> N))"

definition tasks_wf :: "string set \<Rightarrow> string set \<Rightarrow> TaskRow list \<Rightarrow> bool" where
  "tasks_wf G N ts = (distinct (map t_ID ts) \<and> (\<forall>r \<in> set ts. task_refs G N (t_ID ` set ts) r))"

definition runs_wf :: "string set \<Rightarrow> string set \<Rightarrow> TaskRunRow list \<Rightarrow> bool" where
  "runs_wf T N rs = (distinct (map r_ID rs) \<and> r_TaskID ` set rs \<subseteq> T \<and> r_NodeID ` set rs \<subseteq> N)"

definition events_wf :: "string set \<Rightarrow> TaskEventRow list \<Rightarrow> bool" where
  "events_wf T es = (distinct (map e_ID es) \<and> e_TaskID ` set es \<subseteq> T)"

definition models_wf :: "ModelRow list \<Rightarrow> bool" where
  "models_wf ms = (distinct (map m_ID ms) \<and> distinct (map (\<lambda>m. (m_Name m, m_Version m)) ms))"

definition cache_key :: "CacheEntry \<Rightarrow> string \<times> string \<times> string" where
  "cache_key c = (c_GatewayID c, c_ModelID c, c_Version c)"

definition cache_wf :: "string set \<Rightarrow> string set \<Rightarrow> CacheEntry list \<Rightarrow> bool" where
  "cache_wf G M cs =
     (distinct (map c_ID cs) \<and> distinct (map cache_key cs)
      \<and> c_GatewayID ` set cs \<subseteq> G \<and> c_ModelID ` set cs \<subseteq> M)"

definition profiles_wf :: "RuntimeProfileRow list \<Rightarrow> bool" where
  "profiles_wf ps = (distinct (map p_ID ps) \<and> distinct (map p_Name ps))"

definition deployments_wf :: "DeploymentRow list \<Rightarrow> bool" where
  "deployments_wf ds = distinct (map d_ID ds)"

definition state_key :: "RuntimeStateRow \<Rightarrow> string \<times> string \<times> string" where
  "state_key s = (s_NodeID s, s_ModelName s, s_ModelVersion s)"

definition states_wf :: "string set \<Rightarrow> RuntimeStateRow list \<Rightarrow> bool" where
  "states_wf N ss = (distinct (map s_ID ss) \<and> distinct (map state_key ss) \<and> s_NodeID ` set ss \<subseteq> N)"

definition gateway_ids :: "tables \<Rightarrow> string set" where "gateway_ids t = gw_ID ` set (gateways t)"
definition node_ids :: "tables \<Rightarrow> string set" where "node_ids t = nd_ID ` set (edge_nodes t)"
definition task_ids :: "tables \<Rightarrow> string set" where "task_ids t = t_ID ` set (tasks t)"
definition model_ids :: "tables \<Rightarrow> string set" where "model_ids t = m_ID ` set (models t)"

definition db_wf :: "tables \<Rightarrow> bool" where
  "db_wf t =
     (gateways_wf (gateways t) \<and> nodes_wf (gateway_ids t) (edge_nodes t)
      \<and> identities_wf (gateway_ids t) (node_ids t) (edge_identities t)
      \<and> tokens_wf (gateway_ids t) (bootstrap_tokens t)
      \<and> tasks_wf (gateway_ids t) (node_ids t) (tasks t)
      \<and> runs_wf (task_ids t) (node_ids t) (task_runs t)
      \<and> events_wf (task_ids t) (task_events t)
      \<and> models_wf (models t) \<and> cache_wf (gateway_ids t) (model_ids t) (gateway_cache_entries t)
      \<and> profiles_wf (runtime_profiles t) \<and> deployments_wf (model_deployments t)
      \<and> states_wf (node_ids t) (edge_runtime_states t))"

lemmas table_wf_defs =
  gateways_wf_def nodes_wf_def identities_wf_def tokens_wf_def tasks_wf_def task_refs_def
  runs_wf_def events_wf_def models_wf_def cache_wf_def profiles_wf_def deployments_wf_def
  states_wf_def

lemmas table_ids = gateway_ids_def node_ids_def task_ids_def model_ids_def

lemma empty_tables_wf: "db_wf empty_tables"
  by (simp add: db_wf_def table_wf_defs empty_tables_def)

text \<open>A foreign key stays valid when the referenced table grows.\<close>

lemma wf_mono:
  "nodes_wf G ns \<Longrightarrow> G \<subseteq> G' \<Longrightarrow> nodes_wf G' ns"
  "identities_wf G N is \<Longrightarrow> G \<subseteq> G' \<Longrightarrow> N \<subseteq> N' \<Longrightarrow> identities_wf G' N' is"
  "tokens_wf G ks \<Longrightarrow> G \<subseteq> G' \<Longrightarrow> tokens_wf G' ks"
  "tasks_wf G N ts \<Longrightarrow> G \<subseteq> G' \<Longrightarrow> N \<subseteq> N' \<Longrightarrow> tasks_wf G' N' ts"
  "runs_wf T N rs \<Longrightarrow> T \<subseteq> T' \<Longrightarrow> N \<subseteq> N' \<Longrightarrow> runs_wf T' N' rs"
  "events_wf T es \<Longrightarrow> T \<subseteq> T' \<Longrightarrow> events_wf T' es"
  "cache_wf G M cs \<Longrightarrow> G \<subseteq> G' \<Longrightarrow> M \<subseteq> M' \<Longrightarrow> cache_wf G' M' cs"
  "states_wf N ss \<Longrightarrow> N \<subseteq> N' \<Longrightarrow> states_wf N' ss"
  by (auto simp: table_wf_defs)

section \<open>Updates\<close>

text \<open>UPDATE of one table: the check of the parameters, the WHERE clause and the SET clause (both
  may read the time); the result is the number of rows affected.\<close>

definition update_gateways ::
  "pg_error option list \<Rightarrow> (gatewayRow \<Rightarrow> bool) \<Rightarrow> (timestamp \<Rightarrow> gatewayRow \<Rightarrow> gatewayRow) \<Rightarrow> nat dbm" where
  "update_gateways cs p f = sql (\<lambda>_ now t. guarded cs
     (count_where p (gateways t), t\<lparr>gateways := update_where p (f now) (gateways t)\<rparr>))"

definition update_nodes ::
  "pg_error option list \<Rightarrow> (nodeRow \<Rightarrow> bool) \<Rightarrow> (timestamp \<Rightarrow> nodeRow \<Rightarrow> nodeRow) \<Rightarrow> nat dbm" where
  "update_nodes cs p f = sql (\<lambda>_ now t. guarded cs
     (count_where p (edge_nodes t), t\<lparr>edge_nodes := update_where p (f now) (edge_nodes t)\<rparr>))"

definition update_tokens ::
  "(TokenRecord \<Rightarrow> bool) \<Rightarrow> (timestamp \<Rightarrow> TokenRecord \<Rightarrow> TokenRecord) \<Rightarrow> nat dbm" where
  "update_tokens p f = sql (\<lambda>_ now t. Inr
     (count_where p (bootstrap_tokens t),
      t\<lparr>bootstrap_tokens := update_where p (f now) (bootstrap_tokens t)\<rparr>))"

definition update_tasks ::
  "pg_error option list \<Rightarrow> (timestamp \<Rightarrow> TaskRow \<Rightarrow> bool) \<Rightarrow> (timestamp \<Rightarrow> TaskRow \<Rightarrow> TaskRow) \<Rightarrow> nat dbm" where
  "update_tasks cs p f = sql (\<lambda>_ now t. guarded cs
     (count_where (p now) (tasks t), t\<lparr>tasks := update_where (p now) (f now) (tasks t)\<rparr>))"

definition update_runs ::
  "pg_error option list \<Rightarrow> (TaskRunRow \<Rightarrow> bool) \<Rightarrow> (timestamp \<Rightarrow> TaskRunRow \<Rightarrow> TaskRunRow) \<Rightarrow> nat dbm" where
  "update_runs cs p f = sql (\<lambda>_ now t. guarded cs
     (count_where p (task_runs t), t\<lparr>task_runs := update_where p (f now) (task_runs t)\<rparr>))"

definition update_deployments ::
  "pg_error option list \<Rightarrow> (DeploymentRow \<Rightarrow> bool) \<Rightarrow> (timestamp \<Rightarrow> DeploymentRow \<Rightarrow> DeploymentRow) \<Rightarrow> nat dbm" where
  "update_deployments cs p f = sql (\<lambda>_ now t. guarded cs
     (count_where p (model_deployments t),
      t\<lparr>model_deployments := update_where p (f now) (model_deployments t)\<rparr>))"

lemma keep_update_gateways:
  assumes "\<And>now r. gw_ID (f now r) = gw_ID r \<and> gw_Name (f now r) = gw_Name r"
  shows "keep db_wf (update_gateways cs p f)"
  unfolding update_gateways_def
  by (rule keep_sql) (auto simp: guarded_Inr db_wf_def gateway_ids_def node_ids_def task_ids_def
      model_ids_def gateways_wf_def map_update_where image_update_where assms)

lemma keep_update_nodes:
  assumes "\<And>now r. nd_ID (f now r) = nd_ID r \<and> nd_GatewayID (f now r) = nd_GatewayID r"
  shows "keep db_wf (update_nodes cs p f)"
  unfolding update_nodes_def
  by (rule keep_sql) (auto simp: guarded_Inr db_wf_def gateway_ids_def node_ids_def task_ids_def
      model_ids_def nodes_wf_def map_update_where image_update_where assms)

lemma keep_update_tokens:
  assumes "\<And>now r. tk_ID (f now r) = tk_ID r \<and> tk_TokenHash (f now r) = tk_TokenHash r
             \<and> tk_GatewayID (f now r) = tk_GatewayID r"
  shows "keep db_wf (update_tokens p f)"
  unfolding update_tokens_def
  by (rule keep_sql) (auto simp: db_wf_def gateway_ids_def node_ids_def task_ids_def
      model_ids_def tokens_wf_def map_update_where image_update_where assms)

lemma task_refs_cong:
  "t_ParentTaskID r' = t_ParentTaskID r \<Longrightarrow> t_TargetGatewayID r' = t_TargetGatewayID r \<Longrightarrow>
   t_TargetNodeID r' = t_TargetNodeID r \<Longrightarrow> task_refs G N T r' = task_refs G N T r"
  by (simp add: task_refs_def)

lemma keep_update_tasks:
  assumes "\<And>now r. t_ID (f now r) = t_ID r \<and> t_ParentTaskID (f now r) = t_ParentTaskID r
             \<and> t_TargetGatewayID (f now r) = t_TargetGatewayID r
             \<and> t_TargetNodeID (f now r) = t_TargetNodeID r"
  shows "keep db_wf (update_tasks cs p f)"
proof -
  have ids: "t_ID ` set (update_where (p now) (f now) ts) = t_ID ` set ts" for now ts
    using assms by (simp add: image_update_where)
  have wf: "tasks_wf G N (update_where (p now) (f now) ts)" if "tasks_wf G N ts" for G N now ts
    using that assms unfolding tasks_wf_def ids
    by (auto simp: map_update_where set_update_where task_refs_def split: if_splits)
  show ?thesis
    unfolding update_tasks_def
    by (rule keep_sql) (auto simp: guarded_Inr db_wf_def table_ids ids intro: wf)
qed

lemma keep_update_runs:
  assumes "\<And>now r. r_ID (f now r) = r_ID r \<and> r_TaskID (f now r) = r_TaskID r \<and> r_NodeID (f now r) = r_NodeID r"
  shows "keep db_wf (update_runs cs p f)"
  unfolding update_runs_def
  by (rule keep_sql) (auto simp: guarded_Inr db_wf_def gateway_ids_def node_ids_def task_ids_def
      model_ids_def runs_wf_def map_update_where image_update_where assms)

lemma keep_update_deployments:
  assumes "\<And>now r. d_ID (f now r) = d_ID r"
  shows "keep db_wf (update_deployments cs p f)"
  unfolding update_deployments_def
  by (rule keep_sql) (auto simp: guarded_Inr db_wf_def gateway_ids_def node_ids_def task_ids_def
      model_ids_def deployments_wf_def map_update_where assms)

text \<open>UPDATE of identities re-checks the unique constraints on the rows it leaves.\<close>

definition identity_unique :: "identityRow list \<Rightarrow> pg_error option list" where
  "identity_unique ids =
     [check_unique ''uq_edge_identities_fingerprint'' (\<not> distinct (map id_Fingerprint ids)),
      check_unique ''uq_edge_identities_serial_active''
        (\<not> distinct (map id_Serial (filter live_identity ids)))]"

definition update_identities ::
  "(identityRow \<Rightarrow> bool) \<Rightarrow> (timestamp \<Rightarrow> identityRow \<Rightarrow> identityRow) \<Rightarrow> nat dbm" where
  "update_identities p f = sql (\<lambda>_ now t.
     let new = update_where p (f now) (edge_identities t) in
     guarded (identity_unique new) (count_where p (edge_identities t), t\<lparr>edge_identities := new\<rparr>))"

lemma keep_update_identities:
  assumes "\<And>now r. id_ID (f now r) = id_ID r \<and> id_NodeID (f now r) = id_NodeID r
             \<and> id_GatewayID (f now r) = id_GatewayID r"
  shows "keep db_wf (update_identities p f)"
  unfolding update_identities_def
  by (rule keep_sql) (auto simp: Let_def guarded_Inr db_wf_def table_ids identities_wf_def
      identity_unique_def map_update_where image_update_where assms)

section \<open>Inserts\<close>

text \<open>INSERT of one row, built from its new id and the time: primary key, unique and foreign keys
  are checked. The result is the row, from which the statement's RETURNING clause is read.\<close>

definition insert_gateway ::
  "(string \<Rightarrow> timestamp \<Rightarrow> gatewayRow) \<Rightarrow> gatewayRow dbm" where
  "insert_gateway mk = sql (\<lambda>ids now t. let r = mk (ids 0) now in guarded
     [check_jsonb ''gateways'' ''labels'' (gw_Labels r),
      check_unique ''gateways_pkey'' (gw_ID r \<in> set (map gw_ID (gateways t))),
      check_unique ''gateways_name_key'' (gw_Name r \<in> set (map gw_Name (gateways t)))]
     (r, t\<lparr>gateways := gateways t @ [r]\<rparr>))"

definition insert_node :: "(string \<Rightarrow> timestamp \<Rightarrow> nodeRow) \<Rightarrow> nodeRow dbm" where
  "insert_node mk = sql (\<lambda>ids now t. let r = mk (ids 0) now in guarded
     [check_jsonb ''edge_nodes'' ''labels'' (nd_Labels r),
      check_jsonb ''edge_nodes'' ''hardware_info'' (nd_HardwareInfo r),
      check_unique ''edge_nodes_pkey'' (nd_ID r \<in> set (map nd_ID (edge_nodes t))),
      check_fk ''edge_nodes'' ''edge_nodes_gateway_id_fkey'' (Some (nd_GatewayID r)) (map gw_ID (gateways t))]
     (r, t\<lparr>edge_nodes := edge_nodes t @ [r]\<rparr>))"

definition insert_identity :: "(string \<Rightarrow> timestamp \<Rightarrow> identityRow) \<Rightarrow> identityRow dbm" where
  "insert_identity mk = sql (\<lambda>ids now t. let r = mk (ids 0) now; new = edge_identities t @ [r] in guarded
     ([check_unique ''edge_identities_pkey'' (id_ID r \<in> set (map id_ID (edge_identities t))),
       check_unique ''uq_edge_identities_node_id'' (id_NodeID r \<in> set (map id_NodeID (edge_identities t)))]
      @ identity_unique new @
      [check_fk ''edge_identities'' ''edge_identities_node_id_fkey'' (Some (id_NodeID r)) (map nd_ID (edge_nodes t)),
       check_fk ''edge_identities'' ''edge_identities_gateway_id_fkey'' (Some (id_GatewayID r)) (map gw_ID (gateways t))])
     (r, t\<lparr>edge_identities := new\<rparr>))"

definition insert_token :: "(string \<Rightarrow> timestamp \<Rightarrow> TokenRecord) \<Rightarrow> TokenRecord dbm" where
  "insert_token mk = sql (\<lambda>ids now t. let r = mk (ids 0) now in guarded
     [check_jsonb ''bootstrap_tokens'' ''labels'' (tk_Labels r),
      check_unique ''bootstrap_tokens_pkey'' (tk_ID r \<in> set (map tk_ID (bootstrap_tokens t))),
      check_unique ''uq_bootstrap_tokens_token_hash'' (tk_TokenHash r \<in> set (map tk_TokenHash (bootstrap_tokens t))),
      check_fk ''bootstrap_tokens'' ''bootstrap_tokens_gateway_id_fkey'' (Some (tk_GatewayID r)) (map gw_ID (gateways t))]
     (r, t\<lparr>bootstrap_tokens := bootstrap_tokens t @ [r]\<rparr>))"

definition insert_task :: "(string \<Rightarrow> timestamp \<Rightarrow> TaskRow) \<Rightarrow> TaskRow dbm" where
  "insert_task mk = sql (\<lambda>ids now t. let r = mk (ids 0) now in guarded
     [check_jsonb ''tasks'' ''payload'' (t_Payload r),
      check_jsonb_null (t_Result r),
      check_unique ''tasks_pkey'' (t_ID r \<in> set (map t_ID (tasks t))),
      check_fk ''tasks'' ''tasks_parent_task_id_fkey'' (t_ParentTaskID r) (t_ID r # map t_ID (tasks t)),
      check_fk ''tasks'' ''tasks_target_gateway_id_fkey'' (t_TargetGatewayID r) (map gw_ID (gateways t)),
      check_fk ''tasks'' ''tasks_target_node_id_fkey'' (t_TargetNodeID r) (map nd_ID (edge_nodes t))]
     (r, t\<lparr>tasks := tasks t @ [r]\<rparr>))"

definition insert_run :: "(string \<Rightarrow> timestamp \<Rightarrow> TaskRunRow) \<Rightarrow> TaskRunRow dbm" where
  "insert_run mk = sql (\<lambda>ids now t. let r = mk (ids 0) now in guarded
     [check_unique ''task_runs_pkey'' (r_ID r \<in> set (map r_ID (task_runs t))),
      check_fk ''task_runs'' ''task_runs_task_id_fkey'' (Some (r_TaskID r)) (map t_ID (tasks t)),
      check_fk ''task_runs'' ''task_runs_node_id_fkey'' (Some (r_NodeID r)) (map nd_ID (edge_nodes t))]
     (r, t\<lparr>task_runs := task_runs t @ [r]\<rparr>))"

definition insert_event :: "(string \<Rightarrow> timestamp \<Rightarrow> TaskEventRow) \<Rightarrow> TaskEventRow dbm" where
  "insert_event mk = sql (\<lambda>ids now t. let r = mk (ids 0) now in guarded
     [check_jsonb ''task_events'' ''detail'' (e_Detail r),
      check_unique ''task_events_pkey'' (e_ID r \<in> set (map e_ID (task_events t))),
      check_fk ''task_events'' ''task_events_task_id_fkey'' (Some (e_TaskID r)) (map t_ID (tasks t))]
     (r, t\<lparr>task_events := task_events t @ [r]\<rparr>))"

definition insert_model :: "(string \<Rightarrow> timestamp \<Rightarrow> ModelRow) \<Rightarrow> ModelRow dbm" where
  "insert_model mk = sql (\<lambda>ids now t. let r = mk (ids 0) now in guarded
     [check_jsonb ''models'' ''labels'' (m_Labels r),
      check_unique ''models_pkey'' (m_ID r \<in> set (map m_ID (models t))),
      check_unique ''models_name_version_key''
        ((m_Name r, m_Version r) \<in> set (map (\<lambda>m. (m_Name m, m_Version m)) (models t)))]
     (r, t\<lparr>models := models t @ [r]\<rparr>))"

definition insert_profile :: "(string \<Rightarrow> timestamp \<Rightarrow> RuntimeProfileRow) \<Rightarrow> RuntimeProfileRow dbm" where
  "insert_profile mk = sql (\<lambda>ids now t. let r = mk (ids 0) now in guarded
     [check_jsonb ''runtime_profiles'' ''selector'' (p_Selector r),
      check_jsonb ''runtime_profiles'' ''runtime_config'' (p_RuntimeConfig r),
      check_unique ''runtime_profiles_pkey'' (p_ID r \<in> set (map p_ID (runtime_profiles t))),
      check_unique ''runtime_profiles_name_key'' (p_Name r \<in> set (map p_Name (runtime_profiles t)))]
     (r, t\<lparr>runtime_profiles := runtime_profiles t @ [r]\<rparr>))"

definition insert_deployment :: "(string \<Rightarrow> timestamp \<Rightarrow> DeploymentRow) \<Rightarrow> DeploymentRow dbm" where
  "insert_deployment mk = sql (\<lambda>ids now t. let r = mk (ids 0) now in guarded
     [check_jsonb ''model_deployments'' ''target'' (d_Target r),
      check_jsonb ''model_deployments'' ''rollout'' (d_Rollout r),
      check_jsonb ''model_deployments'' ''status'' (d_Status r),
      check_unique ''model_deployments_pkey'' (d_ID r \<in> set (map d_ID (model_deployments t)))]
     (r, t\<lparr>model_deployments := model_deployments t @ [r]\<rparr>))"

lemma keep_insert_gateway [keeps]: "keep db_wf (insert_gateway mk)"
  unfolding insert_gateway_def
  by (rule keep_sql, clarsimp simp: guarded_Inr Let_def db_wf_def table_ids)
    (intro conjI; (erule wf_mono; blast)?; simp add: gateways_wf_def)

lemma keep_insert_node [keeps]: "keep db_wf (insert_node mk)"
  unfolding insert_node_def
  by (rule keep_sql, clarsimp simp: guarded_Inr Let_def db_wf_def table_ids)
    (intro conjI; (erule wf_mono; blast)?; simp add: nodes_wf_def check_fk_None)

lemma keep_insert_identity [keeps]: "keep db_wf (insert_identity mk)"
  unfolding insert_identity_def
  by (rule keep_sql) (auto simp: guarded_Inr Let_def db_wf_def table_ids identities_wf_def
      check_fk_None identity_unique_def)

lemma keep_insert_token [keeps]: "keep db_wf (insert_token mk)"
  unfolding insert_token_def
  by (rule keep_sql) (auto simp: guarded_Inr Let_def db_wf_def table_ids tokens_wf_def check_fk_None)

lemma keep_insert_task [keeps]: "keep db_wf (insert_task mk)"
  unfolding insert_task_def
  by (rule keep_sql, clarsimp simp: guarded_Inr Let_def db_wf_def table_ids)
    (intro conjI; (erule wf_mono; blast)?; auto simp: tasks_wf_def task_refs_def check_fk_None)

lemma keep_insert_run [keeps]: "keep db_wf (insert_run mk)"
  unfolding insert_run_def
  by (rule keep_sql) (auto simp: guarded_Inr Let_def db_wf_def table_ids runs_wf_def check_fk_None)

lemma keep_insert_event [keeps]: "keep db_wf (insert_event mk)"
  unfolding insert_event_def
  by (rule keep_sql) (auto simp: guarded_Inr Let_def db_wf_def table_ids events_wf_def check_fk_None)

lemma keep_insert_model [keeps]: "keep db_wf (insert_model mk)"
  unfolding insert_model_def
  by (rule keep_sql, clarsimp simp: guarded_Inr Let_def db_wf_def table_ids)
    (intro conjI; (erule wf_mono; blast)?; simp add: models_wf_def)

lemma keep_insert_profile [keeps]: "keep db_wf (insert_profile mk)"
  unfolding insert_profile_def
  by (rule keep_sql) (auto simp: guarded_Inr Let_def db_wf_def table_ids profiles_wf_def)

lemma keep_insert_deployment [keeps]: "keep db_wf (insert_deployment mk)"
  unfolding insert_deployment_def
  by (rule keep_sql) (auto simp: guarded_Inr Let_def db_wf_def table_ids deployments_wf_def)

section \<open>Statements in a quiet session\<close>

lemma guarded_None: "first_error cs = None \<Longrightarrow> guarded cs x = Inr x"
  by (simp add: guarded_def)

lemma guarded_Some: "first_error cs = Some e \<Longrightarrow> guarded cs x = Inl e"
  by (simp add: guarded_def)

lemma update_tasks_quiet:
  "quiet d \<Longrightarrow> first_error cs = None \<Longrightarrow> update_tasks cs p f d =
     (Inr (count_where (p (clock d)) (tasks (tabs d))),
      d\<lparr>stmt_no := Suc (stmt_no d),
        tabs := (tabs d)\<lparr>tasks := update_where (p (clock d)) (f (clock d)) (tasks (tabs d))\<rparr>\<rparr>)"
  by (simp add: update_tasks_def sql_quiet guarded_None)

lemma update_tasks_InrD:
  "update_tasks cs p f d = (Inr n, d1) \<Longrightarrow>
     n = count_where (p (clock d)) (tasks (tabs d))
     \<and> tabs d1 = (tabs d)\<lparr>tasks := update_where (p (clock d)) (f (clock d)) (tasks (tabs d))\<rparr>
     \<and> clock d1 = clock d"
  by (auto simp: update_tasks_def guarded_Inr dest!: sql_InrD)

lemma update_tasks_InlD: "update_tasks cs p f d = (Inl e, d1) \<Longrightarrow> tabs d1 = tabs d \<and> clock d1 = clock d"
  by (auto simp: update_tasks_def dest!: sql_InlD)

lemma insert_task_InrD:
  "insert_task mk s = (Inr r, s1) \<Longrightarrow> (\<exists>i. r = mk i (clock s)) \<and> clock s1 = clock s
     \<and> t_ID r \<notin> t_ID ` set (tasks (tabs s)) \<and> tabs s1 = (tabs s)\<lparr>tasks := tasks (tabs s) @ [r]\<rparr>"
  by (auto simp: insert_task_def Let_def guarded_Inr dest!: sql_InrD)

lemma insert_event_tabs:
  "insert_event mk d = (r, d1) \<Longrightarrow> tasks (tabs d1) = tasks (tabs d) \<and> clock d1 = clock d"
  by (cases r) (auto simp: insert_event_def Let_def guarded_Inr dest!: sql_InrD sql_InlD)

lemma insert_event_quiet:
  assumes "quiet d" "r = mk (uuid_gen d (stmt_no d) 0) (clock d)" "e_Detail r = Raw_JSON j"
    and "e_ID r \<notin> e_ID ` set (task_events (tabs d))" "e_TaskID r \<in> task_ids (tabs d)"
  shows "insert_event mk d =
     (Inr r, d\<lparr>stmt_no := Suc (stmt_no d),
       tabs := (tabs d)\<lparr>task_events := task_events (tabs d) @ [r]\<rparr>\<rparr>)"
  using assms by (simp add: insert_event_def sql_quiet Let_def guarded_def check_unique_def
      check_fk_def check_jsonb_def task_ids_def)

lemma timeless_statements [clocks]:
  "timeless (update_tasks cs p f)" "timeless (insert_event mk)"
  unfolding update_tasks_def insert_event_def by (rule timeless_sql)+

section \<open>Fresh ids\<close>

text \<open>The id generator yields ids no row has, and no id twice: what \<open>gen_random_uuid()\<close> promises.\<close>

definition all_ids :: "tables \<Rightarrow> string list" where
  "all_ids t =
     map gw_ID (gateways t) @ map nd_ID (edge_nodes t) @ map id_ID (edge_identities t)
     @ map tk_ID (bootstrap_tokens t) @ map t_ID (tasks t) @ map r_ID (task_runs t)
     @ map e_ID (task_events t) @ map m_ID (models t) @ map c_ID (gateway_cache_entries t)
     @ map p_ID (runtime_profiles t) @ map d_ID (model_deployments t) @ map s_ID (edge_runtime_states t)"

definition fresh_supply :: "session \<Rightarrow> bool" where
  "fresh_supply d =
     ((\<forall>n k. stmt_no d \<le> n \<longrightarrow> uuid_gen d n k \<notin> set (all_ids (tabs d)))
      \<and> (\<forall>n k n' k'. uuid_gen d n k = uuid_gen d n' k' \<longrightarrow> n = n' \<and> k = k'))"

lemma fresh_notin: "fresh_supply d \<Longrightarrow> stmt_no d \<le> n \<Longrightarrow> uuid_gen d n k \<notin> set (all_ids (tabs d))"
  by (simp add: fresh_supply_def)

lemma fresh_inj: "fresh_supply d \<Longrightarrow> (uuid_gen d n k = uuid_gen d n' k') = (n = n' \<and> k = k')"
  by (auto simp: fresh_supply_def)

text \<open>A concrete supply and a concrete session, for evaluating the model on example tables.\<close>

definition sample_uuid :: "nat \<Rightarrow> nat \<Rightarrow> string" where
  "sample_uuid n k = ''#'' @ replicate n (CHR ''a'') @ ''-'' @ replicate k (CHR ''b'')"

definition session_at :: "tables \<Rightarrow> timestamp \<Rightarrow> session" where
  "session_at t now = \<lparr>tabs = t, clock = now, uuid_gen = sample_uuid, stmt_no = 0, faults = [],
     in_tx = False, aborted = False, conn_busy = None\<rparr>"

lemma sample_uuid_inj: "sample_uuid n k = sample_uuid n' k' \<Longrightarrow> n = n' \<and> k = k'"
proof -
  assume eq: "sample_uuid n k = sample_uuid n' k'"
  have w: "takeWhile (\<lambda>c. c = CHR ''a'') (tl (sample_uuid m j)) = replicate m (CHR ''a'')"
    "length (sample_uuid m j) = m + j + 2" for m j
    by (simp_all add: sample_uuid_def takeWhile_tail takeWhile_append2)
  from eq w(1) have "replicate n (CHR ''a'') = replicate n' (CHR ''a'')" by metis
  then have "n = n'" by simp
  with eq w(2) show ?thesis by (metis add_right_cancel add_left_cancel)
qed

lemma session_at_simps [simp]:
  "tabs (session_at t now) = t" "clock (session_at t now) = now" "stmt_no (session_at t now) = 0"
  "faults (session_at t now) = []" "quiet (session_at t now)" "\<not> in_tx (session_at t now)"
  "idle (session_at t now)" "conn_busy (session_at t now) = None"
  "uuid_gen (session_at t now) = sample_uuid"
  by (simp_all add: session_at_def quiet_def idle_def)

lemma session_at_fresh: "\<forall>i \<in> set (all_ids t). hd i \<noteq> CHR ''#'' \<Longrightarrow> fresh_supply (session_at t now)"
  by (auto simp: fresh_supply_def dest: sample_uuid_inj) (auto simp: sample_uuid_def)

text \<open>A gateway and a node of it.\<close>

definition example_gateway :: gatewayRow where
  "example_gateway = \<lparr>gw_ID = ''g1'', gw_Name = ''edge-gw'', gw_Region = ''eu'', gw_Labels = empty_object,
     gw_Status = ''Active'', gw_Endpoint = ''gw:9090'', gw_CreatedAt = 1, gw_UpdatedAt = 1\<rparr>"

definition example_node :: nodeRow where
  "example_node = \<lparr>nd_ID = ''n1'', nd_GatewayID = ''g1'', nd_Labels = empty_object,
     nd_HardwareInfo = empty_object, nd_Status = ''Active'', nd_AgentVersion = Some ''1.0'',
     nd_Online = True, nd_LastSeenAt = Some 5, nd_CreatedAt = 2, nd_UpdatedAt = 2\<rparr>"

end
