(* ===== verification/Paging.thy ===== *)
theory Paging
  imports Session
begin

text \<open>
  The paging every list RPC of the services repeats: a page size, an offset carried as a decimal
  token, the store's limit, and the next token. The interface \<open>paged_listing\<close> is what a client
  that follows the tokens relies on: a page is a slice of the listing, and no call changes the
  tables. Its client lemma: following the tokens yields the whole listing once, in order, as long as
  the page size is one the store serves in full.
\<close>

record PageRequest =
  pg_PageSize :: int
  pg_PageToken :: string

record PageResponse =
  pr_NextPageToken :: string
  pr_TotalCount :: int

text \<open>The size is 20 unless a positive one is asked for; a token that is no number is ignored.\<close>

definition page_size_of :: "PageRequest option \<Rightarrow> int" where
  "page_size_of page =
     (case page of None \<Rightarrow> 20 | Some p \<Rightarrow> if pg_PageSize p > 0 then pg_PageSize p else 20)"

definition page_offset_of :: "PageRequest option \<Rightarrow> int" where
  "page_offset_of page =
     (case page of None \<Rightarrow> 0
      | Some p \<Rightarrow> if pg_PageToken p = [] then 0
                  else case atoi (pg_PageToken p) of Some v \<Rightarrow> v | None \<Rightarrow> 0)"

text \<open>The limit a store applies: 20 unless the size asked for is between 1 and 100.\<close>

definition page_limit :: "int \<Rightarrow> int" where
  "page_limit l = (if l \<le> 0 \<or> l > 100 then 20 else l)"

definition next_token :: "int \<Rightarrow> int \<Rightarrow> int \<Rightarrow> string" where
  "next_token offset pageSize totalCount =
     (let nextOffset = wrap64 (offset + pageSize)
      in if nextOffset < totalCount then itoa nextOffset else [])"

definition page_response :: "int \<Rightarrow> int \<Rightarrow> int \<Rightarrow> PageResponse" where
  "page_response offset pageSize totalCount =
     \<lparr>pr_NextPageToken = next_token offset pageSize totalCount, pr_TotalCount = wrap32 totalCount\<rparr>"

text \<open>A client that follows the tokens, for at most \<open>fuel\<close> pages.\<close>

fun walk ::
  "nat \<Rightarrow> (PageRequest option \<Rightarrow> ('m list \<times> PageResponse) dbm) \<Rightarrow> int \<Rightarrow> string \<Rightarrow> 'm list dbm" where
  "walk 0 rpc n tok = failE (GoErr ''too many pages'')"
| "walk (Suc fuel) rpc n tok =
     bindE (rpc (Some \<lparr>pg_PageSize = n, pg_PageToken = tok\<rparr>)) (\<lambda>(ms, page).
       if pr_NextPageToken page = [] then returnE ms
       else bindE (walk fuel rpc n (pr_NextPageToken page)) (\<lambda>more. returnE (ms @ more)))"

lemma page_offset_token:
  "in_int64 v \<Longrightarrow> page_offset_of (Some \<lparr>pg_PageSize = n, pg_PageToken = itoa v\<rparr>) = v"
  by (simp add: page_offset_of_def atoi_itoa)

lemma page_offset_empty: "page_offset_of (Some \<lparr>pg_PageSize = n, pg_PageToken = []\<rparr>) = 0"
  by (simp add: page_offset_of_def)

lemma page_size_pos: "0 < n \<Longrightarrow> page_size_of (Some \<lparr>pg_PageSize = n, pg_PageToken = tok\<rparr>) = n"
  by (simp add: page_size_of_def)

lemma page_limit_id: "0 < n \<Longrightarrow> n \<le> 100 \<Longrightarrow> page_limit n = n"
  by (simp add: page_limit_def)

lemma limit_offset_ok:
  "0 \<le> lim \<Longrightarrow> 0 \<le> off \<Longrightarrow> limit_offset lim off xs = Inr (take (nat lim) (drop (nat off) xs))"
  by (simp add: limit_offset_def)

locale paged_listing =
  fixes rpc :: "PageRequest option \<Rightarrow> ('m list \<times> PageResponse) dbm"
    and rows :: "tables \<Rightarrow> 'm list"
    and servable :: "tables \<Rightarrow> bool"
    and max_page :: int
  assumes serve:
    "\<lbrakk>quiet d; servable (tabs d); 0 < n; n \<le> max_page;
      0 \<le> page_offset_of (Some \<lparr>pg_PageSize = n, pg_PageToken = tok\<rparr>)\<rbrakk> \<Longrightarrow>
     \<exists>d'. rpc (Some \<lparr>pg_PageSize = n, pg_PageToken = tok\<rparr>) d =
       (Inr (take (nat n) (drop (nat (page_offset_of (Some \<lparr>pg_PageSize = n, pg_PageToken = tok\<rparr>)))
               (rows (tabs d))),
             page_response (page_offset_of (Some \<lparr>pg_PageSize = n, pg_PageToken = tok\<rparr>)) n
               (int (length (rows (tabs d))))), d')
       \<and> quiet d' \<and> tabs d' = tabs d"
begin

lemma walk_from:
  assumes "quiet d" "servable (tabs d)" "0 < n" "n \<le> max_page"
    and "page_offset_of (Some \<lparr>pg_PageSize = n, pg_PageToken = tok\<rparr>) = off" "0 \<le> off"
    and "off + n < 2 ^ 63" "int (length (rows (tabs d))) + n < 2 ^ 63"
    and "length (rows (tabs d)) < fuel + nat off" "0 < fuel"
  shows "\<exists>d'. walk fuel rpc n tok d = (Inr (drop (nat off) (rows (tabs d))), d')
    \<and> quiet d' \<and> tabs d' = tabs d"
  using assms
proof (induction fuel arbitrary: d tok off)
  case 0
  then show ?case by simp
next
  case (Suc fuel)
  let ?rs = "rows (tabs d)"
  let ?len = "int (length ?rs)"
  obtain d1 where page: "rpc (Some \<lparr>pg_PageSize = n, pg_PageToken = tok\<rparr>) d =
       (Inr (take (nat n) (drop (nat off) ?rs), page_response off n ?len), d1)"
      and d1: "quiet d1" "tabs d1 = tabs d"
    using serve [OF Suc.prems(1-4), of tok] Suc.prems(5,6) by auto
  have w: "wrap64 (off + n) = off + n"
    using Suc.prems(3,6,7) by (intro wrap64_id) auto
  show ?case
  proof (cases "off + n < ?len")
    case False
    then have "drop (nat n) (drop (nat off) ?rs) = []"
      using Suc.prems(3,6) by auto
    then have "take (nat n) (drop (nat off) ?rs) = drop (nat off) ?rs"
      by (metis append_Nil2 append_take_drop_id)
    with False page w d1 show ?thesis
      by (simp add: bindE_def page_response_def next_token_def returnE_def)
  next
    case True
    let ?tok = "itoa (off + n)"
    have "in_int64 (off + n)" using Suc.prems(3,6,7) by (simp add: in_int64_def)
    then have off: "page_offset_of (Some \<lparr>pg_PageSize = n, pg_PageToken = ?tok\<rparr>) = off + n"
      by (rule page_offset_token)
    have "\<exists>d'. walk fuel rpc n ?tok d1 = (Inr (drop (nat (off + n)) (rows (tabs d1))), d')
            \<and> quiet d' \<and> tabs d' = tabs d1"
    proof (rule Suc.IH)
      show "quiet d1" by (rule d1)
      show "servable (tabs d1)" using d1 Suc.prems(2) by simp
      show "page_offset_of (Some \<lparr>pg_PageSize = n, pg_PageToken = ?tok\<rparr>) = off + n" by (rule off)
      show "length (rows (tabs d1)) < fuel + nat (off + n)"
        using d1 Suc.prems(3,6,9) by (simp add: nat_add_distrib)
      show "0 < fuel" using True Suc.prems(3,6,9) by (cases fuel) auto
    qed (use Suc.prems True d1 in auto)
    then obtain d2 where rest: "walk fuel rpc n ?tok d1 = (Inr (drop (nat (off + n)) ?rs), d2)"
        and d2: "quiet d2" "tabs d2 = tabs d" using d1 by auto
    have "take (nat n) (drop (nat off) ?rs) @ drop (nat (off + n)) ?rs = drop (nat off) ?rs"
      using Suc.prems(3,6) by (metis add.commute append_take_drop_id drop_drop less_imp_le nat_add_distrib)
    with True page w rest d2 show ?thesis
      by (simp add: bindE_def page_response_def next_token_def returnE_def)
  qed
qed

lemma walk_all:
  assumes "quiet d" "servable (tabs d)" "0 < n" "n \<le> max_page"
    and "int (length (rows (tabs d))) + n < 2 ^ 63"
  shows "fst (walk (Suc (length (rows (tabs d)))) rpc n [] d) = Inr (rows (tabs d))"
proof -
  have "\<exists>d'. walk (Suc (length (rows (tabs d)))) rpc n [] d = (Inr (drop (nat 0) (rows (tabs d))), d')
    \<and> quiet d' \<and> tabs d' = tabs d"
    by (rule walk_from [OF assms(1-4)]) (use assms in \<open>auto simp: page_offset_empty\<close>)
  then show ?thesis by auto
qed

end

end
