(* ===== verification/Task_Store.thy ===== *)
theory Task_Store
  imports Task_State Integrity Paging
begin

text \<open>
  The data access of tasks, runs and events (\<open>internal/task/store.go\<close>) and the idempotency checks
  (\<open>internal/task/idempotency.go\<close>), one definition per method, each with the SQL statements it
  issues. The \<open>result\<close> column of a task is NULL until a result is stored, and \<open>database/sql\<close>
  cannot scan a NULL into a \<open>json.RawMessage\<close>: \<open>scan_task\<close> is that scan.
\<close>

section \<open>Rows\<close>

definition null_result_error :: go_err where
  "null_result_error = GoErr (''sql: Scan error on column index 8, name '' @ quote ''result''
     @ '': unsupported Scan, storing driver.Value type <nil> into type *json.RawMessage'')"

definition scan_task :: "TaskRow \<Rightarrow> TaskRow dbm" where
  "scan_task r = (if t_Result r = Nil_Raw then failE null_result_error else returnE r)"

fun scan_tasks :: "TaskRow list \<Rightarrow> TaskRow list dbm" where
  "scan_tasks [] = returnE []"
| "scan_tasks (r # rs) =
     bindE (scan_task r) (\<lambda>x. bindE (scan_tasks rs) (\<lambda>xs. returnE (x # xs)))"

definition task_by_id :: "string \<Rightarrow> tables \<Rightarrow> TaskRow option" where
  "task_by_id i t = find (\<lambda>r. t_ID r = i) (tasks t)"

section \<open>Tasks\<close>

definition CreateTask :: "TaskRow \<Rightarrow> TaskRow dbm" where
  "CreateTask row =
     bindE (insert_task (\<lambda>i now. row\<lparr>t_ID := i, t_Result := Nil_Raw, t_OwnerInstance := None,
              t_ClaimExpireAt := None, t_RetryCount := 0, t_CreatedAt := now, t_UpdatedAt := now\<rparr>))
       (\<lambda>r. returnE (row\<lparr>t_ID := t_ID r, t_CreatedAt := t_CreatedAt r, t_UpdatedAt := t_UpdatedAt r\<rparr>))"

definition GetTask :: "string \<Rightarrow> TaskRow dbm" where
  "GetTask i = map_err (not_found_or ''get task'') (bindE (sql_row (task_by_id i)) scan_task)"

definition GetTaskForUpdate :: "string \<Rightarrow> TaskRow dbm" where
  "GetTaskForUpdate i =
     map_err (not_found_or ''get task for update'') (bindE (sql_row (task_by_id i)) scan_task)"

record ListFilter =
  lf_TargetGatewayID :: string
  lf_TargetNodeID :: string
  lf_Status :: string
  lf_Type :: string
  lf_Limit :: int
  lf_Offset :: int

definition list_where :: "ListFilter \<Rightarrow> TaskRow \<Rightarrow> bool" where
  "list_where f r =
     ((lf_TargetGatewayID f \<noteq> [] \<longrightarrow> t_TargetGatewayID r = Some (lf_TargetGatewayID f))
      \<and> (lf_TargetNodeID f \<noteq> [] \<longrightarrow> t_TargetNodeID r = Some (lf_TargetNodeID f))
      \<and> (lf_Status f \<noteq> [] \<longrightarrow> t_Status r = lf_Status f)
      \<and> (lf_Type f \<noteq> [] \<longrightarrow> t_Type r = lf_Type f))"

definition ListTasks :: "ListFilter \<Rightarrow> (TaskRow list \<times> int) dbm" where
  "ListTasks f =
     bindE (map_err (wrap ''list tasks count'')
              (sql_read (\<lambda>t. int (count_where (list_where f) (tasks t)))))
       (\<lambda>total. bindE (map_err (wrap ''list tasks'')
              (sql_read_or (\<lambda>t. limit_offset (page_limit (lf_Limit f)) (lf_Offset f)
                 (order_desc t_CreatedAt (filter (list_where f) (tasks t))))))
       (\<lambda>rows. bindE (map_err (wrap ''scan task row'') (scan_tasks rows))
       (\<lambda>result. returnE (result, total))))"

section \<open>Events\<close>

definition createEventTx ::
  "string \<Rightarrow> string \<Rightarrow> string \<Rightarrow> string \<Rightarrow> string \<Rightarrow> raw \<Rightarrow> unit dbm" where
  "createEventTx taskID eventType oldStatus newStatus actor detail =
     (let detail = (if detail = Nil_Raw then empty_object else detail) in
      bindE (map_err (wrap ''create task event'')
        (insert_event (\<lambda>i now. \<lparr>e_ID = i, e_TaskID = taskID, e_Type = eventType,
           e_OldStatus = oldStatus, e_NewStatus = newStatus, e_Actor = actor, e_Detail = detail,
           e_CreatedAt = now\<rparr>)))
        (\<lambda>_. returnE ()))"

definition CreateTaskEvent ::
  "string \<Rightarrow> string \<Rightarrow> string \<Rightarrow> string \<Rightarrow> string \<Rightarrow> raw \<Rightarrow> unit dbm" where
  "CreateTaskEvent taskID eventType oldStatus newStatus actor detail =
     createEventTx taskID eventType oldStatus newStatus actor detail"

section \<open>Status, claims and results\<close>

definition UpdateStatus :: "string \<Rightarrow> string \<Rightarrow> string \<Rightarrow> string \<Rightarrow> raw \<Rightarrow> unit dbm" where
  "UpdateStatus taskID oldStatus newStatus actor detail =
     bindE (map_err (wrap ''update task status'')
       (update_tasks [] (\<lambda>_ r. t_ID r = taskID \<and> t_Status r = oldStatus)
          (\<lambda>now r. r\<lparr>t_Status := newStatus, t_UpdatedAt := now\<rparr>)))
       (\<lambda>n. if n = 0 then failE ErrPrecondition
             else createEventTx taskID ''status_change'' oldStatus newStatus actor detail)"

definition claimable :: "string \<Rightarrow> timestamp \<Rightarrow> TaskRow \<Rightarrow> bool" where
  "claimable taskID now r =
     (t_ID r = taskID
      \<and> (t_DispatchStatus r = ''Unclaimed''
         \<or> (case t_ClaimExpireAt r of None \<Rightarrow> False | Some e \<Rightarrow> e < now)))"

definition AtomicClaim :: "string \<Rightarrow> string \<Rightarrow> duration \<Rightarrow> bool dbm" where
  "AtomicClaim taskID ownerInstance claimDuration =
     bindE get_clock (\<lambda>now0. let expireAt = now0 + claimDuration in
     bindE (map_err (wrap ''atomic claim'')
       (update_tasks [] (claimable taskID)
          (\<lambda>now r. r\<lparr>t_DispatchStatus := ''Claimed'', t_OwnerInstance := Some ownerInstance,
             t_ClaimExpireAt := Some expireAt, t_UpdatedAt := now\<rparr>)))
       (\<lambda>n. returnE (n = 1)))"

definition MarkDelivered :: "string \<Rightarrow> unit dbm" where
  "MarkDelivered taskID =
     bindE (map_err (wrap ''mark delivered'')
       (update_tasks [] (\<lambda>_ r. t_ID r = taskID \<and> t_DispatchStatus r = ''Claimed'')
          (\<lambda>now r. r\<lparr>t_DispatchStatus := ''Delivered'', t_UpdatedAt := now\<rparr>)))
       (\<lambda>n. if n = 0 then failE ErrPrecondition else returnE ())"

definition UpdateResult :: "string \<Rightarrow> string \<Rightarrow> raw \<Rightarrow> int \<Rightarrow> unit dbm" where
  "UpdateResult taskID stat res retryCount =
     bindE (map_err (wrap ''update result'')
       (update_tasks [check_jsonb_null res] (\<lambda>_ r. t_ID r = taskID)
          (\<lambda>now r. r\<lparr>t_Status := stat, t_Result := res, t_RetryCount := retryCount, t_UpdatedAt := now\<rparr>)))
       (\<lambda>_. returnE ())"

section \<open>Runs\<close>

definition CreateTaskRun :: "string \<Rightarrow> string \<Rightarrow> int \<Rightarrow> TaskRunRow dbm" where
  "CreateTaskRun taskID nodeID attempt =
     map_err (wrap ''create task run'')
       (insert_run (\<lambda>i now. \<lparr>r_ID = i, r_TaskID = taskID, r_NodeID = nodeID, r_Attempt = attempt,
          r_Status = ''Running'', r_StartedAt = now, r_FinishedAt = None, r_ErrorMsg = None,
          r_Result = Nil_Raw, r_CreatedAt = now\<rparr>))"

definition UpdateTaskRun :: "string \<Rightarrow> string \<Rightarrow> string \<Rightarrow> raw \<Rightarrow> unit dbm" where
  "UpdateTaskRun runID stat errMsg res =
     bindE (map_err (wrap ''update task run'')
       (update_runs [check_jsonb_null res] (\<lambda>r. r_ID r = runID)
          (\<lambda>now r. r\<lparr>r_Status := stat, r_ErrorMsg := Some errMsg, r_Result := res,
             r_FinishedAt := Some now\<rparr>)))
       (\<lambda>_. returnE ())"

definition latest_attempt :: "string \<Rightarrow> TaskRunRow list \<Rightarrow> int" where
  "latest_attempt taskID rs =
     (case map r_Attempt (filter (\<lambda>r. r_TaskID r = taskID) rs) of
        [] \<Rightarrow> 0 | a # as \<Rightarrow> fold max as a)"

definition LatestAttempt :: "string \<Rightarrow> int dbm" where
  "LatestAttempt taskID =
     map_err (wrap ''latest attempt'') (sql_read (\<lambda>t. latest_attempt taskID (task_runs t)))"

section \<open>Idempotency\<close>

definition TaskResultKey :: "string \<Rightarrow> string \<Rightarrow> string" where
  "TaskResultKey taskID nodeID = taskID @ '':'' @ nodeID"

definition completed_runs :: "string \<Rightarrow> string \<Rightarrow> TaskRunRow list \<Rightarrow> TaskRunRow list" where
  "completed_runs taskID nodeID rs =
     order_desc r_Attempt (filter (\<lambda>r. r_TaskID r = taskID \<and> r_NodeID r = nodeID
        \<and> (r_Status r = ''Success'' \<or> r_Status r = ''Failed'')) rs)"

text \<open>A NULL error message or result is read as the empty string.\<close>

definition scan_run :: "TaskRunRow \<Rightarrow> TaskRunRow" where
  "scan_run r = r\<lparr>r_ErrorMsg := Some (case r_ErrorMsg r of None \<Rightarrow> [] | Some m \<Rightarrow> m),
     r_Result := (if r_Result r = Nil_Raw then Raw_Text [] else r_Result r)\<rparr>"

definition CheckAndSetTaskRun :: "string \<Rightarrow> string \<Rightarrow> TaskRunRow option dbm" where
  "CheckAndSetTaskRun taskID nodeID =
     map_err (wrap ''idempotency check'')
       (bindE (sql_read (\<lambda>t. completed_runs taskID nodeID (task_runs t)))
         (\<lambda>rs. case rs of [] \<Rightarrow> returnE None | r # _ \<Rightarrow> returnE (Some (scan_run r))))"

definition CheckIdempotencyKey :: "string \<Rightarrow> string dbm" where
  "CheckIdempotencyKey key =
     (if key = [] then returnE []
      else map_err (wrap ''idempotency key check'')
        (bindE (sql_read (\<lambda>t. find (\<lambda>r. t_IdempotencyKey r = Some key) (tasks t)))
          (\<lambda>r. case r of None \<Rightarrow> returnE [] | Some x \<Rightarrow> returnE (t_ID x))))"

section \<open>Every operation keeps the constraints of the schema\<close>

lemma keep_scan_task [keeps]: "keep I (scan_task r)"
  by (simp add: scan_task_def keeps)

lemma keep_scan_tasks [keeps]: "keep I (scan_tasks rs)"
  by (induction rs) (auto intro!: keeps)

lemma keep_CreateTask [keeps]: "keep db_wf (CreateTask row)"
  unfolding CreateTask_def by (intro keeps)

lemma keep_GetTask [keeps]: "keep I (GetTask i)"
  unfolding GetTask_def by (intro keeps)

lemma keep_GetTaskForUpdate [keeps]: "keep I (GetTaskForUpdate i)"
  unfolding GetTaskForUpdate_def by (intro keeps)

lemma keep_ListTasks [keeps]: "keep I (ListTasks f)"
  unfolding ListTasks_def by (intro keeps)

lemma keep_createEventTx [keeps]: "keep db_wf (createEventTx a b c d e f)"
  unfolding createEventTx_def by (intro keeps)

lemma keep_CreateTaskEvent [keeps]: "keep db_wf (CreateTaskEvent a b c d e f)"
  unfolding CreateTaskEvent_def by (intro keeps)

lemma keep_UpdateStatus [keeps]: "keep db_wf (UpdateStatus i old new actor detail)"
  unfolding UpdateStatus_def by (intro keeps keep_update_tasks) simp

lemma keep_AtomicClaim [keeps]: "keep db_wf (AtomicClaim i owner dur)"
  unfolding AtomicClaim_def Let_def by (intro keeps keep_update_tasks) simp

lemma keep_MarkDelivered [keeps]: "keep db_wf (MarkDelivered i)"
  unfolding MarkDelivered_def by (intro keeps keep_update_tasks) simp

lemma keep_UpdateResult [keeps]: "keep db_wf (UpdateResult i stat res n)"
  unfolding UpdateResult_def by (intro keeps keep_update_tasks) simp

lemma keep_CreateTaskRun [keeps]: "keep db_wf (CreateTaskRun i n a)"
  unfolding CreateTaskRun_def by (intro keeps)

lemma keep_UpdateTaskRun [keeps]: "keep db_wf (UpdateTaskRun i stat msg res)"
  unfolding UpdateTaskRun_def by (intro keeps keep_update_runs) simp

lemma keep_LatestAttempt [keeps]: "keep I (LatestAttempt i)"
  unfolding LatestAttempt_def by (intro keeps)

end
