(* ===== verification/Task_Service.thy ===== *)
theory Task_Service
  imports Task_Store Paging
begin

text \<open>
  The task API (\<open>internal/task/service.go\<close>): one definition per RPC, from the request record to a
  response or a gRPC status. A repeated or optional message field that is nil is an option; the
  other request fields are what the generated getters return.
\<close>

section \<open>Messages\<close>

record TaskMsg =
  tm_Id :: string
  tm_ParentTaskId :: string
  tm_Scope :: TaskScope
  tm_Type :: string
  tm_Status :: TaskStatus
  tm_TargetGatewayId :: string
  tm_TargetNodeId :: string
  tm_Payload :: raw
  tm_Result :: raw
  tm_DispatchStatus :: DispatchStatus
  tm_MaxRetries :: int
  tm_RetryCount :: int
  tm_TimeoutSeconds :: int
  tm_CreatedBy :: string
  tm_CreatedAt :: timestamp
  tm_UpdatedAt :: timestamp

record CreateTaskRequest =
  ct_Type :: string
  ct_Scope :: TaskScope
  ct_TargetGatewayId :: string
  ct_TargetNodeId :: string
  ct_Payload :: raw
  ct_MaxRetries :: int
  ct_TimeoutSeconds :: int
  ct_CreatedBy :: string

record ListTasksRequest =
  lt_TargetGatewayId :: string
  lt_TargetNodeId :: string
  lt_Status :: TaskStatus
  lt_Type :: string
  lt_Page :: "PageRequest option"

section \<open>Conversions\<close>

definition rowToProto :: "TaskRow \<Rightarrow> TaskMsg" where
  "rowToProto r =
     \<lparr>tm_Id = t_ID r,
      tm_ParentTaskId = opt_string (t_ParentTaskID r),
      tm_Scope = map_get TASK_SCOPE_UNSPECIFIED scopeToProto (t_Scope r),
      tm_Type = t_Type r,
      tm_Status = status_proto (t_Status r),
      tm_TargetGatewayId = opt_string (t_TargetGatewayID r),
      tm_TargetNodeId = opt_string (t_TargetNodeID r),
      tm_Payload = t_Payload r,
      tm_Result = t_Result r,
      tm_DispatchStatus = map_get DISPATCH_STATUS_UNSPECIFIED dispatchToProto (t_DispatchStatus r),
      tm_MaxRetries = wrap32 (t_MaxRetries r),
      tm_RetryCount = wrap32 (t_RetryCount r),
      tm_TimeoutSeconds = wrap32 (t_TimeoutSeconds r),
      tm_CreatedBy = t_CreatedBy r,
      tm_CreatedAt = t_CreatedAt r,
      tm_UpdatedAt = t_UpdatedAt r\<rparr>"

definition errToStatus :: "go_err \<Rightarrow> go_err" where
  "errToStatus e =
     (if errors_is e ErrNotFound then StatusErr NotFound ''task not found''
      else if errors_is e ErrPrecondition then StatusErr FailedPrecondition (err_text e)
      else if errors_is e ErrConflict \<or> errors_is e ErrAlreadyExists
        then StatusErr AlreadyExists (err_text e)
      else if as_invalid_transition e then StatusErr FailedPrecondition (err_text e)
      else StatusErr Internal (err_text e))"

section \<open>RPCs\<close>

definition new_task_row :: "CreateTaskRequest \<Rightarrow> string \<Rightarrow> TaskRow" where
  "new_task_row req scope =
     \<lparr>t_ID = [], t_ParentTaskID = None, t_Scope = scope, t_Type = ct_Type req,
      t_Status = ''Pending'',
      t_TargetGatewayID = null_if_empty (ct_TargetGatewayId req),
      t_TargetNodeID = null_if_empty (ct_TargetNodeId req),
      t_Payload = (if ct_Payload req = Nil_Raw then empty_object else ct_Payload req),
      t_Result = Nil_Raw, t_DispatchStatus = ''Unclaimed'',
      t_OwnerInstance = None, t_ClaimExpireAt = None,
      t_MaxRetries = (if ct_MaxRetries req \<le> 0 then DefaultMaxRetries else ct_MaxRetries req),
      t_RetryCount = 0,
      t_TimeoutSeconds = (if ct_TimeoutSeconds req \<le> 0 then 600 else ct_TimeoutSeconds req),
      t_IdempotencyKey = None, t_CreatedBy = ct_CreatedBy req, t_CreatedAt = 0, t_UpdatedAt = 0\<rparr>"

definition Service_CreateTask :: "CreateTaskRequest \<Rightarrow> TaskMsg dbm" where
  "Service_CreateTask req =
     (if ct_Type req = [] then failE (StatusErr InvalidArgument ''type is required'')
      else case map_of protoToScope (ct_Scope req) of
        None \<Rightarrow> failE (StatusErr InvalidArgument ''valid scope is required'')
      | Some scope \<Rightarrow>
          if ct_Scope req = TASK_SCOPE_UNSPECIFIED
          then failE (StatusErr InvalidArgument ''valid scope is required'')
          else
            let row = new_task_row req scope;
                detail = Raw_JSON (json_of_smap [(''scope'', scope), (''type'', t_Type row)]) in
            bindE (map_err (internal_error ''create task'')
              (WithTx
                (bindE (CreateTask row) (\<lambda>row.
                 bindE (CreateTaskEvent (t_ID row) ''created'' [] ''Pending'' (t_CreatedBy row) detail)
                   (\<lambda>_. returnE row)))))
              (\<lambda>created. returnE (rowToProto created)))"

definition Service_GetTask :: "string \<Rightarrow> TaskMsg dbm" where
  "Service_GetTask i =
     (if i = [] then failE (StatusErr InvalidArgument ''id is required'')
      else bindE (map_err errToStatus (GetTask i)) (\<lambda>row. returnE (rowToProto row)))"

definition Service_ListTasks :: "ListTasksRequest \<Rightarrow> (TaskMsg list \<times> PageResponse) dbm" where
  "Service_ListTasks req =
     (let pageSize = page_size_of (lt_Page req); offset = page_offset_of (lt_Page req);
          statusFilter = (if lt_Status req \<noteq> TASK_STATUS_UNSPECIFIED
                          then status_text (lt_Status req) else []) in
      bindE (map_err (internal_error ''list tasks'')
        (ListTasks \<lparr>lf_TargetGatewayID = lt_TargetGatewayId req, lf_TargetNodeID = lt_TargetNodeId req,
           lf_Status = statusFilter, lf_Type = lt_Type req, lf_Limit = pageSize, lf_Offset = offset\<rparr>))
        (\<lambda>(rows, total). returnE (map rowToProto rows, page_response offset pageSize total)))"

definition cancel_body :: "string \<Rightarrow> string \<Rightarrow> TaskRow dbm" where
  "cancel_body i reason =
     bindE (GetTaskForUpdate i) (\<lambda>row.
       let currentProto = status_proto (t_Status row) in
       if IsTerminal currentProto
       then failE (Wrap [] ErrPrecondition ('': task is already in terminal state: '' @ t_Status row))
       else if \<not> ValidateTransition currentProto TASK_STATUS_CANCELLED
       then failE (invalid_transition currentProto TASK_STATUS_CANCELLED)
       else
         bindE (UpdateStatus (t_ID row) (t_Status row) ''Cancelled'' ''user''
                  (Raw_JSON (json_of_smap [(''reason'', reason)])))
           (\<lambda>_. returnE (row\<lparr>t_Status := ''Cancelled''\<rparr>)))"

definition Service_CancelTask :: "string \<Rightarrow> string \<Rightarrow> TaskMsg dbm" where
  "Service_CancelTask i reason =
     (if i = [] then failE (StatusErr InvalidArgument ''id is required'')
      else bindE (map_err errToStatus (WithTx (cancel_body i reason)))
             (\<lambda>row. returnE (rowToProto row)))"

lemma keep_Service_CreateTask [keeps]: "keep db_wf (Service_CreateTask req)"
  unfolding Service_CreateTask_def Let_def by (intro keeps)

lemma keep_Service_GetTask [keeps]: "keep I (Service_GetTask i)"
  unfolding Service_GetTask_def by (intro keeps)

lemma keep_cancel_body [keeps]: "keep db_wf (cancel_body i reason)"
  unfolding cancel_body_def Let_def by (intro keeps)

lemma keep_Service_CancelTask [keeps]: "keep db_wf (Service_CancelTask i reason)"
  unfolding Service_CancelTask_def by (intro keeps)

section \<open>Behaviour of the store in a quiet session\<close>

lemma scan_task_some: "t_Result r \<noteq> Nil_Raw \<Longrightarrow> scan_task r d = (Inr r, d)"
  by (simp add: scan_task_def returnE_def)

lemma scan_task_null: "t_Result r = Nil_Raw \<Longrightarrow> scan_task r d = (Inl null_result_error, d)"
  by (simp add: scan_task_def failE_def)

lemma scan_tasks_some: "\<forall>r \<in> set rs. t_Result r \<noteq> Nil_Raw \<Longrightarrow> scan_tasks rs d = (Inr rs, d)"
  by (induction rs) (auto simp: bindE_def scan_task_some returnE_def)

lemma task_by_id_wf: "db_wf t \<Longrightarrow> r \<in> set (tasks t) \<Longrightarrow> task_by_id (t_ID r) t = Some r"
  by (simp add: task_by_id_def db_wf_def tasks_wf_def find_key_unique)

lemma task_id_eq: "db_wf t \<Longrightarrow> r \<in> set (tasks t) \<Longrightarrow> x \<in> set (tasks t) \<Longrightarrow> (t_ID x = t_ID r) = (x = r)"
  by (auto simp: db_wf_def tasks_wf_def dest: inj_onD [rotated 1] simp: distinct_map)

lemma GetTaskForUpdate_quiet:
  "quiet d \<Longrightarrow> task_by_id i (tabs d) = Some r \<Longrightarrow> t_Result r \<noteq> Nil_Raw \<Longrightarrow>
     GetTaskForUpdate i d = (Inr r, d\<lparr>stmt_no := Suc (stmt_no d)\<rparr>)"
  by (simp add: GetTaskForUpdate_def run_defs sql_row_quiet scan_task_some)

lemma UpdateStatus_quiet:
  assumes d: "quiet d" and wf: "db_wf (tabs d)" and r: "r \<in> set (tasks (tabs d))"
    and fresh: "uuid_gen d (Suc (stmt_no d)) 0 \<notin> set (all_ids (tabs d))"
  shows "UpdateStatus (t_ID r) (t_Status r) new actor (Raw_JSON j) d =
    (Inr (), d\<lparr>stmt_no := stmt_no d + 2, tabs := (tabs d)\<lparr>
       tasks := update_where (\<lambda>x. t_ID x = t_ID r) (\<lambda>x. x\<lparr>t_Status := new, t_UpdatedAt := clock d\<rparr>) (tasks (tabs d)),
       task_events := task_events (tabs d) @
         [\<lparr>e_ID = uuid_gen d (Suc (stmt_no d)) 0, e_TaskID = t_ID r, e_Type = ''status_change'',
           e_OldStatus = t_Status r, e_NewStatus = new, e_Actor = actor, e_Detail = Raw_JSON j,
           e_CreatedAt = clock d\<rparr>]\<rparr>\<rparr>)"
proof -
  have same: "update_where (\<lambda>x. t_ID x = t_ID r \<and> t_Status x = t_Status r) f (tasks (tabs d)) =
        update_where (\<lambda>x. t_ID x = t_ID r) f (tasks (tabs d))" for f
    unfolding update_where_def using wf r by (auto dest: task_id_eq)
  have "count_where (\<lambda>x. t_ID x = t_ID r \<and> t_Status x = t_Status r) (tasks (tabs d)) \<noteq> 0"
    using r by (auto simp: count_where_0_iff)
  then show ?thesis
    using d r fresh
    by (simp add: UpdateStatus_def run_defs update_tasks_quiet createEventTx_def same
        insert_event_quiet [OF _ refl] task_ids_def image_update_where all_ids_def)
qed

section \<open>Properties\<close>


text \<open>A database with one gateway, one node and two tasks, for the examples of the theories.\<close>

definition example_task :: "string \<Rightarrow> string \<Rightarrow> raw \<Rightarrow> TaskRow" where
  "example_task i stat res = \<lparr>t_ID = i, t_ParentTaskID = None, t_Scope = ''Node'', t_Type = ''shell'',
     t_Status = stat, t_TargetGatewayID = Some ''g1'', t_TargetNodeID = Some ''n1'',
     t_Payload = empty_object, t_Result = res, t_DispatchStatus = ''Unclaimed'', t_OwnerInstance = None,
     t_ClaimExpireAt = None, t_MaxRetries = 3, t_RetryCount = 0, t_TimeoutSeconds = 600,
     t_IdempotencyKey = None, t_CreatedBy = ''ops'', t_CreatedAt = 3, t_UpdatedAt = 3\<rparr>"

definition example_tables :: tables where
  "example_tables = empty_tables\<lparr>gateways := [example_gateway], edge_nodes := [example_node],
     tasks := [example_task ''t1'' ''Running'' empty_object, example_task ''t2'' ''Pending'' Nil_Raw]\<rparr>"

lemmas example_defs =
  example_tables_def empty_tables_def example_gateway_def example_node_def example_task_def

lemma example_wf: "db_wf example_tables"
  by (simp add: example_defs db_wf_def table_wf_defs table_ids)

lemma example_fresh: "fresh_supply (session_at example_tables now)"
  by (rule session_at_fresh) (simp add: example_defs all_ids_def)

lemma example_ids [simp]:
  "gateway_ids example_tables = {''g1''}" "node_ids example_tables = {''n1''}"
  "length (tasks example_tables) = 2"
  by (simp_all add: example_defs table_ids)


section \<open>Creating a task\<close>

lemma CreateTask_quiet:
  assumes "quiet d" "fresh_supply d" "t_Payload row = Raw_JSON j"
    and "task_refs (gateway_ids (tabs d)) (node_ids (tabs d)) (task_ids (tabs d)) row"
  shows "CreateTask row d =
    (Inr (row\<lparr>t_ID := uuid_gen d (stmt_no d) 0, t_CreatedAt := clock d, t_UpdatedAt := clock d\<rparr>),
     d\<lparr>stmt_no := Suc (stmt_no d), tabs := (tabs d)\<lparr>tasks := tasks (tabs d) @
       [row\<lparr>t_ID := uuid_gen d (stmt_no d) 0, t_Result := Nil_Raw, t_OwnerInstance := None,
          t_ClaimExpireAt := None, t_RetryCount := 0, t_CreatedAt := clock d, t_UpdatedAt := clock d\<rparr>]\<rparr>\<rparr>)"
  using assms fresh_notin [OF assms(2), of "stmt_no d" 0]
  by (auto simp: CreateTask_def run_defs insert_task_def sql_quiet Let_def guarded_def check_jsonb_def
      check_jsonb_null_def check_unique_def check_fk_def task_refs_def table_ids all_ids_def
      split: option.splits)

definition created_task :: "CreateTaskRequest \<Rightarrow> string \<Rightarrow> session \<Rightarrow> TaskRow" where
  "created_task req scope d =
     (new_task_row req scope)\<lparr>t_ID := uuid_gen d (Suc (stmt_no d)) 0, t_CreatedAt := clock d, t_UpdatedAt := clock d\<rparr>"

lemma Service_CreateTask_quiet:
  assumes "quiet d" "fresh_supply d" "ct_Type req \<noteq> []" "map_of protoToScope (ct_Scope req) = Some scope"
    and "ct_Payload req = Nil_Raw \<or> ct_Payload req = Raw_JSON j"
    and "ct_TargetGatewayId req = [] \<or> ct_TargetGatewayId req \<in> gateway_ids (tabs d)"
    and "ct_TargetNodeId req = [] \<or> ct_TargetNodeId req \<in> node_ids (tabs d)"
  obtains d1 ev where "Service_CreateTask req d = (Inr (rowToProto (created_task req scope d)), d1)"
    and "tabs d1 = (tabs d)\<lparr>tasks := tasks (tabs d) @ [created_task req scope d], task_events := task_events (tabs d) @ [ev]\<rparr>"
    and "e_TaskID ev = t_ID (created_task req scope d) \<and> e_Type ev = ''created'' \<and> e_NewStatus ev = ''Pending''"
proof -
  let ?row = "new_task_row req scope"
  have spec: "ct_Scope req \<noteq> TASK_SCOPE_UNSPECIFIED" using assms(4) by (auto simp: protoToScope_def)
  obtain j' where payload: "t_Payload ?row = Raw_JSON j'"
    using assms(5) by (auto simp: new_task_row_def empty_object_def)
  have refs: "task_refs (gateway_ids (tabs d)) (node_ids (tabs d)) (task_ids (tabs d)) ?row"
    using assms(6,7) by (auto simp: task_refs_def new_task_row_def null_if_empty_def)
  have fresh: "fresh_supply (start_tx d)"
    using assms(2) by (auto simp: fresh_supply_def)
  have new: "uuid_gen d n k \<notin> set (all_ids (tabs d))" if "stmt_no d \<le> n" for n k
    using assms(2) that by (rule fresh_notin)
  have same: "?row\<lparr>t_ID := i, t_Result := Nil_Raw, t_OwnerInstance := None, t_ClaimExpireAt := None,
      t_RetryCount := 0, t_CreatedAt := x, t_UpdatedAt := y\<rparr> = ?row\<lparr>t_ID := i, t_CreatedAt := x, t_UpdatedAt := y\<rparr>"
    for i x y by (simp add: new_task_row_def)
  note create = CreateTask_quiet [of "start_tx d" ?row j', simplified, OF assms(1) fresh payload refs]
  from that show ?thesis
    using assms(1,3,4) spec new [of "Suc (Suc (stmt_no d))" 0]
    by (simp add: Service_CreateTask_def Let_def run_defs WithTx_quiet create commit_tx_quiet same created_task_def
        CreateTaskEvent_def createEventTx_def insert_event_quiet [OF _ refl] task_ids_def all_ids_def)
qed

text \<open>C31: CreateTask. A valid request whose targets exist adds exactly one task and one event, in one
  transaction, and returns the task: Pending, Unclaimed, with the retry and timeout defaults where the
  request has no positive value, with the payload of the request or the empty object, and with no
  result. A request without a type or with a scope outside the enum is refused and changes nothing.\<close>

theorem create_task_outcome:
  assumes "quiet d" "fresh_supply d"
    and "ct_Payload req = Nil_Raw \<or> ct_Payload req = Raw_JSON j"
    and "ct_TargetGatewayId req = [] \<or> ct_TargetGatewayId req \<in> gateway_ids (tabs d)"
    and "ct_TargetNodeId req = [] \<or> ct_TargetNodeId req \<in> node_ids (tabs d)"
  shows "if ct_Type req \<noteq> [] \<and> ct_Scope req \<in> {TASK_SCOPE_REGION, TASK_SCOPE_NODE}
    then \<exists>msg d1 r ev. Service_CreateTask req d = (Inr msg, d1) \<and> msg = rowToProto r
      \<and> tabs d1 = (tabs d)\<lparr>tasks := tasks (tabs d) @ [r], task_events := task_events (tabs d) @ [ev]\<rparr>
      \<and> t_Status r = ''Pending'' \<and> t_DispatchStatus r = ''Unclaimed'' \<and> t_Result r = Nil_Raw
      \<and> t_MaxRetries r = (if ct_MaxRetries req \<le> 0 then 3 else ct_MaxRetries req)
      \<and> t_TimeoutSeconds r = (if ct_TimeoutSeconds req \<le> 0 then 600 else ct_TimeoutSeconds req)
      \<and> t_Payload r = (if ct_Payload req = Nil_Raw then empty_object else ct_Payload req)
      \<and> t_RetryCount r = 0 \<and> t_CreatedAt r = clock d \<and> t_ID r \<notin> task_ids (tabs d)
      \<and> e_TaskID ev = t_ID r \<and> e_Type ev = ''created'' \<and> e_NewStatus ev = ''Pending''
    else \<exists>msg. Service_CreateTask req d = (Inl (StatusErr InvalidArgument msg), d)"
proof (cases "ct_Type req \<noteq> [] \<and> ct_Scope req \<in> {TASK_SCOPE_REGION, TASK_SCOPE_NODE}")
  case False
  then show ?thesis
    by (cases "ct_Scope req") (auto simp: Service_CreateTask_def failE_def protoToScope_def)
next
  case True
  then obtain scope where scope: "map_of protoToScope (ct_Scope req) = Some scope"
    by (auto simp: protoToScope_def)
  let ?r = "created_task req scope d"
  from True have named: "ct_Type req \<noteq> []" by blast
  obtain d1 ev where run: "Service_CreateTask req d = (Inr (rowToProto ?r), d1)"
    "tabs d1 = (tabs d)\<lparr>tasks := tasks (tabs d) @ [?r], task_events := task_events (tabs d) @ [ev]\<rparr>"
    "e_TaskID ev = t_ID ?r \<and> e_Type ev = ''created'' \<and> e_NewStatus ev = ''Pending''"
    by (rule Service_CreateTask_quiet [OF assms(1,2) named scope assms(3-5)])
  have "t_ID ?r \<notin> task_ids (tabs d)"
    using fresh_notin [OF assms(2), of "Suc (stmt_no d)" 0] by (simp add: created_task_def task_ids_def all_ids_def)
  then have rest: "t_ID ?r \<notin> task_ids (tabs d) \<and> t_Status ?r = ''Pending'' \<and> t_DispatchStatus ?r = ''Unclaimed''
      \<and> t_Result ?r = Nil_Raw \<and> t_RetryCount ?r = 0 \<and> t_CreatedAt ?r = clock d
      \<and> t_MaxRetries ?r = (if ct_MaxRetries req \<le> 0 then 3 else ct_MaxRetries req)
      \<and> t_TimeoutSeconds ?r = (if ct_TimeoutSeconds req \<le> 0 then 600 else ct_TimeoutSeconds req)
      \<and> t_Payload ?r = (if ct_Payload req = Nil_Raw then empty_object else ct_Payload req)"
    by (simp add: created_task_def new_task_row_def DefaultMaxRetries_def)
  show ?thesis
    unfolding if_P [OF True]
    by (rule exI [of _ "rowToProto ?r"], rule exI [of _ d1], rule exI [of _ ?r], rule exI [of _ ev])
      (use run rest in blast)
qed

definition example_create :: CreateTaskRequest where
  "example_create = \<lparr>ct_Type = ''shell'', ct_Scope = TASK_SCOPE_NODE, ct_TargetGatewayId = ''g1'',
     ct_TargetNodeId = ''n1'', ct_Payload = Nil_Raw, ct_MaxRetries = 0, ct_TimeoutSeconds = 30,
     ct_CreatedBy = ''ops''\<rparr>"

theorem create_task_outcome_witness:
  "\<exists>msg d1. Service_CreateTask example_create (session_at example_tables 9) = (Inr msg, d1)
     \<and> length (tasks (tabs d1)) = 3"
  using create_task_outcome [of "session_at example_tables 9" example_create JNull]
  by (auto simp: example_create_def example_fresh)

section \<open>Listing tasks\<close>

definition list_filter :: "ListTasksRequest \<Rightarrow> ListFilter" where
  "list_filter req = \<lparr>lf_TargetGatewayID = lt_TargetGatewayId req, lf_TargetNodeID = lt_TargetNodeId req,
     lf_Status = (if lt_Status req \<noteq> TASK_STATUS_UNSPECIFIED then status_text (lt_Status req) else []),
     lf_Type = lt_Type req, lf_Limit = page_size_of (lt_Page req), lf_Offset = page_offset_of (lt_Page req)\<rparr>"

text \<open>The whole listing a request asks for, page by page: the matching tasks, newest first.\<close>

definition task_listing :: "ListTasksRequest \<Rightarrow> tables \<Rightarrow> TaskRow list" where
  "task_listing req t = order_desc t_CreatedAt (filter (list_where (list_filter req)) (tasks t))"

definition readable_listing :: "ListTasksRequest \<Rightarrow> tables \<Rightarrow> bool" where
  "readable_listing req t = (\<forall>r \<in> set (task_listing req t). t_Result r \<noteq> Nil_Raw)"

lemma list_where_page [simp]:
  "list_where (list_filter (req\<lparr>lt_Page := p\<rparr>)) = list_where (list_filter req)"
  by (rule ext) (simp add: list_where_def list_filter_def)

lemma task_listing_page [simp]: "task_listing (req\<lparr>lt_Page := p\<rparr>) = task_listing req"
  by (rule ext) (simp add: task_listing_def)

lemma readable_listing_page [simp]: "readable_listing (req\<lparr>lt_Page := p\<rparr>) = readable_listing req"
  by (rule ext) (simp add: readable_listing_def)

lemma Service_ListTasks_quiet:
  assumes "quiet d" "readable_listing req (tabs d)" "0 \<le> page_offset_of (lt_Page req)"
  shows "\<exists>d'. Service_ListTasks req d =
    (Inr (map rowToProto (take (nat (page_limit (page_size_of (lt_Page req))))
             (drop (nat (page_offset_of (lt_Page req))) (task_listing req (tabs d)))),
          page_response (page_offset_of (lt_Page req)) (page_size_of (lt_Page req))
             (int (length (task_listing req (tabs d))))), d')
    \<and> quiet d' \<and> tabs d' = tabs d"
proof -
  let ?rs = "take (nat (page_limit (page_size_of (lt_Page req))))
     (drop (nat (page_offset_of (lt_Page req))) (task_listing req (tabs d)))"
  have "\<forall>r \<in> set ?rs. t_Result r \<noteq> Nil_Raw"
    using assms(2) by (auto simp: readable_listing_def dest!: in_set_takeD in_set_dropD)
  then have scan: "scan_tasks ?rs d' = (Inr ?rs, d')" for d' by (rule scan_tasks_some)
  have lim: "0 \<le> page_limit (page_size_of (lt_Page req))" by (simp add: page_limit_def)
  have page: "limit_offset (page_limit (page_size_of (lt_Page req))) (page_offset_of (lt_Page req))
      (task_listing req (tabs d)) = Inr ?rs"
    using lim assms(3) by (rule limit_offset_ok)
  have cnt: "count_where (list_where (list_filter req)) (tasks (tabs d)) = length (task_listing req (tabs d))"
    by (simp add: count_where_def task_listing_def)
  have "ListTasks (list_filter req) d = (Inr (?rs, int (length (task_listing req (tabs d)))),
      d\<lparr>stmt_no := Suc (Suc (stmt_no d))\<rparr>)"
    using assms(1) page cnt scan unfolding ListTasks_def task_listing_def
    by (simp add: run_defs sql_read_quiet sql_read_or_quiet list_filter_def)
  with assms(1) show ?thesis
    by (simp add: Service_ListTasks_def run_defs Let_def list_filter_def)
qed

lemma task_paging_serve:
  assumes "quiet d" "readable_listing req (tabs d)" "0 < n" "n \<le> 100"
    and "0 \<le> page_offset_of (Some \<lparr>pg_PageSize = n, pg_PageToken = tok\<rparr>)"
  shows "\<exists>d'. Service_ListTasks (req\<lparr>lt_Page := Some \<lparr>pg_PageSize = n, pg_PageToken = tok\<rparr>\<rparr>) d =
    (Inr (take (nat n) (drop (nat (page_offset_of (Some \<lparr>pg_PageSize = n, pg_PageToken = tok\<rparr>)))
            (map rowToProto (task_listing req (tabs d)))),
          page_response (page_offset_of (Some \<lparr>pg_PageSize = n, pg_PageToken = tok\<rparr>)) n
            (int (length (map rowToProto (task_listing req (tabs d)))))), d')
    \<and> quiet d' \<and> tabs d' = tabs d"
  using Service_ListTasks_quiet [of d "req\<lparr>lt_Page := Some \<lparr>pg_PageSize = n, pg_PageToken = tok\<rparr>\<rparr>"] assms
  by (simp add: page_size_pos page_limit_id take_map drop_map)

interpretation task_paging: paged_listing
  "\<lambda>page. Service_ListTasks (req\<lparr>lt_Page := page\<rparr>)"
  "\<lambda>t. map rowToProto (task_listing req t)" "readable_listing req" 100
  for req :: ListTasksRequest
  by unfold_locales (rule task_paging_serve)

text \<open>Paging of ListTasks. A client that follows the page tokens with a page size from 1 to 100
  gets every matching task exactly once, newest first. With a page size above 100 the store serves 20
  rows while the token advances by the size asked for: of a listing that fits in one such page the
  client gets the first 20 tasks and an empty token, and never the others.\<close>

lemma list_tasks_paging:
  assumes "quiet d" "readable_listing req (tabs d)" "int (length (task_listing req (tabs d))) < 2 ^ 62"
  shows "(\<forall>n. 0 < n \<and> n \<le> 100 \<longrightarrow>
      fst (walk (Suc (length (task_listing req (tabs d)))) (\<lambda>page. Service_ListTasks (req\<lparr>lt_Page := page\<rparr>)) n [] d) =
      Inr (map rowToProto (task_listing req (tabs d))))
    \<and> (\<forall>n fuel. 100 < n \<and> n < 2 ^ 31 \<and> int (length (task_listing req (tabs d))) \<le> n \<longrightarrow>
      fst (walk (Suc fuel) (\<lambda>page. Service_ListTasks (req\<lparr>lt_Page := page\<rparr>)) n [] d) =
      Inr (map rowToProto (take 20 (task_listing req (tabs d)))))"
proof (intro conjI allI impI)
  fix n :: int
  assume n: "0 < n \<and> n \<le> 100"
  then show "fst (walk (Suc (length (task_listing req (tabs d)))) (\<lambda>page. Service_ListTasks (req\<lparr>lt_Page := page\<rparr>)) n [] d) =
      Inr (map rowToProto (task_listing req (tabs d)))"
    using task_paging.walk_all [of d req n] assms by simp
next
  fix n :: int and fuel
  assume n: "100 < n \<and> n < 2 ^ 31 \<and> int (length (task_listing req (tabs d))) \<le> n"
  let ?p = "Some \<lparr>pg_PageSize = n, pg_PageToken = []\<rparr>"
  have "wrap64 n = n" using n by (intro wrap64_id) auto
  then show "fst (walk (Suc fuel) (\<lambda>page. Service_ListTasks (req\<lparr>lt_Page := page\<rparr>)) n [] d) =
      Inr (map rowToProto (take 20 (task_listing req (tabs d))))"
    using Service_ListTasks_quiet [of d "req\<lparr>lt_Page := ?p\<rparr>"] assms n
    by (auto simp: page_size_pos page_offset_empty page_limit_def page_response_def next_token_def
        bindE_def returnE_def)
qed

definition example_list :: ListTasksRequest where
  "example_list = \<lparr>lt_TargetGatewayId = [], lt_TargetNodeId = ''n1'', lt_Status = TASK_STATUS_RUNNING,
     lt_Type = [], lt_Page = None\<rparr>"

lemma list_tasks_paging_witness:
  "fst (walk 2 (\<lambda>page. Service_ListTasks (example_list\<lparr>lt_Page := page\<rparr>)) 1 [] (session_at example_tables 9)) =
     Inr [rowToProto (example_task ''t1'' ''Running'' empty_object)]"
proof -
  have l: "task_listing example_list example_tables = [example_task ''t1'' ''Running'' empty_object]"
    by (simp add: task_listing_def list_where_def list_filter_def example_list_def example_defs
        status_text_def map_get_def protoToStatus_def order_desc_def)
  have "readable_listing example_list example_tables"
    by (simp add: readable_listing_def l example_task_def empty_object_def)
  with list_tasks_paging [of "session_at example_tables 9" example_list] have
    "fst (walk (Suc (length (task_listing example_list example_tables)))
       (\<lambda>page. Service_ListTasks (example_list\<lparr>lt_Page := page\<rparr>)) 1 [] (session_at example_tables 9)) =
     Inr (map rowToProto (task_listing example_list example_tables))"
    by (simp add: l del: walk.simps)
  then show ?thesis by (simp add: l numeral_2_eq_2 del: walk.simps)
qed

end
