(* ===== verification/Task_Claims.thy ===== *)
theory Task_Claims
  imports Task_Service
begin

text \<open>
  The claim race. Instances of the gateway runtime claim tasks with \<open>AtomicClaim\<close>; here the
  operations that touch a task's claim are interleaved in any order, each in its own transaction
  and with any faults, and the theorem says that a claim is exclusive until it expires.
\<close>

datatype claim_op =
    Claim string string duration
  | Deliver string
  | SetStatus string string string string
  | SetResult string string raw int
  | Advance nat

text \<open>One operation: whether it is a claim of the given task that was won, and the new session.\<close>

fun exec_op :: "string \<Rightarrow> claim_op \<Rightarrow> session \<Rightarrow> bool \<times> session" where
  "exec_op tid (Claim i owner dur) d =
     (case WithTx (AtomicClaim i owner dur) d of (res, d1) \<Rightarrow> (i = tid \<and> res = Inr True, d1))"
| "exec_op tid (Deliver i) d = (False, snd (WithTx (MarkDelivered i) d))"
| "exec_op tid (SetStatus i old new actor) d =
     (False, snd (WithTx (UpdateStatus i old new actor Nil_Raw) d))"
| "exec_op tid (SetResult i stat res n) d = (False, snd (WithTx (UpdateResult i stat res n) d))"
| "exec_op tid (Advance n) d = (False, d\<lparr>clock := clock d + int n\<rparr>)"

fun claims_won :: "string \<Rightarrow> claim_op list \<Rightarrow> session \<Rightarrow> nat" where
  "claims_won tid [] d = 0"
| "claims_won tid (op # ops) d =
     (case exec_op tid op d of (w, d1) \<Rightarrow> (if w then 1 else 0) + claims_won tid ops d1)"

fun time_passed :: "claim_op list \<Rightarrow> int" where
  "time_passed [] = 0"
| "time_passed (Advance n # ops) = int n + time_passed ops"
| "time_passed (_ # ops) = time_passed ops"

lemma time_passed_nonneg: "0 \<le> time_passed ops"
  by (induction ops rule: time_passed.induct) auto

text \<open>The task is claimed until the instant \<open>e\<close>.\<close>

definition held :: "string \<Rightarrow> timestamp \<Rightarrow> tables \<Rightarrow> bool" where
  "held tid e t =
     (\<forall>r \<in> set (tasks t). t_ID r = tid \<longrightarrow> t_DispatchStatus r \<noteq> ''Unclaimed'' \<and> t_ClaimExpireAt r = Some e)"

lemma keep_update_tasks_held:
  assumes "\<And>now r. t_ID (f now r) = t_ID r \<and> t_ClaimExpireAt (f now r) = t_ClaimExpireAt r"
    and "\<And>now r. t_DispatchStatus r \<noteq> ''Unclaimed'' \<Longrightarrow> t_DispatchStatus (f now r) \<noteq> ''Unclaimed''"
  shows "keep (held tid e) (update_tasks cs p f)"
  unfolding update_tasks_def
  by (rule keep_sql) (use assms in \<open>auto simp: guarded_Inr held_def set_update_where\<close>)

lemma keep_insert_event_held [keeps]: "keep (held tid e) (insert_event mk)"
  by (rule keepI) (auto simp: held_def dest: insert_event_tabs)

lemma keep_event_held [keeps]: "keep (held tid e) (createEventTx a b c f g h)"
  unfolding createEventTx_def by (intro keeps)

lemma keep_others_held:
  "keep (held tid e) (MarkDelivered i)"
  "keep (held tid e) (UpdateStatus i old new actor detail)"
  "keep (held tid e) (UpdateResult i stat res n)"
  unfolding MarkDelivered_def UpdateStatus_def UpdateResult_def
  by (intro keeps keep_update_tasks_held; simp)+

lemma AtomicClaim_run:
  assumes "AtomicClaim i owner dur d = (r, d1)"
  shows "(tabs d1 = tabs d \<and> (\<exists>e. r = Inl e))
    \<or> (tabs d1 = (tabs d)\<lparr>tasks := update_where (claimable i (clock d))
          (\<lambda>x. x\<lparr>t_DispatchStatus := ''Claimed'', t_OwnerInstance := Some owner,
             t_ClaimExpireAt := Some (clock d + dur), t_UpdatedAt := clock d\<rparr>) (tasks (tabs d))\<rparr>
       \<and> r = Inr (count_where (claimable i (clock d)) (tasks (tabs d)) = 1))"
proof (cases "update_tasks [] (claimable i) (\<lambda>now r. r\<lparr>t_DispatchStatus := ''Claimed'',
      t_OwnerInstance := Some owner, t_ClaimExpireAt := Some (clock d + dur), t_UpdatedAt := now\<rparr>) d")
  case (Pair q d2)
  with assms show ?thesis
    by (cases q) (auto simp: AtomicClaim_def run_defs Let_def dest!: update_tasks_InrD update_tasks_InlD)
qed

lemma AtomicClaim_held:
  assumes "held tid e (tabs d)" "clock d \<le> e" "AtomicClaim i owner dur d = (r, d1)"
  shows "held tid e (tabs d1) \<and> (i = tid \<longrightarrow> r \<noteq> Inr True)"
proof -
  have none: "count_where (claimable tid (clock d)) (tasks (tabs d)) = 0"
    using assms(1,2) by (auto simp: count_where_0_iff claimable_def held_def)
  have "\<not> claimable i (clock d) x" if "x \<in> set (tasks (tabs d))" "t_ID x = tid" for x
    using assms(1,2) that by (auto simp: claimable_def held_def)
  then show ?thesis
    using AtomicClaim_run [OF assms(3)] assms(1) none
    by (auto simp: held_def set_update_where split: if_splits)
qed

lemma WithTx_AtomicClaim_held:
  assumes "held tid e (tabs d)" "clock d \<le> e" "WithTx (AtomicClaim i owner dur) d = (r, d1)"
  shows "held tid e (tabs d1) \<and> (i = tid \<longrightarrow> r \<noteq> Inr True)"
proof (cases r)
  case (Inl x)
  with assms show ?thesis by (auto dest: WithTx_error_tabs)
next
  case (Inr b)
  with assms(3) obtain d' d2 where "AtomicClaim i owner dur d' = (Inr b, d2)"
    "tabs d' = tabs d" "clock d' = clock d" "tabs d1 = tabs d2"
    by (auto dest!: WithTx_InrD)
  with AtomicClaim_held [of tid e d' i owner dur] assms(1,2) Inr show ?thesis by auto
qed

lemma WithTx_AtomicClaim_wins:
  assumes "db_wf (tabs d)" "WithTx (AtomicClaim i owner dur) d = (Inr True, d1)"
  shows "held i (clock d + dur) (tabs d1)"
proof -
  obtain d' d2 where run: "AtomicClaim i owner dur d' = (Inr True, d2)"
    "tabs d' = tabs d" "clock d' = clock d" "tabs d1 = tabs d2"
    using assms(2) by (auto dest!: WithTx_InrD)
  let ?c = "claimable i (clock d)"
  from AtomicClaim_run [OF run(1)] run have upd: "tasks (tabs d1) = update_where ?c
      (\<lambda>x. x\<lparr>t_DispatchStatus := ''Claimed'', t_OwnerInstance := Some owner,
         t_ClaimExpireAt := Some (clock d + dur), t_UpdatedAt := clock d\<rparr>) (tasks (tabs d))"
    and one: "count_where ?c (tasks (tabs d)) = 1" by auto
  then obtain x where x: "x \<in> set (tasks (tabs d))" "?c x"
    by (metis One_nat_def count_where_0_iff zero_neq_one)
  from x(2) have "t_ID x = i" by (simp add: claimable_def)
  with x have all: "?c y" if "y \<in> set (tasks (tabs d))" "t_ID y = i" for y
    using task_id_eq [OF assms(1) x(1) that(1)] that by simp
  show ?thesis
    unfolding held_def upd set_update_where by (auto dest: all)
qed

lemma timeless_ops [clocks]:
  "timeless (AtomicClaim i owner dur)" "timeless (MarkDelivered i)"
  "timeless (UpdateStatus i old new actor detail)" "timeless (UpdateResult i stat res n)"
  unfolding AtomicClaim_def MarkDelivered_def UpdateStatus_def UpdateResult_def createEventTx_def
  by (intro clocks)+

lemma exec_op_held:
  assumes "held tid e (tabs d)" "clock d \<le> e" "exec_op tid op d = (w, d1)"
  shows "held tid e (tabs d1) \<and> \<not> w \<and> clock d1 = clock d + time_passed [op]"
proof (cases op)
  case (Claim i owner dur)
  obtain r d2 where run: "WithTx (AtomicClaim i owner dur) d = (r, d2)" by force
  then have "clock d2 = clock d" by (rule timelessD [rotated]) (intro clocks)
  with run WithTx_AtomicClaim_held [OF assms(1,2) run] assms(3) Claim show ?thesis by auto
next
  case (Deliver i)
  have "clock (snd (WithTx (MarkDelivered i) d)) = clock d"
    using timeless_WithTx [OF timeless_ops(2)] by (simp add: timeless_def)
  moreover have "held tid e (tabs (snd (WithTx (MarkDelivered i) d)))"
    using keep_WithTx [OF keep_others_held(1)] assms(1) by (simp add: keep_def)
  ultimately show ?thesis using assms(3) Deliver by auto
next
  case (SetStatus i old new actor)
  have "clock (snd (WithTx (UpdateStatus i old new actor Nil_Raw) d)) = clock d"
    using timeless_WithTx [OF timeless_ops(3)] by (simp add: timeless_def)
  moreover have "held tid e (tabs (snd (WithTx (UpdateStatus i old new actor Nil_Raw) d)))"
    using keep_WithTx [OF keep_others_held(2)] assms(1) by (simp add: keep_def)
  ultimately show ?thesis using assms(3) SetStatus by auto
next
  case (SetResult i stat res n)
  have "clock (snd (WithTx (UpdateResult i stat res n) d)) = clock d"
    using timeless_WithTx [OF timeless_ops(4)] by (simp add: timeless_def)
  moreover have "held tid e (tabs (snd (WithTx (UpdateResult i stat res n) d)))"
    using keep_WithTx [OF keep_others_held(3)] assms(1) by (simp add: keep_def)
  ultimately show ?thesis using assms(3) SetResult by auto
next
  case (Advance n)
  with assms show ?thesis by auto
qed

lemma time_passed_Cons: "time_passed (op # ops) = time_passed [op] + time_passed ops"
  by (cases op) auto

lemma claims_won_held:
  "held tid e (tabs d) \<Longrightarrow> clock d + time_passed ops \<le> e \<Longrightarrow> claims_won tid ops d = 0"
proof (induction ops arbitrary: d)
  case Nil
  then show ?case by simp
next
  case (Cons op ops)
  obtain w d1 where run: "exec_op tid op d = (w, d1)" by force
  have "clock d \<le> e" using Cons.prems(2) time_passed_nonneg [of "op # ops"] by simp
  from exec_op_held [OF Cons.prems(1) this run] Cons show ?case
    by (simp add: run time_passed_Cons [of op ops])
qed

text \<open>C9: a claim is exclusive until it expires. Once an instance has won the claim of a task, then
  whatever claims, deliveries, status changes and results the instances issue in whatever order, each
  in its own transaction and with any statement failing, no claim of that task is won again while no
  more than the claim's duration has passed.\<close>

theorem atomic_claim_exclusive:
  assumes "db_wf (tabs d)"
    and "WithTx (AtomicClaim tid owner dur) d = (Inr True, d1)"
    and "time_passed ops \<le> dur"
  shows "claims_won tid ops d1 = 0"
proof -
  have "clock d1 = clock d"
    using assms(2) by (rule timelessD [rotated]) (intro clocks)
  then show ?thesis
    using claims_won_held [OF WithTx_AtomicClaim_wins [OF assms(1,2)]] assms(3) by simp
qed

theorem atomic_claim_exclusive_witness:
  "claims_won ''t2'' [Claim ''t2'' ''gw-b'' 30, Deliver ''t2'', Advance 25, Claim ''t2'' ''gw-c'' 30]
     (snd (WithTx (AtomicClaim ''t2'' ''gw-a'' 30) (session_at example_tables 9))) = 0"
proof -
  obtain r d1 where run: "WithTx (AtomicClaim ''t2'' ''gw-a'' 30) (session_at example_tables 9) = (r, d1)"
    by force
  then have "r = Inr True"
    by (simp add: WithTx_quiet AtomicClaim_def run_defs update_tasks_quiet commit_tx_quiet Let_def
        claimable_def example_defs)
  with run show ?thesis
    using atomic_claim_exclusive [of "session_at example_tables 9" "''t2''" "''gw-a''" 30 d1
        "[Claim ''t2'' ''gw-b'' 30, Deliver ''t2'', Advance 25, Claim ''t2'' ''gw-c'' 30]"]
    by (simp add: example_wf)
qed

end
