(* ===== verification/Identity_Cache.thy ===== *)
theory Identity_Cache
  imports Integrity
begin

text \<open>
  The gateway's identity cache (\<open>internal/gateway/identity_cache.go\<close>): certificate fingerprints
  mapped to the identity they prove, each entry valid for the time to live of the cache, reloaded
  from the database when missing or expired, and dropped on identity events.
\<close>

datatype IdentityEventType =
    IDENTITY_EVENT_TYPE_UNSPECIFIED | IDENTITY_EVENT_TYPE_REVOKED | IDENTITY_EVENT_TYPE_SUSPENDED
  | IDENTITY_EVENT_TYPE_RENEWED | IDENTITY_EVENT_TYPE_OTHER int

datatype IdentityStatus =
    IDENTITY_STATUS_UNSPECIFIED | IDENTITY_STATUS_ACTIVE | IDENTITY_STATUS_REVOKED
  | IDENTITY_STATUS_SUSPENDED | IDENTITY_STATUS_OTHER int

record CachedIdentity =
  ci_NodeID :: string
  ci_GatewayID :: string
  ci_Status :: IdentityStatus
  ci_ExpireAt :: timestamp

record IdentityCache =
  ic_entries :: "string \<rightharpoonup> CachedIdentity"
  ic_ttl :: duration

record NotifyIdentityEventRequest =
  ne_IdentityId :: string
  ne_NodeId :: string
  ne_Fingerprint :: string
  ne_EventType :: IdentityEventType

definition NewIdentityCache :: "duration \<Rightarrow> IdentityCache" where
  "NewIdentityCache cfgTTL = \<lparr>ic_entries = Map.empty, ic_ttl = (if cfgTTL = 0 then 30 * second else cfgTTL)\<rparr>"

definition Invalidate :: "string \<Rightarrow> IdentityCache \<Rightarrow> IdentityCache" where
  "Invalidate fingerprint c = c\<lparr>ic_entries := (ic_entries c)(fingerprint := None)\<rparr>"

definition active_identity :: "string \<Rightarrow> tables \<Rightarrow> identityRow option" where
  "active_identity fingerprint t =
     find (\<lambda>i. id_Fingerprint i = fingerprint \<and> id_Status i = ''Active'') (edge_identities t)"

text \<open>The two halves of \<open>loadFromDB\<close>: the query, and what is stored of its answer. Other calls may
  come in between, as the query holds no lock.\<close>

definition load_query :: "string \<Rightarrow> identityRow option dbm" where
  "load_query fingerprint = sql_read (active_identity fingerprint)"

definition load_store ::
  "string \<Rightarrow> identityRow option \<Rightarrow> timestamp \<Rightarrow> IdentityCache \<Rightarrow> CachedIdentity option \<times> IdentityCache" where
  "load_store fingerprint row now c =
     (case row of
        None \<Rightarrow> (None, Invalidate fingerprint c)
      | Some i \<Rightarrow>
          let entry = \<lparr>ci_NodeID = id_NodeID i, ci_GatewayID = id_GatewayID i,
                 ci_Status = IDENTITY_STATUS_ACTIVE, ci_ExpireAt = now + ic_ttl c\<rparr>
          in (Some entry, c\<lparr>ic_entries := (ic_entries c)(fingerprint \<mapsto> entry)\<rparr>))"

type_synonym gwstate = "IdentityCache \<times> session"

definition loadFromDB :: "string \<Rightarrow> gwstate \<Rightarrow> (go_err + CachedIdentity option) \<times> gwstate" where
  "loadFromDB fingerprint = (\<lambda>(c, d).
     case load_query fingerprint d of
       (Inl e, d1) \<Rightarrow> (Inl e, (c, d1))
     | (Inr row, d1) \<Rightarrow> (case load_store fingerprint row (clock d1) c of (r, c1) \<Rightarrow> (Inr r, (c1, d1))))"

definition Lookup :: "string \<Rightarrow> gwstate \<Rightarrow> (go_err + CachedIdentity option) \<times> gwstate" where
  "Lookup fingerprint = (\<lambda>(c, d).
     case ic_entries c fingerprint of
       Some entry \<Rightarrow>
         if clock d < ci_ExpireAt entry then (Inr (Some entry), (c, d)) else loadFromDB fingerprint (c, d)
     | None \<Rightarrow> loadFromDB fingerprint (c, d))"

definition HandleIdentityEvent :: "NotifyIdentityEventRequest \<Rightarrow> IdentityCache \<Rightarrow> IdentityCache" where
  "HandleIdentityEvent req c =
     (if ne_EventType req \<in> {IDENTITY_EVENT_TYPE_REVOKED, IDENTITY_EVENT_TYPE_SUSPENDED}
      then Invalidate (ne_Fingerprint req) c
      else if ne_EventType req = IDENTITY_EVENT_TYPE_RENEWED then Invalidate (ne_Fingerprint req) c
      else c)"

section \<open>Runs of the cache\<close>

text \<open>What may happen to a gateway: requests that look up a fingerprint, identity events, time
  passing, and the control plane changing the database in any way.\<close>

datatype gw_step =
    Request string | Event NotifyIdentityEventRequest | Wait nat | Db_Change tables

fun cache_step :: "gw_step \<Rightarrow> gwstate \<Rightarrow> gwstate" where
  "cache_step (Request f) s = snd (Lookup f s)"
| "cache_step (Event req) (c, d) = (HandleIdentityEvent req c, d)"
| "cache_step (Wait n) (c, d) = (c, d\<lparr>clock := clock d + int n\<rparr>)"
| "cache_step (Db_Change t) (c, d) = (c, d\<lparr>tabs := t\<rparr>)"

text \<open>The states a gateway goes through, from a start state, and the moments (time and tables) of them.\<close>

fun gw_run :: "gw_step list \<Rightarrow> gwstate \<Rightarrow> gwstate" where
  "gw_run [] s = s"
| "gw_run (x # xs) s = gw_run xs (cache_step x s)"

fun gw_moments :: "gw_step list \<Rightarrow> gwstate \<Rightarrow> (timestamp \<times> tables) list" where
  "gw_moments [] s = [(clock (snd s), tabs (snd s))]"
| "gw_moments (x # xs) s = (clock (snd s), tabs (snd s)) # gw_moments xs (cache_step x s)"

text \<open>At the moment \<open>m\<close> the database holds the active identity the entry describes.\<close>

definition vouched :: "string \<Rightarrow> CachedIdentity \<Rightarrow> timestamp \<times> tables \<Rightarrow> bool" where
  "vouched f e m =
     (\<exists>i \<in> set (edge_identities (snd m)). id_Fingerprint i = f \<and> id_Status i = ''Active''
        \<and> id_NodeID i = ci_NodeID e \<and> id_GatewayID i = ci_GatewayID e)"

definition backed :: "(timestamp \<times> tables) set \<Rightarrow> IdentityCache \<Rightarrow> bool" where
  "backed H c = (\<forall>f e. ic_entries c f = Some e \<longrightarrow>
     (\<exists>m \<in> H. vouched f e m \<and> ci_ExpireAt e = fst m + ic_ttl c))"

lemma load_query_frame: "load_query f d = (r, d1) \<Longrightarrow> tabs d1 = tabs d \<and> clock d1 = clock d"
  unfolding load_query_def by (rule sql_read_tabs)

lemma load_query_Inr: "load_query f d = (Inr r, d1) \<Longrightarrow> r = active_identity f (tabs d)"
  unfolding load_query_def by (auto dest: sql_read_InrD)

lemma active_identity_vouched:
  "active_identity f t = Some i \<Longrightarrow>
     i \<in> set (edge_identities t) \<and> id_Fingerprint i = f \<and> id_Status i = ''Active''"
  unfolding active_identity_def by (auto dest: find_Some_set)

lemma backed_Invalidate: "backed H c \<Longrightarrow> backed H (Invalidate f c)"
  by (auto simp: backed_def Invalidate_def)

lemma ttl_Invalidate [simp]: "ic_ttl (Invalidate f c) = ic_ttl c"
  by (simp add: Invalidate_def)

lemma loadFromDB_run:
  assumes "backed H c" "loadFromDB f (c, d) = (r, s1)" "(clock d, tabs d) \<in> H"
  shows "backed H (fst s1) \<and> clock (snd s1) = clock d \<and> tabs (snd s1) = tabs d \<and> ic_ttl (fst s1) = ic_ttl c
    \<and> (\<forall>e. r = Inr (Some e) \<longrightarrow> vouched f e (clock d, tabs d))"
proof -
  obtain q d1 where load: "load_query f d = (q, d1)" by force
  note frame = load_query_frame [OF load]
  show ?thesis
  proof (cases q)
    case (Inl e)
    with assms load frame show ?thesis by (auto simp: loadFromDB_def)
  next
    case (Inr row)
    with load have row: "row = active_identity f (tabs d)" by (auto dest: load_query_Inr)
    show ?thesis
    proof (cases row)
      case None
      with assms load frame Inr show ?thesis
        by (auto simp: loadFromDB_def load_store_def backed_Invalidate)
    next
      case (Some i)
      note i = active_identity_vouched [of f "tabs d" i]
      let ?e = "\<lparr>ci_NodeID = id_NodeID i, ci_GatewayID = id_GatewayID i,
          ci_Status = IDENTITY_STATUS_ACTIVE, ci_ExpireAt = clock d + ic_ttl c\<rparr>"
      have v: "vouched f ?e (clock d, tabs d)"
        using i row Some by (auto simp: vouched_def)
      from assms load frame Inr Some have run: "r = Inr (Some ?e)"
        "s1 = (c\<lparr>ic_entries := (ic_entries c)(f \<mapsto> ?e)\<rparr>, d1)"
        by (auto simp: loadFromDB_def load_store_def Let_def)
      have "backed H (fst s1)"
        unfolding backed_def run using assms(1,3) v by (auto simp: backed_def)
      with run v frame show ?thesis by auto
    qed
  qed
qed

lemma Lookup_run:
  assumes "backed H c" "Lookup f (c, d) = (r, s1)" "(clock d, tabs d) \<in> H"
  shows "backed H (fst s1) \<and> clock (snd s1) = clock d \<and> tabs (snd s1) = tabs d \<and> ic_ttl (fst s1) = ic_ttl c
    \<and> (\<forall>e. r = Inr (Some e) \<longrightarrow>
         (\<exists>m \<in> H. vouched f e m \<and> (clock d < fst m + ic_ttl c \<or> m = (clock d, tabs d))))"
proof (cases "\<exists>e. ic_entries c f = Some e \<and> clock d < ci_ExpireAt e")
  case True
  then obtain e where e: "ic_entries c f = Some e" "clock d < ci_ExpireAt e" by blast
  with assms(2) have "r = Inr (Some e)" "s1 = (c, d)" by (auto simp: Lookup_def)
  moreover from assms(1) e obtain m where "m \<in> H" "vouched f e m" "ci_ExpireAt e = fst m + ic_ttl c"
    unfolding backed_def by blast
  ultimately show ?thesis using assms(1) e by auto
next
  case False
  with assms(2) have "loadFromDB f (c, d) = (r, s1)"
    by (auto simp: Lookup_def split: option.splits if_splits)
  from loadFromDB_run [OF assms(1) this assms(3)] assms(3) show ?thesis by blast
qed

lemma cache_step_backed:
  assumes "backed H (fst s)" "(clock (snd s), tabs (snd s)) \<in> H"
  shows "backed H (fst (cache_step x s)) \<and> ic_ttl (fst (cache_step x s)) = ic_ttl (fst s)"
proof (cases x)
  case (Request f)
  obtain r s1 where look: "Lookup f (fst s, snd s) = (r, s1)" by (cases "Lookup f (fst s, snd s)")
  from Lookup_run [OF assms(1) look assms(2)] look Request show ?thesis by auto
next
  case (Event req)
  with assms show ?thesis by (cases s) (auto simp: HandleIdentityEvent_def backed_Invalidate)
next
  case (Wait n)
  with assms show ?thesis by (cases s) auto
next
  case (Db_Change t)
  with assms show ?thesis by (cases s) auto
qed

lemma backed_mono: "backed H c \<Longrightarrow> H \<subseteq> H' \<Longrightarrow> backed H' c"
  unfolding backed_def by blast

lemma gw_run_backed:
  assumes "backed H (fst s)"
  shows "backed (H \<union> set (gw_moments xs s)) (fst (gw_run xs s))
    \<and> ic_ttl (fst (gw_run xs s)) = ic_ttl (fst s)
    \<and> (clock (snd (gw_run xs s)), tabs (snd (gw_run xs s))) \<in> set (gw_moments xs s)"
  using assms
proof (induction xs arbitrary: s H)
  case Nil
  then show ?case by (auto intro: backed_mono)
next
  case (Cons x xs)
  let ?H = "insert (clock (snd s), tabs (snd s)) H"
  have "backed ?H (fst s)" using Cons.prems by (rule backed_mono) auto
  then have "backed ?H (fst (cache_step x s)) \<and> ic_ttl (fst (cache_step x s)) = ic_ttl (fst s)"
    by (rule cache_step_backed) simp
  with Cons.IH [of ?H "cache_step x s"] show ?case by auto
qed


section \<open>Revocation\<close>

text \<open>No active identity of the fingerprint, neither in the database nor in the cache.\<close>

definition revoked :: "string \<Rightarrow> gwstate \<Rightarrow> bool" where
  "revoked f s = (active_identity f (tabs (snd s)) = None \<and> ic_entries (fst s) f = None)"

definition keeps_revoked :: "string \<Rightarrow> gw_step \<Rightarrow> bool" where
  "keeps_revoked f x = (case x of Db_Change t \<Rightarrow> active_identity f t = None | _ \<Rightarrow> True)"

lemma Lookup_revoked:
  assumes "revoked f s" "Lookup g s = (r, s1)"
  shows "revoked f s1 \<and> (g = f \<longrightarrow> (\<forall>e. r \<noteq> Inr (Some e)))"
proof -
  obtain c d where s: "s = (c, d)" by force
  obtain q d1 where load: "load_query g d = (q, d1)" by force
  note frame = load_query_frame [OF load] load_query_Inr [of g d _ d1]
  show ?thesis
    using assms s load frame
    by (auto simp: revoked_def Lookup_def loadFromDB_def load_store_def Invalidate_def Let_def
        split: option.splits if_splits sum.splits)
qed

lemma gw_step_revoked: "revoked f s \<Longrightarrow> keeps_revoked f x \<Longrightarrow> revoked f (cache_step x s)"
proof (cases x)
  case (Request g)
  assume "revoked f s"
  with Lookup_revoked [of f s g] Request show ?thesis by (cases "Lookup g s") auto
qed (cases s, auto simp: revoked_def keeps_revoked_def HandleIdentityEvent_def Invalidate_def)+

lemma gw_run_revoked: "revoked f s \<Longrightarrow> \<forall>x \<in> set xs. keeps_revoked f x \<Longrightarrow> revoked f (gw_run xs s)"
  by (induction xs arbitrary: s) (simp_all add: gw_step_revoked)

text \<open>C30: revocation. Once the database holds no Active identity of a fingerprint and the gateway has
  got the revocation event for it, no lookup of that fingerprint ever returns an identity, whatever
  happens afterwards except that the identity becomes Active again. But a load whose query ran before
  the revocation may store its answer after the event: then the revoked identity is returned until the
  entry expires, a time to live later.\<close>

theorem identity_revocation_effective:
  "(\<forall>c d f req xs r s2.
      active_identity f (tabs d) = None \<and> ne_Fingerprint req = f \<and> ne_EventType req = IDENTITY_EVENT_TYPE_REVOKED
      \<and> (\<forall>x \<in> set xs. keeps_revoked f x)
      \<and> Lookup f (gw_run xs (HandleIdentityEvent req c, d)) = (r, s2) \<longrightarrow> (\<forall>e. r \<noteq> Inr (Some e)))
   \<and> (\<forall>c d f req i now t. active_identity f (tabs d) = Some i \<and> 0 < ic_ttl c \<longrightarrow>
      (\<exists>e. fst (Lookup f (snd (load_store f (active_identity f (tabs d)) now (HandleIdentityEvent req c)),
                 d\<lparr>tabs := t, clock := now + ic_ttl c - 1\<rparr>)) = Inr (Some e) \<and> ci_NodeID e = id_NodeID i))"
proof (intro conjI allI impI)
  fix c d f req xs r s2 e
  assume a: "active_identity f (tabs d) = None \<and> ne_Fingerprint req = f \<and> ne_EventType req = IDENTITY_EVENT_TYPE_REVOKED
      \<and> (\<forall>x \<in> set xs. keeps_revoked f x)
      \<and> Lookup f (gw_run xs (HandleIdentityEvent req c, d)) = (r, s2)"
  then have "revoked f (HandleIdentityEvent req c, d)"
    by (auto simp: revoked_def HandleIdentityEvent_def Invalidate_def)
  with a have "revoked f (gw_run xs (HandleIdentityEvent req c, d))" by (auto intro: gw_run_revoked)
  with a show "r \<noteq> Inr (Some e)" by (auto dest: Lookup_revoked)
next
  fix c :: IdentityCache and d :: session and f req i now t
  assume "active_identity f (tabs d) = Some i \<and> 0 < ic_ttl c"
  moreover have "ic_ttl (HandleIdentityEvent req c) = ic_ttl c"
    by (simp add: HandleIdentityEvent_def)
  ultimately show "\<exists>e. fst (Lookup f (snd (load_store f (active_identity f (tabs d)) now (HandleIdentityEvent req c)),
                 d\<lparr>tabs := t, clock := now + ic_ttl c - 1\<rparr>)) = Inr (Some e) \<and> ci_NodeID e = id_NodeID i"
    by (auto simp: load_store_def Let_def Lookup_def)
qed

definition example_identity :: identityRow where
  "example_identity = \<lparr>id_ID = ''i1'', id_NodeID = ''n1'', id_GatewayID = ''g1'', id_Serial = ''SN1'',
     id_Fingerprint = ''fp1'', id_Status = ''Active'', id_CertificatePEM = ''pem'', id_ExpiresAt = 1000,
     id_IssuedAt = 2, id_RevokedAt = None, id_CreatedAt = 2, id_UpdatedAt = 2\<rparr>"

definition identity_tables :: tables where
  "identity_tables = empty_tables\<lparr>edge_identities := [example_identity]\<rparr>"

lemma load_query_quiet:
  "quiet d \<Longrightarrow> load_query f d = (Inr (active_identity f (tabs d)), d\<lparr>stmt_no := Suc (stmt_no d)\<rparr>)"
  by (simp add: load_query_def sql_read_quiet)


theorem identity_revocation_effective_witness:
  "\<forall>e. fst (Lookup ''fp1'' (gw_run [Wait 5, Request ''fp1'']
      (HandleIdentityEvent \<lparr>ne_IdentityId = ''i1'', ne_NodeId = ''n1'', ne_Fingerprint = ''fp1'',
         ne_EventType = IDENTITY_EVENT_TYPE_REVOKED\<rparr> (NewIdentityCache 0), session_at empty_tables 9)))
    \<noteq> Inr (Some e)"
  using conjunct1 [OF identity_revocation_effective, rule_format,
      of "''fp1''" "session_at empty_tables 9" "\<lparr>ne_IdentityId = ''i1'', ne_NodeId = ''n1'', ne_Fingerprint = ''fp1'',
         ne_EventType = IDENTITY_EVENT_TYPE_REVOKED\<rparr>" "[Wait 5, Request ''fp1'']" "NewIdentityCache 0"]
  by (auto simp: active_identity_def empty_tables_def keeps_revoked_def) (metis prod.collapse)

end
