(* ===== verification/Auth.thy ===== *)
theory Auth
  imports Identity_Cache
begin

text \<open>
  The two interceptors of the RPC servers: mutual TLS with the identity cache for agents
  (\<open>internal/gateway/auth.go\<close>) and static bearer tokens for administrators
  (\<open>internal/gateway/admin_auth.go\<close>). What TLS and the metadata of a call say is the context; the
  hex-encoded SHA-256 of a certificate is the parameter \<open>digest\<close>. A handler is a function of the
  context and the request that threads its state.
\<close>

datatype peer_info = No_Peer | Peer_Without_TLS | Peer_TLS "string list"

record rpc_ctx =
  cx_peer :: peer_info
  cx_metadata :: "(string \<times> string list) list option"
  cx_NodeID :: "string option"
  cx_GatewayID :: "string option"
  cx_AdminSubject :: "string option"

type_synonym ('q, 's, 'p) handler = "rpc_ctx \<Rightarrow> 'q \<Rightarrow> 's \<Rightarrow> (go_err + 'p) \<times> 's"

definition ctx_string :: "string option \<Rightarrow> string" where
  "ctx_string v = (case v of None \<Rightarrow> [] | Some s \<Rightarrow> s)"

definition NodeIDFromContext :: "rpc_ctx \<Rightarrow> string" where
  "NodeIDFromContext ctx = ctx_string (cx_NodeID ctx)"

definition GatewayIDFromContext :: "rpc_ctx \<Rightarrow> string" where
  "GatewayIDFromContext ctx = ctx_string (cx_GatewayID ctx)"

definition AdminSubjectFromContext :: "rpc_ctx \<Rightarrow> string" where
  "AdminSubjectFromContext ctx = ctx_string (cx_AdminSubject ctx)"

section \<open>Mutual TLS\<close>

definition extractFingerprint :: "(string \<Rightarrow> string) \<Rightarrow> rpc_ctx \<Rightarrow> go_err + string" where
  "extractFingerprint digest ctx =
     (case cx_peer ctx of
        No_Peer \<Rightarrow> Inl (StatusErr Unauthenticated ''no peer info'')
      | Peer_Without_TLS \<Rightarrow> Inl (StatusErr Unauthenticated ''no TLS info'')
      | Peer_TLS [] \<Rightarrow> Inl (StatusErr Unauthenticated ''no client certificate'')
      | Peer_TLS (cert # _) \<Rightarrow> Inr (digest cert))"

record AuthInterceptorConfig =
  ac_GatewayID :: string
  ac_SkipMethods :: "string list"

definition NewAuthInterceptor ::
  "(string \<Rightarrow> string) \<Rightarrow> (string \<Rightarrow> 's \<Rightarrow> (go_err + CachedIdentity option) \<times> 's) \<Rightarrow> AuthInterceptorConfig
     \<Rightarrow> string \<Rightarrow> ('q, 's, 'p) handler \<Rightarrow> ('q, 's, 'p) handler" where
  "NewAuthInterceptor digest lookup cfg fullMethod handler = (\<lambda>ctx req s.
     if fullMethod \<in> set (ac_SkipMethods cfg) then handler ctx req s
     else case extractFingerprint digest ctx of
       Inl e \<Rightarrow> (Inl e, s)
     | Inr fingerprint \<Rightarrow>
         (case lookup fingerprint s of
            (Inl e, s1) \<Rightarrow> (Inl (StatusErr Internal (''identity lookup failed: '' @ err_text e)), s1)
          | (Inr None, s1) \<Rightarrow> (Inl (StatusErr Unauthenticated ''unknown client certificate''), s1)
          | (Inr (Some identity), s1) \<Rightarrow>
              if \<not> equal_fold (ci_GatewayID identity) (ac_GatewayID cfg)
              then (Inl (StatusErr PermissionDenied ''GATEWAY_MISMATCH''), s1)
              else handler (ctx\<lparr>cx_NodeID := Some (ci_NodeID identity),
                     cx_GatewayID := Some (ci_GatewayID identity)\<rparr>) req s1))"

text \<open>
  What the interceptor relies on: a lookup that returns an identity has it from a source that
  vouches for it (\<open>trusted\<close>), in the state the lookup starts from.
\<close>

locale identity_source =
  fixes lookup :: "string \<Rightarrow> 's \<Rightarrow> (go_err + CachedIdentity option) \<times> 's"
    and trusted :: "'s \<Rightarrow> string \<Rightarrow> CachedIdentity \<Rightarrow> bool"
    and sound :: "'s \<Rightarrow> bool"
  assumes lookup_trusted: "sound s \<Longrightarrow> lookup f s = (Inr (Some e), s1) \<Longrightarrow> trusted s f e"
begin

text \<open>Either the handler ran, for a skipped method or with the identity the certificate proves, or
  the call failed with one of the interceptor's errors.\<close>

lemma interceptor_sound:
  assumes "sound s" "fullMethod \<notin> set (ac_SkipMethods cfg)"
    and "NewAuthInterceptor digest lookup cfg fullMethod handler ctx req s = (r, s2)"
  shows "(\<exists>cert certs e s1. cx_peer ctx = Peer_TLS (cert # certs) \<and> trusted s (digest cert) e
        \<and> equal_fold (ci_GatewayID e) (ac_GatewayID cfg)
        \<and> handler (ctx\<lparr>cx_NodeID := Some (ci_NodeID e), cx_GatewayID := Some (ci_GatewayID e)\<rparr>) req s1 = (r, s2))
    \<or> (\<exists>c m. r = Inl (StatusErr c m) \<and> c \<in> {Unauthenticated, PermissionDenied, Internal})"
proof (cases "extractFingerprint digest ctx")
  case (Inl e)
  then have "\<exists>m. e = StatusErr Unauthenticated m"
    by (auto simp: extractFingerprint_def split: peer_info.splits list.splits)
  with Inl assms show ?thesis by (auto simp: NewAuthInterceptor_def)
next
  case (Inr f)
  then obtain cert certs where f: "cx_peer ctx = Peer_TLS (cert # certs)" "f = digest cert"
    by (auto simp: extractFingerprint_def split: peer_info.splits list.splits)
  obtain q s1 where look: "lookup f s = (q, s1)" by force
  show ?thesis
  proof (cases "\<exists>e. q = Inr (Some e) \<and> equal_fold (ci_GatewayID e) (ac_GatewayID cfg)")
    case True
    then obtain e where e: "q = Inr (Some e)" "equal_fold (ci_GatewayID e) (ac_GatewayID cfg)" by blast
    with look assms(1) have "trusted s f e" by (auto intro: lookup_trusted)
    with e f look Inr assms show ?thesis by (auto simp: NewAuthInterceptor_def)
  next
    case False
    with look Inr assms(2,3) show ?thesis
      by (auto simp: NewAuthInterceptor_def split: sum.splits option.splits if_splits)
  qed
qed

end

text \<open>The gateway's cache is such a source: an entry it returns is in the cache and not expired, or
  the database holds the identity now.\<close>

definition cached_or_active :: "gwstate \<Rightarrow> string \<Rightarrow> CachedIdentity \<Rightarrow> bool" where
  "cached_or_active s f e =
     ((ic_entries (fst s) f = Some e \<and> clock (snd s) < ci_ExpireAt e)
      \<or> vouched f e (clock (snd s), tabs (snd s)))"

lemma Lookup_cached_or_active:
  assumes "Lookup f s = (Inr (Some e), s1)"
  shows "cached_or_active s f e"
proof (cases "\<exists>e. ic_entries (fst s) f = Some e \<and> clock (snd s) < ci_ExpireAt e")
  case True
  with assms show ?thesis by (cases s) (auto simp: Lookup_def cached_or_active_def)
next
  case False
  with assms have load: "loadFromDB f (fst s, snd s) = (Inr (Some e), s1)"
    by (cases s) (auto simp: Lookup_def split: option.splits if_splits)
  have "backed {(clock (snd s), tabs (snd s))} ((fst s)\<lparr>ic_entries := Map.empty\<rparr>)"
    by (simp add: backed_def)
  moreover obtain s1' where "loadFromDB f ((fst s)\<lparr>ic_entries := Map.empty\<rparr>, snd s) = (Inr (Some e), s1')"
    using load by (fastforce simp: loadFromDB_def load_store_def Let_def
        split: prod.splits sum.splits option.splits)
  ultimately show ?thesis
    by (auto simp: cached_or_active_def dest: loadFromDB_run)
qed

interpretation gateway_identities: identity_source Lookup cached_or_active "\<lambda>_. True"
  by unfold_locales (rule Lookup_cached_or_active)

text \<open>Mutual TLS. Unless its method is exempt, a call reaches its handler only if its client
  certificate's fingerprint belongs to an identity that the cache holds unexpired or the database
  holds as Active, and that identity's gateway is this gateway; the handler then sees that identity's
  node and gateway in its context. Every other call ends with Unauthenticated, PermissionDenied or
  Internal and does not reach the handler.\<close>

lemma mtls_interceptor_sound:
  assumes "fullMethod \<notin> set (ac_SkipMethods cfg)"
    and "NewAuthInterceptor digest Lookup cfg fullMethod handler ctx req s = (r, s2)"
  shows "(\<exists>cert certs e s1. cx_peer ctx = Peer_TLS (cert # certs) \<and> cached_or_active s (digest cert) e
        \<and> equal_fold (ci_GatewayID e) (ac_GatewayID cfg)
        \<and> handler (ctx\<lparr>cx_NodeID := Some (ci_NodeID e), cx_GatewayID := Some (ci_GatewayID e)\<rparr>) req s1 = (r, s2))
    \<or> (\<exists>c m. r = Inl (StatusErr c m) \<and> c \<in> {Unauthenticated, PermissionDenied, Internal})"
  using gateway_identities.interceptor_sound [OF TrueI assms] .

definition example_ctx :: "string list \<Rightarrow> rpc_ctx" where
  "example_ctx certs = \<lparr>cx_peer = Peer_TLS certs, cx_metadata = None, cx_NodeID = None,
     cx_GatewayID = None, cx_AdminSubject = None\<rparr>"

lemma mtls_interceptor_sound_witness:
  "\<exists>r s2. NewAuthInterceptor (\<lambda>c. c) Lookup \<lparr>ac_GatewayID = ''G1'', ac_SkipMethods = []\<rparr> ''/Pull''
        (\<lambda>ctx q s. (Inr (NodeIDFromContext ctx), s)) (example_ctx [''fp1'']) ()
        (NewIdentityCache 0, session_at identity_tables 9) = (r, s2)
     \<and> r = Inr ''n1''
     \<and> cached_or_active (NewIdentityCache 0, session_at identity_tables 9) ''fp1''
         \<lparr>ci_NodeID = ''n1'', ci_GatewayID = ''g1'', ci_Status = IDENTITY_STATUS_ACTIVE, ci_ExpireAt = 9 + 30 * second\<rparr>"
proof -
  let ?cfg = "\<lparr>ac_GatewayID = ''G1'', ac_SkipMethods = []\<rparr>"
  let ?s = "(NewIdentityCache 0, session_at identity_tables 9)"
  let ?h = "\<lambda>ctx (q :: unit) s :: gwstate. (Inr (ci_GatewayID
      \<lparr>ci_NodeID = [], ci_GatewayID = NodeIDFromContext ctx, ci_Status = IDENTITY_STATUS_ACTIVE, ci_ExpireAt = 0\<rparr>)
      :: go_err + string, s)"
  obtain s2 where run: "NewAuthInterceptor (\<lambda>c. c) Lookup ?cfg ''/Pull'' ?h (example_ctx [''fp1'']) () ?s = (Inr ''n1'', s2)"
    by (simp add: NewAuthInterceptor_def extractFingerprint_def example_ctx_def Lookup_def NewIdentityCache_def
        loadFromDB_def load_query_quiet load_store_def Let_def active_identity_def identity_tables_def
        example_identity_def str NodeIDFromContext_def ctx_string_def)
  from mtls_interceptor_sound [OF _ run] have
    "\<exists>e. cached_or_active ?s ''fp1'' e"
    by (auto simp: example_ctx_def)
  moreover have "vouched ''fp1'' \<lparr>ci_NodeID = ''n1'', ci_GatewayID = ''g1'', ci_Status = IDENTITY_STATUS_ACTIVE,
      ci_ExpireAt = 9 + 30 * second\<rparr> (9, identity_tables)"
    by (simp add: vouched_def identity_tables_def example_identity_def)
  ultimately show ?thesis using run by (simp add: cached_or_active_def)
qed

section \<open>Bearer tokens\<close>

definition extractBearerToken :: "rpc_ctx \<Rightarrow> go_err + string" where
  "extractBearerToken ctx =
     (case cx_metadata ctx of
        None \<Rightarrow> Inl (StatusErr Unauthenticated ''missing metadata'')
      | Some md \<Rightarrow>
          (case map_of md ''authorization'' of
             None \<Rightarrow> Inl (StatusErr Unauthenticated ''missing authorization header'')
           | Some [] \<Rightarrow> Inl (StatusErr Unauthenticated ''missing authorization header'')
           | Some (auth # _) \<Rightarrow>
               if \<not> has_prefix auth ''Bearer ''
               then Inl (StatusErr Unauthenticated ''authorization must use Bearer scheme'')
               else let token = drop 7 auth in
                    if token = [] then Inl (StatusErr Unauthenticated ''empty bearer token'')
                    else Inr token))"

definition validateStaticToken :: "(string \<times> string) list \<Rightarrow> string \<Rightarrow> string option" where
  "validateStaticToken tokens token = map_of tokens token"

record AdminAuthConfig =
  aa_StaticTokens :: "(string \<times> string) list"
  aa_SkipMethods :: "string list"

definition NewAdminAuthInterceptor ::
  "AdminAuthConfig \<Rightarrow> string \<Rightarrow> ('q, 's, 'p) handler \<Rightarrow> ('q, 's, 'p) handler" where
  "NewAdminAuthInterceptor cfg fullMethod handler = (\<lambda>ctx req s.
     if fullMethod \<in> set (aa_SkipMethods cfg) then handler ctx req s
     else case extractBearerToken ctx of
       Inl e \<Rightarrow> (Inl e, s)
     | Inr token \<Rightarrow>
         (case validateStaticToken (aa_StaticTokens cfg) token of
            None \<Rightarrow> (Inl (StatusErr Unauthenticated ''invalid or expired token''), s)
          | Some subject \<Rightarrow> handler (ctx\<lparr>cx_AdminSubject := Some subject\<rparr>) req s))"

text \<open>The call's first authorization header is "Bearer " and this token.\<close>

definition presents :: "rpc_ctx \<Rightarrow> string \<Rightarrow> bool" where
  "presents ctx token =
     (token \<noteq> [] \<and> (\<exists>md rest. cx_metadata ctx = Some md
        \<and> map_of md ''authorization'' = Some ((''Bearer '' @ token) # rest)))"

lemma has_prefix_split: "has_prefix s p \<Longrightarrow> s = p @ drop (length p) s"
  by (metis append_take_drop_id has_prefix_def)

lemma bearer_token: "extractBearerToken ctx = Inr token \<longleftrightarrow> presents ctx token"
proof
  assume a: "extractBearerToken ctx = Inr token"
  then obtain md auth rest where m: "cx_metadata ctx = Some md"
      "map_of md ''authorization'' = Some (auth # rest)" "has_prefix auth ''Bearer ''"
      "token = drop 7 auth" "token \<noteq> []"
    by (auto simp: extractBearerToken_def Let_def split: option.splits list.splits if_splits)
  have "length ''Bearer '' = 7" by simp
  with has_prefix_split [OF m(3)] m(4) have "auth = ''Bearer '' @ token" by metis
  with m(2) have "map_of md ''authorization'' = Some ((''Bearer '' @ token) # rest)" by (simp only:)
  with m(1) have "\<exists>md rest. cx_metadata ctx = Some md
       \<and> map_of md ''authorization'' = Some ((''Bearer '' @ token) # rest)" by (intro exI, rule conjI)
  with m(5) show "presents ctx token" unfolding presents_def by (rule conjI)
qed (auto simp: presents_def extractBearerToken_def has_prefix_def)

lemma bearer_error: "extractBearerToken ctx = Inl e \<Longrightarrow> \<exists>m. e = StatusErr Unauthenticated m"
  by (auto simp: extractBearerToken_def Let_def split: option.splits list.splits if_splits)

text \<open>C29: administrators. Unless its method is exempt, a management call reaches its handler exactly if
  its first authorization header is "Bearer " followed by a configured, non-empty token; the handler
  then sees that token's subject. Every other call ends with Unauthenticated and changes nothing.\<close>

theorem admin_interceptor_exact:
  "(fullMethod \<in> set (aa_SkipMethods cfg) \<longrightarrow>
      NewAdminAuthInterceptor cfg fullMethod handler ctx req s = handler ctx req s)
   \<and> (\<forall>token subject. fullMethod \<notin> set (aa_SkipMethods cfg) \<and> presents ctx token
        \<and> map_of (aa_StaticTokens cfg) token = Some subject \<longrightarrow>
      NewAdminAuthInterceptor cfg fullMethod handler ctx req s =
        handler (ctx\<lparr>cx_AdminSubject := Some subject\<rparr>) req s)
   \<and> (fullMethod \<notin> set (aa_SkipMethods cfg)
        \<and> \<not> (\<exists>token. presents ctx token \<and> token \<in> fst ` set (aa_StaticTokens cfg)) \<longrightarrow>
      (\<exists>m. NewAdminAuthInterceptor cfg fullMethod handler ctx req s = (Inl (StatusErr Unauthenticated m), s)))"
proof (intro conjI allI impI)
  assume "fullMethod \<in> set (aa_SkipMethods cfg)"
  then show "NewAdminAuthInterceptor cfg fullMethod handler ctx req s = handler ctx req s"
    by (simp add: NewAdminAuthInterceptor_def)
next
  fix token subject
  assume "fullMethod \<notin> set (aa_SkipMethods cfg) \<and> presents ctx token
      \<and> map_of (aa_StaticTokens cfg) token = Some subject"
  then show "NewAdminAuthInterceptor cfg fullMethod handler ctx req s =
      handler (ctx\<lparr>cx_AdminSubject := Some subject\<rparr>) req s"
    using bearer_token [of ctx token] by (simp add: NewAdminAuthInterceptor_def validateStaticToken_def)
next
  assume a: "fullMethod \<notin> set (aa_SkipMethods cfg)
      \<and> \<not> (\<exists>token. presents ctx token \<and> token \<in> fst ` set (aa_StaticTokens cfg))"
  show "\<exists>m. NewAdminAuthInterceptor cfg fullMethod handler ctx req s = (Inl (StatusErr Unauthenticated m), s)"
  proof (cases "extractBearerToken ctx")
    case (Inl e)
    with a bearer_error [OF Inl] show ?thesis by (auto simp: NewAdminAuthInterceptor_def)
  next
    case (Inr token)
    with a have "map_of (aa_StaticTokens cfg) token = None"
      by (auto simp: bearer_token map_of_eq_None_iff)
    with a Inr show ?thesis by (simp add: NewAdminAuthInterceptor_def validateStaticToken_def)
  qed
qed

theorem admin_interceptor_exact_witness:
  "NewAdminAuthInterceptor \<lparr>aa_StaticTokens = [(''s3cret'', ''alice'')], aa_SkipMethods = []\<rparr> ''/Create''
     (\<lambda>ctx q s. (Inr (AdminSubjectFromContext ctx), s))
     \<lparr>cx_peer = No_Peer, cx_metadata = Some [(''authorization'', [''Bearer s3cret''])], cx_NodeID = None,
        cx_GatewayID = None, cx_AdminSubject = None\<rparr> () () = (Inr ''alice'', ())"
  using conjunct1 [OF conjunct2 [OF admin_interceptor_exact], rule_format,
      of "''/Create''" "\<lparr>aa_StaticTokens = [(''s3cret'', ''alice'')], aa_SkipMethods = []\<rparr>"
         "\<lparr>cx_peer = No_Peer, cx_metadata = Some [(''authorization'', [''Bearer s3cret''])], cx_NodeID = None,
            cx_GatewayID = None, cx_AdminSubject = None\<rparr>" "''s3cret''" "''alice''"
         "\<lambda>ctx q s. (Inr (AdminSubjectFromContext ctx), s)" "()" "()"]
  by (simp add: presents_def AdminSubjectFromContext_def ctx_string_def)

end
