(* ===== verification/Deploy_Store.thy ===== *)
theory Deploy_Store
  imports Integrity Paging
begin

text \<open>
  The data access of deployments, runtime profiles and runtime states
  (\<open>internal/deployment/store.go\<close>), and the JSON shapes stored in the target, rollout and status
  columns. The text of a JSON object or array under \<open>->>\<close> is not modelled (the sources store
  strings and numbers there).
\<close>

section \<open>JSON columns\<close>

record DeploymentStatusJSON =
  st_DesiredNodes :: int
  st_ReadyNodes :: int
  st_FailedNodes :: int
  st_Phase :: string

record DeploymentTargetJSON =
  tg_GatewayIDs :: "string list"
  tg_LabelSelector :: smap

definition zero_status :: DeploymentStatusJSON where
  "zero_status = \<lparr>st_DesiredNodes = 0, st_ReadyNodes = 0, st_FailedNodes = 0, st_Phase = []\<rparr>"

definition json_of_status :: "DeploymentStatusJSON \<Rightarrow> json" where
  "json_of_status st = JObj
     [(''desired_nodes'', JNum (st_DesiredNodes st)), (''ready_nodes'', JNum (st_ReadyNodes st)),
      (''failed_nodes'', JNum (st_FailedNodes st)), (''phase'', JStr (st_Phase st))]"

definition decode_status :: "json \<Rightarrow> DeploymentStatusJSON \<Rightarrow> bool \<times> DeploymentStatusJSON" where
  "decode_status j st =
     (case j of
        JObj kvs \<Rightarrow>
          (let (ok1, n) = unmarshal_field unmarshal_int ''desired_nodes'' kvs (st_DesiredNodes st);
               (ok2, r) = unmarshal_field unmarshal_int ''ready_nodes'' kvs (st_ReadyNodes st);
               (ok3, f) = unmarshal_field unmarshal_int ''failed_nodes'' kvs (st_FailedNodes st);
               (ok4, p) = unmarshal_field unmarshal_string ''phase'' kvs (st_Phase st)
           in (ok1 \<and> ok2 \<and> ok3 \<and> ok4,
               \<lparr>st_DesiredNodes = n, st_ReadyNodes = r, st_FailedNodes = f, st_Phase = p\<rparr>))
      | JNull \<Rightarrow> (True, st)
      | _ \<Rightarrow> (False, st))"

definition unmarshal_status :: "raw \<Rightarrow> bool \<times> DeploymentStatusJSON" where
  "unmarshal_status r = unmarshal_raw decode_status r zero_status"

definition json_of_target :: "DeploymentTargetJSON \<Rightarrow> json" where
  "json_of_target t = JObj
     ((if tg_GatewayIDs t = [] then [] else [(''gateway_ids'', JArr (map JStr (tg_GatewayIDs t)))])
      @ (if tg_LabelSelector t = [] then [] else [(''label_selector'', json_of_smap (tg_LabelSelector t))]))"

definition decode_target :: "json \<Rightarrow> DeploymentTargetJSON \<Rightarrow> bool \<times> DeploymentTargetJSON" where
  "decode_target j t =
     (case j of
        JObj kvs \<Rightarrow>
          (let (ok1, g) = unmarshal_field unmarshal_string_list ''gateway_ids'' kvs (tg_GatewayIDs t);
               (ok2, l) = unmarshal_field unmarshal_smap ''label_selector'' kvs (tg_LabelSelector t)
           in (ok1 \<and> ok2, \<lparr>tg_GatewayIDs = g, tg_LabelSelector = l\<rparr>))
      | JNull \<Rightarrow> (True, t)
      | _ \<Rightarrow> (False, t))"

definition unmarshal_target :: "raw \<Rightarrow> bool \<times> DeploymentTargetJSON" where
  "unmarshal_target r = unmarshal_raw decode_target r \<lparr>tg_GatewayIDs = [], tg_LabelSelector = []\<rparr>"

text \<open>\<open>RolloutJSON\<close> has one field, the number \<open>max_unavailable\<close>.\<close>

definition json_of_rollout :: "int \<Rightarrow> json" where
  "json_of_rollout n = JObj [(''max_unavailable'', JNum n)]"

definition decode_rollout :: "json \<Rightarrow> int \<Rightarrow> bool \<times> int" where
  "decode_rollout j n =
     (case j of JObj kvs \<Rightarrow> unmarshal_field unmarshal_int ''max_unavailable'' kvs n
      | JNull \<Rightarrow> (True, n) | _ \<Rightarrow> (False, n))"

definition unmarshal_rollout :: "raw \<Rightarrow> bool \<times> int" where
  "unmarshal_rollout r = unmarshal_raw decode_rollout r 0"

lemma status_json_roundtrip:
  "in_int64 (st_DesiredNodes st) \<Longrightarrow> in_int64 (st_ReadyNodes st) \<Longrightarrow> in_int64 (st_FailedNodes st) \<Longrightarrow>
     unmarshal_status (Raw_JSON (json_of_status st)) = (True, st)"
  by (simp add: unmarshal_status_def unmarshal_raw_def json_of_status_def decode_status_def
      unmarshal_field_def json_field_def unmarshal_int_def unmarshal_string_def)

lemma rollout_json_roundtrip:
  "in_int64 n \<Longrightarrow> unmarshal_rollout (Raw_JSON (json_of_rollout n)) = (True, n)"
  by (simp add: unmarshal_rollout_def unmarshal_raw_def json_of_rollout_def decode_rollout_def
      unmarshal_field_def json_field_def unmarshal_int_def)

lemma target_json_roundtrip: "unmarshal_target (Raw_JSON (json_of_target t)) = (True, t)"
  by (cases t) (simp add: unmarshal_target_def unmarshal_raw_def json_of_target_def decode_target_def
      unmarshal_field_def json_field_def unmarshal_string_list_def unmarshal_strings_map
      unmarshal_smap_json_of_smap str)

section \<open>Deployments\<close>

definition CreateDeployment :: "DeploymentRow \<Rightarrow> DeploymentRow dbm" where
  "CreateDeployment row =
     insert_deployment (\<lambda>i now. row\<lparr>d_ID := i, d_CreatedAt := now, d_UpdatedAt := now\<rparr>)"

definition deployment_by_id :: "string \<Rightarrow> tables \<Rightarrow> DeploymentRow option" where
  "deployment_by_id i t = find (\<lambda>r. d_ID r = i) (model_deployments t)"

definition scanOne :: "(tables \<Rightarrow> DeploymentRow option) \<Rightarrow> DeploymentRow dbm" where
  "scanOne q = map_err (not_found_or ''deployment: get'') (sql_row q)"

definition GetDeployment :: "string \<Rightarrow> DeploymentRow dbm" where
  "GetDeployment i = scanOne (deployment_by_id i)"

definition GetDeploymentForUpdate :: "string \<Rightarrow> DeploymentRow dbm" where
  "GetDeploymentForUpdate i =
     map_err (not_found_or ''deployment: get for update'') (sql_row (deployment_by_id i))"

record DeploymentListFilter =
  df_ModelName :: string
  df_Phase :: string
  df_Limit :: int
  df_Offset :: int

definition deployment_where :: "DeploymentListFilter \<Rightarrow> DeploymentRow \<Rightarrow> bool" where
  "deployment_where f r =
     ((df_ModelName f \<noteq> [] \<longrightarrow> d_ModelName r = df_ModelName f)
      \<and> (df_Phase f \<noteq> [] \<longrightarrow> json_text (d_Status r) ''phase'' = Some (df_Phase f)))"

definition Store_ListDeployments :: "DeploymentListFilter \<Rightarrow> (DeploymentRow list \<times> int) dbm" where
  "Store_ListDeployments f =
     bindE (map_err (wrap ''deployment: list count'')
              (sql_read (\<lambda>t. int (count_where (deployment_where f) (model_deployments t)))))
       (\<lambda>total. bindE (map_err (wrap ''deployment: list'')
              (sql_read_or (\<lambda>t. limit_offset (page_limit (df_Limit f)) (df_Offset f)
                 (order_desc d_CreatedAt (filter (deployment_where f) (model_deployments t))))))
       (\<lambda>rows. returnE (rows, total)))"

definition pending_phase :: "DeploymentRow \<Rightarrow> bool" where
  "pending_phase r =
     (json_text (d_Status r) ''phase'' = Some ''Pending'' \<or> json_text (d_Status r) ''phase'' = Some ''RollingOut'')"

definition ListPendingDeployments :: "DeploymentRow list dbm" where
  "ListPendingDeployments =
     map_err (wrap ''deployment: list pending'')
       (sql_read (\<lambda>t. order_asc d_CreatedAt (filter pending_phase (model_deployments t))))"

definition rows_or_not_found :: "nat \<Rightarrow> unit dbm" where
  "rows_or_not_found n = (if n = 0 then failE ErrNotFound else returnE ())"

definition Store_UpdateDeployment :: "string \<Rightarrow> string \<Rightarrow> raw \<Rightarrow> raw \<Rightarrow> unit dbm" where
  "Store_UpdateDeployment i runtime rollout stat =
     bindE (map_err (wrap ''deployment: update'')
       (update_deployments
          [check_jsonb ''model_deployments'' ''rollout'' rollout,
           check_jsonb ''model_deployments'' ''status'' stat]
          (\<lambda>r. d_ID r = i)
          (\<lambda>now r. r\<lparr>d_Runtime := runtime, d_Rollout := rollout, d_Status := stat, d_UpdatedAt := now\<rparr>)))
       rows_or_not_found"

definition UpdateDeploymentStatus :: "string \<Rightarrow> raw \<Rightarrow> unit dbm" where
  "UpdateDeploymentStatus i stat =
     bindE (map_err (wrap ''deployment: update status'')
       (update_deployments [check_jsonb ''model_deployments'' ''status'' stat] (\<lambda>r. d_ID r = i)
          (\<lambda>now r. r\<lparr>d_Status := stat, d_UpdatedAt := now\<rparr>)))
       rows_or_not_found"

section \<open>Runtime profiles\<close>

definition CreateRuntimeProfile :: "RuntimeProfileRow \<Rightarrow> RuntimeProfileRow dbm" where
  "CreateRuntimeProfile row = insert_profile (\<lambda>i now. row\<lparr>p_ID := i, p_CreatedAt := now\<rparr>)"

definition GetRuntimeProfile :: "string \<Rightarrow> RuntimeProfileRow dbm" where
  "GetRuntimeProfile i =
     map_err (not_found_or ''runtime profile: get'')
       (sql_row (\<lambda>t. find (\<lambda>r. p_ID r = i) (runtime_profiles t)))"

text \<open>ORDER BY priority DESC, created_at ASC.\<close>

definition profile_order :: "RuntimeProfileRow list \<Rightarrow> RuntimeProfileRow list" where
  "profile_order ps = order_desc p_Priority (order_asc p_CreatedAt ps)"

definition ListRuntimeProfiles :: "RuntimeProfileRow list dbm" where
  "ListRuntimeProfiles =
     map_err (wrap ''runtime profile: list'') (sql_read (\<lambda>t. profile_order (runtime_profiles t)))"

definition DeleteRuntimeProfile :: "string \<Rightarrow> unit dbm" where
  "DeleteRuntimeProfile i =
     bindE (map_err (wrap ''runtime profile: delete'')
       (sql (\<lambda>_ _ t. Inr (count_where (\<lambda>r. p_ID r = i) (runtime_profiles t),
          t\<lparr>runtime_profiles := filter (\<lambda>r. p_ID r \<noteq> i) (runtime_profiles t)\<rparr>))))
       rows_or_not_found"

section \<open>Runtime states\<close>

definition UpsertRuntimeState ::
  "string \<Rightarrow> string \<Rightarrow> string \<Rightarrow> string \<Rightarrow> string \<Rightarrow> raw \<Rightarrow> unit dbm" where
  "UpsertRuntimeState nodeID modelName modelVersion runtime stat metrics =
     map_err (wrap ''runtime state: upsert'')
       (sql (\<lambda>ids now t.
          let key = (nodeID, modelName, modelVersion);
              new = \<lparr>s_ID = ids 0, s_NodeID = nodeID, s_ModelName = modelName, s_ModelVersion = modelVersion,
                     s_Runtime = runtime, s_Status = stat, s_Metrics = metrics, s_UpdatedAt = now\<rparr>
          in if key \<in> set (map state_key (edge_runtime_states t))
             then guarded [check_jsonb ''edge_runtime_states'' ''metrics'' metrics]
               ((), t\<lparr>edge_runtime_states := update_where (\<lambda>s. state_key s = key)
                   (\<lambda>s. s\<lparr>s_Runtime := runtime, s_Status := stat, s_Metrics := metrics, s_UpdatedAt := now\<rparr>)
                   (edge_runtime_states t)\<rparr>)
             else guarded
               [check_jsonb ''edge_runtime_states'' ''metrics'' metrics,
                check_unique ''edge_runtime_states_pkey'' (ids 0 \<in> set (map s_ID (edge_runtime_states t))),
                check_fk ''edge_runtime_states'' ''edge_runtime_states_node_id_fkey'' (Some nodeID) (map nd_ID (edge_nodes t))]
               ((), t\<lparr>edge_runtime_states := edge_runtime_states t @ [new]\<rparr>)))"

definition model_states :: "string \<Rightarrow> string \<Rightarrow> string \<Rightarrow> tables \<Rightarrow> nat" where
  "model_states stat modelName modelVersion t =
     count_where (\<lambda>s. s_Status s = stat \<and> s_ModelName s = modelName \<and> s_ModelVersion s = modelVersion)
       (edge_runtime_states t)"

definition CountRuntimeStatesByDeployment :: "string \<Rightarrow> string \<Rightarrow> (int \<times> int) dbm" where
  "CountRuntimeStatesByDeployment modelName modelVersion =
     map_err (wrap ''runtime state: count'')
       (sql_read (\<lambda>t. (int (model_states ''Running'' modelName modelVersion t),
          int (model_states ''Failed'' modelName modelVersion t))))"

section \<open>Target nodes\<close>

definition pgUUIDArray :: "string list \<Rightarrow> string" where
  "pgUUIDArray ids = ''{'' @ concat (case ids of [] \<Rightarrow> [] | i # is \<Rightarrow> i # map (\<lambda>x. '','' @ x) is) @ ''}''"

definition node_selected :: "string list \<Rightarrow> smap \<Rightarrow> nodeRow \<Rightarrow> bool" where
  "node_selected gatewayIDs labelSelector n =
     (nd_Online n \<and> (gatewayIDs \<noteq> [] \<longrightarrow> nd_GatewayID n \<in> set gatewayIDs)
      \<and> list_all (\<lambda>(k, v). json_text (nd_Labels n) k = Some v) labelSelector)"

definition ListNodesByGatewayAndLabels :: "string list \<Rightarrow> smap \<Rightarrow> string list dbm" where
  "ListNodesByGatewayAndLabels gatewayIDs labelSelector =
     map_err (wrap ''deployment: list target nodes'')
       (sql_read (\<lambda>t. map nd_ID (filter (node_selected gatewayIDs labelSelector) (edge_nodes t))))"

section \<open>Constraints\<close>

lemma keep_deployment_reads [keeps]:
  "keep I (GetDeployment i)" "keep I (GetDeploymentForUpdate i)" "keep I (Store_ListDeployments f)"
  "keep I ListPendingDeployments" "keep I (GetRuntimeProfile i)" "keep I ListRuntimeProfiles"
  "keep I (CountRuntimeStatesByDeployment m v)" "keep I (ListNodesByGatewayAndLabels g l)"
  "keep I (rows_or_not_found n)"
  unfolding GetDeployment_def scanOne_def GetDeploymentForUpdate_def Store_ListDeployments_def
    ListPendingDeployments_def GetRuntimeProfile_def ListRuntimeProfiles_def
    CountRuntimeStatesByDeployment_def ListNodesByGatewayAndLabels_def rows_or_not_found_def
  by (intro keeps)+

lemma keep_CreateDeployment [keeps]: "keep db_wf (CreateDeployment row)"
  unfolding CreateDeployment_def by (intro keeps)

lemma keep_Store_UpdateDeployment [keeps]: "keep db_wf (Store_UpdateDeployment i a b c)"
  unfolding Store_UpdateDeployment_def by (intro keeps keep_update_deployments) simp

lemma keep_UpdateDeploymentStatus [keeps]: "keep db_wf (UpdateDeploymentStatus i c)"
  unfolding UpdateDeploymentStatus_def by (intro keeps keep_update_deployments) simp

lemma keep_CreateRuntimeProfile [keeps]: "keep db_wf (CreateRuntimeProfile row)"
  unfolding CreateRuntimeProfile_def by (intro keeps)

lemma keep_DeleteRuntimeProfile [keeps]: "keep db_wf (DeleteRuntimeProfile i)"
  unfolding DeleteRuntimeProfile_def
  by (intro keeps keep_sql) (auto simp: db_wf_def profiles_wf_def table_ids distinct_map_filter)

lemma states_wf_update:
  assumes "states_wf N ss" "\<And>s. s_ID (f s) = s_ID s \<and> state_key (f s) = state_key s \<and> s_NodeID (f s) = s_NodeID s"
  shows "states_wf N (update_where p f ss)"
  using assms by (simp add: states_wf_def map_update_where image_update_where)

lemma keep_UpsertRuntimeState [keeps]: "keep db_wf (UpsertRuntimeState n m v r s j)"
  unfolding UpsertRuntimeState_def
proof (intro keeps keep_sql)
  fix ids now t x t'
  assume wf: "db_wf t"
    and run: "(let key = (n, m, v);
              new = \<lparr>s_ID = ids 0, s_NodeID = n, s_ModelName = m, s_ModelVersion = v,
                     s_Runtime = r, s_Status = s, s_Metrics = j, s_UpdatedAt = now\<rparr>
          in if key \<in> set (map state_key (edge_runtime_states t))
             then guarded [check_jsonb ''edge_runtime_states'' ''metrics'' j]
               ((), t\<lparr>edge_runtime_states := update_where (\<lambda>s. state_key s = key)
                   (\<lambda>y. y\<lparr>s_Runtime := r, s_Status := s, s_Metrics := j, s_UpdatedAt := now\<rparr>)
                   (edge_runtime_states t)\<rparr>)
             else guarded
               [check_jsonb ''edge_runtime_states'' ''metrics'' j,
                check_unique ''edge_runtime_states_pkey'' (ids 0 \<in> set (map s_ID (edge_runtime_states t))),
                check_fk ''edge_runtime_states'' ''edge_runtime_states_node_id_fkey'' (Some n) (map nd_ID (edge_nodes t))]
               ((), t\<lparr>edge_runtime_states := edge_runtime_states t @ [new]\<rparr>)) = Inr (x, t')"
  then have "states_wf (node_ids t) (edge_runtime_states t')"
    by (auto simp: Let_def guarded_Inr check_fk_None db_wf_def node_ids_def state_key_def
        intro!: states_wf_update split: if_splits)
      (auto simp: states_wf_def state_key_def)
  with wf run show "db_wf t'"
    by (auto simp: Let_def guarded_Inr db_wf_def table_ids split: if_splits)
qed

end
