(* ===== verification/Deploy_Service.thy ===== *)
theory Deploy_Service
  imports Deploy_Store
begin

text \<open>The deployment API (\<open>internal/deployment/service.go\<close>), one definition per RPC.\<close>

datatype DeploymentPhase =
    DEPLOYMENT_PHASE_UNSPECIFIED | DEPLOYMENT_PHASE_PENDING | DEPLOYMENT_PHASE_ROLLING_OUT
  | DEPLOYMENT_PHASE_ACTIVE | DEPLOYMENT_PHASE_FAILED | DEPLOYMENT_PHASE_PAUSED
  | DEPLOYMENT_PHASE_OTHER int

definition phaseToText :: "(DeploymentPhase \<times> string) list" where
  "phaseToText =
    [(DEPLOYMENT_PHASE_PENDING, ''Pending''),
     (DEPLOYMENT_PHASE_ROLLING_OUT, ''RollingOut''),
     (DEPLOYMENT_PHASE_ACTIVE, ''Active''),
     (DEPLOYMENT_PHASE_FAILED, ''Failed''),
     (DEPLOYMENT_PHASE_PAUSED, ''Paused'')]"

definition textToPhase :: "(string \<times> DeploymentPhase) list" where
  "textToPhase =
    [(''Pending'', DEPLOYMENT_PHASE_PENDING),
     (''RollingOut'', DEPLOYMENT_PHASE_ROLLING_OUT),
     (''Active'', DEPLOYMENT_PHASE_ACTIVE),
     (''Failed'', DEPLOYMENT_PHASE_FAILED),
     (''Paused'', DEPLOYMENT_PHASE_PAUSED)]"

record DeploymentTargetMsg =
  dt_GatewayIds :: "string list"
  dt_LabelSelector :: "smap option"

record DeploymentStatusMsg =
  ds_DesiredNodes :: int
  ds_ReadyNodes :: int
  ds_FailedNodes :: int
  ds_Phase :: DeploymentPhase

record ModelDeploymentMsg =
  dm_Id :: string
  dm_ModelName :: string
  dm_ModelVersion :: string
  dm_Target :: "DeploymentTargetMsg option"
  dm_Runtime :: string
  dm_Rollout :: "int option"
  dm_Status :: "DeploymentStatusMsg option"
  dm_CreatedAt :: timestamp
  dm_UpdatedAt :: timestamp

record CreateDeploymentRequest =
  cd_ModelName :: string
  cd_ModelVersion :: string
  cd_Target :: "DeploymentTargetMsg option"
  cd_Runtime :: string
  cd_Rollout :: "int option"

record ListDeploymentsRequest =
  ld_ModelName :: string
  ld_Phase :: DeploymentPhase
  ld_Page :: "PageRequest option"

record UpdateDeploymentRequest =
  ud_Id :: string
  ud_Runtime :: string
  ud_Rollout :: "int option"
  ud_Phase :: DeploymentPhase

definition deploymentToProto :: "DeploymentRow \<Rightarrow> ModelDeploymentMsg" where
  "deploymentToProto r =
     \<lparr>dm_Id = d_ID r, dm_ModelName = d_ModelName r, dm_ModelVersion = d_ModelVersion r,
      dm_Target =
        (case unmarshal_target (d_Target r) of
           (True, t) \<Rightarrow> Some \<lparr>dt_GatewayIds = tg_GatewayIDs t,
             dt_LabelSelector = (if tg_LabelSelector t = [] then None else Some (tg_LabelSelector t))\<rparr>
         | (False, _) \<Rightarrow> None),
      dm_Runtime = d_Runtime r,
      dm_Rollout =
        (case unmarshal_rollout (d_Rollout r) of (True, n) \<Rightarrow> Some (wrap32 n) | (False, _) \<Rightarrow> None),
      dm_Status =
        (case unmarshal_status (d_Status r) of
           (True, st) \<Rightarrow> Some \<lparr>ds_DesiredNodes = wrap32 (st_DesiredNodes st),
             ds_ReadyNodes = wrap32 (st_ReadyNodes st), ds_FailedNodes = wrap32 (st_FailedNodes st),
             ds_Phase = map_get DEPLOYMENT_PHASE_UNSPECIFIED textToPhase (st_Phase st)\<rparr>
         | (False, _) \<Rightarrow> None),
      dm_CreatedAt = d_CreatedAt r, dm_UpdatedAt = d_UpdatedAt r\<rparr>"

definition deployErrToStatus :: "go_err \<Rightarrow> go_err" where
  "deployErrToStatus e =
     (if e = ErrNotFound then StatusErr NotFound ''deployment not found''
      else if e = ErrPrecondition then StatusErr FailedPrecondition (err_text e)
      else if e = ErrAlreadyExists \<or> e = ErrConflict then StatusErr AlreadyExists (err_text e)
      else StatusErr Internal (err_text e))"

definition new_deployment_row :: "CreateDeploymentRequest \<Rightarrow> DeploymentRow" where
  "new_deployment_row req =
     (let target = (case cd_Target req of
            None \<Rightarrow> \<lparr>tg_GatewayIDs = [], tg_LabelSelector = []\<rparr>
          | Some t \<Rightarrow> \<lparr>tg_GatewayIDs = dt_GatewayIds t,
              tg_LabelSelector = (case dt_LabelSelector t of None \<Rightarrow> [] | Some ls \<Rightarrow> ls)\<rparr>);
          maxUnavailable = (case cd_Rollout req of None \<Rightarrow> 1 | Some n \<Rightarrow> if n > 0 then n else 1)
      in \<lparr>d_ID = [], d_ModelName = cd_ModelName req, d_ModelVersion = cd_ModelVersion req,
          d_Target = Raw_JSON (json_of_target target),
          d_Runtime = (if cd_Runtime req = [] then ''auto'' else cd_Runtime req),
          d_Rollout = Raw_JSON (json_of_rollout maxUnavailable),
          d_Status = Raw_JSON (json_of_status (zero_status\<lparr>st_Phase := ''Pending''\<rparr>)),
          d_CreatedAt = 0, d_UpdatedAt = 0\<rparr>)"

definition Service_CreateDeployment :: "CreateDeploymentRequest \<Rightarrow> ModelDeploymentMsg dbm" where
  "Service_CreateDeployment req =
     (if cd_ModelName req = [] then failE (StatusErr InvalidArgument ''model_name is required'')
      else if cd_ModelVersion req = [] then failE (StatusErr InvalidArgument ''model_version is required'')
      else bindE (map_err (internal_error ''create deployment'') (CreateDeployment (new_deployment_row req)))
             (\<lambda>row. returnE (deploymentToProto row)))"

definition Service_GetDeployment :: "string \<Rightarrow> ModelDeploymentMsg dbm" where
  "Service_GetDeployment i =
     (if i = [] then failE (StatusErr InvalidArgument ''id is required'')
      else bindE (map_err deployErrToStatus (GetDeployment i)) (\<lambda>row. returnE (deploymentToProto row)))"

definition deployment_filter :: "ListDeploymentsRequest \<Rightarrow> DeploymentListFilter" where
  "deployment_filter req =
     \<lparr>df_ModelName = ld_ModelName req,
      df_Phase = (if ld_Phase req \<noteq> DEPLOYMENT_PHASE_UNSPECIFIED
                  then map_get [] phaseToText (ld_Phase req) else []),
      df_Limit = page_size_of (ld_Page req), df_Offset = page_offset_of (ld_Page req)\<rparr>"

definition Service_ListDeployments ::
  "ListDeploymentsRequest \<Rightarrow> (ModelDeploymentMsg list \<times> PageResponse) dbm" where
  "Service_ListDeployments req =
     bindE (map_err (internal_error ''list deployments'') (Store_ListDeployments (deployment_filter req)))
       (\<lambda>(rows, total). returnE (map deploymentToProto rows,
          page_response (page_offset_of (ld_Page req)) (page_size_of (ld_Page req)) total))"

definition update_deployment_body :: "UpdateDeploymentRequest \<Rightarrow> DeploymentRow dbm" where
  "update_deployment_body req =
     bindE (GetDeploymentForUpdate (ud_Id req)) (\<lambda>row.
       let runtime = (if ud_Runtime req \<noteq> [] then ud_Runtime req else d_Runtime row);
           rollout = (case ud_Rollout req of None \<Rightarrow> d_Rollout row | Some n \<Rightarrow> Raw_JSON (json_of_rollout n));
           st = (if ud_Phase req \<noteq> DEPLOYMENT_PHASE_UNSPECIFIED
                 then Raw_JSON (json_of_status ((snd (unmarshal_status (d_Status row)))
                        \<lparr>st_Phase := map_get [] phaseToText (ud_Phase req)\<rparr>))
                 else d_Status row)
       in bindE (Store_UpdateDeployment (d_ID row) runtime rollout st)
            (\<lambda>_. returnE (row\<lparr>d_Runtime := runtime, d_Rollout := rollout, d_Status := st\<rparr>)))"

definition Service_UpdateDeployment :: "UpdateDeploymentRequest \<Rightarrow> ModelDeploymentMsg dbm" where
  "Service_UpdateDeployment req =
     (if ud_Id req = [] then failE (StatusErr InvalidArgument ''id is required'')
      else bindE (map_err deployErrToStatus (WithTx (update_deployment_body req)))
             (\<lambda>row. returnE (deploymentToProto row)))"

lemma keep_deployment_service [keeps]:
  "keep db_wf (Service_CreateDeployment creq)" "keep db_wf (Service_GetDeployment i)"
  "keep db_wf (Service_UpdateDeployment ureq)"
  unfolding Service_CreateDeployment_def Service_GetDeployment_def Service_UpdateDeployment_def
    update_deployment_body_def Let_def
  by (intro keeps)+

lemma phase_text_roundtrip:
  "map_of textToPhase s = Some p \<Longrightarrow> map_of phaseToText p = Some s"
  "map_of phaseToText p = Some s \<Longrightarrow> map_of textToPhase s = Some p"
  by (auto simp: textToPhase_def phaseToText_def split: if_splits)

section \<open>Paging\<close>

definition deployment_listing :: "ListDeploymentsRequest \<Rightarrow> tables \<Rightarrow> DeploymentRow list" where
  "deployment_listing req t =
     order_desc d_CreatedAt (filter (deployment_where (deployment_filter req)) (model_deployments t))"

lemma deployment_where_page [simp]:
  "deployment_where (deployment_filter (req\<lparr>ld_Page := p\<rparr>)) = deployment_where (deployment_filter req)"
  by (rule ext) (simp add: deployment_where_def deployment_filter_def)

lemma deployment_listing_page [simp]: "deployment_listing (req\<lparr>ld_Page := p\<rparr>) = deployment_listing req"
  by (rule ext) (simp add: deployment_listing_def)

lemma deployment_serve:
  assumes "quiet d" "0 < n" "n \<le> 100" "0 \<le> page_offset_of (Some \<lparr>pg_PageSize = n, pg_PageToken = tok\<rparr>)"
  shows "\<exists>d'. Service_ListDeployments (req\<lparr>ld_Page := Some \<lparr>pg_PageSize = n, pg_PageToken = tok\<rparr>\<rparr>) d =
    (Inr (take (nat n) (drop (nat (page_offset_of (Some \<lparr>pg_PageSize = n, pg_PageToken = tok\<rparr>)))
            (map deploymentToProto (deployment_listing req (tabs d)))),
          page_response (page_offset_of (Some \<lparr>pg_PageSize = n, pg_PageToken = tok\<rparr>)) n
            (int (length (map deploymentToProto (deployment_listing req (tabs d)))))), d')
    \<and> quiet d' \<and> tabs d' = tabs d"
proof -
  let ?req = "req\<lparr>ld_Page := Some \<lparr>pg_PageSize = n, pg_PageToken = tok\<rparr>\<rparr>"
  let ?off = "page_offset_of (Some \<lparr>pg_PageSize = n, pg_PageToken = tok\<rparr>)"
  have cnt: "count_where (deployment_where (deployment_filter ?req)) (model_deployments (tabs d)) =
      length (deployment_listing req (tabs d))"
    by (simp add: count_where_def deployment_listing_def)
  have lim: "limit_offset n ?off (deployment_listing req (tabs d)) =
      Inr (take (nat n) (drop (nat ?off) (deployment_listing req (tabs d))))"
    using assms by (simp add: limit_offset_ok)
  have f: "df_Limit (deployment_filter ?req) = n" "df_Offset (deployment_filter ?req) = ?off"
    using assms by (simp_all add: deployment_filter_def page_size_pos)
  have "Store_ListDeployments (deployment_filter ?req) d =
      (Inr (take (nat n) (drop (nat ?off) (deployment_listing req (tabs d))),
            int (length (deployment_listing req (tabs d)))), d\<lparr>stmt_no := Suc (Suc (stmt_no d))\<rparr>)"
    using assms cnt lim unfolding Store_ListDeployments_def deployment_listing_def f
    by (simp add: run_defs sql_read_quiet sql_read_or_quiet page_limit_id)
  with assms show ?thesis
    by (simp add: Service_ListDeployments_def run_defs page_size_pos take_map drop_map)
qed

interpretation deployment_paging: paged_listing
  "\<lambda>page. Service_ListDeployments (req\<lparr>ld_Page := page\<rparr>)"
  "\<lambda>t. map deploymentToProto (deployment_listing req t)" "\<lambda>_. True" 100
  for req :: ListDeploymentsRequest
  by unfold_locales (rule deployment_serve)

end
