(* ===== verification/Deploy_Controller.thy ===== *)
theory Deploy_Controller
  imports Deploy_Service Task_Service
begin

text \<open>
  The deployment controller (\<open>internal/deployment/controller.go\<close>) and the rollout checker
  (\<open>internal/deployment/rollout.go\<close>). The controller reaches the tasks through the interface
  \<open>TaskCreator\<close>: a parameter of \<open>reconcileOne\<close>, whose laws are the locale \<open>task_creator\<close> and whose
  implementation is \<open>CreateDeploymentTask\<close>. Counting the runtime states runs on another connection
  than the transaction; it reads the same rows, as the transaction does not write them.
\<close>

section \<open>Resolving the runtime\<close>

definition matchesSelector :: "smap \<Rightarrow> string \<Rightarrow> bool" where
  "matchesSelector selector modelName =
     (if selector = [] then True
      else case map_of selector ''model_name'' of Some v \<Rightarrow> v = modelName | None \<Rightarrow> True)"

fun first_match :: "RuntimeProfileRow list \<Rightarrow> string \<Rightarrow> string" where
  "first_match [] modelName = ''llamacpp''"
| "first_match (p # ps) modelName =
     (case unmarshal_raw unmarshal_smap (p_Selector p) [] of
        (False, _) \<Rightarrow> first_match ps modelName
      | (True, selector) \<Rightarrow>
          if matchesSelector selector modelName then p_Runtime p else first_match ps modelName)"

definition resolveRuntime :: "string \<Rightarrow> string \<Rightarrow> string dbm" where
  "resolveRuntime runtime modelName =
     (if runtime \<noteq> ''auto'' then returnE runtime
      else bindE (map_err (wrap ''list runtime profiles'') ListRuntimeProfiles)
             (\<lambda>profiles. returnE (first_match profiles modelName)))"

section \<open>Reconciling\<close>

type_synonym task_creator_fn =
  "string \<Rightarrow> string \<Rightarrow> string \<Rightarrow> string \<Rightarrow> string list \<Rightarrow> raw \<Rightarrow> unit dbm"

definition status_of :: "DeploymentRow \<Rightarrow> DeploymentStatusJSON" where
  "status_of row = snd (unmarshal_status (d_Status row))"

definition aggregate_status :: "int \<Rightarrow> int \<Rightarrow> DeploymentStatusJSON \<Rightarrow> DeploymentStatusJSON" where
  "aggregate_status ready failed st =
     (let st = st\<lparr>st_ReadyNodes := ready, st_FailedNodes := failed\<rparr> in
      if ready \<ge> st_DesiredNodes st then st\<lparr>st_Phase := ''Active''\<rparr>
      else if failed > 0 \<and> ready + failed \<ge> st_DesiredNodes st then st\<lparr>st_Phase := ''Failed''\<rparr>
      else st)"

definition dispatch_tasks ::
  "task_creator_fn \<Rightarrow> DeploymentRow \<Rightarrow> string list \<Rightarrow> string \<Rightarrow> DeploymentStatusJSON \<Rightarrow> DeploymentStatusJSON dbm" where
  "dispatch_tasks create d nodeIDs runtime st =
     (if st_Phase st = ''Pending'' \<and> nodeIDs \<noteq> [] then
        bindE (map_err (wrap ''create deployment task'')
          (create (d_ID d) (d_ModelName d) (d_ModelVersion d) runtime nodeIDs
            (Raw_JSON (json_of_smap [(''deployment_id'', d_ID d), (''model_name'', d_ModelName d),
               (''model_version'', d_ModelVersion d), (''runtime'', runtime)]))))
          (\<lambda>_. returnE (st\<lparr>st_Phase := ''RollingOut'', st_DesiredNodes := int (length nodeIDs)\<rparr>))
      else returnE st)"

definition count_states :: "DeploymentRow \<Rightarrow> DeploymentStatusJSON \<Rightarrow> DeploymentStatusJSON dbm" where
  "count_states d st =
     (if st_Phase st = ''RollingOut'' then
        bindE (map_err (wrap ''count runtime states'')
          (CountRuntimeStatesByDeployment (d_ModelName d) (d_ModelVersion d)))
          (\<lambda>(ready, failed). returnE (aggregate_status ready failed st))
      else returnE st)"

definition reconcile_body ::
  "task_creator_fn \<Rightarrow> DeploymentRow \<Rightarrow> string list \<Rightarrow> string \<Rightarrow> unit dbm" where
  "reconcile_body create d nodeIDs runtime =
     bindE (GetDeploymentForUpdate (d_ID d)) (\<lambda>row.
     bindE (dispatch_tasks create d nodeIDs runtime (status_of row)) (\<lambda>st.
     bindE (count_states d st) (\<lambda>st.
       UpdateDeploymentStatus (d_ID row) (Raw_JSON (json_of_status st)))))"

definition reconcileOne :: "task_creator_fn \<Rightarrow> DeploymentRow \<Rightarrow> unit dbm" where
  "reconcileOne create d =
     (case unmarshal_target (d_Target d) of
        (False, _) \<Rightarrow> failE (GoErr ''unmarshal target: json: cannot unmarshal'')
      | (True, target) \<Rightarrow>
          bindE (map_err (wrap ''list target nodes'')
            (ListNodesByGatewayAndLabels (tg_GatewayIDs target) (tg_LabelSelector target))) (\<lambda>nodeIDs.
          bindE (map_err (wrap ''resolve runtime'') (resolveRuntime (d_Runtime d) (d_ModelName d))) (\<lambda>runtime.
            WithTx (reconcile_body create d nodeIDs runtime))))"

text \<open>An error of one deployment is logged and the loop goes on.\<close>

fun reconcile_each :: "task_creator_fn \<Rightarrow> DeploymentRow list \<Rightarrow> unit dbm" where
  "reconcile_each create [] = returnE ()"
| "reconcile_each create (d # ds) =
     bindE (catchE (reconcileOne create d) (\<lambda>_. returnE ())) (\<lambda>_. reconcile_each create ds)"

definition reconcile :: "task_creator_fn \<Rightarrow> unit dbm" where
  "reconcile create =
     bindE (map_err (wrap ''list pending'') ListPendingDeployments) (\<lambda>deployments. reconcile_each create deployments)"

section \<open>The task creator\<close>

definition default_task :: TaskRow where
  "default_task = \<lparr>t_ID = [], t_ParentTaskID = None, t_Scope = ''Node'', t_Type = [], t_Status = ''Pending'',
     t_TargetGatewayID = None, t_TargetNodeID = None, t_Payload = empty_object, t_Result = Nil_Raw,
     t_DispatchStatus = ''Unclaimed'', t_OwnerInstance = None, t_ClaimExpireAt = None, t_MaxRetries = 3,
     t_RetryCount = 0, t_TimeoutSeconds = 600, t_IdempotencyKey = None, t_CreatedBy = ''controller'',
     t_CreatedAt = 0, t_UpdatedAt = 0\<rparr>"

definition node_payload :: "string \<Rightarrow> string \<Rightarrow> string \<Rightarrow> string \<Rightarrow> raw" where
  "node_payload deploymentID modelName modelVersion runtime =
     Raw_JSON (json_of_smap [(''action'', ''StartRuntime''), (''deployment_id'', deploymentID),
       (''model_name'', modelName), (''model_version'', modelVersion), (''runtime'', runtime)])"

fun create_node_tasks :: "string \<Rightarrow> raw \<Rightarrow> string list \<Rightarrow> unit dbm" where
  "create_node_tasks parentID payload [] = returnE ()"
| "create_node_tasks parentID payload (nodeID # nodeIDs) =
     bindE (map_err (wrap (''create node task for '' @ nodeID))
       (insert_task (\<lambda>i now. default_task\<lparr>t_ID := i, t_ParentTaskID := Some parentID, t_Type := ''StartRuntime'',
          t_TargetNodeID := Some nodeID, t_Payload := payload, t_CreatedAt := now, t_UpdatedAt := now\<rparr>)))
       (\<lambda>_. create_node_tasks parentID payload nodeIDs)"

definition CreateDeploymentTask :: task_creator_fn where
  "CreateDeploymentTask deploymentID modelName modelVersion runtime nodeIDs payload =
     bindE (map_err (wrap ''create parent task'')
       (insert_task (\<lambda>i now. default_task\<lparr>t_ID := i, t_Scope := ''Region'', t_Type := ''DeployModel'',
          t_Payload := payload, t_CreatedAt := now, t_UpdatedAt := now\<rparr>)))
       (\<lambda>parent. create_node_tasks (t_ID parent) (node_payload deploymentID modelName modelVersion runtime) nodeIDs)"

section \<open>What the controller relies on\<close>

text \<open>The tasks a deployment hands out: one region task, and one Pending node task for each node with
  the region task as its parent.\<close>

definition task_batch :: "string list \<Rightarrow> TaskRow list \<Rightarrow> bool" where
  "task_batch nodeIDs new =
     (case new of [] \<Rightarrow> False
      | parent # children \<Rightarrow>
          t_Scope parent = ''Region'' \<and> t_Type parent = ''DeployModel''
          \<and> map t_TargetNodeID children = map Some nodeIDs
          \<and> (\<forall>c \<in> set children. t_ParentTaskID c = Some (t_ID parent) \<and> t_Status c = ''Pending''
               \<and> t_DispatchStatus c = ''Unclaimed'' \<and> t_Type c = ''StartRuntime''))"

locale task_creator =
  fixes create :: task_creator_fn
  assumes create_batch:
    "create dep m v rt nodeIDs payload s = (Inr (), s1) \<Longrightarrow>
       clock s1 = clock s \<and> (\<exists>new. tabs s1 = (tabs s)\<lparr>tasks := tasks (tabs s) @ new\<rparr> \<and> task_batch nodeIDs new)"
    and create_keeps: "keep db_wf (create dep m v rt nodeIDs payload)"

lemma GetDeploymentForUpdate_InrD:
  "GetDeploymentForUpdate i s = (Inr row, s1) \<Longrightarrow>
     deployment_by_id i (tabs s) = Some row \<and> tabs s1 = tabs s \<and> clock s1 = clock s"
  by (auto simp: GetDeploymentForUpdate_def sql_row_def returnE_def failE_def sql_read_def
      dest!: map_err_InrD bindE_InrD sql_InrD split: option.splits)

lemma count_states_InrD:
  "count_states d st s = (Inr st', s1) \<Longrightarrow> tabs s1 = tabs s \<and> clock s1 = clock s
     \<and> st' = (if st_Phase st = ''RollingOut''
          then aggregate_status (int (model_states ''Running'' (d_ModelName d) (d_ModelVersion d) (tabs s)))
            (int (model_states ''Failed'' (d_ModelName d) (d_ModelVersion d) (tabs s))) st
          else st)"
  by (auto simp: count_states_def CountRuntimeStatesByDeployment_def returnE_def sql_read_def
      dest!: bindE_InrD map_err_InrD sql_InrD split: if_splits)

lemma UpdateDeploymentStatus_InrD:
  "UpdateDeploymentStatus i r s = (Inr (), s1) \<Longrightarrow>
     tabs s1 = (tabs s)\<lparr>model_deployments := update_where (\<lambda>x. d_ID x = i)
        (\<lambda>x. x\<lparr>d_Status := r, d_UpdatedAt := clock s\<rparr>) (model_deployments (tabs s))\<rparr>"
  by (auto simp: UpdateDeploymentStatus_def update_deployments_def rows_or_not_found_def failE_def
      returnE_def guarded_Inr dest!: bindE_InrD map_err_InrD sql_InrD split: if_splits)

text \<open>The status after a reconciliation that found \<open>n\<close> target nodes, and the phase it can have.\<close>

definition next_status :: "nat \<Rightarrow> int \<Rightarrow> int \<Rightarrow> DeploymentStatusJSON \<Rightarrow> DeploymentStatusJSON" where
  "next_status n ready failed st =
     (let st1 = (if st_Phase st = ''Pending'' \<and> n > 0
                 then st\<lparr>st_Phase := ''RollingOut'', st_DesiredNodes := int n\<rparr> else st)
      in if st_Phase st1 = ''RollingOut'' then aggregate_status ready failed st1 else st1)"

lemma next_status_phase:
  "st_Phase st = ''Pending'' \<Longrightarrow> 0 < n \<Longrightarrow> st_Phase (next_status n r f st) \<in> {''RollingOut'', ''Active'', ''Failed''}"
  "st_Phase st = ''Pending'' \<Longrightarrow> next_status 0 r f st = st"
  "st_Phase st = ''RollingOut'' \<Longrightarrow> st_Phase (next_status n r f st) \<in> {''RollingOut'', ''Active'', ''Failed''}"
  "st_Phase st \<notin> {''Pending'', ''RollingOut''} \<Longrightarrow> next_status n r f st = st"
  by (auto simp: next_status_def aggregate_status_def Let_def)

context task_creator
begin

lemma dispatch_tasks_InrD:
  assumes "dispatch_tasks create d nodeIDs runtime st s = (Inr st', s1)"
  shows "clock s1 = clock s \<and>
    (if st_Phase st = ''Pending'' \<and> nodeIDs \<noteq> []
     then st' = st\<lparr>st_Phase := ''RollingOut'', st_DesiredNodes := int (length nodeIDs)\<rparr>
       \<and> (\<exists>new. tabs s1 = (tabs s)\<lparr>tasks := tasks (tabs s) @ new\<rparr> \<and> task_batch nodeIDs new)
     else st' = st \<and> tabs s1 = tabs s)"
proof (cases "st_Phase st = ''Pending'' \<and> nodeIDs \<noteq> []")
  case True
  with assms show ?thesis
    by (auto simp: dispatch_tasks_def returnE_def dest!: bindE_InrD map_err_InrD create_batch)
next
  case False
  with assms show ?thesis by (auto simp: dispatch_tasks_def returnE_def)
qed

lemma reconcile_body_InrD:
  assumes "reconcile_body create d nodeIDs runtime s = (Inr (), s1)"
  shows "\<exists>row new. deployment_by_id (d_ID d) (tabs s) = Some row
    \<and> (if st_Phase (status_of row) = ''Pending'' \<and> nodeIDs \<noteq> [] then task_batch nodeIDs new else new = [])
    \<and> tabs s1 = (tabs s)\<lparr>tasks := tasks (tabs s) @ new,
        model_deployments := update_where (\<lambda>x. d_ID x = d_ID row)
          (\<lambda>x. x\<lparr>d_Status := Raw_JSON (json_of_status (next_status (length nodeIDs)
                 (int (model_states ''Running'' (d_ModelName d) (d_ModelVersion d) (tabs s)))
                 (int (model_states ''Failed'' (d_ModelName d) (d_ModelVersion d) (tabs s))) (status_of row))),
              d_UpdatedAt := clock s\<rparr>) (model_deployments (tabs s))\<rparr>"
proof -
  from assms obtain row a st1 b st2 c where
    get: "GetDeploymentForUpdate (d_ID d) s = (Inr row, a)"
    and disp: "dispatch_tasks create d nodeIDs runtime (status_of row) a = (Inr st1, b)"
    and cnt: "count_states d st1 b = (Inr st2, c)"
    and upd: "UpdateDeploymentStatus (d_ID row) (Raw_JSON (json_of_status st2)) c = (Inr (), s1)"
    unfolding reconcile_body_def by (auto dest!: bindE_InrD)
  from get have row: "deployment_by_id (d_ID d) (tabs s) = Some row" and a: "tabs a = tabs s" "clock a = clock s"
    by (auto dest: GetDeploymentForUpdate_InrD)
  from dispatch_tasks_InrD [OF disp] a obtain new where
    new: "tabs b = (tabs s)\<lparr>tasks := tasks (tabs s) @ new\<rparr>" "clock b = clock s"
      "if st_Phase (status_of row) = ''Pending'' \<and> nodeIDs \<noteq> [] then task_batch nodeIDs new else new = []"
    and st1: "st1 = (if st_Phase (status_of row) = ''Pending'' \<and> nodeIDs \<noteq> []
       then (status_of row)\<lparr>st_Phase := ''RollingOut'', st_DesiredNodes := int (length nodeIDs)\<rparr> else status_of row)"
    by (auto split: if_splits)
  from count_states_InrD [OF cnt] new have c: "tabs c = tabs b" "clock c = clock s" "st2 = next_status (length nodeIDs)
       (int (model_states ''Running'' (d_ModelName d) (d_ModelVersion d) (tabs s)))
       (int (model_states ''Failed'' (d_ModelName d) (d_ModelVersion d) (tabs s))) (status_of row)"
    by (auto simp: next_status_def st1 Let_def model_states_def)
  with UpdateDeploymentStatus_InrD [OF upd] row new show ?thesis by auto
qed

end

text \<open>The nodes a deployment targets.\<close>

definition target_nodes :: "DeploymentRow \<Rightarrow> tables \<Rightarrow> string list" where
  "target_nodes d t = (let target = snd (unmarshal_target (d_Target d)) in
     map nd_ID (filter (node_selected (tg_GatewayIDs target) (tg_LabelSelector target)) (edge_nodes t)))"

definition reconciled :: "DeploymentRow \<Rightarrow> timestamp \<Rightarrow> tables \<Rightarrow> tables \<Rightarrow> bool" where
  "reconciled d now t t1 =
     (\<exists>row new. deployment_by_id (d_ID d) t = Some row
       \<and> (if st_Phase (status_of row) = ''Pending'' \<and> target_nodes d t \<noteq> []
           then task_batch (target_nodes d t) new else new = [])
       \<and> t1 = t\<lparr>tasks := tasks t @ new,
           model_deployments := update_where (\<lambda>x. d_ID x = d_ID row)
             (\<lambda>x. x\<lparr>d_Status := Raw_JSON (json_of_status (next_status (length (target_nodes d t))
                    (int (model_states ''Running'' (d_ModelName d) (d_ModelVersion d) t))
                    (int (model_states ''Failed'' (d_ModelName d) (d_ModelVersion d) t)) (status_of row))),
                 d_UpdatedAt := now\<rparr>) (model_deployments t)\<rparr>)"

lemma resolveRuntime_tabs: "resolveRuntime rt m s = (r, s1) \<Longrightarrow> tabs s1 = tabs s \<and> clock s1 = clock s"
  by (cases r) (auto simp: resolveRuntime_def ListRuntimeProfiles_def run_defs
      dest!: sql_read_tabs split: if_splits prod.splits sum.splits)

lemma ListNodes_tabs:
  "ListNodesByGatewayAndLabels g l s = (r, s1) \<Longrightarrow> tabs s1 = tabs s \<and> clock s1 = clock s
     \<and> (\<forall>ns. r = Inr ns \<longrightarrow> ns = map nd_ID (filter (node_selected g l) (edge_nodes (tabs s))))"
  by (cases r) (auto simp: ListNodesByGatewayAndLabels_def map_err_def
      dest: sql_read_tabs sql_read_InrD split: prod.splits sum.splits)

lemma keep_resolveRuntime [keeps]: "keep I (resolveRuntime rt m)"
  unfolding resolveRuntime_def by (intro keeps)

context task_creator
begin

lemma keep_reconcile_body: "keep db_wf (reconcile_body create d nodeIDs runtime)"
  unfolding reconcile_body_def dispatch_tasks_def count_states_def
  by (intro keeps create_keeps | clarsimp)+

lemma keep_reconcileOne: "keep db_wf (reconcileOne create d)"
  unfolding reconcileOne_def
  by (auto intro!: keeps keep_reconcile_body split: prod.splits bool.splits)

text \<open>Whatever fails, a reconciliation either changes nothing or does the whole of its work.\<close>

text \<open>Up to its transaction a reconciliation only reads.\<close>

lemma reconcileOne_D:
  assumes "reconcileOne create d s = (r, s1)"
  shows "(tabs s1 = tabs s \<and> (\<exists>e. r = Inl e))
    \<or> (\<exists>runtime b. tabs b = tabs s \<and> clock b = clock s \<and> WithTx (reconcile_body create d (target_nodes d (tabs s)) runtime) b = (r, s1))"
proof (cases "fst (unmarshal_target (d_Target d))")
  case False
  with assms show ?thesis
    by (cases "unmarshal_target (d_Target d)") (auto simp: reconcileOne_def failE_def)
next
  case True
  define target where "target = snd (unmarshal_target (d_Target d))"
  with True have u: "unmarshal_target (d_Target d) = (True, target)"
    by (cases "unmarshal_target (d_Target d)") auto
  obtain q a where nodes: "ListNodesByGatewayAndLabels (tg_GatewayIDs target) (tg_LabelSelector target) s = (q, a)" by force
  note a = ListNodes_tabs [OF nodes]
  show ?thesis
  proof (cases q)
    case (Inl e)
    with assms u nodes a show ?thesis by (auto simp: reconcileOne_def run_defs)
  next
    case (Inr nodeIDs)
    with a have ids: "nodeIDs = target_nodes d (tabs s)" by (simp add: target_nodes_def target_def Let_def)
    obtain p b where res: "resolveRuntime (d_Runtime d) (d_ModelName d) a = (p, b)" by force
    with assms u nodes Inr a resolveRuntime_tabs [OF res] ids show ?thesis
      by (cases p) (auto simp: reconcileOne_def run_defs)
  qed
qed

lemma reconcileOne_atomic:
  assumes "reconcileOne create d s = (r, s1)"
  shows "(tabs s1 = tabs s \<and> (\<exists>e. r = Inl e)) \<or> (r = Inr () \<and> reconciled d (clock s) (tabs s) (tabs s1))"
  using reconcileOne_D [OF assms]
proof (elim disjE exE conjE)
  fix runtime b
  assume b: "tabs b = tabs s" "clock b = clock s"
    and tx: "WithTx (reconcile_body create d (target_nodes d (tabs s)) runtime) b = (r, s1)"
  show ?thesis
  proof (cases r)
    case (Inl e)
    with tx b show ?thesis by (auto dest: WithTx_error_tabs)
  next
    case (Inr x)
    with tx obtain c e where body: "reconcile_body create d (target_nodes d (tabs s)) runtime c = (Inr (), e)"
      and ce: "tabs c = tabs b" "clock c = clock b" "tabs s1 = tabs e"
      by (auto dest!: WithTx_InrD)
    have eqs: "tabs c = tabs s" "clock c = clock s" using ce b by simp_all
    have "reconciled d (clock s) (tabs s) (tabs s1)"
      using reconcile_body_InrD [OF body] unfolding reconciled_def eqs ce(3) .
    with Inr show ?thesis by simp
  qed
qed simp

end

text \<open>The creator of the sources satisfies the contract.\<close>

lemma create_node_tasks_InrD:
  "create_node_tasks p payload nodeIDs s = (Inr (), s1) \<Longrightarrow>
     clock s1 = clock s \<and> (\<exists>new. tabs s1 = (tabs s)\<lparr>tasks := tasks (tabs s) @ new\<rparr>
       \<and> map t_TargetNodeID new = map Some nodeIDs
       \<and> (\<forall>c \<in> set new. t_ParentTaskID c = Some p \<and> t_Status c = ''Pending''
             \<and> t_DispatchStatus c = ''Unclaimed'' \<and> t_Type c = ''StartRuntime''))"
proof (induction nodeIDs arbitrary: s)
  case Nil
  then show ?case by (auto simp: returnE_def)
next
  case (Cons n ns)
  from Cons.prems obtain r a where ins: "insert_task (\<lambda>i now. default_task\<lparr>t_ID := i, t_ParentTaskID := Some p,
        t_Type := ''StartRuntime'', t_TargetNodeID := Some n, t_Payload := payload, t_CreatedAt := now,
        t_UpdatedAt := now\<rparr>) s = (Inr r, a)"
    and rest: "create_node_tasks p payload ns a = (Inr (), s1)"
    by (auto dest!: bindE_InrD map_err_InrD)
  from Cons.IH [OF rest] insert_task_InrD [OF ins] show ?case
    by clarsimp (rule_tac x = "r # new" in exI, auto simp: default_task_def)
qed

lemma CreateDeploymentTask_batch:
  assumes "CreateDeploymentTask dep m v rt nodeIDs payload s = (Inr (), s1)"
  shows "clock s1 = clock s \<and> (\<exists>new. tabs s1 = (tabs s)\<lparr>tasks := tasks (tabs s) @ new\<rparr> \<and> task_batch nodeIDs new)"
proof -
  from assms obtain parent a where ins: "insert_task (\<lambda>i now. default_task\<lparr>t_ID := i, t_Scope := ''Region'',
        t_Type := ''DeployModel'', t_Payload := payload, t_CreatedAt := now, t_UpdatedAt := now\<rparr>) s = (Inr parent, a)"
    and rest: "create_node_tasks (t_ID parent) (node_payload dep m v rt) nodeIDs a = (Inr (), s1)"
    unfolding CreateDeploymentTask_def by (auto dest!: bindE_InrD map_err_InrD)
  from create_node_tasks_InrD [OF rest] insert_task_InrD [OF ins] show ?thesis
    by clarsimp (rule_tac x = "parent # new" in exI, auto simp: task_batch_def)
qed

lemma keep_create_node_tasks [keeps]: "keep db_wf (create_node_tasks p payload ns)"
  by (induction ns) (auto intro!: keeps)

lemma keep_CreateDeploymentTask [keeps]: "keep db_wf (CreateDeploymentTask dep m v rt ns payload)"
  unfolding CreateDeploymentTask_def by (intro keeps)

interpretation controller_tasks: task_creator CreateDeploymentTask
  by unfold_locales (rule CreateDeploymentTask_batch, assumption, rule keep_CreateDeploymentTask)

section \<open>Properties\<close>

text \<open>C13: dispatch is atomic and happens once. Whatever statement fails, a reconciliation either
  returns an error and changes nothing, or it does all of its work: the status column of that
  deployment becomes the next status and, exactly if its phase was Pending and it has target nodes,
  one region task and one Pending task per target node are added. A deployment whose phase is not
  Pending gets no task. The constraints of the schema are kept.\<close>

theorem reconcile_atomic_dispatch:
  assumes "reconcileOne CreateDeploymentTask d s = (r, s1)" "db_wf (tabs s)"
  shows "db_wf (tabs s1)
    \<and> ((tabs s1 = tabs s \<and> (\<exists>e. r = Inl e)) \<or> (r = Inr () \<and> reconciled d (clock s) (tabs s) (tabs s1)))
    \<and> (\<forall>row. deployment_by_id (d_ID d) (tabs s) = Some row \<and> st_Phase (status_of row) \<noteq> ''Pending''
         \<longrightarrow> tasks (tabs s1) = tasks (tabs s))"
proof (intro conjI)
  show "db_wf (tabs s1)"
    using controller_tasks.keep_reconcileOne assms(2,1) by (rule keepD)
  show atomic: "(tabs s1 = tabs s \<and> (\<exists>e. r = Inl e)) \<or> (r = Inr () \<and> reconciled d (clock s) (tabs s) (tabs s1))"
    using assms(1) by (rule controller_tasks.reconcileOne_atomic)
  from atomic show "\<forall>row. deployment_by_id (d_ID d) (tabs s) = Some row \<and> st_Phase (status_of row) \<noteq> ''Pending''
      \<longrightarrow> tasks (tabs s1) = tasks (tabs s)"
    by (auto simp: reconciled_def)
qed

definition example_deployment :: "string \<Rightarrow> DeploymentRow" where
  "example_deployment phase = \<lparr>d_ID = ''d1'', d_ModelName = ''llama'', d_ModelVersion = ''1'',
     d_Target = Raw_JSON (json_of_target \<lparr>tg_GatewayIDs = [''g1''], tg_LabelSelector = []\<rparr>), d_Runtime = ''auto'',
     d_Rollout = Raw_JSON (json_of_rollout 1),
     d_Status = Raw_JSON (json_of_status (zero_status\<lparr>st_Phase := phase\<rparr>)), d_CreatedAt = 4, d_UpdatedAt = 4\<rparr>"

definition deploy_tables :: "string \<Rightarrow> tables" where
  "deploy_tables phase = example_tables\<lparr>model_deployments := [example_deployment phase]\<rparr>"

lemma deploy_tables_wf: "db_wf (deploy_tables phase)"
  using example_wf by (simp add: db_wf_def deploy_tables_def deployments_wf_def table_ids)

lemma example_status: "status_of (example_deployment phase) = zero_status\<lparr>st_Phase := phase\<rparr>"
  by (simp add: status_of_def example_deployment_def status_json_roundtrip zero_status_def in_int64_def)

theorem reconcile_atomic_dispatch_witness:
  "tasks (tabs (snd (reconcileOne CreateDeploymentTask (example_deployment ''Active'')
     (session_at (deploy_tables ''Active'') 9)))) = tasks example_tables"
proof -
  have "deployment_by_id (d_ID (example_deployment ''Active'')) (deploy_tables ''Active'') =
      Some (example_deployment ''Active'')"
    by (simp add: deployment_by_id_def deploy_tables_def)
  then show ?thesis
    using reconcile_atomic_dispatch [of "example_deployment ''Active''" "session_at (deploy_tables ''Active'') 9"]
      deploy_tables_wf [of "''Active''"] example_status [of "''Active''"]
    by (cases "reconcileOne CreateDeploymentTask (example_deployment ''Active'') (session_at (deploy_tables ''Active'') 9)")
      (auto simp: deploy_tables_def)
qed

lemma unmarshal_int_range:
  "unmarshal_field unmarshal_int k kvs n = (ok, m) \<Longrightarrow> in_int64 n \<Longrightarrow> in_int64 m"
  by (auto simp: unmarshal_field_def unmarshal_int_def split: option.splits json.splits if_splits)

lemma status_of_range:
  "in_int64 (st_DesiredNodes (status_of row)) \<and> in_int64 (st_ReadyNodes (status_of row))
     \<and> in_int64 (st_FailedNodes (status_of row))"
proof -
  have z: "in_int64 0" by (simp add: in_int64_def)
  show ?thesis
    by (auto simp: status_of_def unmarshal_status_def unmarshal_raw_def decode_status_def zero_status_def z
        split: raw.splits json.splits prod.splits dest!: unmarshal_int_range)
qed

lemma next_status_range:
  assumes "in_int64 (st_DesiredNodes st)" "in_int64 (st_ReadyNodes st)" "in_int64 (st_FailedNodes st)"
    and "in_int64 (int n)" "in_int64 r" "in_int64 f"
  shows "unmarshal_status (Raw_JSON (json_of_status (next_status n r f st))) = (True, next_status n r f st)"
  using assms by (intro status_json_roundtrip) (auto simp: next_status_def aggregate_status_def Let_def)


lemma active_reconcile_runs:
  "\<exists>s1. reconcileOne CreateDeploymentTask (example_deployment ''Active'')
     (session_at (deploy_tables ''Active'') 9) = (Inr (), s1)"
proof -
  have t: "unmarshal_target (d_Target (example_deployment p)) = (True, \<lparr>tg_GatewayIDs = [''g1''], tg_LabelSelector = []\<rparr>)" for p
    by (simp add: example_deployment_def target_json_roundtrip)
  have g: "deployment_by_id ''d1'' (deploy_tables p) = Some (example_deployment p)" "d_ID (example_deployment p) = ''d1''" for p
    by (simp_all add: deployment_by_id_def deploy_tables_def example_deployment_def)
  have n: "count_where (\<lambda>r. d_ID r = ''d1'') (model_deployments (deploy_tables p)) = 1" for p
    by (simp add: deploy_tables_def example_deployment_def)
  show ?thesis
    by (simp add: reconcileOne_def t ListNodesByGatewayAndLabels_def run_defs sql_read_quiet
        resolveRuntime_def ListRuntimeProfiles_def WithTx_quiet reconcile_body_def
        GetDeploymentForUpdate_def sql_row_quiet g dispatch_tasks_def example_status count_states_def
        UpdateDeploymentStatus_def update_deployments_def sql_quiet guarded_def check_jsonb_def n
        rows_or_not_found_def commit_tx_quiet)
qed


end
