(* ===== verification/Rollout.thy ===== *)
theory Rollout
  imports Deploy_Controller
begin

text \<open>
  The rollout checker (\<open>internal/deployment/rollout.go\<close>): how many more nodes may be updated, whether a
  deployment is complete, and the phase it suggests.
\<close>

text \<open>Subtractions and sums are those of Go's 64-bit \<open>int\<close>.\<close>

definition CanProceed :: "DeploymentRow \<Rightarrow> bool \<times> int" where
  "CanProceed row =
     (case unmarshal_status (d_Status row) of
        (False, _) \<Rightarrow> (False, 0)
      | (True, st) \<Rightarrow>
          (case unmarshal_rollout (d_Rollout row) of
             (False, _) \<Rightarrow> (False, 0)
           | (True, mu) \<Rightarrow>
               let maxUnavailable = (if mu \<le> 0 then 1 else mu);
                   u = wrap64 (st_DesiredNodes st - st_ReadyNodes st);
                   unavailable = (if u < 0 then 0 else u)
               in if unavailable \<ge> maxUnavailable then (False, 0)
                  else
                    let allowedBatch = maxUnavailable - unavailable;
                        r = wrap64 (st_DesiredNodes st - st_ReadyNodes st - st_FailedNodes st);
                        remaining = (if r < 0 then 0 else r);
                        allowedBatch = (if allowedBatch > remaining then remaining else allowedBatch)
                    in (allowedBatch > 0, allowedBatch)))"

definition IsComplete :: "DeploymentRow \<Rightarrow> bool" where
  "IsComplete row =
     (case unmarshal_status (d_Status row) of
        (False, _) \<Rightarrow> False
      | (True, st) \<Rightarrow> wrap64 (st_ReadyNodes st + st_FailedNodes st) \<ge> st_DesiredNodes st)"

definition SuggestPhase :: "DeploymentRow \<Rightarrow> string" where
  "SuggestPhase row =
     (case unmarshal_status (d_Status row) of
        (False, _) \<Rightarrow> ''Failed''
      | (True, st) \<Rightarrow>
          if st_ReadyNodes st \<ge> st_DesiredNodes st then ''Active''
          else if st_FailedNodes st > 0 \<and> wrap64 (st_ReadyNodes st + st_FailedNodes st) \<ge> st_DesiredNodes st
          then ''Failed''
          else ''RollingOut'')"

text \<open>A row with this status and rollout, with counts of a fleet.\<close>

definition rollout_row :: "DeploymentRow \<Rightarrow> DeploymentStatusJSON \<Rightarrow> int \<Rightarrow> bool" where
  "rollout_row row st mu =
     (unmarshal_status (d_Status row) = (True, st) \<and> unmarshal_rollout (d_Rollout row) = (True, mu)
      \<and> 0 \<le> st_DesiredNodes st \<and> st_DesiredNodes st < 2 ^ 31 \<and> 0 \<le> st_ReadyNodes st \<and> st_ReadyNodes st < 2 ^ 31
      \<and> 0 \<le> st_FailedNodes st \<and> st_FailedNodes st < 2 ^ 31)"

lemma rollout_wraps:
  assumes "rollout_row row st mu"
  shows "wrap64 (st_DesiredNodes st - st_ReadyNodes st) = st_DesiredNodes st - st_ReadyNodes st"
    "wrap64 (st_DesiredNodes st - st_ReadyNodes st - st_FailedNodes st) =
       st_DesiredNodes st - st_ReadyNodes st - st_FailedNodes st"
    "wrap64 (st_ReadyNodes st + st_FailedNodes st) = st_ReadyNodes st + st_FailedNodes st"
  using assms by (auto simp: rollout_row_def intro!: wrap64_id)

text \<open>C32: the rollout constraint. The checker lets a batch proceed only with a positive size such that,
  together with the nodes that are not ready, at most max_unavailable (1 if not positive) nodes are
  unavailable, and never more than the nodes neither ready nor failed. It proceeds exactly if there is
  such a node and fewer than max_unavailable nodes are not ready, so with the default of 1 it never
  proceeds: a node that remains to be updated is itself not ready. When nodes are complete, the
  suggested phase is Active or Failed.\<close>

theorem rollout_constraint:
  assumes "rollout_row row st mu"
  shows "(\<forall>b. CanProceed row = (True, b) \<longrightarrow>
        0 < b \<and> max 0 (st_DesiredNodes st - st_ReadyNodes st) + b \<le> max 1 mu
        \<and> b \<le> st_DesiredNodes st - st_ReadyNodes st - st_FailedNodes st)
    \<and> (fst (CanProceed row) \<longleftrightarrow>
        0 < st_DesiredNodes st - st_ReadyNodes st - st_FailedNodes st
        \<and> st_DesiredNodes st - st_ReadyNodes st < max 1 mu)
    \<and> (mu \<le> 1 \<longrightarrow> \<not> fst (CanProceed row))
    \<and> (IsComplete row \<longleftrightarrow> SuggestPhase row \<in> {''Active'', ''Failed''})"
proof -
  note w = rollout_wraps [OF assms]
  from assms have dec: "unmarshal_status (d_Status row) = (True, st)" "unmarshal_rollout (d_Rollout row) = (True, mu)"
    and r: "0 \<le> st_DesiredNodes st" "0 \<le> st_ReadyNodes st" "0 \<le> st_FailedNodes st"
    by (simp_all add: rollout_row_def)
  have c: "CanProceed row =
      (let m = max 1 mu; u = max 0 (st_DesiredNodes st - st_ReadyNodes st);
           rem = max 0 (st_DesiredNodes st - st_ReadyNodes st - st_FailedNodes st)
       in if u \<ge> m then (False, 0) else (min (m - u) rem > 0, min (m - u) rem))"
    unfolding CanProceed_def dec prod.case bool.case w by (simp add: Let_def max_def min_def)
  have s: "IsComplete row \<longleftrightarrow> SuggestPhase row \<in> {''Active'', ''Failed''}"
    using r by (auto simp: IsComplete_def SuggestPhase_def dec w)
  from r s show ?thesis
    unfolding c by (auto simp: Let_def min_def max_def split: if_splits)
qed

theorem rollout_constraint_witness:
  "CanProceed ((example_deployment ''RollingOut'')\<lparr>d_Rollout := Raw_JSON (json_of_rollout 3),
      d_Status := Raw_JSON (json_of_status \<lparr>st_DesiredNodes = 5, st_ReadyNodes = 3, st_FailedNodes = 0,
        st_Phase = ''RollingOut''\<rparr>)\<rparr>) = (True, 1)
   \<and> max 0 (5 - 3) + 1 \<le> max 1 (3 :: int)"
proof -
  let ?st = "\<lparr>st_DesiredNodes = 5, st_ReadyNodes = 3, st_FailedNodes = 0, st_Phase = ''RollingOut''\<rparr>"
  let ?row = "(example_deployment ''RollingOut'')\<lparr>d_Rollout := Raw_JSON (json_of_rollout 3),
      d_Status := Raw_JSON (json_of_status ?st)\<rparr>"
  have ok: "rollout_row ?row ?st 3"
    by (simp add: rollout_row_def status_json_roundtrip rollout_json_roundtrip in_int64_def)
  then have "CanProceed ?row = (True, 1)"
    unfolding CanProceed_def rollout_row_def by (simp add: wrap64_id)
  with rollout_constraint [OF ok] show ?thesis by auto
qed

section \<open>The resolved runtime\<close>

text \<open>The profile answers for the model: its selector is a map of strings that matches.\<close>

definition answers :: "string \<Rightarrow> RuntimeProfileRow \<Rightarrow> bool" where
  "answers modelName p =
     (fst (unmarshal_raw unmarshal_smap (p_Selector p) [])
      \<and> matchesSelector (snd (unmarshal_raw unmarshal_smap (p_Selector p) [])) modelName)"

lemma first_match_find:
  "first_match ps m = (case find (answers m) ps of None \<Rightarrow> ''llamacpp'' | Some p \<Rightarrow> p_Runtime p)"
  by (induction ps) (auto simp: answers_def split: prod.splits bool.splits)

lemma find_sorted_best:
  "find P xs = Some x \<Longrightarrow> sorted (map k xs) \<Longrightarrow> \<forall>y \<in> set xs. P y \<longrightarrow> k x \<le> (k y :: int)"
  by (induction xs) (auto split: if_splits)

text \<open>Resolving the runtime. A runtime other than "auto" is used as it is. For "auto", in a session
  without faults, it is the runtime of a profile that answers for the model and has the highest
  priority of those that do, and "llamacpp" exactly if no profile answers; a profile whose selector
  does not decode is skipped.\<close>

lemma resolve_runtime_priority:
  assumes "quiet s"
  shows "(runtime \<noteq> ''auto'' \<longrightarrow> fst (resolveRuntime runtime m s) = Inr runtime)
    \<and> (\<exists>chosen. fst (resolveRuntime ''auto'' m s) = Inr chosen
        \<and> (if \<exists>p \<in> set (runtime_profiles (tabs s)). answers m p
           then \<exists>p \<in> set (runtime_profiles (tabs s)). answers m p \<and> p_Runtime p = chosen
              \<and> (\<forall>q \<in> set (runtime_profiles (tabs s)). answers m q \<longrightarrow> p_Priority q \<le> p_Priority p)
           else chosen = ''llamacpp''))"
proof -
  let ?ps = "profile_order (runtime_profiles (tabs s))"
  have set: "set ?ps = set (runtime_profiles (tabs s))" by (simp add: profile_order_def)
  have run: "fst (resolveRuntime ''auto'' m s) = Inr (first_match ?ps m)"
    using assms by (simp add: resolveRuntime_def ListRuntimeProfiles_def run_defs sql_read_quiet)
  have explicit: "runtime \<noteq> ''auto'' \<longrightarrow> fst (resolveRuntime runtime m s) = Inr runtime"
    by (simp add: resolveRuntime_def returnE_def)
  show ?thesis
  proof (cases "find (answers m) ?ps")
    case None
    with set have "\<not> (\<exists>p \<in> set (runtime_profiles (tabs s)). answers m p)" by (simp add: find_None_iff)
    with None run explicit show ?thesis by (simp add: first_match_find)
  next
    case (Some p)
    then have p: "p \<in> set ?ps" "answers m p" by (auto dest: find_Some_set)
    have "sorted (map (\<lambda>x. - p_Priority x) ?ps)" by (simp add: profile_order_def sorted_order_desc)
    from find_sorted_best [OF Some this] set have
      "\<forall>q \<in> set (runtime_profiles (tabs s)). answers m q \<longrightarrow> p_Priority q \<le> p_Priority p" by auto
    moreover have "fst (resolveRuntime ''auto'' m s) = Inr (p_Runtime p)"
      using run Some by (simp add: first_match_find)
    ultimately show ?thesis using p set explicit by auto
  qed
qed

definition example_profile :: "string \<Rightarrow> int \<Rightarrow> string \<Rightarrow> RuntimeProfileRow" where
  "example_profile i prio rt = \<lparr>p_ID = i, p_Name = i,
     p_Selector = Raw_JSON (json_of_smap [(''model_name'', ''llama'')]), p_Runtime = rt, p_Priority = prio,
     p_RuntimeConfig = empty_object, p_CreatedAt = 1\<rparr>"

lemma example_profile_fields:
  "p_Priority (example_profile i n rt) = n" "p_Runtime (example_profile i n rt) = rt"
  by (simp_all add: example_profile_def)

lemma resolve_runtime_priority_witness:
  "fst (resolveRuntime ''auto'' ''llama'' (session_at (empty_tables\<lparr>runtime_profiles :=
     [example_profile ''p1'' 1 ''vllm'', example_profile ''p2'' 5 ''triton'']\<rparr>) 9)) = Inr ''triton''"
proof -
  let ?ps = "[example_profile ''p1'' 1 ''vllm'', example_profile ''p2'' 5 ''triton'']"
  have a: "answers ''llama'' (example_profile i n rt)" for i n rt
    by (simp add: answers_def example_profile_def unmarshal_raw_def unmarshal_smap_json_of_smap matchesSelector_def)
  show ?thesis
    using resolve_runtime_priority [of "session_at (empty_tables\<lparr>runtime_profiles := ?ps\<rparr>) 9" "''auto''" "''llama''"]
    by (auto simp: a example_profile_fields)
qed

text \<open>Listing deployments. A client that follows the page tokens with a page size from 1 to 100 gets
  every deployment that matches the filter exactly once, newest first.\<close>

lemma list_deployments_paging:
  assumes "quiet s" "0 < n" "n \<le> 100" "int (length (deployment_listing req (tabs s))) < 2 ^ 62"
  shows "fst (walk (Suc (length (deployment_listing req (tabs s))))
      (\<lambda>page. Service_ListDeployments (req\<lparr>ld_Page := page\<rparr>)) n [] s) =
    Inr (map deploymentToProto (deployment_listing req (tabs s)))"
  using deployment_paging.walk_all [of s n req] assms by simp

lemma list_deployments_paging_witness:
  "fst (walk 2 (\<lambda>page. Service_ListDeployments (\<lparr>ld_ModelName = [], ld_Phase = DEPLOYMENT_PHASE_UNSPECIFIED,
      ld_Page = None\<rparr>\<lparr>ld_Page := page\<rparr>)) 1 [] (session_at (deploy_tables ''Active'') 9)) =
   Inr [deploymentToProto (example_deployment ''Active'')]"
proof -
  let ?req = "\<lparr>ld_ModelName = [], ld_Phase = DEPLOYMENT_PHASE_UNSPECIFIED, ld_Page = None\<rparr>"
  have l: "deployment_listing ?req (deploy_tables ''Active'') = [example_deployment ''Active'']"
    by (simp add: deployment_listing_def deployment_where_def deployment_filter_def deploy_tables_def order_desc_def)
  show ?thesis
    using list_deployments_paging [of "session_at (deploy_tables ''Active'') 9" 1 ?req]
    by (simp add: l numeral_2_eq_2 del: walk.simps)
qed

end
