(* ===== verification/Observability.thy ===== *)
theory Observability
  imports Deploy_Store
begin

text \<open>
  Metrics and runtime states reported by the agents (\<open>internal/observability/reporter.go\<close>). A float
  is known by its JSON text, \<open>None\<close> for the values (NaN, infinities) that JSON cannot write.
\<close>

type_synonym float64 = "string option"

record MetricRegistry =
  mr_gauges :: "string \<rightharpoonup> float64"

definition NewMetricRegistry :: MetricRegistry where
  "NewMetricRegistry = \<lparr>mr_gauges = Map.empty\<rparr>"

text \<open>\<open>Gauge(name).Set(v)\<close> and \<open>Gauge(name).Get()\<close>: a gauge that is read for the first time is zero.\<close>

definition Gauge :: "string \<Rightarrow> MetricRegistry \<Rightarrow> MetricRegistry" where
  "Gauge name reg =
     (case mr_gauges reg name of
        Some v \<Rightarrow> reg | None \<Rightarrow> reg\<lparr>mr_gauges := (mr_gauges reg)(name \<mapsto> Some ''0'')\<rparr>)"

definition gauge_Set :: "string \<Rightarrow> float64 \<Rightarrow> MetricRegistry \<Rightarrow> MetricRegistry" where
  "gauge_Set name v reg = reg\<lparr>mr_gauges := (mr_gauges reg)(name \<mapsto> v)\<rparr>"

definition gauge_Get :: "string \<Rightarrow> MetricRegistry \<Rightarrow> float64" where
  "gauge_Get name reg = (case mr_gauges reg name of Some v \<Rightarrow> v | None \<Rightarrow> Some ''0'')"

definition Snapshot :: "MetricRegistry \<Rightarrow> string \<rightharpoonup> float64" where
  "Snapshot reg = mr_gauges reg"

definition metric_key :: "string \<Rightarrow> string \<Rightarrow> string" where
  "metric_key nodeID name = ''node:'' @ nodeID @ '':'' @ name"

text \<open>The metrics of a request are a Go map: its keys are distinct, and it is iterated in some order.\<close>

fun record_metrics :: "string \<Rightarrow> (string \<times> float64) list \<Rightarrow> MetricRegistry \<Rightarrow> MetricRegistry" where
  "record_metrics nodeID [] reg = reg"
| "record_metrics nodeID ((name, v) # ms) reg =
     record_metrics nodeID ms (gauge_Set (metric_key nodeID name) v (Gauge (metric_key nodeID name) reg))"

definition HandleMetrics ::
  "string \<Rightarrow> (string \<times> float64) list \<Rightarrow> MetricRegistry \<Rightarrow> (go_err + unit) \<times> MetricRegistry" where
  "HandleMetrics nodeID metrics reg =
     (if nodeID = [] then (Inl (GoErr ''observability: node_id is required''), reg)
      else (Inr (), record_metrics nodeID metrics reg))"

record RuntimeStateEntry =
  rs_ModelName :: string
  rs_ModelVersion :: string
  rs_Runtime :: string
  rs_Status :: string
  rs_LatencyP95Ms :: float64
  rs_TokensPerSec :: float64
  rs_Qps :: float64

text \<open>\<open>json.Marshal\<close> of the three metrics, whose error is dropped: nil if one of them has no JSON.\<close>

definition entry_metrics :: "RuntimeStateEntry \<Rightarrow> raw" where
  "entry_metrics e =
     (case (rs_LatencyP95Ms e, rs_Qps e, rs_TokensPerSec e) of
        (Some l, Some q, Some t) \<Rightarrow>
          Raw_JSON (JObj [(''latency_p95_ms'', JFrac l), (''qps'', JFrac q), (''tokens_per_sec'', JFrac t)])
      | _ \<Rightarrow> Nil_Raw)"

fun upsert_entries :: "string \<Rightarrow> RuntimeStateEntry list \<Rightarrow> unit dbm" where
  "upsert_entries nodeID [] = returnE ()"
| "upsert_entries nodeID (e # es) =
     bindE (catchE (UpsertRuntimeState nodeID (rs_ModelName e) (rs_ModelVersion e) (rs_Runtime e)
              (rs_Status e) (entry_metrics e)) (\<lambda>_. returnE ()))
       (\<lambda>_. upsert_entries nodeID es)"

definition HandleRuntimeState :: "string \<Rightarrow> RuntimeStateEntry list \<Rightarrow> unit dbm" where
  "HandleRuntimeState nodeID entries =
     (if nodeID = [] then failE (GoErr ''observability: node_id is required'')
      else upsert_entries nodeID entries)"

lemma keep_upsert_entries [keeps]: "keep db_wf (upsert_entries n es)"
  by (induction es) (auto intro!: keeps)

lemma keep_HandleRuntimeState [keeps]: "keep db_wf (HandleRuntimeState n es)"
  unfolding HandleRuntimeState_def by (intro keeps)

section \<open>Recorded values\<close>

lemma metric_key_inj: "metric_key n a = metric_key n b \<longleftrightarrow> a = b"
  by (simp add: metric_key_def)

lemma gauge_Get_Set: "gauge_Get k (gauge_Set k' v reg) = (if k = k' then v else gauge_Get k reg)"
  by (simp add: gauge_Get_def gauge_Set_def)

lemma gauge_Get_Gauge: "gauge_Get k (Gauge k' reg) = gauge_Get k reg"
  by (auto simp: gauge_Get_def Gauge_def split: option.splits)

lemma record_metrics_get:
  "distinct (map fst ms) \<Longrightarrow> gauge_Get k (record_metrics n ms reg) =
     (case find (\<lambda>(name, v). metric_key n name = k) ms of Some (name, v) \<Rightarrow> v | None \<Rightarrow> gauge_Get k reg)"
proof (induction ms arbitrary: reg)
  case Nil
  then show ?case by simp
next
  case (Cons m ms)
  obtain name v where m: "m = (name, v)" by force
  show ?case
  proof (cases "metric_key n name = k")
    case True
    have "find (\<lambda>(name, v). metric_key n name = k) ms = None"
      unfolding find_None_iff using Cons.prems m True by (auto simp: metric_key_inj image_iff)
    with Cons m True show ?thesis by (simp add: gauge_Get_Set)
  next
    case False
    with Cons m show ?thesis by (auto simp: gauge_Get_Set gauge_Get_Gauge split: option.splits)
  qed
qed

text \<open>Metrics. After a report of a node, the gauge of each reported metric of that node holds the
  reported value and every other gauge, of this node or another, is what it was; a report without a
  node is refused and records nothing.\<close>

lemma handle_metrics_records:
  assumes "distinct (map fst metrics)"
  shows "(nodeID = [] \<longrightarrow> (\<exists>e. HandleMetrics nodeID metrics reg = (Inl e, reg)))
    \<and> (nodeID \<noteq> [] \<longrightarrow> (\<exists>reg1. HandleMetrics nodeID metrics reg = (Inr (), reg1)
        \<and> (\<forall>(name, v) \<in> set metrics. gauge_Get (metric_key nodeID name) reg1 = v)
        \<and> (\<forall>k. k \<notin> metric_key nodeID ` fst ` set metrics \<longrightarrow> gauge_Get k reg1 = gauge_Get k reg)))"
proof -
  have hit: "gauge_Get (metric_key nodeID name) (record_metrics nodeID metrics reg) = v"
    if "(name, v) \<in> set metrics" for name v
  proof -
    have "find (\<lambda>p. fst p = fst (name, v)) metrics = Some (name, v)"
      using assms that by (rule find_key_unique)
    then have "find (\<lambda>(a, b). metric_key nodeID a = metric_key nodeID name) metrics = Some (name, v)"
      by (simp add: metric_key_inj case_prod_unfold)
    then show ?thesis by (simp add: record_metrics_get assms)
  qed
  have miss: "gauge_Get k (record_metrics nodeID metrics reg) = gauge_Get k reg"
    if "k \<notin> metric_key nodeID ` fst ` set metrics" for k
  proof -
    have "find (\<lambda>(a, b). metric_key nodeID a = k) metrics = None"
      unfolding find_None_iff using that by (force simp: image_iff)
    then show ?thesis by (simp add: record_metrics_get assms)
  qed
  show ?thesis using hit miss by (auto simp: HandleMetrics_def)
qed

lemma handle_metrics_records_witness:
  "\<exists>reg1. HandleMetrics ''n1'' [(''cpu'', Some ''0.5'')] NewMetricRegistry = (Inr (), reg1)
     \<and> gauge_Get ''node:n1:cpu'' reg1 = Some ''0.5''"
  using handle_metrics_records [of "[(''cpu'', Some ''0.5'')]" "''n1''" NewMetricRegistry]
  by (auto simp: metric_key_def)

end
