(* ===== verification/Agent_Service.thy ===== *)
theory Agent_Service
  imports Auth Observability Task_Claims
begin

text \<open>
  The gateway's service for agents (\<open>internal/gateway/agent_service.go\<close>): heartbeats, handing out
  tasks, taking results and reports. The context is the one the interceptor leaves. While
  \<open>PullTasks\<close> walks its result set it issues statements on the same transaction: they go through
  \<open>with_open_rows\<close>.
\<close>

definition validateAuthenticatedNode :: "rpc_ctx \<Rightarrow> string \<Rightarrow> go_err option" where
  "validateAuthenticatedNode ctx nodeID =
     (if NodeIDFromContext ctx \<noteq> [] \<and> NodeIDFromContext ctx \<noteq> nodeID
      then Some (StatusErr PermissionDenied ''node_id mismatch'') else None)"

text \<open>The checks every handler starts with.\<close>

definition with_node :: "rpc_ctx \<Rightarrow> string \<Rightarrow> 'a dbm \<Rightarrow> 'a dbm" where
  "with_node ctx nodeID m =
     (if nodeID = [] then failE (StatusErr InvalidArgument ''node_id is required'')
      else case validateAuthenticatedNode ctx nodeID of Some e \<Rightarrow> failE e | None \<Rightarrow> m)"

section \<open>Heartbeats\<close>

definition ReportHeartbeat :: "rpc_ctx \<Rightarrow> string \<Rightarrow> string \<Rightarrow> timestamp option \<Rightarrow> timestamp dbm" where
  "ReportHeartbeat ctx nodeID agentVersion reqTimestamp =
     with_node ctx nodeID
       (bindE get_clock (\<lambda>now. let ts = (case reqTimestamp of None \<Rightarrow> now | Some t \<Rightarrow> t) in
        bindE (map_err (internal_error ''update heartbeat'')
          (update_nodes [] (\<lambda>n. nd_ID n = nodeID)
             (\<lambda>now n. n\<lparr>nd_Online := True, nd_AgentVersion := Some agentVersion, nd_LastSeenAt := Some ts,
                nd_UpdatedAt := now\<rparr>)))
          (\<lambda>rows. if rows = 0 then failE (StatusErr NotFound ''node not found'') else get_clock)))"

section \<open>Handing out tasks\<close>

record NodeTask =
  nt_TaskId :: string
  nt_Type :: string
  nt_Payload :: raw
  nt_TimeoutSeconds :: int

definition max_tasks :: "int \<Rightarrow> int" where
  "max_tasks n = (let m = (if n \<le> 0 then 10 else n) in if m > 100 then 100 else m)"

definition pullable :: "string \<Rightarrow> string \<Rightarrow> TaskRow \<Rightarrow> bool" where
  "pullable gatewayID nodeID r =
     (t_Scope r = ''Node'' \<and> t_TargetNodeID r = Some nodeID
      \<and> (t_Status r = ''Pending'' \<or> t_Status r = ''Retrying'')
      \<and> (t_TargetGatewayID r = None \<or> t_TargetGatewayID r = Some gatewayID))"

definition pull_candidates :: "string \<Rightarrow> string \<Rightarrow> int \<Rightarrow> tables \<Rightarrow> TaskRow list" where
  "pull_candidates gatewayID nodeID maxTasks t =
     take (nat maxTasks) (order_asc t_CreatedAt (filter (pullable gatewayID nodeID) (tasks t)))"

definition node_task :: "TaskRow \<Rightarrow> NodeTask" where
  "node_task r = \<lparr>nt_TaskId = t_ID r, nt_Type = t_Type r, nt_Payload = t_Payload r,
     nt_TimeoutSeconds = t_TimeoutSeconds r\<rparr>"

definition mark_delivered_row :: "string \<Rightarrow> timestamp \<Rightarrow> TaskRow \<Rightarrow> TaskRow" where
  "mark_delivered_row gatewayID now r =
     r\<lparr>t_Status := ''Running'', t_DispatchStatus := ''Delivered'',
       t_OwnerInstance := (case t_OwnerInstance r of Some o' \<Rightarrow> Some o' | None \<Rightarrow> Some (''gateway:'' @ gatewayID)),
       t_UpdatedAt := now\<rparr>"

fun deliver_rows :: "string \<Rightarrow> string \<Rightarrow> TaskRow list \<Rightarrow> NodeTask list dbm" where
  "deliver_rows gatewayID nodeID [] = returnE []"
| "deliver_rows gatewayID nodeID (r # rs) =
     bindE (with_open_rows (map_err (wrap ''mark task running'')
       (update_tasks [] (\<lambda>_ x. t_ID x = t_ID r) (mark_delivered_row gatewayID)))) (\<lambda>_.
     bindE (with_open_rows (map_err (wrap ''create delivery event'')
       (CreateTaskEvent (t_ID r) ''delivered'' ''Pending'' ''Running'' (''gateway:'' @ gatewayID)
          (Raw_JSON (json_of_smap [(''gateway_id'', gatewayID), (''node_id'', nodeID)]))))) (\<lambda>_.
     bindE (deliver_rows gatewayID nodeID rs) (\<lambda>out. returnE (node_task r # out))))"

definition pull_body :: "string \<Rightarrow> string \<Rightarrow> int \<Rightarrow> NodeTask list dbm" where
  "pull_body gatewayID nodeID maxTasks =
     bindE (map_err (wrap ''query node tasks'') (sql_read (pull_candidates gatewayID nodeID maxTasks)))
       (deliver_rows gatewayID nodeID)"

definition PullTasks :: "string \<Rightarrow> rpc_ctx \<Rightarrow> string \<Rightarrow> int \<Rightarrow> NodeTask list dbm" where
  "PullTasks gatewayID ctx nodeID reqMaxTasks =
     with_node ctx nodeID
       (map_err (internal_error ''pull tasks'') (WithTx (pull_body gatewayID nodeID (max_tasks reqMaxTasks))))"

section \<open>Taking results\<close>

text \<open>The quoted text of an unsupported status is that of \<open>%q\<close> for printable text without quotes.\<close>

definition normalizeReportedStatus :: "string \<Rightarrow> go_err + string" where
  "normalizeReportedStatus raw =
     (let s = to_lower (trim_space raw) in
      if s = ''success'' then Inr ''Success''
      else if s \<in> set [''failed'', ''failure''] then Inr ''Failed''
      else if s \<in> set [''cancelled'', ''canceled''] then Inr ''Cancelled''
      else if s = ''timeout'' then Inr ''Timeout''
      else if s \<in> set [''partiallysucceeded'', ''partially_succeeded'', ''partially-succeeded'']
      then Inr ''PartiallySucceeded''
      else Inl (StatusErr InvalidArgument (''unsupported task status '' @ quote raw)))"

definition result_json :: "raw \<Rightarrow> raw" where
  "result_json r =
     (if raw_empty r then empty_object
      else case r of Raw_Text s \<Rightarrow> Raw_JSON (json_of_smap [(''raw_result'', s)]) | _ \<Rightarrow> r)"

record ReportTaskResultRequest =
  rr_TaskId :: string
  rr_NodeId :: string
  rr_Status :: string
  rr_ErrorMessage :: string
  rr_Result :: raw

definition report_body :: "ReportTaskResultRequest \<Rightarrow> string \<Rightarrow> unit dbm" where
  "report_body req newStatus =
     (let resultJSON = result_json (rr_Result req) in
      bindE (GetTaskForUpdate (rr_TaskId req)) (\<lambda>row.
        if t_TargetNodeID row \<noteq> Some (rr_NodeId req)
        then failE (StatusErr PermissionDenied ''task does not belong to node'')
        else
          bindE (LatestAttempt (t_ID row)) (\<lambda>attempt.
          bindE (CreateTaskRun (t_ID row) (rr_NodeId req) (attempt + 1)) (\<lambda>run.
          bindE (UpdateTaskRun (r_ID run) newStatus (rr_ErrorMessage req) resultJSON) (\<lambda>_.
          bindE (UpdateResult (t_ID row) newStatus resultJSON (t_RetryCount row)) (\<lambda>_.
            CreateTaskEvent (t_ID row) ''result_reported'' (t_Status row) newStatus (''agent:'' @ rr_NodeId req)
              (Raw_JSON (json_of_smap [(''error_message'', rr_ErrorMessage req), (''node_id'', rr_NodeId req)]))))))))"

definition report_error :: "go_err \<Rightarrow> go_err" where
  "report_error e =
     (case status_from_error e of Some (c, m) \<Rightarrow> StatusErr c m | None \<Rightarrow> internal_error ''report task result'' e)"

definition ReportTaskResult :: "rpc_ctx \<Rightarrow> ReportTaskResultRequest \<Rightarrow> unit dbm" where
  "ReportTaskResult ctx req =
     (if rr_TaskId req = [] then failE (StatusErr InvalidArgument ''task_id is required'')
      else with_node ctx (rr_NodeId req)
        (case normalizeReportedStatus (rr_Status req) of
           Inl e \<Rightarrow> failE e
         | Inr newStatus \<Rightarrow> map_err report_error (WithTx (report_body req newStatus))))"

section \<open>Reports\<close>

definition ReportMetrics ::
  "rpc_ctx \<Rightarrow> string \<Rightarrow> (string \<times> float64) list \<Rightarrow> MetricRegistry \<Rightarrow> (go_err + unit) \<times> MetricRegistry" where
  "ReportMetrics ctx nodeID metrics reg =
     (if nodeID = [] then (Inl (StatusErr InvalidArgument ''node_id is required''), reg)
      else case validateAuthenticatedNode ctx nodeID of
        Some e \<Rightarrow> (Inl e, reg)
      | None \<Rightarrow>
          (case HandleMetrics nodeID metrics reg of
             (Inl e, reg1) \<Rightarrow> (Inl (internal_error ''report metrics'' e), reg1)
           | (Inr u, reg1) \<Rightarrow> (Inr u, reg1)))"

definition ReportRuntimeState :: "rpc_ctx \<Rightarrow> string \<Rightarrow> RuntimeStateEntry list \<Rightarrow> unit dbm" where
  "ReportRuntimeState ctx nodeID entries =
     with_node ctx nodeID (map_err (internal_error ''report runtime state'') (HandleRuntimeState nodeID entries))"

section \<open>Constraints\<close>

lemma keep_with_node [keeps]: "keep I m \<Longrightarrow> keep I (with_node ctx n m)"
  unfolding with_node_def by (intro keeps)

lemma keep_deliver_rows [keeps]: "keep db_wf (deliver_rows g n rs)"
  by (induction rs) (auto intro!: keeps keep_update_tasks simp: mark_delivered_row_def)

lemma keep_agent_service [keeps]:
  "keep db_wf (ReportHeartbeat ctx n v ts)" "keep db_wf (PullTasks g ctx n m)"
  "keep db_wf (report_body req s)" "keep db_wf (ReportRuntimeState ctx n es)"
  unfolding ReportHeartbeat_def PullTasks_def pull_body_def report_body_def ReportRuntimeState_def Let_def
  by (intro keeps keep_update_nodes | simp)+

lemma keep_ReportTaskResult [keeps]: "keep db_wf (ReportTaskResult ctx req)"
  unfolding ReportTaskResult_def by (auto intro!: keeps split: sum.splits)

section \<open>Delivery\<close>

lemma with_open_rows_run: "conn_busy d = None \<Longrightarrow> with_open_rows m d = m d"
  by (simp add: with_open_rows_def)

definition delivery_event :: "string \<Rightarrow> string \<Rightarrow> timestamp \<Rightarrow> string \<Rightarrow> TaskRow \<Rightarrow> TaskEventRow" where
  "delivery_event gatewayID nodeID now i r =
     \<lparr>e_ID = i, e_TaskID = t_ID r, e_Type = ''delivered'', e_OldStatus = ''Pending'', e_NewStatus = ''Running'',
      e_Actor = ''gateway:'' @ gatewayID,
      e_Detail = Raw_JSON (json_of_smap [(''gateway_id'', gatewayID), (''node_id'', nodeID)]), e_CreatedAt = now\<rparr>"

definition event_supply :: "session \<Rightarrow> bool" where
  "event_supply d =
     ((\<forall>n \<ge> stmt_no d. uuid_gen d n 0 \<notin> e_ID ` set (task_events (tabs d)))
      \<and> (\<forall>n n'. uuid_gen d n 0 = uuid_gen d n' 0 \<longrightarrow> n = n'))"

lemma fresh_event_supply: "fresh_supply d \<Longrightarrow> event_supply d"
  by (auto simp: fresh_supply_def event_supply_def all_ids_def)

lemma mark_twice: "mark_delivered_row g now (mark_delivered_row g now r) = mark_delivered_row g now r"
  by (simp add: mark_delivered_row_def split: option.splits)

lemma mark_id [simp]: "t_ID (mark_delivered_row g now r) = t_ID r"
  by (simp add: mark_delivered_row_def)

lemma update_where_union:
  assumes "\<And>x. f (f x) = f x" "\<And>x. q (f x) = q x"
  shows "update_where q f (update_where p f xs) = update_where (\<lambda>x. p x \<or> q x) f xs"
  using assms by (induction xs) auto

lemma deliver_step:
  assumes "quiet d" "conn_busy d = None" "event_supply d" "t_ID r \<in> task_ids (tabs d)"
  shows "\<exists>d1. deliver_rows g n (r # rs) d = bindE (deliver_rows g n rs) (\<lambda>out. returnE (node_task r # out)) d1
    \<and> quiet d1 \<and> conn_busy d1 = None \<and> event_supply d1 \<and> clock d1 = clock d \<and> task_ids (tabs d1) = task_ids (tabs d)
    \<and> tabs d1 = (tabs d)\<lparr>tasks := update_where (\<lambda>x. t_ID x = t_ID r) (mark_delivered_row g (clock d)) (tasks (tabs d)),
        task_events := task_events (tabs d) @
          [delivery_event g n (clock d) (uuid_gen d (Suc (stmt_no d)) 0) r]\<rparr>"
proof -
  define d1 where "d1 = d\<lparr>stmt_no := Suc (Suc (stmt_no d)), tabs := (tabs d)\<lparr>
      tasks := update_where (\<lambda>x. t_ID x = t_ID r) (mark_delivered_row g (clock d)) (tasks (tabs d)),
      task_events := task_events (tabs d) @ [delivery_event g n (clock d) (uuid_gen d (Suc (stmt_no d)) 0) r]\<rparr>\<rparr>"
  have "deliver_rows g n (r # rs) d = bindE (deliver_rows g n rs) (\<lambda>out. returnE (node_task r # out)) d1"
    using assms by (simp add: d1_def bindE_def with_open_rows_run map_err_def update_tasks_quiet
        CreateTaskEvent_def createEventTx_def insert_event_quiet [OF _ refl] event_supply_def
        task_ids_def image_update_where returnE_def delivery_event_def)
  moreover have "event_supply d1"
    using assms(3) by (auto simp: event_supply_def d1_def delivery_event_def) (metis Suc_n_not_le_n)
  ultimately show ?thesis
    using assms(1,2) by (intro exI [of _ d1]) (simp add: d1_def task_ids_def image_update_where quiet_def)
qed

lemma deliver_rows_quiet:
  assumes "quiet d" "conn_busy d = None" "event_supply d" "t_ID ` set rs \<subseteq> task_ids (tabs d)"
  shows "\<exists>d1 evs. deliver_rows g n rs d = (Inr (map node_task rs), d1) \<and> quiet d1
    \<and> tabs d1 = (tabs d)\<lparr>
        tasks := update_where (\<lambda>x. t_ID x \<in> t_ID ` set rs) (mark_delivered_row g (clock d)) (tasks (tabs d)),
        task_events := task_events (tabs d) @ evs\<rparr>
    \<and> map e_TaskID evs = map t_ID rs
    \<and> (\<forall>e \<in> set evs. e_Type e = ''delivered'' \<and> e_OldStatus e = ''Pending'' \<and> e_NewStatus e = ''Running'')"
  using assms
proof (induction rs arbitrary: d)
  case Nil
  then show ?case by (intro exI [of _ d] exI [of _ "[]"]) (simp add: returnE_def update_where_def)
next
  case (Cons r rs)
  from Cons.prems obtain d1 where run: "deliver_rows g n (r # rs) d =
        bindE (deliver_rows g n rs) (\<lambda>out. returnE (node_task r # out)) d1"
    and d1: "quiet d1" "conn_busy d1 = None" "event_supply d1" "clock d1 = clock d" "task_ids (tabs d1) = task_ids (tabs d)"
      "tabs d1 = (tabs d)\<lparr>tasks := update_where (\<lambda>x. t_ID x = t_ID r) (mark_delivered_row g (clock d)) (tasks (tabs d)),
        task_events := task_events (tabs d) @ [delivery_event g n (clock d) (uuid_gen d (Suc (stmt_no d)) 0) r]\<rparr>"
    using deliver_step [of d r g n rs] by auto
  have "t_ID ` set rs \<subseteq> task_ids (tabs d1)" using Cons.prems(4) d1(5) by auto
  from Cons.IH [OF d1(1-3) this] obtain d2 evs where
    rest: "deliver_rows g n rs d1 = (Inr (map node_task rs), d2)" "quiet d2"
      "tabs d2 = (tabs d1)\<lparr>tasks := update_where (\<lambda>x. t_ID x \<in> t_ID ` set rs) (mark_delivered_row g (clock d1)) (tasks (tabs d1)),
         task_events := task_events (tabs d1) @ evs\<rparr>"
      "map e_TaskID evs = map t_ID rs"
      "\<forall>e \<in> set evs. e_Type e = ''delivered'' \<and> e_OldStatus e = ''Pending'' \<and> e_NewStatus e = ''Running''" by blast
  have upd: "update_where (\<lambda>x. t_ID x \<in> t_ID ` set rs) (mark_delivered_row g (clock d))
        (update_where (\<lambda>x. t_ID x = t_ID r) (mark_delivered_row g (clock d)) (tasks (tabs d))) =
      update_where (\<lambda>x. t_ID x \<in> t_ID ` set (r # rs)) (mark_delivered_row g (clock d)) (tasks (tabs d))"
    by (subst update_where_union) (simp_all add: mark_twice)
  let ?e = "delivery_event g n (clock d) (uuid_gen d (Suc (stmt_no d)) 0) r"
  show ?case
    by (rule exI [of _ d2], rule exI [of _ "?e # evs"])
      (use rest run d1(4,6) upd in \<open>simp add: bindE_def returnE_def delivery_event_def\<close>)
qed

lemma pull_candidates_mem:
  "r \<in> set (pull_candidates g n m t) \<Longrightarrow> r \<in> set (tasks t) \<and> pullable g n r"
  unfolding pull_candidates_def by (auto dest!: in_set_takeD)

lemma delivered_not_pullable: "\<not> pullable g' n' (mark_delivered_row g now r)"
  by (simp add: pullable_def mark_delivered_row_def)

lemma with_node_passes:
  "nodeID \<noteq> [] \<Longrightarrow> NodeIDFromContext ctx \<in> {[], nodeID} \<Longrightarrow> with_node ctx nodeID m = m"
  by (auto simp: with_node_def validateAuthenticatedNode_def)

lemma delivered_never_again:
  assumes "tasks t1 = update_where (\<lambda>x. t_ID x \<in> ids) (mark_delivered_row gw now) (tasks t)"
  shows "t_ID ` set (pull_candidates gw' node' m t1) \<inter> ids = {}"
proof (rule ccontr)
  assume "t_ID ` set (pull_candidates gw' node' m t1) \<inter> ids \<noteq> {}"
  then obtain x where x: "x \<in> set (pull_candidates gw' node' m t1)" "t_ID x \<in> ids" by auto
  from pull_candidates_mem [OF x(1)] have "x \<in> set (tasks t1)" "pullable gw' node' x" by auto
  with x(2) show False unfolding assms by (auto simp: set_update_where delivered_not_pullable split: if_splits)
qed

lemma update_where_rows:
  assumes "db_wf t" "set rs \<subseteq> set (tasks t)"
  shows "update_where (\<lambda>x. t_ID x \<in> t_ID ` set rs) f (tasks t) = update_where (\<lambda>x. x \<in> set rs) f (tasks t)"
  unfolding update_where_def using assms by (auto simp: task_id_eq subset_iff)

lemma pull_while_idle:
  assumes "quiet d" "fresh_supply d" "nodeID \<noteq> []" "NodeIDFromContext ctx \<in> {[], nodeID}" "conn_busy d = None"
    and cs: "cs = pull_candidates gw nodeID (max_tasks n) (tabs d)"
  obtains d1 evs where "PullTasks gw ctx nodeID n d = (Inr (map node_task cs), d1)"
    "tabs d1 = (tabs d)\<lparr>tasks := update_where (\<lambda>x. t_ID x \<in> t_ID ` set cs) (mark_delivered_row gw (clock d)) (tasks (tabs d)),
      task_events := task_events (tabs d) @ evs\<rparr>" "map e_TaskID evs = map t_ID cs"
proof -
  let ?d0 = "(start_tx d)\<lparr>stmt_no := Suc (Suc (stmt_no d))\<rparr>"
  have "event_supply ?d0" using fresh_event_supply [OF assms(2)] by (auto simp: event_supply_def)
  moreover have "t_ID ` set cs \<subseteq> task_ids (tabs ?d0)" by (auto simp: task_ids_def cs dest: pull_candidates_mem)
  ultimately obtain d1 evs where
    run: "deliver_rows gw nodeID cs ?d0 = (Inr (map node_task cs), d1)" "quiet d1"
      "tabs d1 = (tabs d)\<lparr>tasks := update_where (\<lambda>x. t_ID x \<in> t_ID ` set cs) (mark_delivered_row gw (clock d)) (tasks (tabs d)),
        task_events := task_events (tabs d) @ evs\<rparr>" "map e_TaskID evs = map t_ID cs"
    using deliver_rows_quiet [of ?d0 cs gw nodeID] assms(1,5) by auto
  have "PullTasks gw ctx nodeID n d = (Inr (map node_task cs), d1\<lparr>stmt_no := Suc (stmt_no d1), in_tx := False\<rparr>)"
    using run(1,2) assms(1) by (simp add: PullTasks_def with_node_passes [OF assms(3,4)] pull_body_def map_err_def WithTx_quiet bindE_def
        sql_read_quiet commit_tx_quiet flip: cs)
  then show thesis by (rule that) (use run(3,4) in simp_all)
qed

lemma pull_while_busy:
  assumes "quiet d" "nodeID \<noteq> []" "NodeIDFromContext ctx \<in> {[], nodeID}"
    and "conn_busy d = Some msg" "pull_candidates gw nodeID (max_tasks n) (tabs d) = r # rs"
  shows "\<exists>m d1. PullTasks gw ctx nodeID n d = (Inl (StatusErr Internal m), d1) \<and> tabs d1 = tabs d"
proof -
  let ?d0 = "(start_tx d)\<lparr>stmt_no := Suc (Suc (stmt_no d))\<rparr>"
  have "deliver_rows gw nodeID (r # rs) ?d0 = (Inl (PgError (PgOther msg)), ?d0)"
    using assms(4) by (simp add: bindE_def with_open_rows_def)
  with assms(1,5) show ?thesis
    by (simp add: PullTasks_def with_node_passes [OF assms(2,3)] pull_body_def map_err_def WithTx_quiet bindE_def sql_read_quiet internal_error_def)
qed



section \<open>Tasks without a result\<close>

text \<open>Looking up a task that has no result fails at the scan, whatever the faults.\<close>

lemma GetTaskForUpdate_null:
  assumes "task_by_id i (tabs d) = Some r" "t_Result r = Nil_Raw"
  shows "\<exists>e d1. GetTaskForUpdate i d = (Inl e, d1) \<and> tabs d1 = tabs d \<and> e \<noteq> ErrNotFound
    \<and> \<not> errors_is e ErrNotFound \<and> \<not> errors_is e ErrPrecondition \<and> \<not> errors_is e ErrConflict
    \<and> \<not> errors_is e ErrAlreadyExists \<and> \<not> as_invalid_transition e \<and> wrapped_code e = None"
proof -
  obtain q d1 where read: "sql_read (task_by_id i) d = (q, d1)" by force
  then have t: "tabs d1 = tabs d" by (auto dest: sql_read_tabs)
  show ?thesis
  proof (cases q)
    case (Inl e)
    with read have "\<exists>p. e = PgError p"
      by (auto simp: sql_read_def sql_def Let_def split: if_splits list.splits option.splits)
    with read Inl t show ?thesis
      by (auto simp: GetTaskForUpdate_def run_defs sql_row_def not_found_or_def wrap_def)
  next
    case (Inr x)
    with read assms have "x = Some r" by (auto dest: sql_read_InrD)
    with read Inr t assms(2) show ?thesis
      by (auto simp: GetTaskForUpdate_def run_defs sql_row_def not_found_or_def wrap_def scan_task_null
          null_result_error_def)
  qed
qed

lemma tx_lookup_fails:
  assumes "\<And>d'. tabs d' = tabs d \<Longrightarrow> \<exists>e d1. fn d' = (Inl e, d1) \<and> P e" "\<And>p. P (wrap ''store: begin tx'' (PgError p))"
  shows "\<exists>e d1. WithTx fn d = (Inl e, d1) \<and> tabs d1 = tabs d \<and> P e"
proof -
  obtain q d0 where b: "begin_tx d = (q, d0)" by force
  note t = begin_tx_tabs [OF b]
  show ?thesis
  proof (cases q)
    case (Inl e)
    with b have "\<exists>p. e = PgError p"
      by (auto simp: begin_tx_def bindE_def sql_read_def sql_def Let_def
          split: if_splits list.splits option.splits prod.splits)
    with Inl b t assms(2) show ?thesis by (auto simp: WithTx_def)
  next
    case (Inr u)
    with assms(1) [of d0] t obtain e d1 where "fn d0 = (Inl e, d1)" "P e" by auto
    with Inr b show ?thesis by (auto simp: WithTx_def)
  qed
qed

lemma get_task_null:
  assumes "task_by_id i (tabs d) = Some r" "t_Result r = Nil_Raw" "i \<noteq> []"
  shows "\<exists>m d1. Service_GetTask i d = (Inl (StatusErr Internal m), d1) \<and> tabs d1 = tabs d"
proof -
  obtain q d1 where read: "sql_read (task_by_id i) d = (q, d1)" by force
  then have t: "tabs d1 = tabs d" by (auto dest: sql_read_tabs)
  show ?thesis
  proof (cases q)
    case (Inl e)
    with read have "\<exists>p. e = PgError p"
      by (auto simp: sql_read_def sql_def Let_def split: if_splits list.splits option.splits)
    with read Inl t assms(3) show ?thesis
      by (auto simp: Service_GetTask_def GetTask_def run_defs sql_row_def not_found_or_def wrap_def errToStatus_def)
  next
    case (Inr x)
    with read assms have "x = Some r" by (auto dest: sql_read_InrD)
    with read Inr t assms show ?thesis
      by (auto simp: Service_GetTask_def GetTask_def run_defs sql_row_def not_found_or_def wrap_def scan_task_null
          null_result_error_def errToStatus_def)
  qed
qed

text \<open>A task without a result is stuck. Every task is created with a NULL result, and \<open>database/sql\<close>
  cannot scan NULL into a \<open>json.RawMessage\<close>; so for a task that exists and has no result, CancelTask
  and the report of its result fail with Internal and change nothing, whatever else fails, and so does
  GetTask. The result can therefore never be stored: the task stays without one.\<close>

lemma task_without_result_stuck:
  assumes "task_by_id i (tabs d) = Some r" "t_Result r = Nil_Raw" "i \<noteq> []"
  shows "(\<exists>m d1. Service_CancelTask i reason d = (Inl (StatusErr Internal m), d1) \<and> tabs d1 = tabs d)
    \<and> (\<exists>m d1. Service_GetTask i d = (Inl (StatusErr Internal m), d1) \<and> tabs d1 = tabs d)
    \<and> (\<forall>ctx req st. rr_TaskId req = i \<and> rr_NodeId req \<noteq> [] \<and> NodeIDFromContext ctx \<in> {[], rr_NodeId req}
         \<and> normalizeReportedStatus (rr_Status req) = Inr st \<longrightarrow>
         (\<exists>m d1. ReportTaskResult ctx req d = (Inl (StatusErr Internal m), d1) \<and> tabs d1 = tabs d))"
proof (intro conjI allI impI)
  have get: "\<exists>e d1. GetTaskForUpdate i d' = (Inl e, d1) \<and> errToStatus e = StatusErr Internal (err_text e)
      \<and> wrapped_code e = None" if "tabs d' = tabs d" for d'
    using GetTaskForUpdate_null [of i d' r] assms(1,2) that by (auto simp: errToStatus_def)
  have "\<exists>e d1. WithTx (cancel_body i reason) d = (Inl e, d1) \<and> tabs d1 = tabs d
      \<and> errToStatus e = StatusErr Internal (err_text e)"
    by (rule tx_lookup_fails) (use get in \<open>fastforce simp: cancel_body_def bindE_def\<close>, simp add: wrap_def errToStatus_def)
  then show "\<exists>m d1. Service_CancelTask i reason d = (Inl (StatusErr Internal m), d1) \<and> tabs d1 = tabs d"
    using assms(3) by (auto simp: Service_CancelTask_def run_defs)
  show "\<exists>m d1. Service_GetTask i d = (Inl (StatusErr Internal m), d1) \<and> tabs d1 = tabs d"
    using assms by (rule get_task_null)
  fix ctx :: rpc_ctx and req :: ReportTaskResultRequest and st
  assume a: "rr_TaskId req = i \<and> rr_NodeId req \<noteq> [] \<and> NodeIDFromContext ctx \<in> {[], rr_NodeId req}
      \<and> normalizeReportedStatus (rr_Status req) = Inr st"
  have "\<exists>e d1. WithTx (report_body req st) d = (Inl e, d1) \<and> tabs d1 = tabs d \<and> wrapped_code e = None"
    by (rule tx_lookup_fails) (use get a in \<open>fastforce simp: report_body_def bindE_def Let_def\<close>, simp add: wrap_def)
  then obtain e d1 where w: "WithTx (report_body req st) d = (Inl e, d1)" "tabs d1 = tabs d" "wrapped_code e = None"
    by blast
  then have "report_error e = internal_error ''report task result'' e"
    by (cases e) (auto simp: report_error_def status_from_error_def)
  with a w assms(3) show "\<exists>m d1. ReportTaskResult ctx req d = (Inl (StatusErr Internal m), d1) \<and> tabs d1 = tabs d"
    by (auto simp: ReportTaskResult_def with_node_def validateAuthenticatedNode_def run_defs internal_error_def)
qed

section \<open>Reporting a result\<close>

lemma CreateTaskRun_quiet:
  assumes "quiet d" "uuid_gen d (stmt_no d) 0 \<notin> r_ID ` set (task_runs (tabs d))"
    and "i \<in> task_ids (tabs d)" "n \<in> node_ids (tabs d)"
  shows "\<exists>r. CreateTaskRun i n a d = (Inr r, d\<lparr>stmt_no := Suc (stmt_no d), tabs := (tabs d)\<lparr>task_runs := task_runs (tabs d) @ [r]\<rparr>\<rparr>)
    \<and> r_ID r = uuid_gen d (stmt_no d) 0 \<and> r_TaskID r = i \<and> r_NodeID r = n \<and> r_Attempt r = a"
  using assms by (simp add: CreateTaskRun_def map_err_def insert_run_def sql_quiet Let_def guarded_def
      check_unique_def check_fk_def task_ids_def node_ids_def)

lemma UpdateTaskRun_quiet:
  assumes "quiet d" "\<forall>s. res \<noteq> Raw_Text s" "task_runs (tabs d) = rs @ [r]"
    and "r_ID r \<notin> r_ID ` set rs"
  shows "UpdateTaskRun (r_ID r) st msg res d = (Inr (), d\<lparr>stmt_no := Suc (stmt_no d), tabs := (tabs d)\<lparr>task_runs := rs @
     [r\<lparr>r_Status := st, r_ErrorMsg := Some msg, r_Result := res, r_FinishedAt := Some (clock d)\<rparr>]\<rparr>\<rparr>)"
proof -
  have "update_where (\<lambda>x. r_ID x = r_ID r) f rs = rs" for f
    using assms(4) by (intro update_where_none) (metis image_eqI)
  moreover have "check_jsonb_null res = None" using assms(2) by (simp add: check_jsonb_null_None)
  ultimately show ?thesis
    using assms(1,3) by (simp add: UpdateTaskRun_def run_defs update_runs_def sql_quiet guarded_def update_where_def)
qed

lemma UpdateResult_quiet:
  "quiet d \<Longrightarrow> \<forall>s. res \<noteq> Raw_Text s \<Longrightarrow> UpdateResult i st res n d = (Inr (), d\<lparr>stmt_no := Suc (stmt_no d),
     tabs := (tabs d)\<lparr>tasks := update_where (\<lambda>x. t_ID x = i)
       (\<lambda>x. x\<lparr>t_Status := st, t_Result := res, t_RetryCount := n, t_UpdatedAt := clock d\<rparr>) (tasks (tabs d))\<rparr>\<rparr>)"
  by (simp add: UpdateResult_def run_defs update_tasks_quiet check_jsonb_null_def split: raw.splits)

lemma result_json_valid: "result_json r = Raw_JSON j \<or> (\<exists>k. result_json r = Raw_JSON k)"
  by (cases r) (auto simp: result_json_def raw_empty_def empty_object_def)

text \<open>What a report writes about its run: the row is inserted and finished in the same transaction.\<close>

lemma run_recorded:
  assumes "quiet d" "uuid_gen d (stmt_no d) 0 \<notin> r_ID ` set (task_runs (tabs d))" "nodeID \<in> node_ids (tabs d)" "i \<in> task_ids (tabs d)"
  obtains run where "CreateTaskRun i nodeID n d =
      (Inr run, d\<lparr>stmt_no := Suc (stmt_no d), tabs := (tabs d)\<lparr>task_runs := task_runs (tabs d) @ [run]\<rparr>\<rparr>)"
    "r_TaskID run = i" "r_NodeID run = nodeID" "r_Attempt run = n"
    "\<And>st msg j. UpdateTaskRun (r_ID run) st msg (Raw_JSON j)
        (d\<lparr>stmt_no := Suc (stmt_no d), tabs := (tabs d)\<lparr>task_runs := task_runs (tabs d) @ [run]\<rparr>\<rparr>) =
      (Inr (), d\<lparr>stmt_no := Suc (Suc (stmt_no d)), tabs := (tabs d)\<lparr>task_runs := task_runs (tabs d) @
         [run\<lparr>r_Status := st, r_ErrorMsg := Some msg, r_Result := Raw_JSON j, r_FinishedAt := Some (clock d)\<rparr>]\<rparr>\<rparr>)"
proof -
  obtain run where run: "CreateTaskRun i nodeID n d =
      (Inr run, d\<lparr>stmt_no := Suc (stmt_no d), tabs := (tabs d)\<lparr>task_runs := task_runs (tabs d) @ [run]\<rparr>\<rparr>)"
    "r_ID run = uuid_gen d (stmt_no d) 0" "r_TaskID run = i" "r_NodeID run = nodeID" "r_Attempt run = n"
    using CreateTaskRun_quiet [of d i nodeID n] assms by auto
  moreover note UpdateTaskRun_quiet [of "d\<lparr>stmt_no := Suc (stmt_no d), tabs := (tabs d)\<lparr>task_runs := task_runs (tabs d) @ [run]\<rparr>\<rparr>"
      _ "task_runs (tabs d)" run]
  ultimately show thesis using that [of run] assms(1,2) by simp
qed



end
