(* ===== verification/Pki.thy ===== *)
theory Pki
  imports Session
begin

text \<open>
  Certificate signing (\<open>internal/pki/signer.go\<close>). PEM, X.509, random numbers and SHA-256 are the
  functions of a \<open>crypto\<close> record, a parameter of the model: nothing is assumed of them but what a
  theorem names.
\<close>

record csr_info =
  csr_public_key :: string
  csr_signature_ok :: "go_err option"

record cert_template =
  ct_SerialNumber :: int
  ct_CommonName :: string
  ct_Organization :: string
  ct_NotBefore :: timestamp
  ct_NotAfter :: timestamp
  ct_ClientAuth :: bool

record crypto =
  pem_decode :: "string \<Rightarrow> (string \<times> string) option"
  pem_encode :: "string \<Rightarrow> string \<Rightarrow> string"
  parse_certificate :: "string \<Rightarrow> go_err + string"
  parse_pkcs1 :: "string \<Rightarrow> go_err + string"
  parse_ec :: "string \<Rightarrow> go_err + string"
  parse_pkcs8 :: "string \<Rightarrow> go_err + string"
  parse_csr :: "string \<Rightarrow> go_err + csr_info"
  rand_serial :: "go_err + int"
  create_certificate :: "cert_template \<Rightarrow> string \<Rightarrow> string \<Rightarrow> string \<Rightarrow> go_err + string"
  sha256_hex :: "string \<Rightarrow> string"

record Signer =
  sg_caCert :: string
  sg_caKey :: string
  sg_caPEM :: string
  sg_certValidity :: duration

record SignResult =
  sr_CertPEM :: string
  sr_Fingerprint :: string
  sr_ExpiresAt :: timestamp

definition parsePrivateKeyPEM :: "crypto \<Rightarrow> string \<Rightarrow> go_err + string" where
  "parsePrivateKeyPEM cr pemBytes =
     (case pem_decode cr pemBytes of
        None \<Rightarrow> Inl (GoErr ''pki: failed to decode CA key PEM'')
      | Some (ty, bytes) \<Rightarrow>
          if ty = ''RSA PRIVATE KEY'' then parse_pkcs1 cr bytes
          else if ty = ''EC PRIVATE KEY'' then parse_ec cr bytes
          else if ty = ''PRIVATE KEY'' then parse_pkcs8 cr bytes
          else Inl (GoErr (''pki: unsupported CA key PEM block type '' @ quote ty)))"

definition NewSigner :: "crypto \<Rightarrow> string \<Rightarrow> string \<Rightarrow> duration \<Rightarrow> go_err + Signer" where
  "NewSigner cr caCertPEM caKeyPEM certValidity =
     (case pem_decode cr caCertPEM of
        None \<Rightarrow> Inl (GoErr ''pki: failed to decode CA cert PEM'')
      | Some (_, bytes) \<Rightarrow>
          (case parse_certificate cr bytes of
             Inl e \<Rightarrow> Inl (wrap ''pki: parse CA cert'' e)
           | Inr caCert \<Rightarrow>
               (case parsePrivateKeyPEM cr caKeyPEM of
                  Inl e \<Rightarrow> Inl (wrap ''pki: parse CA key'' e)
                | Inr caKey \<Rightarrow> Inr \<lparr>sg_caCert = caCert, sg_caKey = caKey, sg_caPEM = caCertPEM,
                    sg_certValidity = (if certValidity = 0 then 90 * 24 * hour else certValidity)\<rparr>)))"

definition CAPem :: "Signer \<Rightarrow> string" where
  "CAPem s = sg_caPEM s"

definition cert_for :: "int \<Rightarrow> string \<Rightarrow> timestamp \<Rightarrow> timestamp \<Rightarrow> cert_template" where
  "cert_for serial nodeID now expiresAt =
     \<lparr>ct_SerialNumber = serial, ct_CommonName = nodeID, ct_Organization = ''EdgeAI Platform'',
      ct_NotBefore = now, ct_NotAfter = expiresAt, ct_ClientAuth = True\<rparr>"

definition SignCSR :: "crypto \<Rightarrow> Signer \<Rightarrow> timestamp \<Rightarrow> string \<Rightarrow> string \<Rightarrow> go_err + SignResult" where
  "SignCSR cr s now csrPEM nodeID =
     (case pem_decode cr csrPEM of
        None \<Rightarrow> Inl (GoErr ''pki: failed to decode CSR PEM'')
      | Some (_, bytes) \<Rightarrow>
          (case parse_csr cr bytes of
             Inl e \<Rightarrow> Inl (wrap ''pki: parse CSR'' e)
           | Inr csr \<Rightarrow>
               (case csr_signature_ok csr of
                  Some e \<Rightarrow> Inl (wrap ''pki: CSR signature invalid'' e)
                | None \<Rightarrow>
                    (case rand_serial cr of
                       Inl e \<Rightarrow> Inl (wrap ''pki: generate serial'' e)
                     | Inr serial \<Rightarrow>
                         let expiresAt = now + sg_certValidity s in
                         (case create_certificate cr (cert_for serial nodeID now expiresAt) (sg_caCert s)
                                 (csr_public_key csr) (sg_caKey s) of
                            Inl e \<Rightarrow> Inl (wrap ''pki: create certificate'' e)
                          | Inr der \<Rightarrow> Inr \<lparr>sr_CertPEM = pem_encode cr ''CERTIFICATE'' der,
                              sr_Fingerprint = sha256_hex cr der, sr_ExpiresAt = expiresAt\<rparr>)))))"

text \<open>A signature is over a valid request, for the given node, and valid from now for the signer's
  validity.\<close>

lemma SignCSR_sound:
  "SignCSR cr s now csrPEM nodeID = Inr r \<Longrightarrow>
     sr_ExpiresAt r = now + sg_certValidity s
     \<and> (\<exists>ty bytes csr serial der. pem_decode cr csrPEM = Some (ty, bytes) \<and> parse_csr cr bytes = Inr csr
          \<and> csr_signature_ok csr = None \<and> sr_Fingerprint r = sha256_hex cr der
          \<and> create_certificate cr (cert_for serial nodeID now (now + sg_certValidity s)) (sg_caCert s)
              (csr_public_key csr) (sg_caKey s) = Inr der)"
  by (auto simp: SignCSR_def Let_def split: option.splits sum.splits prod.splits) blast

end
