(* ===== verification/Onboarding.thy ===== *)
theory Onboarding
  imports Integrity Pki
begin

text \<open>
  Node onboarding: bootstrap tokens (\<open>internal/onboarding/token_service.go\<close>, \<open>errors.go\<close>) and the
  registration, renewal and revocation of nodes (\<open>bootstrap_service.go\<close>). The random text of a new
  token and the text of a duration are parameters.
\<close>

section \<open>Errors\<close>

definition errTokenNotFound :: go_err where "errTokenNotFound = StatusErr NotFound ''TOKEN_NOT_FOUND''"
definition errTokenExpired :: go_err where "errTokenExpired = StatusErr FailedPrecondition ''TOKEN_EXPIRED''"
definition errTokenExhausted :: go_err where "errTokenExhausted = StatusErr ResourceExhausted ''TOKEN_EXHAUSTED''"
definition errTokenFrozen :: go_err where "errTokenFrozen = StatusErr FailedPrecondition ''TOKEN_FROZEN''"
definition errGatewayMismatch :: go_err where "errGatewayMismatch = StatusErr InvalidArgument ''GATEWAY_MISMATCH''"
definition errIdentityConflict :: go_err where "errIdentityConflict = StatusErr AlreadyExists ''IDENTITY_CONFLICT''"
definition errCSRInvalid :: "string \<Rightarrow> go_err" where
  "errCSRInvalid msg = StatusErr InvalidArgument (''CSR_INVALID: '' @ msg)"
definition errIdentityRevoked :: go_err where "errIdentityRevoked = StatusErr PermissionDenied ''IDENTITY_REVOKED''"

lemmas onboarding_errors =
  errTokenNotFound_def errTokenExpired_def errTokenExhausted_def errTokenFrozen_def
  errGatewayMismatch_def errIdentityConflict_def errCSRInvalid_def errIdentityRevoked_def

section \<open>Tokens\<close>

definition labels_json :: "smap option \<Rightarrow> raw" where
  "labels_json m = (case m of None \<Rightarrow> empty_object | Some l \<Rightarrow> Raw_JSON (json_of_smap l))"

definition TokenStore_Create ::
  "crypto \<Rightarrow> go_err + string \<Rightarrow> string \<Rightarrow> string \<Rightarrow> smap option \<Rightarrow> int \<Rightarrow> duration \<Rightarrow> (TokenRecord \<times> string) dbm" where
  "TokenStore_Create cr random gatewayID description labels maxUses expiresIn =
     (case random of
        Inl e \<Rightarrow> failE (wrap ''generate token'' e)
      | Inr tokenPlain \<Rightarrow>
          bindE (map_err (wrap ''insert token'')
            (insert_token (\<lambda>i now. \<lparr>tk_ID = i, tk_GatewayID = gatewayID, tk_TokenHash = sha256_hex cr tokenPlain,
               tk_Description = description, tk_Labels = labels_json labels, tk_MaxUses = maxUses,
               tk_UsedCount = 0, tk_Status = ''Active'', tk_ExpiresAt = now + expiresIn, tk_CreatedAt = now,
               tk_UpdatedAt = now\<rparr>)))
            (\<lambda>rec. returnE (rec, tokenPlain)))"

definition token_row_or :: "string \<Rightarrow> go_err \<Rightarrow> go_err" where
  "token_row_or p e = (if e = SqlNoRows then errTokenNotFound else wrap p e)"

definition token_by_id :: "string \<Rightarrow> tables \<Rightarrow> TokenRecord option" where
  "token_by_id i t = find (\<lambda>k. tk_ID k = i) (bootstrap_tokens t)"

definition token_by_hash :: "string \<Rightarrow> tables \<Rightarrow> TokenRecord option" where
  "token_by_hash h t = find (\<lambda>k. tk_TokenHash k = h) (bootstrap_tokens t)"

definition token_scanOne :: "(tables \<Rightarrow> TokenRecord option) \<Rightarrow> TokenRecord dbm" where
  "token_scanOne q = map_err (token_row_or ''scan token'') (sql_row q)"

definition GetByID :: "string \<Rightarrow> TokenRecord dbm" where
  "GetByID i = token_scanOne (token_by_id i)"

definition ValidateAndConsume :: "crypto \<Rightarrow> string \<Rightarrow> string \<Rightarrow> TokenRecord dbm" where
  "ValidateAndConsume cr tokenPlain gatewayID =
     bindE (map_err (token_row_or ''query token'') (sql_row (token_by_hash (sha256_hex cr tokenPlain)))) (\<lambda>rec.
     bindE get_clock (\<lambda>now.
       if tk_Status rec = ''Revoked'' then failE errTokenNotFound
       else if tk_Status rec = ''Frozen'' then failE errTokenFrozen
       else if now > tk_ExpiresAt rec then failE errTokenExpired
       else if tk_UsedCount rec \<ge> tk_MaxUses rec then failE errTokenExhausted
       else if tk_GatewayID rec \<noteq> gatewayID then failE errGatewayMismatch
       else
         bindE (map_err (wrap ''increment used_count'')
           (update_tokens (\<lambda>k. tk_ID k = tk_ID rec)
              (\<lambda>now k. k\<lparr>tk_UsedCount := tk_UsedCount k + 1, tk_UpdatedAt := now\<rparr>)))
           (\<lambda>_. returnE (rec\<lparr>tk_UsedCount := tk_UsedCount rec + 1\<rparr>))))"

definition Token_UpdateStatus :: "string \<Rightarrow> string \<Rightarrow> TokenRecord dbm" where
  "Token_UpdateStatus i newStatus =
     map_err (token_row_or ''update token status'')
       (bindE (sql (\<lambda>_ now t.
          let new = update_where (\<lambda>k. tk_ID k = i) (\<lambda>k. k\<lparr>tk_Status := newStatus, tk_UpdatedAt := now\<rparr>)
                      (bootstrap_tokens t)
          in Inr (find (\<lambda>k. tk_ID k = i) new, t\<lparr>bootstrap_tokens := new\<rparr>)))
         (\<lambda>r. case r of None \<Rightarrow> failE SqlNoRows | Some k \<Rightarrow> returnE k))"

section \<open>Bootstrap\<close>

record BootstrapInput =
  bi_Token :: string
  bi_GatewayID :: string
  bi_CSRPEM :: string
  bi_Serial :: string
  bi_HardwareInfo :: "smap option"
  bi_Labels :: "smap option"

record BootstrapOutput =
  bo_NodeID :: string
  bo_CertPEM :: string
  bo_CAPEM :: string
  bo_ExpiresAt :: timestamp

definition serial_holder :: "string \<Rightarrow> tables \<Rightarrow> identityRow option" where
  "serial_holder serial t = find (\<lambda>i. id_Serial i = serial \<and> live_identity i) (edge_identities t)"

definition check_serial :: "string \<Rightarrow> unit dbm" where
  "check_serial serial =
     (if serial = [] then returnE ()
      else bindE (map_err (wrap ''check serial conflict'') (sql_read (serial_holder serial)))
             (\<lambda>r. case r of Some i \<Rightarrow> failE errIdentityConflict | None \<Rightarrow> returnE ()))"

definition create_edge_node :: "BootstrapInput \<Rightarrow> nodeRow dbm" where
  "create_edge_node inp =
     map_err (wrap ''create edge node'')
       (insert_node (\<lambda>i now. \<lparr>nd_ID = i, nd_GatewayID = bi_GatewayID inp, nd_Labels = labels_json (bi_Labels inp),
          nd_HardwareInfo = labels_json (bi_HardwareInfo inp), nd_Status = ''Active'', nd_AgentVersion = Some [],
          nd_Online = False, nd_LastSeenAt = None, nd_CreatedAt = now, nd_UpdatedAt = now\<rparr>))"

definition create_identity :: "BootstrapInput \<Rightarrow> string \<Rightarrow> SignResult \<Rightarrow> identityRow dbm" where
  "create_identity inp nodeID sr =
     map_err (\<lambda>e. if is_unique_violation e then errIdentityConflict else wrap ''create identity'' e)
       (insert_identity (\<lambda>i now. \<lparr>id_ID = i, id_NodeID = nodeID, id_GatewayID = bi_GatewayID inp,
          id_Serial = bi_Serial inp, id_Fingerprint = sr_Fingerprint sr, id_Status = ''Active'',
          id_CertificatePEM = sr_CertPEM sr, id_ExpiresAt = sr_ExpiresAt sr, id_IssuedAt = now,
          id_RevokedAt = None, id_CreatedAt = now, id_UpdatedAt = now\<rparr>))"

definition sign_for :: "crypto \<Rightarrow> Signer \<Rightarrow> string \<Rightarrow> string \<Rightarrow> SignResult dbm" where
  "sign_for cr signer csrPEM nodeID =
     bindE get_clock (\<lambda>now. case SignCSR cr signer now csrPEM nodeID of
       Inl e \<Rightarrow> failE (errCSRInvalid (err_text e)) | Inr r \<Rightarrow> returnE r)"

definition bootstrap_body :: "crypto \<Rightarrow> Signer \<Rightarrow> BootstrapInput \<Rightarrow> BootstrapOutput dbm" where
  "bootstrap_body cr signer inp =
     bindE (ValidateAndConsume cr (bi_Token inp) (bi_GatewayID inp)) (\<lambda>_.
     bindE (check_serial (bi_Serial inp)) (\<lambda>_.
     bindE (create_edge_node inp) (\<lambda>node.
     bindE (sign_for cr signer (bi_CSRPEM inp) (nd_ID node)) (\<lambda>sr.
     bindE (create_identity inp (nd_ID node) sr) (\<lambda>_.
       returnE \<lparr>bo_NodeID = nd_ID node, bo_CertPEM = sr_CertPEM sr, bo_CAPEM = CAPem signer,
         bo_ExpiresAt = sr_ExpiresAt sr\<rparr>)))))"

definition Bootstrap :: "crypto \<Rightarrow> Signer \<Rightarrow> BootstrapInput \<Rightarrow> BootstrapOutput dbm" where
  "Bootstrap cr signer inp =
     (if bi_CSRPEM inp = [] then failE (errCSRInvalid ''empty CSR'')
      else WithTx (bootstrap_body cr signer inp))"

section \<open>Renewal\<close>

record RenewOutput =
  ro_CertPEM :: string
  ro_CAPEM :: string
  ro_ExpiresAt :: timestamp

definition renewThreshold :: duration where "renewThreshold = 30 * 24 * hour"

definition node_identity :: "string \<Rightarrow> tables \<Rightarrow> identityRow option" where
  "node_identity nodeID t = find (\<lambda>i. id_NodeID i = nodeID \<and> id_Status i = ''Active'') (edge_identities t)"

definition Renew ::
  "crypto \<Rightarrow> (duration \<Rightarrow> string) \<Rightarrow> Signer \<Rightarrow> string \<Rightarrow> string \<Rightarrow> RenewOutput dbm" where
  "Renew cr duration_text signer nodeID csrPEM =
     (if csrPEM = [] then failE (errCSRInvalid ''empty CSR'')
      else
        bindE (map_err (\<lambda>e. if e = SqlNoRows then errIdentityRevoked else wrap ''query identity'' e)
          (sql_row (node_identity nodeID))) (\<lambda>ident.
        bindE get_clock (\<lambda>now.
          let remaining = id_ExpiresAt ident - now in
          if remaining > renewThreshold
          then failE (GoErr (''RENEW_NOT_ALLOWED: certificate not yet eligible for renewal (expires in ''
                 @ duration_text remaining @ '')''))
          else
            bindE (sign_for cr signer csrPEM nodeID) (\<lambda>sr.
            bindE (map_err (wrap ''update identity'')
              (update_identities (\<lambda>i. id_ID i = id_ID ident)
                 (\<lambda>now i. i\<lparr>id_Fingerprint := sr_Fingerprint sr, id_CertificatePEM := sr_CertPEM sr,
                    id_ExpiresAt := sr_ExpiresAt sr, id_IssuedAt := now, id_UpdatedAt := now\<rparr>))) (\<lambda>_.
              returnE \<lparr>ro_CertPEM = sr_CertPEM sr, ro_CAPEM = CAPem signer, ro_ExpiresAt = sr_ExpiresAt sr\<rparr>)))))"

section \<open>Revocation\<close>

text \<open>The audit statement inserts one event per identity of the node, with the id of the identity as
  the id of the task.\<close>

definition revocation_events ::
  "(nat \<Rightarrow> string) \<Rightarrow> timestamp \<Rightarrow> string \<Rightarrow> identityRow list \<Rightarrow> TaskEventRow list" where
  "revocation_events ids now reason sel =
     map2 (\<lambda>k i. \<lparr>e_ID = ids k, e_TaskID = id_ID i, e_Type = ''IDENTITY_REVOKED'', e_OldStatus = [],
        e_NewStatus = [], e_Actor = ''admin'', e_Detail = Raw_JSON (json_of_smap [(''reason'', reason)]),
        e_CreatedAt = now\<rparr>) [0..<length sel] sel"

definition audit_revocation :: "string \<Rightarrow> string \<Rightarrow> unit dbm" where
  "audit_revocation nodeID reason = sql (\<lambda>ids now t.
     let new = revocation_events ids now reason (filter (\<lambda>i. id_NodeID i = nodeID) (edge_identities t))
     in guarded
       [check_unique ''task_events_pkey'' (\<not> distinct (map e_ID (task_events t @ new))),
        (if list_all (\<lambda>e. e_TaskID e \<in> set (map t_ID (tasks t))) new then None
         else Some (PgForeignKey ''task_events'' ''task_events_task_id_fkey''))]
       ((), t\<lparr>task_events := task_events t @ new\<rparr>))"

definition revoke_body :: "string \<Rightarrow> string \<Rightarrow> unit dbm" where
  "revoke_body nodeID reason =
     bindE (map_err (wrap ''revoke identity'')
       (update_identities (\<lambda>i. id_NodeID i = nodeID \<and> live_identity i)
          (\<lambda>now i. i\<lparr>id_Status := ''Revoked'', id_RevokedAt := Some now, id_UpdatedAt := now\<rparr>))) (\<lambda>rows.
     if rows = 0 then failE errIdentityRevoked
     else
       bindE (map_err (wrap ''update node status'')
         (update_nodes [] (\<lambda>n. nd_ID n = nodeID)
            (\<lambda>now n. n\<lparr>nd_Status := ''Revoked'', nd_UpdatedAt := now\<rparr>))) (\<lambda>_.
       catchE (audit_revocation nodeID reason) (\<lambda>_. returnE ())))"

definition RevokeNode :: "string \<Rightarrow> string \<Rightarrow> unit dbm" where
  "RevokeNode nodeID reason = WithTx (revoke_body nodeID reason)"

section \<open>Constraints\<close>

lemma keep_TokenStore_Create [keeps]: "keep db_wf (TokenStore_Create cr rnd g de l m e)"
  unfolding TokenStore_Create_def by (auto intro!: keeps split: sum.splits)

lemma keep_GetByID [keeps]: "keep I (GetByID i)"
  unfolding GetByID_def token_scanOne_def by (intro keeps)

lemma keep_ValidateAndConsume [keeps]: "keep db_wf (ValidateAndConsume cr tok g)"
  unfolding ValidateAndConsume_def by (intro keeps keep_update_tokens) simp

lemma keep_Token_UpdateStatus [keeps]: "keep db_wf (Token_UpdateStatus i s)"
  unfolding Token_UpdateStatus_def Let_def
  by (intro keeps keep_sql) (auto simp: db_wf_def tokens_wf_def table_ids map_update_where image_update_where)

lemma keep_sign_for [keeps]: "keep I (sign_for cr s c n)"
  unfolding sign_for_def by (auto intro!: keeps split: sum.splits)

lemma keep_bootstrap_body [keeps]: "keep db_wf (bootstrap_body cr s inp)"
  unfolding bootstrap_body_def check_serial_def create_edge_node_def create_identity_def
  by (intro keeps)

lemma keep_Bootstrap [keeps]: "keep db_wf (Bootstrap cr s inp)"
  unfolding Bootstrap_def by (intro keeps)

lemma keep_Renew [keeps]: "keep db_wf (Renew cr dt s n c)"
  unfolding Renew_def Let_def by (intro keeps keep_update_identities) simp

lemma keep_audit_revocation [keeps]: "keep db_wf (audit_revocation n reason)"
  unfolding audit_revocation_def
  by (rule keep_sql) (auto simp: Let_def guarded_Inr db_wf_def events_wf_def table_ids list_all_iff
      split: if_splits)

lemma keep_RevokeNode [keeps]: "keep db_wf (RevokeNode n reason)"
  unfolding RevokeNode_def revoke_body_def
  by (intro keeps keep_update_identities keep_update_nodes) simp_all

end
