(* ===== verification/Onboarding_Correct.thy ===== *)
theory Onboarding_Correct
  imports Onboarding
begin

text \<open>
  What the onboarding service guarantees: the outcome of \<open>Bootstrap\<close>, the number of nodes a token
  can register, renewal, and revocation.
\<close>

section \<open>The statements\<close>

lemma insert_node_InrD:
  "insert_node mk d = (Inr r, d1) \<Longrightarrow>
     r = mk (uuid_gen d (stmt_no d) 0) (clock d) \<and> clock d1 = clock d
     \<and> tabs d1 = (tabs d)\<lparr>edge_nodes := edge_nodes (tabs d) @ [r]\<rparr>"
  by (auto simp: insert_node_def Let_def guarded_Inr dest!: sql_InrD)

lemma insert_identity_InrD:
  "insert_identity mk d = (Inr r, d1) \<Longrightarrow>
     r = mk (uuid_gen d (stmt_no d) 0) (clock d) \<and> clock d1 = clock d
     \<and> tabs d1 = (tabs d)\<lparr>edge_identities := edge_identities (tabs d) @ [r]\<rparr>
     \<and> list_all (\<lambda>c. c = None) (identity_unique (edge_identities (tabs d) @ [r]))"
  by (auto simp: insert_identity_def Let_def guarded_Inr identity_unique_def dest!: sql_InrD)

lemma update_tokens_InrD:
  "update_tokens p f d = (Inr n, d1) \<Longrightarrow>
     clock d1 = clock d \<and>
     tabs d1 = (tabs d)\<lparr>bootstrap_tokens := update_where p (f (clock d)) (bootstrap_tokens (tabs d))\<rparr>"
  by (auto simp: update_tokens_def dest!: sql_InrD)

lemma update_tokens_quiet:
  "quiet d \<Longrightarrow> update_tokens p f d =
     (Inr (count_where p (bootstrap_tokens (tabs d))), d\<lparr>stmt_no := Suc (stmt_no d),
        tabs := (tabs d)\<lparr>bootstrap_tokens := update_where p (f (clock d)) (bootstrap_tokens (tabs d))\<rparr>\<rparr>)"
  by (simp add: update_tokens_def sql_quiet)

lemma sql_row_InrD: "sql_row q d = (Inr x, d1) \<Longrightarrow> q (tabs d) = Some x \<and> tabs d1 = tabs d \<and> clock d1 = clock d"
  unfolding sql_row_def sql_read_def
  by (auto dest!: bindE_InrD sql_InrD simp: returnE_def failE_def split: option.splits)

section \<open>Tokens\<close>

text \<open>Why a token is refused, in the order of the checks.\<close>

definition token_verdict :: "TokenRecord \<Rightarrow> string \<Rightarrow> timestamp \<Rightarrow> go_err option" where
  "token_verdict k gatewayID now =
     (if tk_Status k = ''Revoked'' then Some errTokenNotFound
      else if tk_Status k = ''Frozen'' then Some errTokenFrozen
      else if now > tk_ExpiresAt k then Some errTokenExpired
      else if tk_UsedCount k \<ge> tk_MaxUses k then Some errTokenExhausted
      else if tk_GatewayID k \<noteq> gatewayID then Some errGatewayMismatch
      else None)"

definition use_token :: "TokenRecord \<Rightarrow> timestamp \<Rightarrow> TokenRecord list \<Rightarrow> TokenRecord list" where
  "use_token k now = update_where (\<lambda>x. tk_ID x = tk_ID k)
     (\<lambda>x. x\<lparr>tk_UsedCount := tk_UsedCount x + 1, tk_UpdatedAt := now\<rparr>)"

lemma ValidateAndConsume_unfold:
  "ValidateAndConsume cr tok g =
     bindE (map_err (token_row_or ''query token'') (sql_row (token_by_hash (sha256_hex cr tok)))) (\<lambda>k.
     bindE get_clock (\<lambda>now. case token_verdict k g now of Some e \<Rightarrow> failE e | None \<Rightarrow>
       bindE (map_err (wrap ''increment used_count'')
         (update_tokens (\<lambda>x. tk_ID x = tk_ID k)
            (\<lambda>now x. x\<lparr>tk_UsedCount := tk_UsedCount x + 1, tk_UpdatedAt := now\<rparr>)))
         (\<lambda>_. returnE (k\<lparr>tk_UsedCount := tk_UsedCount k + 1\<rparr>))))"
  unfolding ValidateAndConsume_def token_verdict_def
  by (intro arg_cong2 [where f = bindE] refl ext) simp

lemma ValidateAndConsume_InrD:
  assumes "ValidateAndConsume cr tok g d = (Inr x, d1)"
  shows "\<exists>k. token_by_hash (sha256_hex cr tok) (tabs d) = Some k \<and> token_verdict k g (clock d) = None
    \<and> clock d1 = clock d
    \<and> tabs d1 = (tabs d)\<lparr>bootstrap_tokens := use_token k (clock d) (bootstrap_tokens (tabs d))\<rparr>"
  using assms unfolding ValidateAndConsume_unfold
  by (fastforce simp: run_defs use_token_def split: option.splits prod.splits sum.splits
      dest: sql_row_InrD update_tokens_InrD)

lemma ValidateAndConsume_quiet:
  assumes "quiet d"
  shows "ValidateAndConsume cr tok g d =
    (case token_by_hash (sha256_hex cr tok) (tabs d) of
       None \<Rightarrow> (Inl errTokenNotFound, d\<lparr>stmt_no := Suc (stmt_no d)\<rparr>)
     | Some k \<Rightarrow> (case token_verdict k g (clock d) of
         Some e \<Rightarrow> (Inl e, d\<lparr>stmt_no := Suc (stmt_no d)\<rparr>)
       | None \<Rightarrow> (Inr (k\<lparr>tk_UsedCount := tk_UsedCount k + 1\<rparr>), d\<lparr>stmt_no := Suc (Suc (stmt_no d)),
            tabs := (tabs d)\<lparr>bootstrap_tokens := use_token k (clock d) (bootstrap_tokens (tabs d))\<rparr>\<rparr>)))"
  using assms unfolding ValidateAndConsume_unfold
  by (simp add: run_defs sql_row_quiet update_tokens_quiet use_token_def token_row_or_def split: option.splits)

section \<open>Registration\<close>

definition serial_taken :: "string \<Rightarrow> tables \<Rightarrow> bool" where
  "serial_taken serial t = (serial \<in> id_Serial ` set (filter live_identity (edge_identities t)))"

definition fingerprint_taken :: "string \<Rightarrow> tables \<Rightarrow> bool" where
  "fingerprint_taken fp t = (fp \<in> id_Fingerprint ` set (edge_identities t))"

lemma identity_unique_snoc:
  "identities_wf G N (edge_identities t) \<Longrightarrow> live_identity r \<Longrightarrow>
     list_all (\<lambda>c. c = None) (identity_unique (edge_identities t @ [r]))
     \<longleftrightarrow> \<not> fingerprint_taken (id_Fingerprint r) t \<and> \<not> serial_taken (id_Serial r) t"
  by (auto simp: identity_unique_def identities_wf_def fingerprint_taken_def serial_taken_def)

lemma identity_unique_snocD:
  "list_all (\<lambda>c. c = None) (identity_unique (edge_identities t @ [r])) \<Longrightarrow> live_identity r \<Longrightarrow>
     \<not> fingerprint_taken (id_Fingerprint r) t \<and> \<not> serial_taken (id_Serial r) t"
  by (auto simp: identity_unique_def fingerprint_taken_def serial_taken_def)

definition new_identity :: "BootstrapInput \<Rightarrow> string \<Rightarrow> SignResult \<Rightarrow> string \<Rightarrow> timestamp \<Rightarrow> identityRow" where
  "new_identity inp nodeID sr i now =
     \<lparr>id_ID = i, id_NodeID = nodeID, id_GatewayID = bi_GatewayID inp, id_Serial = bi_Serial inp,
      id_Fingerprint = sr_Fingerprint sr, id_Status = ''Active'', id_CertificatePEM = sr_CertPEM sr,
      id_ExpiresAt = sr_ExpiresAt sr, id_IssuedAt = now, id_RevokedAt = None, id_CreatedAt = now, id_UpdatedAt = now\<rparr>"

lemma live_new_identity [simp]: "live_identity (new_identity inp n sr i now)"
  by (simp add: new_identity_def live_identity_def)

lemma bootstrap_body_InrD:
  assumes "bootstrap_body cr s inp d = (Inr out, d1)"
  shows "\<exists>k node sr i. token_by_hash (sha256_hex cr (bi_Token inp)) (tabs d) = Some k
    \<and> token_verdict k (bi_GatewayID inp) (clock d) = None
    \<and> SignCSR cr s (clock d) (bi_CSRPEM inp) (bo_NodeID out) = Inr sr \<and> bo_CertPEM out = sr_CertPEM sr
    \<and> \<not> serial_taken (bi_Serial inp) (tabs d) \<and> \<not> fingerprint_taken (sr_Fingerprint sr) (tabs d)
    \<and> nd_ID node = bo_NodeID out \<and> nd_GatewayID node = bi_GatewayID inp \<and> nd_Status node = ''Active''
    \<and> tabs d1 = (tabs d)\<lparr>edge_nodes := edge_nodes (tabs d) @ [node],
         edge_identities := edge_identities (tabs d) @ [new_identity inp (bo_NodeID out) sr i (clock d)],
         bootstrap_tokens := use_token k (clock d) (bootstrap_tokens (tabs d))\<rparr>"
proof -
  from assms obtain x1 d2 d3 node d4 sr d5 idn where
    v: "ValidateAndConsume cr (bi_Token inp) (bi_GatewayID inp) d = (Inr x1, d2)"
    and c: "check_serial (bi_Serial inp) d2 = (Inr (), d3)"
    and n: "create_edge_node inp d3 = (Inr node, d4)"
    and s: "sign_for cr s (bi_CSRPEM inp) (nd_ID node) d4 = (Inr sr, d5)"
    and i: "create_identity inp (nd_ID node) sr d5 = (Inr idn, d1)"
    and out: "out = \<lparr>bo_NodeID = nd_ID node, bo_CertPEM = sr_CertPEM sr, bo_CAPEM = CAPem s, bo_ExpiresAt = sr_ExpiresAt sr\<rparr>"
    unfolding bootstrap_body_def by (auto dest!: bindE_InrD simp: returnE_def)
  from v obtain k where k: "token_by_hash (sha256_hex cr (bi_Token inp)) (tabs d) = Some k"
    "token_verdict k (bi_GatewayID inp) (clock d) = None" "clock d2 = clock d"
    "tabs d2 = (tabs d)\<lparr>bootstrap_tokens := use_token k (clock d) (bootstrap_tokens (tabs d))\<rparr>"
    by (auto dest!: ValidateAndConsume_InrD)
  have d3: "tabs d3 = tabs d2 \<and> clock d3 = clock d2"
    using c by (auto simp: check_serial_def returnE_def failE_def dest!: bindE_InrD map_err_InrD sql_read_tabs
        split: if_splits option.splits)
  have d4: "nd_ID node = nd_ID node" "clock d4 = clock d3" "nd_GatewayID node = bi_GatewayID inp"
    "nd_Status node = ''Active''" "tabs d4 = (tabs d3)\<lparr>edge_nodes := edge_nodes (tabs d3) @ [node]\<rparr>"
    using n by (auto simp: create_edge_node_def dest!: map_err_InrD insert_node_InrD)
  have d5: "SignCSR cr s (clock d4) (bi_CSRPEM inp) (nd_ID node) = Inr sr" "d5 = d4"
    using s by (auto simp: sign_for_def run_defs split: sum.splits)
  from i obtain j where "idn = new_identity inp (nd_ID node) sr j (clock d5)"
    "tabs d1 = (tabs d5)\<lparr>edge_identities := edge_identities (tabs d5) @ [idn]\<rparr>"
    "list_all (\<lambda>c. c = None) (identity_unique (edge_identities (tabs d5) @ [idn]))"
    by (auto simp: create_identity_def new_identity_def split: prod.splits sum.splits
        dest!: map_err_InrD insert_identity_InrD)
  moreover from this have "\<not> fingerprint_taken (sr_Fingerprint sr) (tabs d5) \<and> \<not> serial_taken (bi_Serial inp) (tabs d5)"
    using identity_unique_snocD [of "tabs d5" idn] by (simp add: new_identity_def live_identity_def)
  ultimately show ?thesis
    using k d3 d4 d5 out
    by (intro exI [of _ k] exI [of _ node] exI [of _ sr] exI [of _ j])
      (simp add: fingerprint_taken_def serial_taken_def)
qed

lemma Bootstrap_InlD: "Bootstrap cr s inp d = (Inl e, d1) \<Longrightarrow> tabs d1 = tabs d"
  by (auto simp: Bootstrap_def failE_def split: if_splits dest: WithTx_error_tabs)

lemma Bootstrap_InrD:
  assumes "Bootstrap cr s inp d = (Inr out, d1)"
  shows "\<exists>k node sr i. token_by_hash (sha256_hex cr (bi_Token inp)) (tabs d) = Some k
    \<and> token_verdict k (bi_GatewayID inp) (clock d) = None
    \<and> SignCSR cr s (clock d) (bi_CSRPEM inp) (bo_NodeID out) = Inr sr \<and> bo_CertPEM out = sr_CertPEM sr
    \<and> \<not> serial_taken (bi_Serial inp) (tabs d) \<and> \<not> fingerprint_taken (sr_Fingerprint sr) (tabs d)
    \<and> nd_ID node = bo_NodeID out \<and> nd_GatewayID node = bi_GatewayID inp \<and> nd_Status node = ''Active''
    \<and> tabs d1 = (tabs d)\<lparr>edge_nodes := edge_nodes (tabs d) @ [node],
         edge_identities := edge_identities (tabs d) @ [new_identity inp (bo_NodeID out) sr i (clock d)],
         bootstrap_tokens := use_token k (clock d) (bootstrap_tokens (tabs d))\<rparr>"
proof -
  from assms have "WithTx (bootstrap_body cr s inp) d = (Inr out, d1)"
    by (auto simp: Bootstrap_def failE_def split: if_splits)
  then obtain d2 d3 where body: "bootstrap_body cr s inp d2 = (Inr out, d3)"
    and eqs: "tabs d2 = tabs d" "clock d2 = clock d" "tabs d1 = tabs d3"
    by (auto dest!: WithTx_InrD)
  show ?thesis using bootstrap_body_InrD [OF body] by (simp add: eqs)
qed

text \<open>C18: registration is all or nothing, whatever statement fails. If \<open>Bootstrap\<close> answers, the token
  existed, passed every check (not revoked, not frozen, not expired, not used up, for this gateway)
  and has one more use; exactly one Active node and one Active identity were added, the identity
  bound to the node, the gateway and the certificate signed for the new node id; and neither the
  serial nor the fingerprint was held before. If it returns an error the tables are unchanged: no
  use of the token is lost and no node is left without identity.\<close>

theorem bootstrap_sound:
  "case Bootstrap cr s inp d of
     (Inl e, d1) \<Rightarrow> tabs d1 = tabs d
   | (Inr out, d1) \<Rightarrow> \<exists>k node sr i. token_by_hash (sha256_hex cr (bi_Token inp)) (tabs d) = Some k
       \<and> token_verdict k (bi_GatewayID inp) (clock d) = None
       \<and> SignCSR cr s (clock d) (bi_CSRPEM inp) (bo_NodeID out) = Inr sr \<and> bo_CertPEM out = sr_CertPEM sr
       \<and> \<not> serial_taken (bi_Serial inp) (tabs d) \<and> \<not> fingerprint_taken (sr_Fingerprint sr) (tabs d)
       \<and> nd_ID node = bo_NodeID out \<and> nd_GatewayID node = bi_GatewayID inp \<and> nd_Status node = ''Active''
       \<and> tabs d1 = (tabs d)\<lparr>edge_nodes := edge_nodes (tabs d) @ [node],
            edge_identities := edge_identities (tabs d) @ [new_identity inp (bo_NodeID out) sr i (clock d)],
            bootstrap_tokens := use_token k (clock d) (bootstrap_tokens (tabs d))\<rparr>"
proof (cases "Bootstrap cr s inp d")
  case (Pair r d1)
  show ?thesis
  proof (cases r)
    case (Inl e)
    with Pair Bootstrap_InlD show ?thesis by (simp del: Pair_inject)
  next
    case (Inr out)
    show ?thesis using Bootstrap_InrD [OF Pair [unfolded Inr]] unfolding Pair Inr by simp
  qed
qed

section \<open>Every outcome of a registration\<close>

lemma labels_json_cases: "\<exists>j. labels_json m = Raw_JSON j"
  by (auto simp: labels_json_def empty_object_def split: option.splits)

lemma create_edge_node_quiet:
  assumes "quiet d" "bi_GatewayID inp \<in> gateway_ids (tabs d)" "uuid_gen d (stmt_no d) 0 \<notin> node_ids (tabs d)"
  shows "\<exists>node. create_edge_node inp d = (Inr node, d\<lparr>stmt_no := Suc (stmt_no d),
      tabs := (tabs d)\<lparr>edge_nodes := edge_nodes (tabs d) @ [node]\<rparr>\<rparr>) \<and> nd_ID node = uuid_gen d (stmt_no d) 0"
proof -
  obtain j1 j2 where "labels_json (bi_Labels inp) = Raw_JSON j1" "labels_json (bi_HardwareInfo inp) = Raw_JSON j2"
    using labels_json_cases by metis
  with assms show ?thesis
    by (simp add: create_edge_node_def map_err_def insert_node_def sql_quiet Let_def guarded_def
        check_unique_def check_fk_def check_jsonb_def table_ids)
qed

text \<open>The error of the new identity's unique constraints.\<close>

lemma create_identity_quiet:
  assumes "quiet d" "identities_wf G N (edge_identities (tabs d))"
    and "bi_GatewayID inp \<in> gateway_ids (tabs d)" "n \<in> node_ids (tabs d)" "n \<notin> id_NodeID ` set (edge_identities (tabs d))"
    and "uuid_gen d (stmt_no d) 0 \<notin> id_ID ` set (edge_identities (tabs d))"
  shows "create_identity inp n sr d =
    (if fingerprint_taken (sr_Fingerprint sr) (tabs d) \<or> serial_taken (bi_Serial inp) (tabs d)
     then (Inl errIdentityConflict, d\<lparr>stmt_no := Suc (stmt_no d), aborted := in_tx d\<rparr>)
     else let i = new_identity inp n sr (uuid_gen d (stmt_no d) 0) (clock d) in
       (Inr i, d\<lparr>stmt_no := Suc (stmt_no d),
          tabs := (tabs d)\<lparr>edge_identities := edge_identities (tabs d) @ [i]\<rparr>\<rparr>))"
proof -
  let ?r = "new_identity inp n sr (uuid_gen d (stmt_no d) 0) (clock d)"
  have uniq: "identity_unique (edge_identities (tabs d) @ [?r]) =
      [check_unique ''uq_edge_identities_fingerprint'' (fingerprint_taken (sr_Fingerprint sr) (tabs d)),
       check_unique ''uq_edge_identities_serial_active'' (serial_taken (bi_Serial inp) (tabs d))]"
    using assms(2) by (simp add: identity_unique_def identities_wf_def fingerprint_taken_def serial_taken_def
        new_identity_def live_identity_def)
  have "insert_identity (new_identity inp n sr) d =
    (if fingerprint_taken (sr_Fingerprint sr) (tabs d)
     then (Inl (PgError (PgUnique ''uq_edge_identities_fingerprint'')), d\<lparr>stmt_no := Suc (stmt_no d), aborted := in_tx d\<rparr>)
     else if serial_taken (bi_Serial inp) (tabs d)
     then (Inl (PgError (PgUnique ''uq_edge_identities_serial_active'')), d\<lparr>stmt_no := Suc (stmt_no d), aborted := in_tx d\<rparr>)
     else (Inr ?r, d\<lparr>stmt_no := Suc (stmt_no d), tabs := (tabs d)\<lparr>edge_identities := edge_identities (tabs d) @ [?r]\<rparr>\<rparr>))"
    using assms
    by (simp add: insert_identity_def sql_quiet Let_def uniq guarded_def) (simp add: check_unique_def check_fk_def
        new_identity_def table_ids)
  moreover have "create_identity inp n sr =
      map_err (\<lambda>e. if is_unique_violation e then errIdentityConflict else wrap ''create identity'' e)
        (insert_identity (new_identity inp n sr))"
    by (simp add: create_identity_def new_identity_def [abs_def])
  ultimately show ?thesis by (simp add: map_err_def unique_violation_recognised Let_def)
qed

definition bootstrap_node_id :: "BootstrapInput \<Rightarrow> session \<Rightarrow> string" where
  "bootstrap_node_id inp d = uuid_gen d (stmt_no d + (if bi_Serial inp = [] then 3 else 4)) 0"

text \<open>What \<open>Bootstrap\<close> answers, case by case.\<close>

definition bootstrap_answer :: "crypto \<Rightarrow> Signer \<Rightarrow> BootstrapInput \<Rightarrow> session \<Rightarrow> go_err + BootstrapOutput" where
  "bootstrap_answer cr s inp d =
     (if bi_CSRPEM inp = [] then Inl (errCSRInvalid ''empty CSR'')
      else case token_by_hash (sha256_hex cr (bi_Token inp)) (tabs d) of
        None \<Rightarrow> Inl errTokenNotFound
      | Some k \<Rightarrow> (case token_verdict k (bi_GatewayID inp) (clock d) of
          Some e \<Rightarrow> Inl e
        | None \<Rightarrow>
            if bi_Serial inp \<noteq> [] \<and> serial_taken (bi_Serial inp) (tabs d) then Inl errIdentityConflict
            else (case SignCSR cr s (clock d) (bi_CSRPEM inp) (bootstrap_node_id inp d) of
                Inl e \<Rightarrow> Inl (errCSRInvalid (err_text e))
              | Inr sr \<Rightarrow>
                  if fingerprint_taken (sr_Fingerprint sr) (tabs d) \<or> serial_taken (bi_Serial inp) (tabs d)
                  then Inl errIdentityConflict
                  else Inr \<lparr>bo_NodeID = bootstrap_node_id inp d, bo_CertPEM = sr_CertPEM sr, bo_CAPEM = CAPem s,
                     bo_ExpiresAt = sr_ExpiresAt sr\<rparr>)))"

lemma check_serial_quiet:
  assumes "quiet d"
  shows "check_serial serial d =
    (if serial = [] then (Inr (), d)
     else (if serial_taken serial (tabs d) then Inl errIdentityConflict else Inr (), d\<lparr>stmt_no := Suc (stmt_no d)\<rparr>))"
proof (cases "serial_holder serial (tabs d)")
  case None
  then have "\<not> serial_taken serial (tabs d)"
    unfolding serial_holder_def find_None_iff by (auto simp: serial_taken_def)
  with None assms show ?thesis by (simp add: check_serial_def run_defs sql_read_quiet)
next
  case (Some i)
  then have "serial_taken serial (tabs d)"
    unfolding serial_holder_def by (auto simp: serial_taken_def dest!: find_Some_set)
  with Some assms show ?thesis by (simp add: check_serial_def run_defs sql_read_quiet)
qed

text \<open>The transaction once the token is accepted: the serial is checked, the request signed for the new node and the
  identity inserted into a state that has the node.\<close>

lemma Bootstrap_accepted:
  assumes "quiet d" "db_wf (tabs d)" "fresh_supply d" "bi_CSRPEM inp \<noteq> []"
    and k: "token_by_hash (sha256_hex cr (bi_Token inp)) (tabs d) = Some k" "token_verdict k (bi_GatewayID inp) (clock d) = None"
  obtains db where "quiet db" "clock db = clock d" "edge_identities (tabs db) = edge_identities (tabs d)"
    and "bootstrap_node_id inp d \<in> node_ids (tabs db)" "gateway_ids (tabs db) = gateway_ids (tabs d)"
    and "uuid_gen db (stmt_no db) 0 \<notin> set (all_ids (tabs d))" "bi_GatewayID inp \<in> gateway_ids (tabs d)"
    and "fst (Bootstrap cr s inp d) =
        (if bi_Serial inp \<noteq> [] \<and> serial_taken (bi_Serial inp) (tabs d) then Inl errIdentityConflict
         else case SignCSR cr s (clock d) (bi_CSRPEM inp) (bootstrap_node_id inp d) of Inl e \<Rightarrow> Inl (errCSRInvalid (err_text e))
          | Inr sr \<Rightarrow> (case create_identity inp (bootstrap_node_id inp d) sr db of (Inl e, d1) \<Rightarrow> Inl e
            | (Inr x, d1) \<Rightarrow> fst (commit_tx d \<lparr>bo_NodeID = bootstrap_node_id inp d, bo_CertPEM = sr_CertPEM sr, bo_CAPEM = CAPem s,
                     bo_ExpiresAt = sr_ExpiresAt sr\<rparr> d1)))"
proof -
  let ?n = "bootstrap_node_id inp d"
  let ?m = "stmt_no d + (if bi_Serial inp = [] then 3 else 4)"
  let ?t = "(tabs d)\<lparr>bootstrap_tokens := use_token k (clock d) (bootstrap_tokens (tabs d))\<rparr>"
  define da where "da = (start_tx d)\<lparr>stmt_no := ?m, tabs := ?t\<rparr>"
  have da: "quiet da" "tabs da = ?t" "clock da = clock d" "uuid_gen da (stmt_no da) 0 = ?n"
    "uuid_gen da (Suc (stmt_no da)) 0 = uuid_gen d (Suc ?m) 0"
    using assms(1) by (simp_all add: da_def bootstrap_node_id_def)
  have gw: "bi_GatewayID inp \<in> gateway_ids (tabs d)"
    using k assms(2) by (auto simp: token_by_hash_def token_verdict_def db_wf_def tokens_wf_def
        dest!: find_Some_set split: if_splits)
  have new: "?n \<notin> set (all_ids (tabs d))" "uuid_gen d (Suc ?m) 0 \<notin> set (all_ids (tabs d))"
    using fresh_notin [OF assms(3)] by (simp_all add: bootstrap_node_id_def)
  obtain node where node: "create_edge_node inp da = (Inr node, da\<lparr>stmt_no := Suc (stmt_no da),
      tabs := ?t\<lparr>edge_nodes := edge_nodes (tabs d) @ [node]\<rparr>\<rparr>)" "nd_ID node = ?n"
    using create_edge_node_quiet [of da inp] da gw new(1) by (auto simp: table_ids all_ids_def)
  define db where "db = da\<lparr>stmt_no := Suc (stmt_no da), tabs := ?t\<lparr>edge_nodes := edge_nodes (tabs d) @ [node]\<rparr>\<rparr>"
  have db: "quiet db" "clock db = clock d" "edge_identities (tabs db) = edge_identities (tabs d)"
    "?n \<in> node_ids (tabs db)" "gateway_ids (tabs db) = gateway_ids (tabs d)"
    "uuid_gen db (stmt_no db) 0 \<notin> set (all_ids (tabs d))"
    using da node(2) new(2) by (simp_all add: db_def table_ids)
  have run: "fst (Bootstrap cr s inp d) =
      (case bootstrap_body cr s inp (start_tx d) of (Inl e, d1) \<Rightarrow> Inl e | (Inr x, d1) \<Rightarrow> fst (commit_tx d x d1))"
    using assms(1,4) by (simp add: Bootstrap_def WithTx_quiet split: prod.splits sum.splits)
  have val: "ValidateAndConsume cr (bi_Token inp) (bi_GatewayID inp) (start_tx d) =
      (Inr (k\<lparr>tk_UsedCount := tk_UsedCount k + 1\<rparr>), (start_tx d)\<lparr>stmt_no := stmt_no d + 3, tabs := ?t\<rparr>)"
    using k assms(1) by (simp add: ValidateAndConsume_quiet eval_nat_numeral)
  have ser: "check_serial (bi_Serial inp) ((start_tx d)\<lparr>stmt_no := stmt_no d + 3, tabs := ?t\<rparr>) =
      (if bi_Serial inp \<noteq> [] \<and> serial_taken (bi_Serial inp) (tabs d) then Inl errIdentityConflict else Inr (), da)"
    using assms(1) by (simp add: check_serial_quiet serial_taken_def da_def)
  show ?thesis
    by (rule that [OF db gw], unfold run bootstrap_body_def bindE_def val prod.case sum.case ser)
      (simp add: node(1,2) sign_for_def run_defs db_def [symmetric] db(2) split: prod.splits sum.splits)
qed

lemma Bootstrap_answer:
  assumes "quiet d" "db_wf (tabs d)" "fresh_supply d"
  shows "fst (Bootstrap cr s inp d) = bootstrap_answer cr s inp d"
proof (cases "bi_CSRPEM inp = []")
  case True
  then show ?thesis by (simp add: Bootstrap_def bootstrap_answer_def failE_def)
next
  case csr: False
  let ?n = "bootstrap_node_id inp d"
  show ?thesis
  proof (cases "\<exists>k. token_by_hash (sha256_hex cr (bi_Token inp)) (tabs d) = Some k \<and> token_verdict k (bi_GatewayID inp) (clock d) = None")
    case False
    then show ?thesis
      using csr assms(1)
      by (auto simp: Bootstrap_def WithTx_quiet bootstrap_body_def bindE_def ValidateAndConsume_quiet bootstrap_answer_def
          split: option.splits)
  next
    case True
    then obtain k where k: "token_by_hash (sha256_hex cr (bi_Token inp)) (tabs d) = Some k"
      "token_verdict k (bi_GatewayID inp) (clock d) = None" by blast
    obtain db where db: "quiet db" "clock db = clock d" "edge_identities (tabs db) = edge_identities (tabs d)"
        "?n \<in> node_ids (tabs db)" "gateway_ids (tabs db) = gateway_ids (tabs d)"
        "uuid_gen db (stmt_no db) 0 \<notin> set (all_ids (tabs d))" "bi_GatewayID inp \<in> gateway_ids (tabs d)"
      and body: "fst (Bootstrap cr s inp d) =
        (if bi_Serial inp \<noteq> [] \<and> serial_taken (bi_Serial inp) (tabs d) then Inl errIdentityConflict
         else case SignCSR cr s (clock d) (bi_CSRPEM inp) ?n of Inl e \<Rightarrow> Inl (errCSRInvalid (err_text e))
          | Inr sr \<Rightarrow> (case create_identity inp ?n sr db of (Inl e, d1) \<Rightarrow> Inl e
            | (Inr x, d1) \<Rightarrow> fst (commit_tx d \<lparr>bo_NodeID = ?n, bo_CertPEM = sr_CertPEM sr, bo_CAPEM = CAPem s,
                     bo_ExpiresAt = sr_ExpiresAt sr\<rparr> d1)))"
      by (rule Bootstrap_accepted [OF assms csr k])
    have "?n \<notin> set (all_ids (tabs d))" using fresh_notin [OF assms(3)] by (simp add: bootstrap_node_id_def)
    then have "?n \<notin> id_NodeID ` set (edge_identities (tabs d))"
      using assms(2) by (auto simp: db_wf_def identities_wf_def node_ids_def all_ids_def)
    then have ident: "if fingerprint_taken (sr_Fingerprint sr) (tabs d) \<or> serial_taken (bi_Serial inp) (tabs d)
        then \<exists>e. create_identity inp ?n sr db = (Inl errIdentityConflict, e)
        else \<exists>i e. create_identity inp ?n sr db = (Inr i, e) \<and> quiet e" for sr
      using create_identity_quiet [of db "gateway_ids (tabs d)" "node_ids (tabs d)" inp ?n sr] db assms(2)
      by (auto simp: db_wf_def all_ids_def fingerprint_taken_def serial_taken_def Let_def)
    show ?thesis
    proof (cases "SignCSR cr s (clock d) (bi_CSRPEM inp) ?n")
      case (Inl e)
      with csr k show ?thesis unfolding body bootstrap_answer_def by simp
    next
      case (Inr sr)
      with csr k ident [of sr] show ?thesis
        unfolding body bootstrap_answer_def by (auto simp: commit_tx_quiet split: if_splits)
    qed
  qed
qed

text \<open>A signer that wraps the request, and a database with one token of gateway g1, for evaluation.\<close>

definition example_crypto :: crypto where
  "example_crypto = \<lparr>pem_decode = (\<lambda>s. Some (''CERTIFICATE REQUEST'', s)), pem_encode = (\<lambda>ty s. s),
     parse_certificate = Inr, parse_pkcs1 = Inr, parse_ec = Inr, parse_pkcs8 = Inr,
     parse_csr = (\<lambda>s. Inr \<lparr>csr_public_key = s, csr_signature_ok = None\<rparr>), rand_serial = Inr 7,
     create_certificate = (\<lambda>t ca pub key. Inr (ct_CommonName t @ pub)), sha256_hex = (\<lambda>s. ''sha:'' @ s)\<rparr>"

definition example_signer :: Signer where
  "example_signer = \<lparr>sg_caCert = ''ca'', sg_caKey = ''key'', sg_caPEM = ''ca'', sg_certValidity = 90 * 24 * hour\<rparr>"

definition example_token :: TokenRecord where
  "example_token = \<lparr>tk_ID = ''k1'', tk_GatewayID = ''g1'', tk_TokenHash = ''sha:tok'', tk_Description = [],
     tk_Labels = empty_object, tk_MaxUses = 2, tk_UsedCount = 1, tk_Status = ''Active'', tk_ExpiresAt = 100,
     tk_CreatedAt = 0, tk_UpdatedAt = 0\<rparr>"

definition token_tables :: tables where
  "token_tables = empty_tables\<lparr>gateways := [example_gateway], bootstrap_tokens := [example_token]\<rparr>"

definition example_input :: BootstrapInput where
  "example_input = \<lparr>bi_Token = ''tok'', bi_GatewayID = ''g1'', bi_CSRPEM = ''csr'', bi_Serial = ''sn1'',
     bi_HardwareInfo = None, bi_Labels = None\<rparr>"

lemmas onboarding_examples = example_crypto_def example_signer_def example_token_def token_tables_def example_input_def

lemma token_tables_wf: "db_wf token_tables" "fresh_supply (session_at token_tables now)"
  by (simp_all add: onboarding_examples db_wf_def table_wf_defs table_ids empty_tables_def example_gateway_def
      session_at_fresh all_ids_def)

lemma example_answer:
  "bootstrap_answer example_crypto example_signer example_input (session_at token_tables 9) =
     Inr \<lparr>bo_NodeID = sample_uuid 4 0, bo_CertPEM = sample_uuid 4 0 @ ''csr'', bo_CAPEM = ''ca'',
       bo_ExpiresAt = 9 + 90 * 24 * hour\<rparr>"
  by (simp add: bootstrap_answer_def onboarding_examples token_by_hash_def token_verdict_def
      empty_tables_def serial_taken_def fingerprint_taken_def bootstrap_node_id_def SignCSR_def CAPem_def
      Let_def cert_for_def)

text \<open>C26: what a registration answers, on every branch, when no statement fails: the error of the
  first check that fails, in the order empty request, unknown token, revoked, frozen, expired,
  used up, wrong gateway, serial held, bad request, fingerprint held; and the node with its
  certificate otherwise. The empty serial is not checked beforehand but conflicts all the same: at
  most one live identity can have no serial.\<close>

theorem bootstrap_outcome:
  assumes "quiet d" "db_wf (tabs d)" "fresh_supply d"
  shows "fst (Bootstrap cr s inp d) = bootstrap_answer cr s inp d"
  using assms by (rule Bootstrap_answer)

theorem bootstrap_outcome_witness:
  "fst (Bootstrap example_crypto example_signer example_input (session_at token_tables 9)) =
     Inr \<lparr>bo_NodeID = sample_uuid 4 0, bo_CertPEM = sample_uuid 4 0 @ ''csr'', bo_CAPEM = ''ca'',
       bo_ExpiresAt = 9 + 90 * 24 * hour\<rparr>"
  using bootstrap_outcome [of "session_at token_tables 9" example_crypto example_signer example_input]
  by (simp add: token_tables_wf example_answer)

section \<open>The uses of a token\<close>

definition token_uses :: "string \<Rightarrow> tables \<Rightarrow> (string \<times> int \<times> int) option" where
  "token_uses h t = map_option (\<lambda>k. (tk_ID k, tk_UsedCount k, tk_MaxUses k)) (token_by_hash h t)"

lemma token_uses_use_token:
  assumes "tokens_wf G (bootstrap_tokens t)" "token_by_hash h' t = Some k" "token_uses h t = Some (i, used, lim)"
  shows "token_uses h (t\<lparr>bootstrap_tokens := use_token k now (bootstrap_tokens t)\<rparr>) =
    Some (i, if h = h' then used + 1 else used, lim)"
proof -
  obtain x where x: "token_by_hash h t = Some x" "tk_ID x = i" "tk_UsedCount x = used" "tk_MaxUses x = lim"
    using assms(3) by (auto simp: token_uses_def)
  have mem: "x \<in> set (bootstrap_tokens t)" "tk_TokenHash x = h" "k \<in> set (bootstrap_tokens t)" "tk_TokenHash k = h'"
    using x(1) assms(2) by (auto simp: token_by_hash_def dest!: find_Some_set)
  have "tk_ID x = tk_ID k \<longleftrightarrow> h = h'"
    using assms(1,2) x(1) mem by (auto simp: tokens_wf_def distinct_map inj_on_def)
  with x show ?thesis
    by (auto simp: token_uses_def token_by_hash_def use_token_def find_update_where)
qed

lemma token_uses_update:
  assumes "\<And>x. tk_TokenHash (f x) = tk_TokenHash x \<and> tk_ID (f x) = tk_ID x
      \<and> tk_UsedCount (f x) = tk_UsedCount x \<and> tk_MaxUses (f x) = tk_MaxUses x"
  shows "token_uses h (t\<lparr>bootstrap_tokens := update_where p f (bootstrap_tokens t)\<rparr>) = token_uses h t"
  using assms by (cases "find (\<lambda>k. tk_TokenHash k = h) (bootstrap_tokens t)")
    (auto simp: token_uses_def token_by_hash_def find_update_where)

lemma keep_token_uses [keeps]:
  "keep (\<lambda>t. token_uses h t = Some u) (TokenStore_Create cr rnd g de l m e)"
  "keep (\<lambda>t. token_uses h t = Some u) (Token_UpdateStatus i st)"
  "keep (\<lambda>t. token_uses h t = Some u) (update_identities p f)"
  "keep (\<lambda>t. token_uses h t = Some u) (update_nodes cs q g')"
  "keep (\<lambda>t. token_uses h t = Some u) (audit_revocation n reason)"
proof -
  show "keep (\<lambda>t. token_uses h t = Some u) (TokenStore_Create cr rnd g de l m e)"
    unfolding TokenStore_Create_def insert_token_def
    by (cases rnd) (auto intro!: keeps keep_sql simp: guarded_Inr Let_def token_uses_def token_by_hash_def find_append)
  show "keep (\<lambda>t. token_uses h t = Some u) (Token_UpdateStatus i st)"
    unfolding Token_UpdateStatus_def Let_def
    by (intro keeps keep_sql) (auto simp: token_uses_update)
qed (auto intro!: keep_sql simp: update_identities_def update_nodes_def audit_revocation_def guarded_Inr Let_def
    token_uses_def token_by_hash_def)

lemma keep_token_uses_ops [keeps]:
  "keep (\<lambda>t. token_uses h t = Some u) (Renew cr dt s n c)"
  "keep (\<lambda>t. token_uses h t = Some u) (RevokeNode n reason)"
  unfolding Renew_def Let_def RevokeNode_def revoke_body_def by (intro keeps)+

text \<open>Any sequence of requests to the service, at any time and with any faults; \<open>n\<close> counts the
  registrations with the token whose digest is \<open>h\<close>.\<close>

inductive registrations :: "crypto \<Rightarrow> string \<Rightarrow> session \<Rightarrow> nat \<Rightarrow> session \<Rightarrow> bool" for cr h d0 where
  start: "registrations cr h d0 0 d0"
| registered: "registrations cr h d0 n d \<Longrightarrow> Bootstrap cr s inp d = (Inr out, d1) \<Longrightarrow>
    registrations cr h d0 (if sha256_hex cr (bi_Token inp) = h then Suc n else n) d1"
| refused: "registrations cr h d0 n d \<Longrightarrow> Bootstrap cr s inp d = (Inl e, d1) \<Longrightarrow> registrations cr h d0 n d1"
| renewed: "registrations cr h d0 n d \<Longrightarrow> Renew cr dt s node csr d = (r, d1) \<Longrightarrow> registrations cr h d0 n d1"
| revoked: "registrations cr h d0 n d \<Longrightarrow> RevokeNode node reason d = (r', d1) \<Longrightarrow> registrations cr h d0 n d1"
| token_changed: "registrations cr h d0 n d \<Longrightarrow> Token_UpdateStatus i st d = (r'', d1) \<Longrightarrow> registrations cr h d0 n d1"
| token_created: "registrations cr h d0 n d \<Longrightarrow> TokenStore_Create cr rnd g de l mx ex d = (r3, d1) \<Longrightarrow>
    registrations cr h d0 n d1"
| elapsed: "registrations cr h d0 n d \<Longrightarrow> registrations cr h d0 n (d\<lparr>clock := now, faults := fs\<rparr>)"

text \<open>C22: a token registers at most as many nodes as it has uses left. Over any sequence of requests,
  concurrent clients, time and faults included, the use count of the token rises by exactly one per
  node registered with it, its limit never changes, and as soon as it has registered a node in the
  sequence the count is within the limit.\<close>

theorem token_use_bound:
  assumes "registrations cr h d0 n d" "db_wf (tabs d0)" "token_uses h (tabs d0) = Some (i, used, lim)"
  shows "db_wf (tabs d) \<and> token_uses h (tabs d) = Some (i, used + int n, lim) \<and> (n = 0 \<or> used + int n \<le> lim)"
  using assms
proof (induction rule: registrations.induct)
  case (registered n d s inp out d1)
  let ?h = "sha256_hex cr (bi_Token inp)"
  have IH: "db_wf (tabs d)" "token_uses h (tabs d) = Some (i, used + int n, lim)" "n = 0 \<or> used + int n \<le> lim"
    using registered by auto
  from registered(2) obtain k where k: "token_by_hash ?h (tabs d) = Some k" "token_verdict k (bi_GatewayID inp) (clock d) = None"
    "bootstrap_tokens (tabs d1) = use_token k (clock d) (bootstrap_tokens (tabs d))"
    by (auto dest!: Bootstrap_InrD)
  have wf: "db_wf (tabs d1)" using keepD [OF keep_Bootstrap IH(1) registered(2)] .
  have "token_uses h (tabs d1) = token_uses h ((tabs d)\<lparr>bootstrap_tokens := use_token k (clock d) (bootstrap_tokens (tabs d))\<rparr>)"
    using k(3) by (simp add: token_uses_def token_by_hash_def)
  also have "\<dots> = Some (i, if h = ?h then used + int n + 1 else used + int n, lim)"
    using token_uses_use_token [OF _ k(1) IH(2)] IH(1) by (auto simp: db_wf_def)
  finally have uses: "token_uses h (tabs d1) = Some (i, if h = ?h then used + int n + 1 else used + int n, lim)" .
  have "used + int n < lim" if "h = ?h"
    using k(1,2) IH(2) that by (auto simp: token_uses_def token_verdict_def split: if_splits)
  with wf uses IH(3) show ?case by auto
next
  case (refused n d s inp e d1)
  then show ?case by (auto dest!: Bootstrap_InlD)
qed (auto dest: keepD [OF keep_Renew] keepD [OF keep_RevokeNode] keepD [OF keep_Token_UpdateStatus]
    keepD [OF keep_TokenStore_Create] keepD [OF keep_token_uses(1)] keepD [OF keep_token_uses(2)]
    keepD [OF keep_token_uses_ops(1)] keepD [OF keep_token_uses_ops(2)])

theorem token_use_bound_witness:
  "\<exists>d. registrations example_crypto ''sha:tok'' (session_at token_tables 9) 1 d
     \<and> token_uses ''sha:tok'' (tabs d) = Some (''k1'', 2, 2)"
proof -
  have "fst (Bootstrap example_crypto example_signer example_input (session_at token_tables 9)) =
      bootstrap_answer example_crypto example_signer example_input (session_at token_tables 9)"
    by (rule Bootstrap_answer) (simp_all add: token_tables_wf)
  then obtain out d where "Bootstrap example_crypto example_signer example_input (session_at token_tables 9) = (Inr out, d)"
    unfolding example_answer by (metis prod.collapse)
  moreover have "sha256_hex example_crypto (bi_Token example_input) = ''sha:tok''"
    by (simp add: onboarding_examples)
  ultimately have r: "registrations example_crypto ''sha:tok'' (session_at token_tables 9) 1 d"
    using registrations.registered [OF registrations.start, where h = "''sha:tok''"] by fastforce
  have "token_uses ''sha:tok'' token_tables = Some (''k1'', 1, 2)"
    by (simp add: token_uses_def token_by_hash_def onboarding_examples empty_tables_def)
  with r token_use_bound [OF r] token_tables_wf show ?thesis by auto
qed

section \<open>Renewal\<close>

lemma update_identities_InrD:
  "update_identities p f d = (Inr n, d1) \<Longrightarrow>
     n = count_where p (edge_identities (tabs d)) \<and> clock d1 = clock d \<and> in_tx d1 = in_tx d
     \<and> tabs d1 = (tabs d)\<lparr>edge_identities := update_where p (f (clock d)) (edge_identities (tabs d))\<rparr>"
  by (auto simp: update_identities_def Let_def guarded_Inr dest!: sql_InrD)

lemma update_identities_InlD: "update_identities p f d = (Inl e, d1) \<Longrightarrow> tabs d1 = tabs d"
  by (auto simp: update_identities_def dest!: sql_InlD)

lemma sql_row_tabs: "sql_row q d = (r, d1) \<Longrightarrow> tabs d1 = tabs d"
  by (auto simp: sql_row_def bindE_def returnE_def failE_def dest: sql_read_tabs
      split: prod.splits sum.splits option.splits)

text \<open>The row of the identity after a renewal.\<close>

definition renewed_identity :: "SignResult \<Rightarrow> timestamp \<Rightarrow> identityRow \<Rightarrow> identityRow" where
  "renewed_identity sr now i = i\<lparr>id_Fingerprint := sr_Fingerprint sr, id_CertificatePEM := sr_CertPEM sr,
     id_ExpiresAt := sr_ExpiresAt sr, id_IssuedAt := now, id_UpdatedAt := now\<rparr>"

lemma Renew_InrD:
  assumes "Renew cr dt s nodeID csr d = (Inr out, d1)"
  shows "\<exists>i sr. node_identity nodeID (tabs d) = Some i \<and> id_Status i = ''Active''
    \<and> id_ExpiresAt i \<le> clock d + 30 * 24 * hour
    \<and> SignCSR cr s (clock d) csr nodeID = Inr sr
    \<and> out = \<lparr>ro_CertPEM = sr_CertPEM sr, ro_CAPEM = CAPem s, ro_ExpiresAt = sr_ExpiresAt sr\<rparr>
    \<and> tabs d1 = (tabs d)\<lparr>edge_identities := update_where (\<lambda>x. id_ID x = id_ID i)
         (renewed_identity sr (clock d)) (edge_identities (tabs d))\<rparr>"
proof -
  from assms obtain i d2 sr d3 n where r: "sql_row (node_identity nodeID) d = (Inr i, d2)"
    and t: "\<not> id_ExpiresAt i - clock d2 > renewThreshold"
    and sg: "sign_for cr s csr nodeID d2 = (Inr sr, d3)"
    and u: "update_identities (\<lambda>x. id_ID x = id_ID i) (renewed_identity sr) d3 = (Inr n, d1)"
    and out: "out = \<lparr>ro_CertPEM = sr_CertPEM sr, ro_CAPEM = CAPem s, ro_ExpiresAt = sr_ExpiresAt sr\<rparr>"
    by (auto simp: Renew_def Let_def renewed_identity_def [abs_def] get_clock_def failE_def returnE_def
        dest!: bindE_InrD map_err_InrD split: if_splits)
  from r have i: "node_identity nodeID (tabs d) = Some i" "tabs d2 = tabs d" "clock d2 = clock d"
    by (auto dest!: sql_row_InrD)
  from sg have "SignCSR cr s (clock d2) csr nodeID = Inr sr" "d3 = d2"
    by (auto simp: sign_for_def run_defs split: sum.splits)
  moreover have "id_Status i = ''Active''" using i(1) by (auto simp: node_identity_def dest!: find_Some_set)
  ultimately show ?thesis
    using i t out update_identities_InrD [OF u] by (auto simp: renewThreshold_def)
qed

lemma Renew_InlD: "Renew cr dt s nodeID csr d = (Inl e, d1) \<Longrightarrow> tabs d1 = tabs d"
  by (auto simp: Renew_def run_defs sign_for_def Let_def dest!: sql_row_tabs update_identities_InlD
      split: if_splits prod.splits sum.splits)

text \<open>C27: renewal. Whatever statement fails, a renewal that is refused changes nothing; one that is
  granted was asked for a node with an Active identity whose certificate has 30 days or less left
  (or is expired), signs the request for that node, and replaces fingerprint, certificate and
  lifetime of that identity only: the old fingerprint is no longer accepted, status, node, gateway
  and serial stay.\<close>

theorem renew_sound:
  "case Renew cr dt s nodeID csr d of
     (Inl e, d1) \<Rightarrow> tabs d1 = tabs d
   | (Inr out, d1) \<Rightarrow> \<exists>i sr. node_identity nodeID (tabs d) = Some i \<and> id_Status i = ''Active''
       \<and> id_ExpiresAt i \<le> clock d + 30 * 24 * hour
       \<and> SignCSR cr s (clock d) csr nodeID = Inr sr
       \<and> out = \<lparr>ro_CertPEM = sr_CertPEM sr, ro_CAPEM = CAPem s, ro_ExpiresAt = sr_ExpiresAt sr\<rparr>
       \<and> tabs d1 = (tabs d)\<lparr>edge_identities := update_where (\<lambda>x. id_ID x = id_ID i)
            (renewed_identity sr (clock d)) (edge_identities (tabs d))\<rparr>"
proof (cases "Renew cr dt s nodeID csr d")
  case (Pair r d1)
  show ?thesis
  proof (cases r)
    case (Inl e)
    with Pair Renew_InlD show ?thesis by (simp del: Pair_inject)
  next
    case (Inr out)
    show ?thesis using Renew_InrD [OF Pair [unfolded Inr]] unfolding Pair Inr by simp
  qed
qed

section \<open>Revocation\<close>

lemma sql_Inl_aborted: "sql f d = (Inl e, d1) \<Longrightarrow> in_tx d \<Longrightarrow> aborted d1"
  by (auto simp: sql_def Let_def split: if_splits list.splits option.splits sum.splits)

lemma audit_revocation_fails:
  assumes "in_tx d" "\<exists>i \<in> set (edge_identities (tabs d)). id_NodeID i = n \<and> id_ID i \<notin> task_ids (tabs d)"
  shows "\<exists>e d1. audit_revocation n reason d = (Inl e, d1) \<and> aborted d1"
proof (cases "audit_revocation n reason d")
  case (Pair r d1)
  show ?thesis
  proof (cases r)
    case (Inl e)
    with Pair assms(1) show ?thesis unfolding audit_revocation_def by (auto dest: sql_Inl_aborted)
  next
    case (Inr u)
    let ?sel = "filter (\<lambda>i. id_NodeID i = n) (edge_identities (tabs d))"
    have ids: "map e_TaskID (revocation_events g now reason sel) = map id_ID sel" for g now sel
      by (rule nth_equalityI) (simp_all add: revocation_events_def)
    from Pair Inr have "list_all (\<lambda>e. e_TaskID e \<in> set (map t_ID (tasks (tabs d))))
        (revocation_events (uuid_gen d (stmt_no d)) (clock d) reason ?sel)"
      unfolding audit_revocation_def by (auto dest!: sql_InrD simp: Let_def guarded_Inr split: if_splits)
    then have "set (map e_TaskID (revocation_events (uuid_gen d (stmt_no d)) (clock d) reason ?sel)) \<subseteq> task_ids (tabs d)"
      by (auto simp: list_all_iff task_ids_def)
    then show ?thesis using assms(2) unfolding ids by auto
  qed
qed

text \<open>Revocation never happens. The audit statement of \<open>RevokeNode\<close> stores the id of an identity
  as the id of a task; unless an identity of the node happens to have the id of a task, the foreign
  key refuses it, which aborts the transaction, so dropping its error does not help: \<open>RevokeNode\<close>
  returns an error and leaves the identity Active, whatever else happens.\<close>

lemma revoke_never_commits:
  assumes "\<forall>i \<in> set (edge_identities (tabs d)). id_NodeID i = nodeID \<longrightarrow> id_ID i \<notin> task_ids (tabs d)"
  shows "\<exists>e d1. RevokeNode nodeID reason d = (Inl e, d1) \<and> tabs d1 = tabs d"
proof (cases "RevokeNode nodeID reason d")
  case (Pair r d1)
  show ?thesis
  proof (cases r)
    case (Inl e)
    with Pair show ?thesis by (auto simp: RevokeNode_def dest: WithTx_error_tabs)
  next
    case (Inr u)
    with Pair obtain d2 d3 where b: "begin_tx d = (Inr (), d2)" "tabs d2 = tabs d"
      and body: "revoke_body nodeID reason d2 = (Inr u, d3)" "\<not> aborted d3"
      by (auto simp: RevokeNode_def dest!: WithTx_InrD)
    from b have tx: "in_tx d2" by (auto simp: begin_tx_def bindE_def split: prod.splits sum.splits)
    let ?rev = "\<lambda>now i. i\<lparr>id_Status := ''Revoked'', id_RevokedAt := Some now, id_UpdatedAt := now\<rparr>"
    let ?sel = "\<lambda>i. id_NodeID i = nodeID \<and> live_identity i"
    from body(1) obtain rows d4 n' d5 where
      u: "update_identities ?sel ?rev d2 = (Inr rows, d4)" "rows \<noteq> 0"
      and nd: "update_nodes [] (\<lambda>n. nd_ID n = nodeID) (\<lambda>now n. n\<lparr>nd_Status := ''Revoked'', nd_UpdatedAt := now\<rparr>) d4 = (Inr n', d5)"
      and au: "catchE (audit_revocation nodeID reason) (\<lambda>_. returnE ()) d5 = (Inr u, d3)"
      unfolding revoke_body_def by (auto simp: failE_def dest!: bindE_InrD map_err_InrD split: if_splits)
    have d5: "in_tx d5" "edge_identities (tabs d5) = edge_identities (tabs d4)" "task_ids (tabs d5) = task_ids (tabs d4)"
      using nd tx u(1) by (auto simp: update_nodes_def update_identities_def Let_def guarded_Inr task_ids_def dest!: sql_InrD)
    from update_identities_InrD [OF u(1)] u(2) obtain i where
      i: "i \<in> set (edge_identities (tabs d))" "id_NodeID i = nodeID"
      and t4: "tabs d4 = (tabs d)\<lparr>edge_identities := update_where ?sel (?rev (clock d2)) (edge_identities (tabs d))\<rparr>"
      by (auto simp: b(2) count_where_0_iff)
    let ?key = "\<lambda>i. (id_NodeID i, id_ID i)"
    have "?key ` set (edge_identities (tabs d4)) = ?key ` set (edge_identities (tabs d))"
      unfolding t4 by (simp add: image_update_where)
    moreover have "(nodeID, id_ID i) \<in> ?key ` set (edge_identities (tabs d))"
      using i by force
    ultimately have "(nodeID, id_ID i) \<in> ?key ` set (edge_identities (tabs d4))" by (rule ssubst)
    then obtain j where "j \<in> set (edge_identities (tabs d4))" "id_NodeID j = nodeID" "id_ID j = id_ID i"
      by (elim imageE) simp
    moreover have "id_ID i \<notin> task_ids (tabs d4)" using i assms by (simp add: t4 task_ids_def)
    ultimately have "\<exists>j \<in> set (edge_identities (tabs d5)). id_NodeID j = nodeID \<and> id_ID j \<notin> task_ids (tabs d5)"
      unfolding d5(2,3) by (intro bexI [of _ j]) simp_all
    from audit_revocation_fails [OF d5(1) this] obtain e dx where
      "audit_revocation nodeID reason d5 = (Inl e, dx)" "aborted dx" by blast
    with au have "aborted d3" by (simp add: catchE_def returnE_def)
    with body(2) show ?thesis by (rule notE)
  qed
qed

lemma revoke_never_commits_witness:
  "\<exists>t. length (edge_identities t) = 1 \<and> (\<exists>e d1. RevokeNode ''n1'' ''stolen'' (session_at t 9) = (Inl e, d1) \<and> tabs d1 = t)"
proof -
  let ?i = "new_identity example_input ''n1'' \<lparr>sr_CertPEM = [], sr_Fingerprint = [], sr_ExpiresAt = 90\<rparr> ''i1'' 0"
  let ?t = "empty_tables\<lparr>gateways := [example_gateway], edge_nodes := [example_node], edge_identities := [?i]\<rparr>"
  have "\<exists>e d1. RevokeNode ''n1'' ''stolen'' (session_at ?t 9) = (Inl e, d1) \<and> tabs d1 = tabs (session_at ?t 9)"
    by (rule revoke_never_commits) (simp add: task_ids_def empty_tables_def)
  then show ?thesis by (intro exI [of _ ?t]) simp
qed

end
