(* ===== verification/Onboarding_Api.thy ===== *)
theory Onboarding_Api
  imports Onboarding_Correct Paging Identity_Cache
begin

text \<open>
  The gRPC services of onboarding: tokens (\<open>internal/onboarding/token_grpc.go\<close>), identities
  (\<open>identity_service.go\<close>), nodes (\<open>node_service.go\<close>) and registration (\<open>onboarding_grpc.go\<close>).
\<close>

section \<open>Tokens\<close>

record BootstrapToken =
  bt_Id :: string
  bt_GatewayId :: string
  bt_Description :: string
  bt_MaxUses :: int
  bt_UsedCount :: int
  bt_Status :: string
  bt_ExpiresAt :: timestamp
  bt_CreatedAt :: timestamp

definition recToProto :: "TokenRecord \<Rightarrow> BootstrapToken" where
  "recToProto rec = \<lparr>bt_Id = tk_ID rec, bt_GatewayId = tk_GatewayID rec, bt_Description = tk_Description rec,
     bt_MaxUses = wrap32 (tk_MaxUses rec), bt_UsedCount = wrap32 (tk_UsedCount rec), bt_Status = tk_Status rec,
     bt_ExpiresAt = tk_ExpiresAt rec, bt_CreatedAt = tk_CreatedAt rec\<rparr>"

definition tokenErrToStatus :: "go_err \<Rightarrow> go_err" where
  "tokenErrToStatus e =
     (if e = SqlNoRows then StatusErr NotFound ''token not found''
      else case status_from_error e of
        Some (c, m) \<Rightarrow> StatusErr c m
      | None \<Rightarrow> StatusErr Internal (err_text e))"

record CreateBootstrapTokenRequest =
  cbt_GatewayId :: string
  cbt_Description :: string
  cbt_Labels :: "smap option"
  cbt_MaxUses :: int
  cbt_ExpiresInSeconds :: int

definition token_max_uses :: "int \<Rightarrow> int" where
  "token_max_uses n = (if n \<le> 0 then 10 else n)"

definition token_lifetime :: "int \<Rightarrow> duration" where
  "token_lifetime secs = (let expiresIn = wrap64 (secs * second) in if expiresIn \<le> 0 then 24 * hour else expiresIn)"

definition CreateBootstrapToken ::
  "crypto \<Rightarrow> go_err + string \<Rightarrow> CreateBootstrapTokenRequest \<Rightarrow> (BootstrapToken \<times> string) dbm" where
  "CreateBootstrapToken cr random req =
     (if cbt_GatewayId req = [] then failE (StatusErr InvalidArgument ''gateway_id is required'')
      else
        bindE (map_err (internal_error ''create token'')
          (TokenStore_Create cr random (cbt_GatewayId req) (cbt_Description req) (cbt_Labels req)
             (token_max_uses (cbt_MaxUses req)) (token_lifetime (cbt_ExpiresInSeconds req))))
          (\<lambda>(rec, plain). returnE (recToProto rec, plain)))"

definition GetBootstrapToken :: "string \<Rightarrow> BootstrapToken dbm" where
  "GetBootstrapToken i =
     (if i = [] then failE (StatusErr InvalidArgument ''id is required'')
      else bindE (map_err tokenErrToStatus (GetByID i)) (\<lambda>rec. returnE (recToProto rec)))"

definition token_listing :: "string \<Rightarrow> tables \<Rightarrow> TokenRecord list" where
  "token_listing gatewayId t =
     order_desc tk_CreatedAt (filter (\<lambda>k. gatewayId = [] \<or> tk_GatewayID k = gatewayId) (bootstrap_tokens t))"

definition ListBootstrapTokens :: "string \<Rightarrow> PageRequest option \<Rightarrow> BootstrapToken list dbm" where
  "ListBootstrapTokens gatewayId page =
     bindE (map_err (internal_error ''list tokens'')
       (sql_read_or (\<lambda>t. limit_offset (page_size_of page) (page_offset_of page) (token_listing gatewayId t))))
       (\<lambda>rows. returnE (map recToProto rows))"

definition FreezeBootstrapToken :: "string \<Rightarrow> BootstrapToken dbm" where
  "FreezeBootstrapToken i =
     (if i = [] then failE (StatusErr InvalidArgument ''id is required'')
      else bindE (map_err tokenErrToStatus (Token_UpdateStatus i ''Frozen'')) (\<lambda>rec. returnE (recToProto rec)))"

definition RevokeBootstrapToken :: "string \<Rightarrow> BootstrapToken dbm" where
  "RevokeBootstrapToken i =
     (if i = [] then failE (StatusErr InvalidArgument ''id is required'')
      else bindE (map_err tokenErrToStatus (Token_UpdateStatus i ''Revoked'')) (\<lambda>rec. returnE (recToProto rec)))"

section \<open>Identities\<close>

definition textToIdentityStatus :: "(string \<times> IdentityStatus) list" where
  "textToIdentityStatus = [(''Active'', IDENTITY_STATUS_ACTIVE), (''Suspended'', IDENTITY_STATUS_SUSPENDED), (''Revoked'', IDENTITY_STATUS_REVOKED)]"

record EdgeIdentity =
  ei_Id :: string
  ei_NodeId :: string
  ei_GatewayId :: string
  ei_Serial :: string
  ei_Fingerprint :: string
  ei_Status :: IdentityStatus
  ei_ExpiresAt :: timestamp
  ei_IssuedAt :: timestamp
  ei_RevokedAt :: "timestamp option"

definition identityRowToProto :: "identityRow \<Rightarrow> EdgeIdentity" where
  "identityRowToProto r = \<lparr>ei_Id = id_ID r, ei_NodeId = id_NodeID r, ei_GatewayId = id_GatewayID r,
     ei_Serial = id_Serial r, ei_Fingerprint = id_Fingerprint r,
     ei_Status = map_get IDENTITY_STATUS_UNSPECIFIED textToIdentityStatus (id_Status r),
     ei_ExpiresAt = id_ExpiresAt r, ei_IssuedAt = id_IssuedAt r, ei_RevokedAt = id_RevokedAt r\<rparr>"

definition GetIdentity :: "string \<Rightarrow> EdgeIdentity dbm" where
  "GetIdentity i =
     (if i = [] then failE (StatusErr InvalidArgument ''id is required'')
      else bindE (map_err (not_found_status ''identity'' ''get identity'')
             (sql_row (\<lambda>t. find (\<lambda>r. id_ID r = i) (edge_identities t))))
           (\<lambda>r. returnE (identityRowToProto r)))"

definition identity_listing :: "string \<Rightarrow> tables \<Rightarrow> identityRow list" where
  "identity_listing nodeId t =
     order_desc id_CreatedAt (filter (\<lambda>i. nodeId = [] \<or> id_NodeID i = nodeId) (edge_identities t))"

definition ListIdentities :: "string \<Rightarrow> PageRequest option \<Rightarrow> EdgeIdentity list dbm" where
  "ListIdentities nodeId page =
     bindE (map_err (internal_error ''list identities'')
       (sql_read_or (\<lambda>t. limit_offset (page_size_of page) (page_offset_of page) (identity_listing nodeId t))))
       (\<lambda>rows. returnE (map identityRowToProto rows))"

definition RevokeIdentity :: "string \<Rightarrow> string \<Rightarrow> unit dbm" where
  "RevokeIdentity i reqReason =
     (if i = [] then failE (StatusErr InvalidArgument ''id is required'')
      else map_err (internal_error ''revoke identity'')
             (RevokeNode i (if reqReason = [] then ''admin revoked'' else reqReason)))"

section \<open>Nodes\<close>

record EdgeNode =
  en_Id :: string
  en_GatewayId :: string
  en_Labels :: smap
  en_Status :: string
  en_AgentVersion :: string
  en_Online :: bool
  en_LastSeenAt :: "timestamp option"
  en_CreatedAt :: timestamp
  en_UpdatedAt :: timestamp

definition nodeRowToProto :: "nodeRow \<Rightarrow> EdgeNode" where
  "nodeRowToProto r = \<lparr>en_Id = nd_ID r, en_GatewayId = nd_GatewayID r, en_Labels = labels_of (nd_Labels r),
     en_Status = nd_Status r, en_AgentVersion = opt_string (nd_AgentVersion r), en_Online = nd_Online r,
     en_LastSeenAt = nd_LastSeenAt r, en_CreatedAt = nd_CreatedAt r, en_UpdatedAt = nd_UpdatedAt r\<rparr>"

definition GetNode :: "string \<Rightarrow> EdgeNode dbm" where
  "GetNode i =
     (if i = [] then failE (StatusErr InvalidArgument ''id is required'')
      else bindE (map_err (not_found_status ''node'' ''get node'')
             (sql_row (\<lambda>t. find (\<lambda>r. nd_ID r = i) (edge_nodes t))))
           (\<lambda>r. returnE (nodeRowToProto r)))"

definition node_where :: "string \<Rightarrow> nodeRow \<Rightarrow> bool" where
  "node_where gatewayId r = (gatewayId = [] \<or> nd_GatewayID r = gatewayId)"

definition node_listing :: "string \<Rightarrow> tables \<Rightarrow> nodeRow list" where
  "node_listing gatewayId t = order_desc nd_CreatedAt (filter (node_where gatewayId) (edge_nodes t))"

definition ListNodes :: "string \<Rightarrow> PageRequest option \<Rightarrow> (EdgeNode list \<times> PageResponse) dbm" where
  "ListNodes gatewayId page =
     (let pageSize = page_size_of page; offset = page_offset_of page in
      bindE (map_err (internal_error ''count nodes'')
        (sql_read (\<lambda>t. int (count_where (node_where gatewayId) (edge_nodes t))))) (\<lambda>tot.
      bindE (map_err (internal_error ''list nodes'')
        (sql_read_or (\<lambda>t. limit_offset pageSize offset (node_listing gatewayId t)))) (\<lambda>rows.
        returnE (map nodeRowToProto rows, page_response offset pageSize tot))))"

text \<open>UPDATE .. RETURNING with COALESCE: no labels, or an empty map, keep the old ones.\<close>

definition UpdateNode :: "string \<Rightarrow> smap option \<Rightarrow> EdgeNode dbm" where
  "UpdateNode i labels =
     (if i = [] then failE (StatusErr InvalidArgument ''id is required'')
      else
        let labelsJSON = (case labels of Some l \<Rightarrow> if l = [] then Nil_Raw else Raw_JSON (json_of_smap l) | None \<Rightarrow> Nil_Raw) in
        bindE (map_err (not_found_status ''node'' ''update node'')
          (bindE (update_nodes [] (\<lambda>n. nd_ID n = i)
              (\<lambda>now n. n\<lparr>nd_Labels := (if labelsJSON = Nil_Raw then nd_Labels n else labelsJSON), nd_UpdatedAt := now\<rparr>))
            (\<lambda>_ d. (case find (\<lambda>r. nd_ID r = i) (edge_nodes (tabs d)) of None \<Rightarrow> Inl SqlNoRows | Some r \<Rightarrow> Inr r, d))))
          (\<lambda>r. returnE (nodeRowToProto r)))"

section \<open>Registration\<close>

definition OnboardingGRPC_Bootstrap :: "crypto \<Rightarrow> Signer \<Rightarrow> BootstrapInput \<Rightarrow> BootstrapOutput dbm" where
  "OnboardingGRPC_Bootstrap cr signer req =
     (if bi_Token req = [] then failE (StatusErr InvalidArgument ''token is required'')
      else if bi_GatewayID req = [] then failE (StatusErr InvalidArgument ''gateway_id is required'')
      else Bootstrap cr signer req)"

text \<open>The TLS state holds the subjects' common names of the peer's certificates.\<close>

datatype tls_peer = TLS_No_Peer | TLS_Other | TLS_State "string list"

fun nodeIDFromTLSState :: "string list \<Rightarrow> string" where
  "nodeIDFromTLSState [] = []"
| "nodeIDFromTLSState (cn # _) = cn"

fun nodeIDFromContext :: "tls_peer \<Rightarrow> string" where
  "nodeIDFromContext TLS_No_Peer = []"
| "nodeIDFromContext TLS_Other = []"
| "nodeIDFromContext (TLS_State cns) = nodeIDFromTLSState cns"

definition OnboardingGRPC_Renew ::
  "crypto \<Rightarrow> (duration \<Rightarrow> string) \<Rightarrow> Signer \<Rightarrow> tls_peer \<Rightarrow> string \<Rightarrow> RenewOutput dbm" where
  "OnboardingGRPC_Renew cr dt signer peer csrPEM =
     (let nodeID = nodeIDFromContext peer in
      if nodeID = [] then failE (StatusErr Unauthenticated ''node_id not found in mTLS context'')
      else Renew cr dt signer nodeID csrPEM)"

section \<open>Constraints\<close>

lemma keep_token_api [keeps]:
  "keep db_wf (CreateBootstrapToken cr rnd req)" "keep db_wf (GetBootstrapToken i)"
  "keep db_wf (ListBootstrapTokens g p)" "keep db_wf (FreezeBootstrapToken i)" "keep db_wf (RevokeBootstrapToken i)"
  unfolding CreateBootstrapToken_def GetBootstrapToken_def ListBootstrapTokens_def FreezeBootstrapToken_def
    RevokeBootstrapToken_def case_prod_unfold by (intro keeps)+

lemma keep_identity_api [keeps]:
  "keep db_wf (GetIdentity i)" "keep db_wf (ListIdentities n p)" "keep db_wf (RevokeIdentity i r)"
  unfolding GetIdentity_def ListIdentities_def RevokeIdentity_def by (intro keeps)+

lemma keep_node_api [keeps]:
  "keep db_wf (GetNode i)" "keep db_wf (ListNodes g p)" "keep db_wf (UpdateNode i l)"
  unfolding GetNode_def ListNodes_def UpdateNode_def Let_def by (intro keeps keep_update_nodes | simp)+

lemma keep_registration_api [keeps]:
  "keep db_wf (OnboardingGRPC_Bootstrap cr s req)" "keep db_wf (OnboardingGRPC_Renew cr dt s p c)"
  unfolding OnboardingGRPC_Bootstrap_def OnboardingGRPC_Renew_def Let_def by (intro keeps)+

section \<open>Listing nodes\<close>

lemma node_paging_serve:
  assumes "quiet d" "0 < n" "0 \<le> page_offset_of (Some \<lparr>pg_PageSize = n, pg_PageToken = tok\<rparr>)"
  shows "\<exists>d'. ListNodes g (Some \<lparr>pg_PageSize = n, pg_PageToken = tok\<rparr>) d =
    (Inr (take (nat n) (drop (nat (page_offset_of (Some \<lparr>pg_PageSize = n, pg_PageToken = tok\<rparr>)))
            (map nodeRowToProto (node_listing g (tabs d)))),
          page_response (page_offset_of (Some \<lparr>pg_PageSize = n, pg_PageToken = tok\<rparr>)) n
            (int (length (map nodeRowToProto (node_listing g (tabs d)))))), d')
    \<and> quiet d' \<and> tabs d' = tabs d"
  using assms by (simp add: ListNodes_def run_defs Let_def sql_read_quiet sql_read_or_quiet limit_offset_ok
      page_size_pos take_map drop_map node_listing_def count_where_def)

interpretation node_paging: paged_listing "ListNodes g" "\<lambda>t. map nodeRowToProto (node_listing g t)" "\<lambda>t. True" "2 ^ 31 - 1"
  for g :: string
  by unfold_locales (rule node_paging_serve)

text \<open>Paging of ListNodes. Here the statement's limit is the page size itself, so following the
  page tokens lists every node of the gateway (or every node) exactly once, newest first, for every
  page size a request can hold.\<close>

lemma list_nodes_paging:
  assumes "quiet d" "0 < n" "n < 2 ^ 31" "int (length (node_listing g (tabs d))) < 2 ^ 62"
  shows "fst (walk (Suc (length (node_listing g (tabs d)))) (ListNodes g) n [] d) =
    Inr (map nodeRowToProto (node_listing g (tabs d)))"
  using node_paging.walk_all [of d n g] assms by simp

lemma list_nodes_paging_witness:
  "fst (walk 2 (ListNodes ''g1'') 500 [] (session_at (empty_tables\<lparr>edge_nodes := [example_node]\<rparr>) 9)) =
     Inr [nodeRowToProto example_node]"
proof -
  let ?t = "empty_tables\<lparr>edge_nodes := [example_node]\<rparr>"
  have l: "node_listing ''g1'' ?t = [example_node]"
    by (simp add: node_listing_def node_where_def example_node_def empty_tables_def order_desc_def)
  with list_nodes_paging [of "session_at ?t 9" 500 "''g1''"] show ?thesis
    by (simp add: numeral_2_eq_2 del: walk.simps)
qed

section \<open>The life of a token\<close>



end
