(* ===== verification/Model_Registry.thy ===== *)
theory Model_Registry
  imports Integrity Paging
begin

text \<open>
  The model registry: its store (\<open>internal/model/store.go\<close>) and its API (\<open>internal/model/service.go\<close>).
\<close>

datatype ModelFormat =
    MODEL_FORMAT_UNSPECIFIED | MODEL_FORMAT_ONNX | MODEL_FORMAT_TFLITE | MODEL_FORMAT_GGUF
  | MODEL_FORMAT_SAFETENSORS | MODEL_FORMAT_CUSTOM | MODEL_FORMAT_OTHER int

definition formatToText :: "(ModelFormat \<times> string) list" where
  "formatToText =
    [(MODEL_FORMAT_ONNX, ''ONNX''), (MODEL_FORMAT_TFLITE, ''TFLITE''), (MODEL_FORMAT_GGUF, ''GGUF''),
     (MODEL_FORMAT_SAFETENSORS, ''SAFETENSORS''), (MODEL_FORMAT_CUSTOM, ''CUSTOM'')]"

definition textToFormat :: "(string \<times> ModelFormat) list" where
  "textToFormat =
    [(''ONNX'', MODEL_FORMAT_ONNX), (''TFLITE'', MODEL_FORMAT_TFLITE), (''GGUF'', MODEL_FORMAT_GGUF),
     (''SAFETENSORS'', MODEL_FORMAT_SAFETENSORS), (''CUSTOM'', MODEL_FORMAT_CUSTOM)]"

section \<open>Store\<close>

definition Model_Create :: "ModelRow \<Rightarrow> ModelRow dbm" where
  "Model_Create row =
     insert_model (\<lambda>i now. row\<lparr>m_ID := i, m_CreatedAt := now,
       m_Labels := (if m_Labels row = Nil_Raw then empty_object else m_Labels row)\<rparr>)"

definition model_scanOne :: "(tables \<Rightarrow> ModelRow option) \<Rightarrow> ModelRow dbm" where
  "model_scanOne q = map_err (not_found_or ''model: get'') (sql_row q)"

definition Model_GetByID :: "string \<Rightarrow> ModelRow dbm" where
  "Model_GetByID i = model_scanOne (\<lambda>t. find (\<lambda>r. m_ID r = i) (models t))"

definition Model_GetByNameVersion :: "string \<Rightarrow> string \<Rightarrow> ModelRow dbm" where
  "Model_GetByNameVersion name version =
     model_scanOne (\<lambda>t. find (\<lambda>r. m_Name r = name \<and> m_Version r = version) (models t))"

record ModelListFilter =
  mf_Name :: string
  mf_Format :: string
  mf_Limit :: int
  mf_Offset :: int

definition model_where :: "ModelListFilter \<Rightarrow> ModelRow \<Rightarrow> bool" where
  "model_where f r = ((mf_Name f = [] \<or> m_Name r = mf_Name f) \<and> (mf_Format f = [] \<or> m_Format r = mf_Format f))"

definition model_listing :: "ModelListFilter \<Rightarrow> tables \<Rightarrow> ModelRow list" where
  "model_listing f t = order_desc m_CreatedAt (filter (model_where f) (models t))"

definition Model_List :: "ModelListFilter \<Rightarrow> (ModelRow list \<times> int) dbm" where
  "Model_List f =
     bindE (map_err (wrap ''model: list count'') (sql_read (\<lambda>t. int (count_where (model_where f) (models t))))) (\<lambda>tot.
     bindE (map_err (wrap ''model: list'')
       (sql_read_or (\<lambda>t. limit_offset (page_limit (mf_Limit f)) (mf_Offset f) (model_listing f t)))) (\<lambda>rows.
       returnE (rows, tot)))"

section \<open>Service\<close>

record ModelMsg =
  mm_Id :: string
  mm_Name :: string
  mm_Version :: string
  mm_Format :: ModelFormat
  mm_Checksum :: string
  mm_Size :: int
  mm_ArtifactUri :: string
  mm_SignatureUri :: string
  mm_Labels :: smap
  mm_CreatedAt :: timestamp

definition modelToProto :: "ModelRow \<Rightarrow> ModelMsg" where
  "modelToProto r =
     \<lparr>mm_Id = m_ID r, mm_Name = m_Name r, mm_Version = m_Version r,
      mm_Format = map_get MODEL_FORMAT_UNSPECIFIED textToFormat (m_Format r), mm_Checksum = m_Checksum r,
      mm_Size = m_SizeBytes r, mm_ArtifactUri = m_ArtifactURI r, mm_SignatureUri = m_SignatureURI r,
      mm_Labels = labels_of (m_Labels r), mm_CreatedAt = m_CreatedAt r\<rparr>"

definition modelErrToStatus :: "go_err \<Rightarrow> go_err" where
  "modelErrToStatus e =
     (if e = ErrNotFound then StatusErr NotFound ''model not found''
      else if e = ErrAlreadyExists \<or> e = ErrConflict then StatusErr AlreadyExists (err_text e)
      else StatusErr Internal (err_text e))"

record CreateModelRequest =
  cm_Name :: string
  cm_Version :: string
  cm_Format :: ModelFormat
  cm_Checksum :: string
  cm_Size :: int
  cm_ArtifactUri :: string
  cm_SignatureUri :: string
  cm_Labels :: "smap option"

definition new_model_row :: "CreateModelRequest \<Rightarrow> ModelRow" where
  "new_model_row req =
     \<lparr>m_ID = [], m_Name = cm_Name req, m_Version = cm_Version req,
      m_Format = map_get ''CUSTOM'' formatToText (cm_Format req), m_Checksum = cm_Checksum req,
      m_SizeBytes = cm_Size req, m_ArtifactURI = cm_ArtifactUri req, m_SignatureURI = cm_SignatureUri req,
      m_Labels = (case cm_Labels req of
         Some l \<Rightarrow> if l = [] then Nil_Raw else Raw_JSON (json_of_smap l) | None \<Rightarrow> Nil_Raw),
      m_CreatedAt = 0\<rparr>"

definition create_model_error :: "CreateModelRequest \<Rightarrow> go_err \<Rightarrow> go_err" where
  "create_model_error req e =
     (if is_unique_violation e
      then StatusErr AlreadyExists (''model '' @ cm_Name req @ '':'' @ cm_Version req @ '' already exists'')
      else internal_error ''create model'' e)"

text \<open>The answer is built from the Go row: the labels of the request, not the stored default.\<close>

definition CreateModel :: "CreateModelRequest \<Rightarrow> ModelMsg dbm" where
  "CreateModel req =
     (if cm_Name req = [] then failE (StatusErr InvalidArgument ''name is required'')
      else if cm_Version req = [] then failE (StatusErr InvalidArgument ''version is required'')
      else if cm_ArtifactUri req = [] then failE (StatusErr InvalidArgument ''artifact_uri is required'')
      else bindE (map_err (create_model_error req) (Model_Create (new_model_row req)))
             (\<lambda>r. returnE (modelToProto ((new_model_row req)\<lparr>m_ID := m_ID r, m_CreatedAt := m_CreatedAt r\<rparr>))))"

record GetModelRequest =
  gm_Id :: string
  gm_Name :: string
  gm_Version :: string

definition GetModel :: "GetModelRequest \<Rightarrow> ModelMsg dbm" where
  "GetModel req =
     (if gm_Id req \<noteq> []
      then bindE (map_err modelErrToStatus (Model_GetByID (gm_Id req))) (\<lambda>r. returnE (modelToProto r))
      else if gm_Name req \<noteq> [] \<and> gm_Version req \<noteq> []
      then bindE (map_err modelErrToStatus (Model_GetByNameVersion (gm_Name req) (gm_Version req)))
             (\<lambda>r. returnE (modelToProto r))
      else failE (StatusErr InvalidArgument ''id or (name + version) is required''))"

record ListModelsRequest =
  lm_Name :: string
  lm_Format :: ModelFormat
  lm_Page :: "PageRequest option"

definition model_filter :: "ListModelsRequest \<Rightarrow> ModelListFilter" where
  "model_filter req =
     \<lparr>mf_Name = lm_Name req, mf_Format = map_get [] formatToText (lm_Format req),
      mf_Limit = page_size_of (lm_Page req), mf_Offset = page_offset_of (lm_Page req)\<rparr>"

definition ListModels :: "ListModelsRequest \<Rightarrow> (ModelMsg list \<times> PageResponse) dbm" where
  "ListModels req =
     bindE (map_err (internal_error ''list models'') (Model_List (model_filter req)))
       (\<lambda>(rows, tot). returnE (map modelToProto rows,
          page_response (page_offset_of (lm_Page req)) (page_size_of (lm_Page req)) tot))"

section \<open>Constraints\<close>

lemma keep_model_registry [keeps]:
  "keep db_wf (CreateModel req)" "keep db_wf (GetModel gr)" "keep db_wf (ListModels lr)"
  unfolding CreateModel_def Model_Create_def GetModel_def Model_GetByID_def Model_GetByNameVersion_def model_scanOne_def
    ListModels_def Model_List_def case_prod_unfold by (intro keeps)+

section \<open>Created models\<close>

definition stored_model :: "CreateModelRequest \<Rightarrow> string \<Rightarrow> timestamp \<Rightarrow> ModelRow" where
  "stored_model req i now = (new_model_row req)\<lparr>m_ID := i, m_CreatedAt := now,
     m_Labels := (if m_Labels (new_model_row req) = Nil_Raw then empty_object else m_Labels (new_model_row req))\<rparr>"

definition model_taken :: "CreateModelRequest \<Rightarrow> tables \<Rightarrow> bool" where
  "model_taken req t = ((cm_Name req, cm_Version req) \<in> set (map (\<lambda>m. (m_Name m, m_Version m)) (models t)))"

definition valid_model_request :: "CreateModelRequest \<Rightarrow> bool" where
  "valid_model_request req = (cm_Name req \<noteq> [] \<and> cm_Version req \<noteq> [] \<and> cm_ArtifactUri req \<noteq> [])"

lemma stored_model_proto:
  "modelToProto ((new_model_row req)\<lparr>m_ID := i, m_CreatedAt := now\<rparr>) = modelToProto (stored_model req i now)"
  by (simp add: modelToProto_def stored_model_def)

lemma CreateModel_quiet:
  assumes "quiet d" "fresh_supply d" "valid_model_request req"
  shows "CreateModel req d =
    (if model_taken req (tabs d)
     then (Inl (StatusErr AlreadyExists (''model '' @ cm_Name req @ '':'' @ cm_Version req @ '' already exists'')),
           d\<lparr>stmt_no := Suc (stmt_no d), aborted := in_tx d\<rparr>)
     else (Inr (modelToProto (stored_model req (uuid_gen d (stmt_no d) 0) (clock d))),
           d\<lparr>stmt_no := Suc (stmt_no d), tabs := (tabs d)\<lparr>models := models (tabs d) @
             [stored_model req (uuid_gen d (stmt_no d) 0) (clock d)]\<rparr>\<rparr>))"
proof -
  let ?i = "uuid_gen d (stmt_no d) 0"
  have new: "?i \<notin> m_ID ` set (models (tabs d))"
    using fresh_notin [OF assms(2) order_refl, of 0] by (simp add: all_ids_def)
  have "\<exists>j. m_Labels (stored_model req ?i (clock d)) = Raw_JSON j"
    by (auto simp: stored_model_def new_model_row_def empty_object_def split: option.split)
  then obtain j where j: "m_Labels (stored_model req ?i (clock d)) = Raw_JSON j" ..
  have "Model_Create (new_model_row req) = insert_model (stored_model req)"
    by (simp add: Model_Create_def stored_model_def [abs_def])
  moreover have "insert_model (stored_model req) d =
    (if model_taken req (tabs d)
     then (Inl (PgError (PgUnique ''models_name_version_key'')), d\<lparr>stmt_no := Suc (stmt_no d), aborted := in_tx d\<rparr>)
     else (Inr (stored_model req ?i (clock d)), d\<lparr>stmt_no := Suc (stmt_no d),
        tabs := (tabs d)\<lparr>models := models (tabs d) @ [stored_model req ?i (clock d)]\<rparr>\<rparr>))"
    using assms(1) new j
    by (simp add: insert_model_def sql_quiet Let_def guarded_def check_unique_def check_jsonb_def model_taken_def)
      (simp add: stored_model_def new_model_row_def)
  ultimately show ?thesis
    using assms(3) by (simp add: CreateModel_def valid_model_request_def bindE_def map_err_def returnE_def
        create_model_error_def unique_violation_recognised stored_model_proto stored_model_def)
qed

lemma format_text_roundtrip:
  "map_get MODEL_FORMAT_UNSPECIFIED textToFormat (map_get ''CUSTOM'' formatToText f) =
     (case f of MODEL_FORMAT_UNSPECIFIED \<Rightarrow> MODEL_FORMAT_CUSTOM | MODEL_FORMAT_OTHER n \<Rightarrow> MODEL_FORMAT_CUSTOM | _ \<Rightarrow> f)"
  by (cases f) (simp_all add: map_get_def formatToText_def textToFormat_def)

text \<open>Registered models. A valid request for a name and version that are free stores one model and
  answers with it; read back by its id or by name and version it is the same message, with the labels
  and all fields of the request (an unknown format is CUSTOM); and the same name and version cannot be
  registered again: ALREADY_EXISTS, whatever else the second request says.\<close>

lemma model_roundtrip:
  assumes "quiet d" "db_wf (tabs d)" "fresh_supply d" "valid_model_request req" "\<not> model_taken req (tabs d)"
  shows "\<exists>msg d1. CreateModel req d = (Inr msg, d1) \<and> length (models (tabs d1)) = Suc (length (models (tabs d)))
    \<and> mm_Name msg = cm_Name req \<and> mm_Version msg = cm_Version req \<and> mm_Checksum msg = cm_Checksum req
    \<and> mm_Size msg = cm_Size req \<and> mm_ArtifactUri msg = cm_ArtifactUri req \<and> mm_SignatureUri msg = cm_SignatureUri req
    \<and> mm_Labels msg = (case cm_Labels req of None \<Rightarrow> [] | Some l \<Rightarrow> l)
    \<and> mm_Format msg = (case cm_Format req of MODEL_FORMAT_UNSPECIFIED \<Rightarrow> MODEL_FORMAT_CUSTOM
        | MODEL_FORMAT_OTHER n \<Rightarrow> MODEL_FORMAT_CUSTOM | _ \<Rightarrow> cm_Format req)
    \<and> (mm_Id msg \<noteq> [] \<longrightarrow> fst (GetModel \<lparr>gm_Id = mm_Id msg, gm_Name = n', gm_Version = v'\<rparr> d1) = Inr msg)
    \<and> fst (GetModel \<lparr>gm_Id = [], gm_Name = cm_Name req, gm_Version = cm_Version req\<rparr> d1) = Inr msg
    \<and> (\<forall>req2. cm_Name req2 = cm_Name req \<and> cm_Version req2 = cm_Version req \<and> cm_ArtifactUri req2 \<noteq> [] \<and> fresh_supply d1 \<longrightarrow>
        (\<exists>m. fst (CreateModel req2 d1) = Inl (StatusErr AlreadyExists m)))"
proof -
  let ?i = "uuid_gen d (stmt_no d) 0"
  let ?r = "stored_model req ?i (clock d)"
  let ?d1 = "d\<lparr>stmt_no := Suc (stmt_no d), tabs := (tabs d)\<lparr>models := models (tabs d) @ [?r]\<rparr>\<rparr>"
  have f: "m_ID ?r = ?i" "m_Name ?r = cm_Name req" "m_Version ?r = cm_Version req"
    by (simp_all add: stored_model_def new_model_row_def)
  have "find (\<lambda>r. m_ID r = ?i) (models (tabs d)) = None"
    using fresh_notin [OF assms(3) order_refl, of 0] by (intro find_notin) (simp add: all_ids_def)
  then have id: "fst (GetModel \<lparr>gm_Id = ?i, gm_Name = n', gm_Version = v'\<rparr> ?d1) = Inr (modelToProto ?r)" if "?i \<noteq> []"
    using that assms(1) by (simp add: GetModel_def Model_GetByID_def model_scanOne_def run_defs sql_row_quiet find_append f)
  have "find (\<lambda>r. m_Name r = cm_Name req \<and> m_Version r = cm_Version req) (models (tabs d)) = None"
    using assms(5) by (force simp: model_taken_def find_None_iff)
  then have nv: "fst (GetModel \<lparr>gm_Id = [], gm_Name = cm_Name req, gm_Version = cm_Version req\<rparr> ?d1) = Inr (modelToProto ?r)"
    using assms(1,4) by (simp add: GetModel_def Model_GetByNameVersion_def model_scanOne_def run_defs sql_row_quiet
        find_append f valid_model_request_def)
  have again: "\<exists>m. fst (CreateModel req2 ?d1) = Inl (StatusErr AlreadyExists m)"
    if "cm_Name req2 = cm_Name req \<and> cm_Version req2 = cm_Version req \<and> cm_ArtifactUri req2 \<noteq> [] \<and> fresh_supply ?d1" for req2
    using that assms(1,4) CreateModel_quiet [of ?d1 req2] by (auto simp: valid_model_request_def model_taken_def f)
  have msg: "mm_Id (modelToProto ?r) = ?i" "mm_Labels (modelToProto ?r) = (case cm_Labels req of None \<Rightarrow> [] | Some l \<Rightarrow> l)"
    "mm_Format (modelToProto ?r) = map_get MODEL_FORMAT_UNSPECIFIED textToFormat (map_get ''CUSTOM'' formatToText (cm_Format req))"
    by (auto simp: modelToProto_def stored_model_def new_model_row_def labels_of_smap split: option.splits)
  show ?thesis
    using CreateModel_quiet [of d req] assms id nv again msg
    by (intro exI [of _ "modelToProto ?r"] exI [of _ ?d1])
      (simp add: format_text_roundtrip, simp add: modelToProto_def stored_model_def new_model_row_def)
qed

definition example_model :: CreateModelRequest where
  "example_model = \<lparr>cm_Name = ''llama'', cm_Version = ''v1'', cm_Format = MODEL_FORMAT_OTHER 9, cm_Checksum = ''c'',
     cm_Size = 7, cm_ArtifactUri = ''s3://m'', cm_SignatureUri = [], cm_Labels = Some [(''k'', ''v'')]\<rparr>"

lemma model_roundtrip_witness:
  "\<exists>msg d1. CreateModel example_model (session_at empty_tables 9) = (Inr msg, d1)
     \<and> mm_Format msg = MODEL_FORMAT_CUSTOM \<and> mm_Labels msg = [(''k'', ''v'')]
     \<and> fst (GetModel \<lparr>gm_Id = [], gm_Name = ''llama'', gm_Version = ''v1''\<rparr> d1) = Inr msg"
proof -
  have "valid_model_request example_model" "\<not> model_taken example_model empty_tables" "fresh_supply (session_at empty_tables 9)"
    by (simp_all add: valid_model_request_def example_model_def model_taken_def empty_tables_def session_at_fresh all_ids_def)
  with model_roundtrip [of "session_at empty_tables 9" example_model "[]" "[]"] show ?thesis
    by (auto simp: empty_tables_wf example_model_def)
qed

section \<open>Listing models\<close>

lemma model_where_page [simp]: "model_where (model_filter (req\<lparr>lm_Page := p\<rparr>)) = model_where (model_filter req)"
  by (rule ext) (simp add: model_filter_def model_where_def)

lemma model_listing_page [simp]:
  "model_listing (model_filter (req\<lparr>lm_Page := p\<rparr>)) = model_listing (model_filter req)"
  by (rule ext) (simp add: model_listing_def)

lemma model_paging_serve:
  assumes "quiet d" "0 < n" "n \<le> 100" "0 \<le> page_offset_of (Some \<lparr>pg_PageSize = n, pg_PageToken = tok\<rparr>)"
  shows "\<exists>d'. ListModels (req\<lparr>lm_Page := Some \<lparr>pg_PageSize = n, pg_PageToken = tok\<rparr>\<rparr>) d =
    (Inr (take (nat n) (drop (nat (page_offset_of (Some \<lparr>pg_PageSize = n, pg_PageToken = tok\<rparr>)))
            (map modelToProto (model_listing (model_filter req) (tabs d)))),
          page_response (page_offset_of (Some \<lparr>pg_PageSize = n, pg_PageToken = tok\<rparr>)) n
            (int (length (map modelToProto (model_listing (model_filter req) (tabs d)))))), d')
    \<and> quiet d' \<and> tabs d' = tabs d"
proof -
  let ?f = "model_filter (req\<lparr>lm_Page := Some \<lparr>pg_PageSize = n, pg_PageToken = tok\<rparr>\<rparr>)"
  have "count_where (model_where ?f) (models (tabs d)) = length (model_listing (model_filter req) (tabs d))"
    by (simp add: count_where_def model_listing_def)
  moreover have "mf_Limit ?f = n" "mf_Offset ?f = page_offset_of (Some \<lparr>pg_PageSize = n, pg_PageToken = tok\<rparr>)"
    using assms(2) by (simp_all add: model_filter_def page_size_pos)
  ultimately show ?thesis
    using assms by (simp add: ListModels_def Model_List_def run_defs sql_read_quiet sql_read_or_quiet limit_offset_ok
        page_size_pos page_limit_id take_map drop_map)
qed

interpretation model_paging: paged_listing
  "\<lambda>page. ListModels (req\<lparr>lm_Page := page\<rparr>)"
  "\<lambda>t. map modelToProto (model_listing (model_filter req) t)" "\<lambda>t. True" 100
  for req :: ListModelsRequest
  by unfold_locales (rule model_paging_serve)

text \<open>Paging of ListModels: for a page size from 1 to 100, following the page tokens lists every
  model that matches the filter once, newest first.\<close>

lemma list_models_paging:
  assumes "quiet d" "0 < n" "n \<le> 100" "int (length (model_listing (model_filter req) (tabs d))) < 2 ^ 62"
  shows "fst (walk (Suc (length (model_listing (model_filter req) (tabs d)))) (\<lambda>page. ListModels (req\<lparr>lm_Page := page\<rparr>)) n [] d) =
    Inr (map modelToProto (model_listing (model_filter req) (tabs d)))"
  using model_paging.walk_all [of d n req] assms by simp

lemma list_models_paging_witness:
  "fst (walk 1 (\<lambda>page. ListModels (\<lparr>lm_Name = ''llama'', lm_Format = MODEL_FORMAT_GGUF, lm_Page = None\<rparr>\<lparr>lm_Page := page\<rparr>)) 5 []
     (session_at empty_tables 9)) = Inr []"
proof -
  let ?req = "\<lparr>lm_Name = ''llama'', lm_Format = MODEL_FORMAT_GGUF, lm_Page = None\<rparr>"
  have "model_listing (model_filter ?req) empty_tables = []"
    by (simp add: model_listing_def empty_tables_def order_desc_def)
  with list_models_paging [of "session_at empty_tables 9" 5 ?req] show ?thesis
    by (simp del: walk.simps)
qed

end
