(* ===== verification/Cache_Store.thy ===== *)
theory Cache_Store
  imports Integrity
begin

text \<open>
  The record of the model versions a gateway has cached (\<open>internal/gateway/cache.go\<close>): one entry per
  gateway, model and version, evicted in the order of the last access.
\<close>

record CacheStore =
  maxCachedVersions :: int

definition NewCacheStore :: CacheStore where
  "NewCacheStore = \<lparr>maxCachedVersions = 10\<rparr>"

definition SetMaxCachedVersions :: "int \<Rightarrow> CacheStore \<Rightarrow> CacheStore" where
  "SetMaxCachedVersions n c = (if n > 0 then c\<lparr>maxCachedVersions := n\<rparr> else c)"

text \<open>INSERT .. ON CONFLICT (gateway_id, model_id, version) DO UPDATE SET last_access_at = now().\<close>

definition Touch :: "string \<Rightarrow> string \<Rightarrow> string \<Rightarrow> int \<Rightarrow> unit dbm" where
  "Touch gatewayID modelID version sizeBytes =
     map_err (wrap ''cache: touch'') (sql (\<lambda>ids now t.
       let key = (gatewayID, modelID, version);
           new = \<lparr>c_ID = ids 0, c_GatewayID = gatewayID, c_ModelID = modelID, c_Version = version,
                  c_CachedAt = now, c_LastAccessAt = now, c_SizeBytes = sizeBytes\<rparr> in
       if key \<in> set (map cache_key (gateway_cache_entries t))
       then Inr ((), t\<lparr>gateway_cache_entries := update_where (\<lambda>c. cache_key c = key)
                (\<lambda>c. c\<lparr>c_LastAccessAt := now\<rparr>) (gateway_cache_entries t)\<rparr>)
       else guarded
         [check_unique ''gateway_cache_entries_pkey'' (ids 0 \<in> set (map c_ID (gateway_cache_entries t))),
          check_fk ''gateway_cache_entries'' ''gateway_cache_entries_gateway_id_fkey'' (Some gatewayID) (map gw_ID (gateways t)),
          check_fk ''gateway_cache_entries'' ''gateway_cache_entries_model_id_fkey'' (Some modelID) (map m_ID (models t))]
         ((), t\<lparr>gateway_cache_entries := gateway_cache_entries t @ [new]\<rparr>)))"

definition by_access :: "string \<Rightarrow> CacheEntry list \<Rightarrow> CacheEntry list" where
  "by_access gatewayID cs = order_desc c_LastAccessAt (filter (\<lambda>c. c_GatewayID c = gatewayID) cs)"

definition lru_victims :: "int \<Rightarrow> string \<Rightarrow> CacheEntry list \<Rightarrow> string list" where
  "lru_victims n gatewayID cs = map c_ID (drop (nat n) (by_access gatewayID cs))"

definition EvictLRU :: "CacheStore \<Rightarrow> string \<Rightarrow> int dbm" where
  "EvictLRU c gatewayID =
     map_err (wrap ''cache: evict'') (sql (\<lambda>_ _ t.
       let victims = lru_victims (maxCachedVersions c) gatewayID (gateway_cache_entries t) in
       Inr (int (count_where (\<lambda>e. c_ID e \<in> set victims) (gateway_cache_entries t)),
            t\<lparr>gateway_cache_entries := filter (\<lambda>e. c_ID e \<notin> set victims) (gateway_cache_entries t)\<rparr>)))"

definition Exists :: "string \<Rightarrow> string \<Rightarrow> string \<Rightarrow> bool dbm" where
  "Exists gatewayID modelID version =
     map_err (wrap ''cache: exists'') (sql_read (\<lambda>t.
       (gatewayID, modelID, version) \<in> set (map cache_key (gateway_cache_entries t))))"

definition ListByGateway :: "string \<Rightarrow> CacheEntry list dbm" where
  "ListByGateway gatewayID =
     map_err (wrap ''cache: list'') (sql_read (\<lambda>t. by_access gatewayID (gateway_cache_entries t)))"

section \<open>Constraints\<close>

lemma cache_wf_accessed: "cache_wf G M cs \<Longrightarrow> cache_wf G M (update_where p (\<lambda>c. c\<lparr>c_LastAccessAt := now\<rparr>) cs)"
  by (simp add: cache_wf_def map_update_where image_update_where cache_key_def)

lemma cache_wf_snoc:
  "cache_wf G M cs \<Longrightarrow> c_ID c \<notin> c_ID ` set cs \<Longrightarrow> cache_key c \<notin> cache_key ` set cs \<Longrightarrow>
     c_GatewayID c \<in> G \<Longrightarrow> c_ModelID c \<in> M \<Longrightarrow> cache_wf G M (cs @ [c])"
  by (simp add: cache_wf_def)

lemma keep_Touch [keeps]: "keep db_wf (Touch g m v n)"
  unfolding Touch_def
  by (intro keeps keep_sql) (auto simp: Let_def guarded_Inr db_wf_def table_ids check_fk_None
      cache_key_def split: if_splits intro!: cache_wf_accessed cache_wf_snoc)

lemma keep_EvictLRU [keeps]: "keep db_wf (EvictLRU c g)"
  unfolding EvictLRU_def
  by (intro keeps keep_sql) (auto simp: Let_def db_wf_def table_ids cache_wf_def distinct_map_filter)

lemma keep_cache_reads [keeps]: "keep I (Exists g m v)" "keep I (ListByGateway g)"
  unfolding Exists_def ListByGateway_def by (intro keeps)+

section \<open>Eviction\<close>

lemma set_by_access: "set (by_access g cs) = {c \<in> set cs. c_GatewayID c = g}"
  by (simp add: by_access_def)

lemma by_access_distinct: "distinct (map c_ID cs) \<Longrightarrow> distinct (map c_ID (by_access g cs))"
  by (simp add: by_access_def distinct_map_filter)

lemma by_access_sorted:
  assumes "a \<in> set (take n (by_access g cs))" "b \<in> set (drop n (by_access g cs))"
  shows "c_LastAccessAt b \<le> c_LastAccessAt a"
proof -
  have "sorted (map (\<lambda>x. - c_LastAccessAt x) (take n (by_access g cs) @ drop n (by_access g cs)))"
    unfolding append_take_drop_id by_access_def by (rule sorted_order_desc)
  with assms have "- c_LastAccessAt a \<le> - c_LastAccessAt b"
    by (auto simp: sorted_append simp del: append_take_drop_id)
  then show ?thesis by simp
qed

lemma survivors:
  assumes "distinct (map c_ID cs)"
  shows "{e \<in> set cs. c_GatewayID e = g \<and> c_ID e \<notin> set (lru_victims n g cs)} = set (take (nat n) (by_access g cs))"
proof -
  let ?L = "by_access g cs"
  have "distinct (map c_ID (take (nat n) ?L) @ map c_ID (drop (nat n) ?L))"
    unfolding map_append [symmetric] append_take_drop_id using by_access_distinct [OF assms] .
  then have disj: "c_ID ` set (take (nat n) ?L) \<inter> set (lru_victims n g cs) = {}"
    by (auto simp: lru_victims_def)
  have "set (take (nat n) ?L) \<union> set (drop (nat n) ?L) = {e \<in> set cs. c_GatewayID e = g}"
    unfolding set_append [symmetric] append_take_drop_id by (rule set_by_access)
  with disj show ?thesis by (auto simp: lru_victims_def)
qed

lemma EvictLRU_quiet:
  "quiet d \<Longrightarrow> EvictLRU c g d =
     (let victims = lru_victims (maxCachedVersions c) g (gateway_cache_entries (tabs d)) in
      (Inr (int (count_where (\<lambda>e. c_ID e \<in> set victims) (gateway_cache_entries (tabs d)))),
       d\<lparr>stmt_no := Suc (stmt_no d), tabs := (tabs d)\<lparr>gateway_cache_entries :=
          filter (\<lambda>e. c_ID e \<notin> set victims) (gateway_cache_entries (tabs d))\<rparr>\<rparr>))"
  by (simp add: EvictLRU_def map_err_def sql_quiet Let_def)

text \<open>C38: eviction. After an eviction a gateway has at most the configured number of entries; the
  entries kept are its most recently used ones (none removed was used after one kept), it loses
  exactly the excess, and the entries of other gateways stay.\<close>

theorem evict_lru_outcome:
  assumes "quiet d" "db_wf (tabs d)" "0 < maxCachedVersions c"
  shows "\<exists>n d1. EvictLRU c g d = (Inr n, d1)
    \<and> (\<forall>e \<in> set (gateway_cache_entries (tabs d1)). e \<in> set (gateway_cache_entries (tabs d)))
    \<and> int (count_where (\<lambda>e. c_GatewayID e = g) (gateway_cache_entries (tabs d1))) =
        min (maxCachedVersions c) (int (count_where (\<lambda>e. c_GatewayID e = g) (gateway_cache_entries (tabs d))))
    \<and> (\<forall>a \<in> set (gateway_cache_entries (tabs d1)). \<forall>b \<in> set (gateway_cache_entries (tabs d)) - set (gateway_cache_entries (tabs d1)).
         c_GatewayID b = g \<and> (c_GatewayID a = g \<longrightarrow> c_LastAccessAt b \<le> c_LastAccessAt a))"
proof -
  let ?cs = "gateway_cache_entries (tabs d)"
  let ?v = "lru_victims (maxCachedVersions c) g ?cs"
  let ?k = "filter (\<lambda>e. c_GatewayID e = g) (filter (\<lambda>e. c_ID e \<notin> set ?v) ?cs)"
  have dist: "distinct (map c_ID ?cs)" using assms(2) by (simp add: db_wf_def cache_wf_def)
  have kept: "set ?k = set (take (nat (maxCachedVersions c)) (by_access g ?cs))"
    using survivors [OF dist, of g "maxCachedVersions c"] by auto
  have "distinct ?k" "distinct (take (nat (maxCachedVersions c)) (by_access g ?cs))"
    using dist by_access_distinct [OF dist] by (auto simp: distinct_map)
  with kept have len: "length ?k = length (take (nat (maxCachedVersions c)) (by_access g ?cs))"
    by (metis distinct_card)
  have others: "c_ID e \<notin> set ?v" if "e \<in> set ?cs" "c_GatewayID e \<noteq> g" for e
  proof
    assume "c_ID e \<in> set ?v"
    then obtain e' where "e' \<in> set (by_access g ?cs)" "c_ID e' = c_ID e"
      by (auto simp: lru_victims_def dest: in_set_dropD)
    with that dist show False by (auto simp: set_by_access distinct_map inj_on_def)
  qed
  have "set (take n L) \<union> set (drop n L) = set L" for n and L :: "CacheEntry list"
    by (metis append_take_drop_id set_append)
  then have gone: "set (filter (\<lambda>e. c_GatewayID e = g) ?cs) - set ?k \<subseteq> set (drop (nat (maxCachedVersions c)) (by_access g ?cs))"
    unfolding kept using set_by_access [of g ?cs] by (simp add: Diff_subset_conv)
  let ?new = "filter (\<lambda>e. c_ID e \<notin> set ?v) ?cs"
  have cnt: "int (count_where (\<lambda>e. c_GatewayID e = g) ?new) = min (maxCachedVersions c) (int (count_where (\<lambda>e. c_GatewayID e = g) ?cs))"
    using assms(3) len by (simp add: by_access_def count_where_def)
  have order: "c_GatewayID b = g \<and> (c_GatewayID a = g \<longrightarrow> c_LastAccessAt b \<le> c_LastAccessAt a)"
    if "a \<in> set ?new" "b \<in> set ?cs - set ?new" for a b
  proof
    show b: "c_GatewayID b = g" using that(2) others by auto
    show "c_GatewayID a = g \<longrightarrow> c_LastAccessAt b \<le> c_LastAccessAt a"
    proof
      assume "c_GatewayID a = g"
      with that(1) have "a \<in> set ?k" by simp
      moreover have "b \<in> set (filter (\<lambda>e. c_GatewayID e = g) ?cs) - set ?k" using that(2) b by simp
      ultimately show "c_LastAccessAt b \<le> c_LastAccessAt a" using gone kept by (blast intro: by_access_sorted)
    qed
  qed
  let ?d1 = "d\<lparr>stmt_no := Suc (stmt_no d), tabs := (tabs d)\<lparr>gateway_cache_entries := ?new\<rparr>\<rparr>"
  have run: "EvictLRU c g d = (Inr (int (count_where (\<lambda>e. c_ID e \<in> set ?v) ?cs)), ?d1)"
    unfolding EvictLRU_quiet [OF assms(1)] Let_def ..
  have "gateway_cache_entries (tabs ?d1) = ?new" by simp
  with run cnt order show ?thesis
    by (intro exI [of _ "int (count_where (\<lambda>e. c_ID e \<in> set ?v) ?cs)"] exI [of _ ?d1]) auto
qed

definition example_entry :: "string \<Rightarrow> timestamp \<Rightarrow> CacheEntry" where
  "example_entry i now = \<lparr>c_ID = i, c_GatewayID = ''g1'', c_ModelID = ''m1'', c_Version = i, c_CachedAt = 1,
     c_LastAccessAt = now, c_SizeBytes = 7\<rparr>"

definition cache_tables :: tables where
  "cache_tables = empty_tables\<lparr>gateways := [example_gateway], models := [\<lparr>m_ID = ''m1'', m_Name = ''llama'',
     m_Version = ''v1'', m_Format = ''GGUF'', m_Checksum = [], m_SizeBytes = 7, m_ArtifactURI = ''a'', m_SignatureURI = [],
     m_Labels = empty_object, m_CreatedAt = 0\<rparr>],
     gateway_cache_entries := [example_entry ''a'' 5, example_entry ''b'' 8]\<rparr>"

theorem evict_lru_outcome_witness:
  "\<exists>n d1. EvictLRU \<lparr>maxCachedVersions = 1\<rparr> ''g1'' (session_at cache_tables 9) = (Inr n, d1)
     \<and> count_where (\<lambda>e. c_GatewayID e = ''g1'') (gateway_cache_entries (tabs d1)) = 1"
proof -
  have "db_wf cache_tables"
    by (simp add: cache_tables_def db_wf_def table_wf_defs table_ids empty_tables_def example_gateway_def
        example_entry_def cache_key_def)
  moreover have "count_where (\<lambda>e. c_GatewayID e = ''g1'') (gateway_cache_entries cache_tables) = 2"
    by (simp add: cache_tables_def empty_tables_def example_entry_def)
  ultimately show ?thesis
    using evict_lru_outcome [of "session_at cache_tables 9" "\<lparr>maxCachedVersions = 1\<rparr>" "''g1''"] by auto
qed

end
