(* ===== verification/Autonomy.thy ===== *)
theory Autonomy
  imports Identity_Cache
begin

text \<open>
  Running without the cloud (\<open>internal/gateway/autonomy.go\<close>): the connectivity monitor, the guard that
  asks it, and the synchronisation after a reconnection. A health check is its outcome: the status
  code of the answer, or no answer. The callbacks a probe starts are its second result.
\<close>

datatype ConnectivityState = StateOnline | StateOffline

record ConnectivityMonitor =
  cm_cloudHealthURL :: string
  cm_checkInterval :: duration
  cm_timeout :: duration
  cm_state :: ConnectivityState
  cm_lastOnlineAt :: timestamp
  cm_lastOfflineAt :: timestamp

definition NewConnectivityMonitor :: "string \<Rightarrow> duration \<Rightarrow> duration \<Rightarrow> timestamp \<Rightarrow> ConnectivityMonitor" where
  "NewConnectivityMonitor url interval timeout now =
     \<lparr>cm_cloudHealthURL = url, cm_checkInterval = (if interval = 0 then 10 * second else interval),
      cm_timeout = (if timeout = 0 then 5 * second else timeout), cm_state = StateOnline,
      cm_lastOnlineAt = now, cm_lastOfflineAt = 0\<rparr>"

definition IsOnline :: "ConnectivityMonitor \<Rightarrow> bool" where
  "IsOnline cm = (cm_state cm = StateOnline)"

definition checkHealth :: "int option \<Rightarrow> ConnectivityMonitor \<Rightarrow> bool" where
  "checkHealth answer cm =
     (if cm_cloudHealthURL cm = [] then True
      else case answer of None \<Rightarrow> False | Some code \<Rightarrow> code < 500)"

datatype callback = OnRecover | OnOffline

definition probe :: "timestamp \<Rightarrow> int option \<Rightarrow> ConnectivityMonitor \<Rightarrow> callback list \<times> ConnectivityMonitor" where
  "probe now answer cm =
     (let prev = cm_state cm in
      if checkHealth answer cm
      then (if prev = StateOffline then [OnRecover] else [],
            cm\<lparr>cm_state := StateOnline, cm_lastOnlineAt := now\<rparr>)
      else (if prev = StateOnline then [OnOffline] else [],
            cm\<lparr>cm_state := StateOffline, cm_lastOfflineAt := now\<rparr>))"

text \<open>The loop of \<open>Run\<close>: one probe per tick.\<close>

fun monitor_run :: "(timestamp \<times> int option) list \<Rightarrow> ConnectivityMonitor \<Rightarrow> callback list \<times> ConnectivityMonitor" where
  "monitor_run [] cm = ([], cm)"
| "monitor_run ((now, answer) # ps) cm =
     (case probe now answer cm of (cbs, cm1) \<Rightarrow>
      case monitor_run ps cm1 of (cbs2, cm2) \<Rightarrow> (cbs @ cbs2, cm2))"

section \<open>The guard\<close>

definition AllowNewTaskClaim :: "ConnectivityMonitor \<Rightarrow> bool" where
  "AllowNewTaskClaim cm = IsOnline cm"

definition AllowNewOnboarding :: "ConnectivityMonitor \<Rightarrow> bool" where
  "AllowNewOnboarding cm = IsOnline cm"

section \<open>Synchronisation\<close>

definition refreshIdentities :: "IdentityCache \<Rightarrow> IdentityCache" where
  "refreshIdentities c = c\<lparr>ic_entries := Map.empty\<rparr>"

definition Sync :: "IdentityCache \<Rightarrow> IdentityCache" where
  "Sync c = refreshIdentities c"

section \<open>Transitions\<close>

text \<open>The callbacks alternate, starting with the one the state allows.\<close>

fun alternating :: "ConnectivityState \<Rightarrow> callback list \<Rightarrow> bool" where
  "alternating s [] = True"
| "alternating StateOnline (OnOffline # cbs) = alternating StateOffline cbs"
| "alternating StateOffline (OnRecover # cbs) = alternating StateOnline cbs"
| "alternating s (c # cbs) = False"

lemma probe_state:
  assumes "probe now answer cm = (cbs, cm1)"
  shows "cm_state cm1 = (if checkHealth answer cm then StateOnline else StateOffline)"
    "cm_cloudHealthURL cm1 = cm_cloudHealthURL cm"
    "cbs = (if cm_state cm1 = cm_state cm then [] else [if cm_state cm1 = StateOnline then OnRecover else OnOffline])"
  using assms by (cases "cm_state cm"; auto simp: probe_def Let_def split: if_splits)+

lemma monitor_run_state:
  "monitor_run ps cm = (cbs, cm1) \<Longrightarrow>
     alternating (cm_state cm) cbs
     \<and> cm_state cm1 = (if ps = [] then cm_state cm else if checkHealth (snd (last ps)) cm then StateOnline else StateOffline)
     \<and> cm_state cm1 = (if even (length cbs) then cm_state cm
          else if cm_state cm = StateOnline then StateOffline else StateOnline)"
proof (induction ps arbitrary: cm cbs cm1)
  case Nil
  then show ?case by simp
next
  case (Cons p ps)
  obtain now answer where p: "p = (now, answer)" by force
  obtain c1 m1 where pr: "probe now answer cm = (c1, m1)" by force
  obtain c2 m2 where run: "monitor_run ps m1 = (c2, m2)" by force
  have eq: "cbs = c1 @ c2" "cm1 = m2" using Cons.prems pr run by (simp_all add: p)
  have health: "checkHealth a m1 = checkHealth a cm" for a
    by (simp add: checkHealth_def probe_state(2) [OF pr])
  show ?case
    using Cons.IH [OF run] probe_state(1,3) [OF pr]
    by (cases "cm_state cm"; cases "cm_state m1") (auto simp: eq p health split: if_splits)
qed

text \<open>C39: the connectivity monitor. After any sequence of probes a gateway is online exactly if the last
  one was answered with a status below 500 (or no health URL is configured), so the guard then allows
  claims and onboarding and otherwise refuses both; and the callbacks started are one per change of
  state, alternating, OnOffline first: never two recoveries without a loss in between.\<close>

theorem connectivity_monitor_states:
  assumes "monitor_run ps (NewConnectivityMonitor url interval timeout now) = (cbs, cm)"
  shows "alternating StateOnline cbs \<and> IsOnline cm = even (length cbs)
    \<and> (ps \<noteq> [] \<longrightarrow> IsOnline cm = (url = [] \<or> (\<exists>code. snd (last ps) = Some code \<and> code < 500)))
    \<and> AllowNewTaskClaim cm = IsOnline cm \<and> AllowNewOnboarding cm = IsOnline cm"
  using monitor_run_state [OF assms]
  by (auto simp: NewConnectivityMonitor_def IsOnline_def checkHealth_def AllowNewTaskClaim_def AllowNewOnboarding_def
      split: if_splits option.splits)

theorem connectivity_monitor_states_witness:
  "monitor_run [(1, None), (2, Some 503), (3, Some 200)] (NewConnectivityMonitor ''http://c'' 0 0 0) =
     ([OnOffline, OnRecover], \<lparr>cm_cloudHealthURL = ''http://c'', cm_checkInterval = 10 * second, cm_timeout = 5 * second,
        cm_state = StateOnline, cm_lastOnlineAt = 3, cm_lastOfflineAt = 2\<rparr>) \<and> alternating StateOnline [OnOffline, OnRecover]"
proof -
  have run: "monitor_run [(1, None), (2, Some 503), (3, Some 200)] (NewConnectivityMonitor ''http://c'' 0 0 0) =
     ([OnOffline, OnRecover], \<lparr>cm_cloudHealthURL = ''http://c'', cm_checkInterval = 10 * second, cm_timeout = 5 * second,
        cm_state = StateOnline, cm_lastOnlineAt = 3, cm_lastOfflineAt = 2\<rparr>)"
    by (simp add: probe_def checkHealth_def NewConnectivityMonitor_def)
  with connectivity_monitor_states [OF run] show ?thesis by simp
qed

section \<open>After a reconnection\<close>

text \<open>After a synchronisation no identity is accepted on the word of the old cache. Whatever the cache
  held, the first lookup of a fingerprint asks the database, and returns an identity only if the
  database holds it as Active then; an identity revoked while the gateway was offline is refused.\<close>

lemma sync_forgets_identities:
  "fst (Lookup fp (Sync c, d)) = (case load_query fp d of
      (Inl e, d1) \<Rightarrow> Inl e
    | (Inr None, d1) \<Rightarrow> Inr None
    | (Inr (Some i), d1) \<Rightarrow> Inr (Some \<lparr>ci_NodeID = id_NodeID i, ci_GatewayID = id_GatewayID i,
         ci_Status = IDENTITY_STATUS_ACTIVE, ci_ExpireAt = clock d1 + ic_ttl c\<rparr>))
   \<and> (\<forall>i d1. load_query fp d = (Inr (Some i), d1) \<longrightarrow>
        i \<in> set (edge_identities (tabs d)) \<and> id_Fingerprint i = fp \<and> id_Status i = ''Active'')"
proof
  show "fst (Lookup fp (Sync c, d)) = (case load_query fp d of
      (Inl e, d1) \<Rightarrow> Inl e
    | (Inr None, d1) \<Rightarrow> Inr None
    | (Inr (Some i), d1) \<Rightarrow> Inr (Some \<lparr>ci_NodeID = id_NodeID i, ci_GatewayID = id_GatewayID i,
         ci_Status = IDENTITY_STATUS_ACTIVE, ci_ExpireAt = clock d1 + ic_ttl c\<rparr>))"
    by (auto simp: Lookup_def Sync_def refreshIdentities_def loadFromDB_def load_store_def Let_def
        split: prod.splits sum.splits option.splits)
  show "\<forall>i d1. load_query fp d = (Inr (Some i), d1) \<longrightarrow>
        i \<in> set (edge_identities (tabs d)) \<and> id_Fingerprint i = fp \<and> id_Status i = ''Active''"
    by (auto simp: load_query_def active_identity_def dest!: sql_read_InrD find_Some_set [OF sym])
qed

lemma sync_forgets_identities_witness:
  "fst (Lookup ''fp'' (Sync \<lparr>ic_entries = [''fp'' \<mapsto> \<lparr>ci_NodeID = ''n'', ci_GatewayID = ''g'',
      ci_Status = IDENTITY_STATUS_ACTIVE, ci_ExpireAt = 90\<rparr>], ic_ttl = 30\<rparr>, session_at empty_tables 9)) = Inr None"
  using sync_forgets_identities [of "''fp''" "\<lparr>ic_entries = [''fp'' \<mapsto> \<lparr>ci_NodeID = ''n'', ci_GatewayID = ''g'',
      ci_Status = IDENTITY_STATUS_ACTIVE, ci_ExpireAt = 90\<rparr>], ic_ttl = 30\<rparr>" "session_at empty_tables 9"]
  by (simp add: load_query_def sql_read_quiet active_identity_def empty_tables_def)

end
