(* ===== verification/Dispatcher.thy ===== *)
theory Dispatcher
  imports Identity_Cache Task_Claims "HOL-Library.Sublist"
begin

text \<open>
  The control plane's side of a gateway (\<open>internal/gateway/dispatcher.go\<close>): expanding a regional task
  into one task per node and claiming each, status reports, and identity events.
\<close>

definition defaultClaimDuration :: duration where "defaultClaimDuration = 5 * minute"

record Dispatcher =
  dp_gatewayID :: string
  dp_claimDuration :: duration

definition NewDispatcher :: "string \<Rightarrow> duration \<Rightarrow> Dispatcher" where
  "NewDispatcher gatewayID claimDuration =
     \<lparr>dp_gatewayID = gatewayID, dp_claimDuration = (if claimDuration = 0 then defaultClaimDuration else claimDuration)\<rparr>"

record PushRegionalTaskRequest =
  pt_TaskId :: string
  pt_GatewayId :: string
  pt_Type :: string
  pt_Payload :: raw
  pt_TargetNodeIds :: "string list"

definition node_task_row :: "Dispatcher \<Rightarrow> PushRegionalTaskRequest \<Rightarrow> string \<Rightarrow> TaskRow" where
  "node_task_row dp req nodeID =
     \<lparr>t_ID = [], t_ParentTaskID = Some (pt_TaskId req), t_Scope = ''Node'', t_Type = pt_Type req,
      t_Status = ''Pending'', t_TargetGatewayID = Some (dp_gatewayID dp), t_TargetNodeID = Some nodeID,
      t_Payload = pt_Payload req, t_Result = Nil_Raw, t_DispatchStatus = ''Unclaimed'', t_OwnerInstance = None,
      t_ClaimExpireAt = None, t_MaxRetries = DefaultMaxRetries, t_RetryCount = 0, t_TimeoutSeconds = 600,
      t_IdempotencyKey = None, t_CreatedBy = ''gateway:'' @ dp_gatewayID dp, t_CreatedAt = 0, t_UpdatedAt = 0\<rparr>"

definition expand_body :: "Dispatcher \<Rightarrow> PushRegionalTaskRequest \<Rightarrow> string \<Rightarrow> bool dbm" where
  "expand_body dp req nodeID =
     bindE (CreateTask (node_task_row dp req nodeID)) (\<lambda>row.
     bindE (CreateTaskEvent (t_ID row) ''expanded'' [] ''Pending'' (''gateway:'' @ dp_gatewayID dp)
        (Raw_JSON (json_of_smap [(''node_id'', nodeID), (''parent_task_id'', pt_TaskId req)]))) (\<lambda>_.
     bindE (AtomicClaim (t_ID row) (dp_gatewayID dp) (dp_claimDuration dp)) (\<lambda>ok.
       if \<not> ok then returnE False
       else bindE (MarkDelivered (t_ID row)) (\<lambda>_. returnE True))))"

definition expandAndClaim :: "Dispatcher \<Rightarrow> PushRegionalTaskRequest \<Rightarrow> string \<Rightarrow> bool dbm" where
  "expandAndClaim dp req nodeID = WithTx (expand_body dp req nodeID)"

text \<open>The loop over the nodes: an error is logged and the next node taken.\<close>

fun expand_nodes :: "Dispatcher \<Rightarrow> PushRegionalTaskRequest \<Rightarrow> string list \<Rightarrow> int \<Rightarrow> int \<Rightarrow> (int \<times> int) dbm" where
  "expand_nodes dp req [] expanded claimed = returnE (expanded, claimed)"
| "expand_nodes dp req (nodeID # ns) expanded claimed = (\<lambda>d.
     case expandAndClaim dp req nodeID d of
       (Inl e, d1) \<Rightarrow> expand_nodes dp req ns expanded claimed d1
     | (Inr c, d1) \<Rightarrow> expand_nodes dp req ns (wrap32 (expanded + 1)) (if c then wrap32 (claimed + 1) else claimed) d1)"

definition PushRegionalTask :: "Dispatcher \<Rightarrow> PushRegionalTaskRequest \<Rightarrow> (int \<times> int) dbm" where
  "PushRegionalTask dp req =
     (if pt_TaskId req = [] then failE (StatusErr InvalidArgument ''task_id is required'')
      else if pt_GatewayId req = [] then failE (StatusErr InvalidArgument ''gateway_id is required'')
      else if pt_GatewayId req \<noteq> dp_gatewayID dp then failE (StatusErr PermissionDenied ''gateway_id mismatch'')
      else if pt_TargetNodeIds req = [] then returnE (0, 0)
      else expand_nodes dp req (pt_TargetNodeIds req) 0 0)"

text \<open>A status report is only logged.\<close>

definition SyncGatewayStatus :: "Dispatcher \<Rightarrow> string \<Rightarrow> unit dbm" where
  "SyncGatewayStatus dp gatewayId =
     (if gatewayId = [] then failE (StatusErr InvalidArgument ''gateway_id is required'')
      else if gatewayId \<noteq> dp_gatewayID dp then failE (StatusErr PermissionDenied ''gateway_id mismatch'')
      else returnE ())"

definition NotifyIdentityEvent ::
  "string \<Rightarrow> NotifyIdentityEventRequest \<Rightarrow> IdentityCache \<Rightarrow> (go_err + unit) \<times> IdentityCache" where
  "NotifyIdentityEvent identityId req c =
     (if identityId = [] then (Inl (StatusErr InvalidArgument ''identity_id is required''), c)
      else (Inr (), HandleIdentityEvent req c))"

section \<open>Constraints\<close>

lemma keep_expandAndClaim [keeps]: "keep db_wf (expandAndClaim dp req n)"
  unfolding expandAndClaim_def expand_body_def by (intro keeps)

lemma keep_expand_nodes [keeps]: "keep db_wf (expand_nodes dp req ns x c)"
proof (induction ns arbitrary: x c)
  case Nil
  then show ?case by (simp add: keeps)
next
  case (Cons n ns)
  show ?case
  proof (rule keepI)
    fix d :: session and r d1
    assume wf: "db_wf (tabs d)" and run: "expand_nodes dp req (n # ns) x c d = (r, d1)"
    obtain q d2 where e: "expandAndClaim dp req n d = (q, d2)" by force
    with run obtain x' c' where "expand_nodes dp req ns x' c' d2 = (r, d1)" by (cases q) auto
    with Cons.IH keepD [OF keep_expandAndClaim wf e] show "db_wf (tabs d1)" by (rule keepD)
  qed
qed

lemma keep_PushRegionalTask [keeps]: "keep db_wf (PushRegionalTask dp req)"
  unfolding PushRegionalTask_def by (intro keeps)

section \<open>Expansion\<close>

text \<open>A task that an expansion of the request leaves for the node.\<close>

definition delivered_task :: "Dispatcher \<Rightarrow> PushRegionalTaskRequest \<Rightarrow> timestamp \<Rightarrow> TaskRow \<Rightarrow> bool" where
  "delivered_task dp req now r =
     (t_ParentTaskID r = Some (pt_TaskId req) \<and> t_Scope r = ''Node'' \<and> t_Type r = pt_Type req \<and> t_Status r = ''Pending''
      \<and> t_TargetGatewayID r = Some (dp_gatewayID dp) \<and> t_Payload r = pt_Payload req \<and> t_DispatchStatus r = ''Delivered''
      \<and> t_OwnerInstance r = Some (dp_gatewayID dp) \<and> t_ClaimExpireAt r = Some (now + dp_claimDuration dp))"

lemma CreateTaskEvent_tabs:
  "CreateTaskEvent a b c e f g d = (r, d1) \<Longrightarrow> tasks (tabs d1) = tasks (tabs d) \<and> clock d1 = clock d"
  by (auto simp: CreateTaskEvent_def createEventTx_def Let_def run_defs split: prod.splits sum.splits
      dest: insert_event_tabs)

lemma update_new_row:
  assumes "t_ID r \<notin> t_ID ` set ts" "\<And>x. p x \<Longrightarrow> t_ID x = t_ID r" "p r"
  shows "update_where p f (ts @ [r]) = ts @ [f r]" "count_where p (ts @ [r]) = 1"
proof -
  have none: "\<forall>x \<in> set ts. \<not> p x" using assms(1,2) by (metis image_eqI)
  then show "update_where p f (ts @ [r]) = ts @ [f r]"
    using assms(3) by (simp add: update_where_append update_where_none)
  show "count_where p (ts @ [r]) = 1"
    using none assms(3) by (simp add: count_where_def filter_empty_conv)
qed

lemma CreateTask_InrD:
  "CreateTask row d = (Inr x, d1) \<Longrightarrow> \<exists>i. t_ID x = i \<and> i \<notin> t_ID ` set (tasks (tabs d)) \<and> clock d1 = clock d
     \<and> tasks (tabs d1) = tasks (tabs d) @ [row\<lparr>t_ID := i, t_Result := Nil_Raw, t_OwnerInstance := None,
        t_ClaimExpireAt := None, t_RetryCount := 0, t_CreatedAt := clock d, t_UpdatedAt := clock d\<rparr>]"
  by (auto simp: CreateTask_def returnE_def dest!: bindE_InrD insert_task_InrD)

lemma expand_body_InrD:
  assumes "expand_body dp req n d = (Inr c, d1)"
  shows "c \<and> (\<exists>r. tasks (tabs d1) = tasks (tabs d) @ [r] \<and> delivered_task dp req (clock d) r \<and> t_TargetNodeID r = Some n)"
proof -
  from assms obtain row d2 d3 ok d4 where
    c1: "CreateTask (node_task_row dp req n) d = (Inr row, d2)"
    and c2: "CreateTaskEvent (t_ID row) ''expanded'' [] ''Pending'' (''gateway:'' @ dp_gatewayID dp)
        (Raw_JSON (json_of_smap [(''node_id'', n), (''parent_task_id'', pt_TaskId req)])) d2 = (Inr (), d3)"
    and c3: "AtomicClaim (t_ID row) (dp_gatewayID dp) (dp_claimDuration dp) d3 = (Inr ok, d4)"
    and c4: "(if \<not> ok then returnE False else bindE (MarkDelivered (t_ID row)) (\<lambda>_. returnE True)) d4 = (Inr c, d1)"
    unfolding expand_body_def by (auto dest!: bindE_InrD)
  define r where "r = (node_task_row dp req n)\<lparr>t_ID := t_ID row, t_Result := Nil_Raw, t_OwnerInstance := None,
        t_ClaimExpireAt := None, t_RetryCount := 0, t_CreatedAt := clock d, t_UpdatedAt := clock d\<rparr>"
  from CreateTask_InrD [OF c1] have r: "t_ID row = t_ID r" "t_ID r \<notin> t_ID ` set (tasks (tabs d))" "clock d2 = clock d"
    "tasks (tabs d2) = tasks (tabs d) @ [r]"
    by (auto simp: r_def)
  have d3: "tasks (tabs d3) = tasks (tabs d) @ [r]" "clock d3 = clock d"
    using CreateTaskEvent_tabs [OF c2] r by auto
  let ?f = "\<lambda>x. x\<lparr>t_DispatchStatus := ''Claimed'', t_OwnerInstance := Some (dp_gatewayID dp),
      t_ClaimExpireAt := Some (clock d + dp_claimDuration dp), t_UpdatedAt := clock d\<rparr>"
  have cl: "claimable (t_ID r) (clock d) r"
    by (simp add: r_def claimable_def node_task_row_def)
  note new = update_new_row [OF r(2), of "claimable (t_ID r) (clock d)", OF _ cl]
  have d4: "tasks (tabs d4) = tasks (tabs d) @ [?f r]" "ok"
    using AtomicClaim_run [OF c3] new(1) [of ?f] new(2) by (auto simp: d3 r(1) claimable_def)
  with c4 obtain n' where "update_tasks [] (\<lambda>_ x. t_ID x = t_ID r \<and> t_DispatchStatus x = ''Claimed'')
      (\<lambda>now x. x\<lparr>t_DispatchStatus := ''Delivered'', t_UpdatedAt := now\<rparr>) d4 = (Inr n', d1)" "c"
    by (auto simp: MarkDelivered_def r(1) returnE_def failE_def dest!: bindE_InrD map_err_InrD split: if_splits)
  then have "tasks (tabs d1) = tasks (tabs d) @ [(?f r)\<lparr>t_DispatchStatus := ''Delivered'', t_UpdatedAt := clock d4\<rparr>]"
    using d4(1) r(2) update_new_row(1) [of "?f r" "tasks (tabs d)" "\<lambda>x. t_ID x = t_ID r \<and> t_DispatchStatus x = ''Claimed''"
        "\<lambda>x. x\<lparr>t_DispatchStatus := ''Delivered'', t_UpdatedAt := clock d4\<rparr>"]
    by (auto dest!: update_tasks_InrD)
  with \<open>c\<close> show ?thesis
    by (intro conjI exI [of _ "(?f r)\<lparr>t_DispatchStatus := ''Delivered'', t_UpdatedAt := clock d4\<rparr>"])
      (simp_all add: delivered_task_def r_def node_task_row_def)
qed

lemma timeless_insert_task [clocks]: "timeless (insert_task mk)"
  unfolding insert_task_def by (rule timeless_sql)

lemma timeless_expand [clocks]: "timeless (expandAndClaim dp req n)"
  unfolding expandAndClaim_def expand_body_def CreateTask_def CreateTaskEvent_def createEventTx_def Let_def
  by (intro clocks)

lemma expandAndClaim_run:
  assumes "expandAndClaim dp req n d = (q, d1)"
  shows "clock d1 = clock d \<and> ((\<exists>e. q = Inl e \<and> tabs d1 = tabs d)
    \<or> q = Inr True \<and> (\<exists>r. tasks (tabs d1) = tasks (tabs d) @ [r] \<and> delivered_task dp req (clock d) r \<and> t_TargetNodeID r = Some n))"
proof (cases q)
  case (Inl e)
  with assms timelessD [OF timeless_expand assms] show ?thesis
    by (auto simp: expandAndClaim_def dest: WithTx_error_tabs)
next
  case (Inr c)
  with assms obtain d2 d3 where "expand_body dp req n d2 = (Inr c, d3)" "tabs d2 = tabs d" "clock d2 = clock d" "tabs d1 = tabs d3"
    by (auto simp: expandAndClaim_def dest!: WithTx_InrD)
  with expand_body_InrD [of dp req n d2 c d3] Inr timelessD [OF timeless_expand assms] show ?thesis by auto
qed

lemma expandAndClaim_refused:
  assumes "pt_Payload req = Nil_Raw \<or> dp_gatewayID dp \<notin> gateway_ids (tabs d)"
  shows "\<exists>e d1. expandAndClaim dp req n d = (Inl e, d1) \<and> tabs d1 = tabs d"
proof (cases "expandAndClaim dp req n d")
  case (Pair q d1)
  show ?thesis
  proof (cases q)
    case (Inl e)
    with Pair expandAndClaim_run [OF Pair] show ?thesis by auto
  next
    case (Inr c)
    with Pair obtain d2 row d3 where "CreateTask (node_task_row dp req n) d2 = (Inr row, d3)" "tabs d2 = tabs d"
      by (auto simp: expandAndClaim_def expand_body_def dest!: WithTx_InrD bindE_InrD)
    with assms have False
      by (auto simp: CreateTask_def insert_task_def Let_def guarded_Inr check_jsonb_None check_fk_None node_task_row_def
          table_ids dest!: bindE_InrD sql_InrD)
    then show ?thesis ..
  qed
qed

lemma expand_nodes_run:
  assumes "0 \<le> x" "0 \<le> c" "x + int (length ns) < 2 ^ 31" "c + int (length ns) < 2 ^ 31"
  shows "\<exists>new d1. expand_nodes dp req ns x c d = (Inr (x + int (length new), c + int (length new)), d1)
    \<and> tasks (tabs d1) = tasks (tabs d) @ new \<and> list_all (delivered_task dp req (clock d)) new
    \<and> subseq (map t_TargetNodeID new) (map Some ns)"
  using assms
proof (induction ns arbitrary: x c d)
  case Nil
  then show ?case by (intro exI [of _ "[]"]) (simp add: returnE_def)
next
  case (Cons n ns)
  obtain q d2 where e: "expandAndClaim dp req n d = (q, d2)" by force
  show ?case
  proof (cases q)
    case (Inl er)
    with expandAndClaim_run [OF e] have d2: "tabs d2 = tabs d" "clock d2 = clock d" by auto
    from Cons.prems have "x + int (length ns) < 2 ^ 31" "c + int (length ns) < 2 ^ 31" by simp_all
    from Cons.IH [OF Cons.prems(1,2) this, of d2] obtain new d3 where
      "expand_nodes dp req ns x c d2 = (Inr (x + int (length new), c + int (length new)), d3)"
      "tasks (tabs d3) = tasks (tabs d) @ new" "list_all (delivered_task dp req (clock d)) new"
      "subseq (map t_TargetNodeID new) (map Some ns)" by (auto simp: d2)
    with e Inl show ?thesis by (intro exI [of _ new] exI [of _ d3]) auto
  next
    case (Inr b)
    with expandAndClaim_run [OF e] obtain r where r: "b" "clock d2 = clock d" "tasks (tabs d2) = tasks (tabs d) @ [r]"
      "delivered_task dp req (clock d) r" "t_TargetNodeID r = Some n" by auto
    have w: "wrap32 (x + 1) = x + 1" "wrap32 (c + 1) = c + 1" using Cons.prems by (auto intro!: wrap32_id)
    from Cons.prems have "0 \<le> x + 1" "0 \<le> c + 1" "x + 1 + int (length ns) < 2 ^ 31" "c + 1 + int (length ns) < 2 ^ 31"
      by simp_all
    from Cons.IH [OF this, of d2] obtain new d3 where
      "expand_nodes dp req ns (x + 1) (c + 1) d2 = (Inr (x + 1 + int (length new), c + 1 + int (length new)), d3)"
      "tasks (tabs d3) = tasks (tabs d2) @ new" "list_all (delivered_task dp req (clock d)) new"
      "subseq (map t_TargetNodeID new) (map Some ns)" by (auto simp: r)
    with e Inr r w show ?thesis by (intro exI [of _ "r # new"] exI [of _ d3]) simp
  qed
qed

lemma expand_nodes_refused:
  assumes "pt_Payload req = Nil_Raw \<or> dp_gatewayID dp \<notin> gateway_ids (tabs d)"
  shows "\<exists>d1. expand_nodes dp req ns x c d = (Inr (x, c), d1) \<and> tabs d1 = tabs d"
  using assms
proof (induction ns arbitrary: d)
  case Nil
  then show ?case by (simp add: returnE_def)
next
  case (Cons n ns)
  from expandAndClaim_refused [OF Cons.prems] obtain e d1 where e: "expandAndClaim dp req n d = (Inl e, d1)" "tabs d1 = tabs d"
    by blast
  with Cons.prems have "pt_Payload req = Nil_Raw \<or> dp_gatewayID dp \<notin> gateway_ids (tabs d1)" by simp
  from Cons.IH [OF this] e show ?case by simp
qed



end
