(* ===== verification/Gateway_Mgmt.thy ===== *)
theory Gateway_Mgmt
  imports Integrity Paging
begin

text \<open>Gateway management (\<open>internal/gateway/gateway_service.go\<close>), one definition per RPC.\<close>

record GatewayMsg =
  gg_Id :: string
  gg_Name :: string
  gg_Region :: string
  gg_Labels :: smap
  gg_Status :: string
  gg_Endpoint :: string
  gg_CreatedAt :: timestamp
  gg_UpdatedAt :: timestamp

definition rowToGatewayProto :: "gatewayRow \<Rightarrow> GatewayMsg" where
  "rowToGatewayProto r =
     \<lparr>gg_Id = gw_ID r, gg_Name = gw_Name r, gg_Region = gw_Region r, gg_Labels = labels_of (gw_Labels r),
      gg_Status = gw_Status r, gg_Endpoint = gw_Endpoint r, gg_CreatedAt = gw_CreatedAt r, gg_UpdatedAt = gw_UpdatedAt r\<rparr>"

definition marshalLabels :: "smap option \<Rightarrow> raw" where
  "marshalLabels labels =
     (case labels of
        None \<Rightarrow> Nil_Raw
      | Some items \<Rightarrow> if items = [] then empty_object else Raw_JSON (json_of_smap items))"

record CreateGatewayRequest =
  cg_Name :: string
  cg_Region :: string
  cg_Labels :: "smap option"
  cg_Endpoint :: string

definition create_gateway_error :: "string \<Rightarrow> go_err \<Rightarrow> go_err" where
  "create_gateway_error name e =
     (if is_unique_violation e then StatusErr AlreadyExists (''gateway '' @ quote name @ '' already exists'')
      else internal_error ''create gateway'' e)"

definition CreateGateway :: "CreateGatewayRequest \<Rightarrow> GatewayMsg dbm" where
  "CreateGateway req =
     (if cg_Name req = [] then failE (StatusErr InvalidArgument ''name is required'')
      else bindE (map_err (create_gateway_error (cg_Name req))
             (insert_gateway (\<lambda>i now. \<lparr>gw_ID = i, gw_Name = cg_Name req, gw_Region = cg_Region req,
                gw_Labels = marshalLabels (cg_Labels req), gw_Status = ''Active'', gw_Endpoint = cg_Endpoint req,
                gw_CreatedAt = now, gw_UpdatedAt = now\<rparr>)))
             (\<lambda>r. returnE (rowToGatewayProto r)))"

definition getGatewayRow :: "string \<Rightarrow> gatewayRow dbm" where
  "getGatewayRow i =
     map_err (not_found_status ''gateway'' ''get gateway'') (sql_row (\<lambda>t. find (\<lambda>r. gw_ID r = i) (gateways t)))"

definition GetGateway :: "string \<Rightarrow> GatewayMsg dbm" where
  "GetGateway i =
     (if i = [] then failE (StatusErr InvalidArgument ''id is required'')
      else bindE (getGatewayRow i) (\<lambda>r. returnE (rowToGatewayProto r)))"

definition gateway_where :: "string \<Rightarrow> gatewayRow \<Rightarrow> bool" where
  "gateway_where region r = (region = [] \<or> gw_Region r = region)"

definition gateway_listing :: "string \<Rightarrow> tables \<Rightarrow> gatewayRow list" where
  "gateway_listing region t = order_desc gw_CreatedAt (filter (gateway_where region) (gateways t))"

definition ListGateways :: "string \<Rightarrow> PageRequest option \<Rightarrow> (GatewayMsg list \<times> PageResponse) dbm" where
  "ListGateways region page =
     (let pageSize = page_size_of page; offset = page_offset_of page in
      bindE (map_err (internal_error ''count gateways'')
        (sql_read (\<lambda>t. int (count_where (gateway_where region) (gateways t))))) (\<lambda>tot.
      bindE (map_err (internal_error ''list gateways'')
        (sql_read_or (\<lambda>t. limit_offset pageSize offset (gateway_listing region t)))) (\<lambda>rows.
        returnE (map rowToGatewayProto rows, page_response offset pageSize tot))))"

record UpdateGatewayRequest =
  ug_Id :: string
  ug_Labels :: "smap option"
  ug_Endpoint :: string
  ug_Region :: string

text \<open>\<open>COALESCE(NULLIF($n, ''), column)\<close>.\<close>

definition nonempty_or :: "string \<Rightarrow> string \<Rightarrow> string" where
  "nonempty_or new old = (if new = [] then old else new)"

definition updated_gateway :: "UpdateGatewayRequest \<Rightarrow> timestamp \<Rightarrow> gatewayRow \<Rightarrow> gatewayRow" where
  "updated_gateway req now r =
     r\<lparr>gw_Labels := (if marshalLabels (ug_Labels req) = Nil_Raw then gw_Labels r else marshalLabels (ug_Labels req)),
       gw_Endpoint := nonempty_or (ug_Endpoint req) (gw_Endpoint r),
       gw_Region := nonempty_or (ug_Region req) (gw_Region r), gw_UpdatedAt := now\<rparr>"

definition UpdateGateway :: "UpdateGatewayRequest \<Rightarrow> GatewayMsg dbm" where
  "UpdateGateway req =
     (if ug_Id req = [] then failE (StatusErr InvalidArgument ''id is required'')
      else bindE (map_err (not_found_status ''gateway'' ''update gateway'')
             (bindE (update_gateways [] (\<lambda>r. gw_ID r = ug_Id req) (updated_gateway req))
                (\<lambda>_ d. (case find (\<lambda>r. gw_ID r = ug_Id req) (gateways (tabs d)) of
                   None \<Rightarrow> Inl SqlNoRows | Some r \<Rightarrow> Inr r, d))))
             (\<lambda>r. returnE (rowToGatewayProto r)))"

definition DeleteGateway :: "string \<Rightarrow> unit dbm" where
  "DeleteGateway i =
     (if i = [] then failE (StatusErr InvalidArgument ''id is required'')
      else bindE (map_err (internal_error ''delete gateway'')
             (update_gateways [] (\<lambda>r. gw_ID r = i \<and> gw_Status r \<noteq> ''Deleted'')
                (\<lambda>now r. r\<lparr>gw_Status := ''Deleted'', gw_UpdatedAt := now\<rparr>)))
             (\<lambda>n. if n = 0 then failE (StatusErr NotFound ''gateway not found'') else returnE ()))"

lemma keep_gateway_mgmt [keeps]:
  "keep db_wf (CreateGateway req)" "keep db_wf (GetGateway i)" "keep db_wf (ListGateways rg p)"
  "keep db_wf (UpdateGateway ur)" "keep db_wf (DeleteGateway i)"
  unfolding CreateGateway_def GetGateway_def getGatewayRow_def ListGateways_def UpdateGateway_def DeleteGateway_def Let_def
  by (intro keeps keep_update_gateways | simp add: updated_gateway_def)+

section \<open>Creation\<close>

lemma create_without_labels:
  assumes "quiet d" "cg_Name req \<noteq> []" "cg_Labels req = None"
  shows "\<exists>m d1. CreateGateway req d = (Inl (StatusErr Internal m), d1) \<and> tabs d1 = tabs d"
proof -
  have "\<not> is_unique_violation (PgError (PgNotNull ''gateways'' ''labels''))"
    by (simp add: is_unique_violation_def str)
  with assms show ?thesis
    by (simp add: CreateGateway_def run_defs insert_gateway_def sql_quiet Let_def guarded_def marshalLabels_def
        check_jsonb_def create_gateway_error_def internal_error_def)
qed

text \<open>Creating a gateway. A name that no gateway has, not even a deleted one, and labels (possibly
  empty) give one new Active gateway, answered with its labels; a name in use gives ALREADY_EXISTS; and
  a request without labels always fails and stores nothing, whatever else it says: the missing labels
  are sent as SQL NULL to a column that refuses it.\<close>

lemma create_gateway_outcome:
  assumes "quiet d" "fresh_supply d" "cg_Name req \<noteq> []"
  shows "case CreateGateway req d of
      (Inl e, d1) \<Rightarrow> tabs d1 = tabs d \<and>
        (if cg_Labels req = None then \<exists>m. e = StatusErr Internal m
         else cg_Name req \<in> gw_Name ` set (gateways (tabs d)) \<and> (\<exists>m. e = StatusErr AlreadyExists m))
    | (Inr msg, d1) \<Rightarrow> cg_Labels req \<noteq> None \<and> cg_Name req \<notin> gw_Name ` set (gateways (tabs d))
        \<and> gg_Name msg = cg_Name req \<and> gg_Region msg = cg_Region req \<and> gg_Endpoint msg = cg_Endpoint req
        \<and> gg_Status msg = ''Active'' \<and> Some (gg_Labels msg) = cg_Labels req
        \<and> (\<exists>r. msg = rowToGatewayProto r \<and> tabs d1 = (tabs d)\<lparr>gateways := gateways (tabs d) @ [r]\<rparr>)"
proof -
  let ?r = "\<lparr>gw_ID = uuid_gen d (stmt_no d) 0, gw_Name = cg_Name req, gw_Region = cg_Region req,
      gw_Labels = marshalLabels (cg_Labels req), gw_Status = ''Active'', gw_Endpoint = cg_Endpoint req,
      gw_CreatedAt = clock d, gw_UpdatedAt = clock d\<rparr>"
  have new: "uuid_gen d (stmt_no d) 0 \<notin> gw_ID ` set (gateways (tabs d))"
    using fresh_notin [OF assms(2) order_refl, of 0] by (simp add: all_ids_def)
  show ?thesis
  proof (cases "cg_Labels req")
    case None
    with create_without_labels [OF assms(1,3)] show ?thesis by auto
  next
    case (Some l)
    have lab: "\<exists>j. marshalLabels (Some l) = Raw_JSON j" "labels_of (marshalLabels (Some l)) = l"
      by (auto simp: marshalLabels_def empty_object_def labels_of_smap)
        (simp add: labels_of_def raw_empty_def unmarshal_raw_def unmarshal_smap_def)
    show ?thesis
    proof (cases "cg_Name req \<in> gw_Name ` set (gateways (tabs d))")
      case True
      with Some lab new assms show ?thesis
        by (auto simp: CreateGateway_def run_defs insert_gateway_def sql_quiet Let_def guarded_def check_unique_def
            check_jsonb_def create_gateway_error_def unique_violation_recognised)
    next
      case False
      with Some lab(1) new assms have run: "CreateGateway req d = (Inr (rowToGatewayProto ?r),
          d\<lparr>stmt_no := Suc (stmt_no d), tabs := (tabs d)\<lparr>gateways := gateways (tabs d) @ [?r]\<rparr>\<rparr>)"
        by (auto simp: CreateGateway_def run_defs insert_gateway_def sql_quiet Let_def guarded_def check_unique_def
            check_jsonb_def)
      show ?thesis
        unfolding run prod.case sum.case using False Some lab(2)
        by (intro conjI exI [of _ ?r]) (simp_all add: rowToGatewayProto_def)
    qed
  qed
qed

lemma create_gateway_example:
  "\<exists>m d1. CreateGateway \<lparr>cg_Name = ''gw'', cg_Region = ''eu'', cg_Labels = None, cg_Endpoint = ''h:1''\<rparr>
     (session_at empty_tables 9) = (Inl (StatusErr Internal m), d1) \<and> tabs d1 = empty_tables"
proof -
  have "fresh_supply (session_at empty_tables 9)" by (simp add: session_at_fresh all_ids_def empty_tables_def)
  with create_gateway_outcome [of "session_at empty_tables 9"
      "\<lparr>cg_Name = ''gw'', cg_Region = ''eu'', cg_Labels = None, cg_Endpoint = ''h:1''\<rparr>"]
  show ?thesis by (auto split: prod.splits sum.splits)
qed

section \<open>Update and deletion\<close>

lemma update_gateways_quiet:
  "quiet d \<Longrightarrow> update_gateways [] p f d =
     (Inr (count_where p (gateways (tabs d))), d\<lparr>stmt_no := Suc (stmt_no d),
        tabs := (tabs d)\<lparr>gateways := update_where p (f (clock d)) (gateways (tabs d))\<rparr>\<rparr>)"
  by (simp add: update_gateways_def sql_quiet guarded_def)

lemma gateway_row_find:
  "db_wf t \<Longrightarrow> r \<in> set (gateways t) \<Longrightarrow> find (\<lambda>x. gw_ID x = gw_ID r) (gateways t) = Some r"
  by (auto simp: db_wf_def gateways_wf_def intro: find_key_unique)

text \<open>Updating and deleting a gateway. An update replaces exactly the attributes the request gives
  (labels when present, even empty; endpoint and region when not empty) and no other row. A deletion
  only sets the status: the row stays, is still found by its id with the status Deleted, still takes
  updates and keeps its name; deleting it again is NOT_FOUND.\<close>

lemma gateway_update_delete:
  assumes "quiet d" "db_wf (tabs d)" "r \<in> set (gateways (tabs d))" "gw_ID r \<noteq> []" "ug_Id req = gw_ID r"
  shows "(\<exists>d1. UpdateGateway req d = (Inr (rowToGatewayProto (updated_gateway req (clock d) r)), d1)
        \<and> tabs d1 = (tabs d)\<lparr>gateways := update_where (\<lambda>x. gw_ID x = gw_ID r) (updated_gateway req (clock d)) (gateways (tabs d))\<rparr>)
    \<and> (\<exists>e d1. DeleteGateway (gw_ID r) d = ((if gw_Status r = ''Deleted'' then Inl (StatusErr NotFound e) else Inr ()), d1)
        \<and> db_wf (tabs d1) \<and> map gw_Name (gateways (tabs d1)) = map gw_Name (gateways (tabs d))
        \<and> (\<exists>msg. fst (GetGateway (gw_ID r) d1) = Inr msg \<and> gg_Status msg = ''Deleted'' \<and> gg_Name msg = gw_Name r)
        \<and> (\<exists>e2. fst (DeleteGateway (gw_ID r) d1) = Inl (StatusErr NotFound e2)))"
proof (rule conjI)
  have f: "find (\<lambda>x. gw_ID x = gw_ID r) (gateways (tabs d)) = Some r"
    using assms(2,3) by (rule gateway_row_find)
  have "find (\<lambda>x. gw_ID x = gw_ID r) (update_where (\<lambda>x. gw_ID x = gw_ID r) (updated_gateway req (clock d)) (gateways (tabs d))) =
      Some (updated_gateway req (clock d) r)"
    using f by (intro find_update_key) (simp_all add: updated_gateway_def)
  with assms show "\<exists>d1. UpdateGateway req d = (Inr (rowToGatewayProto (updated_gateway req (clock d) r)), d1)
        \<and> tabs d1 = (tabs d)\<lparr>gateways := update_where (\<lambda>x. gw_ID x = gw_ID r) (updated_gateway req (clock d)) (gateways (tabs d))\<rparr>"
    by (simp add: UpdateGateway_def run_defs update_gateways_quiet)
  let ?p = "\<lambda>x. gw_ID x = gw_ID r \<and> gw_Status x \<noteq> ''Deleted''"
  let ?f = "\<lambda>x. x\<lparr>gw_Status := ''Deleted'', gw_UpdatedAt := clock d\<rparr>"
  let ?t = "(tabs d)\<lparr>gateways := update_where ?p ?f (gateways (tabs d))\<rparr>"
  let ?d1 = "d\<lparr>stmt_no := Suc (stmt_no d), tabs := ?t\<rparr>"
  have same: "x = r" if "x \<in> set (gateways (tabs d))" "gw_ID x = gw_ID r" for x
    using that assms(2,3) by (auto simp: db_wf_def gateways_wf_def distinct_map inj_on_def)
  then have cnt: "count_where ?p (gateways (tabs d)) = 0 \<longleftrightarrow> gw_Status r = ''Deleted''"
    using assms(3) by (auto simp: count_where_0_iff)
  have none: "count_where ?p (gateways ?t) = 0"
    by (auto simp: count_where_0_iff set_update_where)
  have g: "find (\<lambda>x. gw_ID x = gw_ID r) (gateways ?t) = Some (if ?p r then ?f r else r)"
    using f by (simp add: find_update_where)
  have wf: "db_wf ?t"
    using assms(2) by (simp add: db_wf_def gateways_wf_def table_ids map_update_where image_update_where)
  have del: "DeleteGateway (gw_ID r) d = ((if gw_Status r = ''Deleted'' then Inl (StatusErr NotFound ''gateway not found'') else Inr ()), ?d1)"
    using assms(1,4) cnt by (simp add: DeleteGateway_def run_defs update_gateways_quiet)
  have get: "fst (GetGateway (gw_ID r) ?d1) = Inr (rowToGatewayProto (if ?p r then ?f r else r))"
    using assms(1,4) g by (simp add: GetGateway_def getGatewayRow_def run_defs sql_row_quiet)
  have again: "fst (DeleteGateway (gw_ID r) ?d1) = Inl (StatusErr NotFound ''gateway not found'')"
    using assms(1,4) none by (simp add: DeleteGateway_def run_defs update_gateways_quiet)
  have names: "map gw_Name (gateways ?t) = map gw_Name (gateways (tabs d))" by (simp add: map_update_where)
  show "\<exists>e d1. DeleteGateway (gw_ID r) d = ((if gw_Status r = ''Deleted'' then Inl (StatusErr NotFound e) else Inr ()), d1)
        \<and> db_wf (tabs d1) \<and> map gw_Name (gateways (tabs d1)) = map gw_Name (gateways (tabs d))
        \<and> (\<exists>msg. fst (GetGateway (gw_ID r) d1) = Inr msg \<and> gg_Status msg = ''Deleted'' \<and> gg_Name msg = gw_Name r)
        \<and> (\<exists>e2. fst (DeleteGateway (gw_ID r) d1) = Inl (StatusErr NotFound e2))"
    using del get again wf names
    by (intro exI [of _ "''gateway not found''"] exI [of _ ?d1]) (auto simp: rowToGatewayProto_def)
qed

lemma gateway_update_delete_witness:
  "\<exists>d1. UpdateGateway \<lparr>ug_Id = ''g1'', ug_Labels = None, ug_Endpoint = [], ug_Region = ''us''\<rparr>
       (session_at (empty_tables\<lparr>gateways := [example_gateway]\<rparr>) 9) =
     (Inr (rowToGatewayProto (example_gateway\<lparr>gw_Region := ''us'', gw_UpdatedAt := 9\<rparr>)), d1)"
proof -
  let ?t = "empty_tables\<lparr>gateways := [example_gateway]\<rparr>"
  let ?req = "\<lparr>ug_Id = ''g1'', ug_Labels = None, ug_Endpoint = [], ug_Region = ''us''\<rparr>"
  have "db_wf ?t" "gw_ID example_gateway = ''g1''"
    by (simp_all add: db_wf_def table_wf_defs table_ids empty_tables_def example_gateway_def)
  moreover have "updated_gateway ?req 9 example_gateway = example_gateway\<lparr>gw_Region := ''us'', gw_UpdatedAt := 9\<rparr>"
    by (simp add: updated_gateway_def nonempty_or_def marshalLabels_def example_gateway_def)
  ultimately show ?thesis
    using gateway_update_delete [of "session_at ?t 9" example_gateway ?req] by (simp add: ex_simps) blast
qed

section \<open>Listing\<close>

lemma gateway_paging_serve:
  assumes "quiet d" "0 < n" "0 \<le> page_offset_of (Some \<lparr>pg_PageSize = n, pg_PageToken = tok\<rparr>)"
  shows "\<exists>d'. ListGateways g (Some \<lparr>pg_PageSize = n, pg_PageToken = tok\<rparr>) d =
    (Inr (take (nat n) (drop (nat (page_offset_of (Some \<lparr>pg_PageSize = n, pg_PageToken = tok\<rparr>)))
            (map rowToGatewayProto (gateway_listing g (tabs d)))),
          page_response (page_offset_of (Some \<lparr>pg_PageSize = n, pg_PageToken = tok\<rparr>)) n
            (int (length (map rowToGatewayProto (gateway_listing g (tabs d)))))), d')
    \<and> quiet d' \<and> tabs d' = tabs d"
  using assms by (simp add: ListGateways_def run_defs Let_def sql_read_quiet sql_read_or_quiet limit_offset_ok
      page_size_pos take_map drop_map gateway_listing_def count_where_def)

interpretation gateway_paging: paged_listing "ListGateways g" "\<lambda>t. map rowToGatewayProto (gateway_listing g t)"
  "\<lambda>t. True" "2 ^ 31 - 1" for g :: string
  by unfold_locales (rule gateway_paging_serve)

end
