(* ===== verification/Self_Register.thy ===== *)
theory Self_Register
  imports Gateway_Mgmt Onboarding_Api
begin

text \<open>
  A gateway registering itself with the control plane (\<open>internal/gateway/self_register.go\<close>) and the
  onboarding requests it forwards (\<open>internal/gateway/proxy.go\<close>). The gRPC client is a pair of functions
  on some state of the remote side; its contract is the locale \<open>gateway_registry\<close>, which the gateway
  management service fulfils.
\<close>

section \<open>Registration\<close>

record SelfRegisterConfig =
  sc_GatewayID :: string
  sc_Region :: string
  sc_Endpoint :: string
  sc_Name :: string
  sc_Labels :: smap

record SelfRegisterResult =
  sres_GatewayID :: string
  sres_Name :: string
  sres_AlreadyExisted :: bool

type_synonym 's create_fn = "CreateGatewayRequest \<Rightarrow> 's \<Rightarrow> (go_err + GatewayMsg) \<times> 's"
type_synonym 's list_fn = "PageRequest option \<Rightarrow> 's \<Rightarrow> (go_err + GatewayMsg list \<times> PageResponse) \<times> 's"

definition findGatewayByName :: "'s list_fn \<Rightarrow> string \<Rightarrow> 's \<Rightarrow> (go_err + GatewayMsg) \<times> 's" where
  "findGatewayByName lst name s =
     (case lst (Some \<lparr>pg_PageSize = 1000, pg_PageToken = []\<rparr>) s of
        (Inl e, s1) \<Rightarrow> (Inl (wrap ''list gateways'' e), s1)
      | (Inr (gws, _), s1) \<Rightarrow>
          (case find (\<lambda>g. gg_Name g = name) gws of
             Some g \<Rightarrow> (Inr g, s1)
           | None \<Rightarrow> (Inl (StatusErr NotFound (''gateway '' @ quote name @ '' not found'')), s1)))"

text \<open>\<open>status.Code(err) == c\<close> for a code other than Unknown, which an error without status has.\<close>

definition has_code :: "code \<Rightarrow> go_err \<Rightarrow> bool" where
  "has_code c e = (case status_from_error e of Some (c', m) \<Rightarrow> c' = c | None \<Rightarrow> False)"

definition register_name :: "SelfRegisterConfig \<Rightarrow> string" where
  "register_name cfg = (if sc_Name cfg = [] then sc_GatewayID cfg else sc_Name cfg)"

definition register_request :: "SelfRegisterConfig \<Rightarrow> CreateGatewayRequest" where
  "register_request cfg =
     \<lparr>cg_Name = register_name cfg, cg_Region = sc_Region cfg,
      cg_Labels = (if sc_Labels cfg \<noteq> [] then Some (sc_Labels cfg) else None), cg_Endpoint = sc_Endpoint cfg\<rparr>"

definition SelfRegister ::
  "'s create_fn \<Rightarrow> 's list_fn \<Rightarrow> SelfRegisterConfig \<Rightarrow> 's \<Rightarrow> (go_err + SelfRegisterResult) \<times> 's" where
  "SelfRegister create lst cfg s =
     (if sc_GatewayID cfg = [] then (Inl (GoErr ''gateway self-register: gateway_id is required''), s)
      else
        let name = register_name cfg in
        (case create (register_request cfg) s of
           (Inr gw, s1) \<Rightarrow> (Inr \<lparr>sres_GatewayID = gg_Id gw, sres_Name = gg_Name gw, sres_AlreadyExisted = False\<rparr>, s1)
         | (Inl e, s1) \<Rightarrow>
             if \<not> has_code AlreadyExists e then (Inl (wrap (''gateway self-register '' @ quote name) e), s1)
             else
               (case findGatewayByName lst name s1 of
                  (Inl e2, s2) \<Rightarrow>
                    (Inl (wrap (''gateway self-register '' @ quote name @ '' already exists but lookup failed'') e2), s2)
                | (Inr gw, s2) \<Rightarrow>
                    (Inr \<lparr>sres_GatewayID = gg_Id gw, sres_Name = gg_Name gw, sres_AlreadyExisted = True\<rparr>, s2))))"

text \<open>The text of the offending character is that of \<open>%q\<close> for a printable one.\<close>

definition name_char :: "char \<Rightarrow> bool" where
  "name_char c = (c \<in> set lower_letters \<or> c \<in> set upper_letters \<or> c \<in> set decimal_digits \<or> c \<in> set ''-_.'')"

definition ValidateSelfRegisterName :: "string \<Rightarrow> go_err option" where
  "ValidateSelfRegisterName name0 =
     (let name = trim_space name0 in
      if name = [] then Some (GoErr ''name is empty'')
      else if length name > 63 then Some (GoErr ''name exceeds 63 characters'')
      else (case find (\<lambda>c. \<not> name_char c) name of
              Some c \<Rightarrow> Some (GoErr (''name '' @ quote name @ '' contains invalid character '' @ [CHR 0x27, c, CHR 0x27]))
            | None \<Rightarrow> None))"

section \<open>The contract of the registry\<close>

locale gateway_registry =
  fixes create :: "'s create_fn" and lst :: "'s list_fn" and known :: "'s \<Rightarrow> GatewayMsg list" and ready :: "'s \<Rightarrow> bool"
  assumes create_new: "ready s \<Longrightarrow> cg_Name req \<noteq> [] \<Longrightarrow> cg_Labels req \<noteq> None \<Longrightarrow> cg_Name req \<notin> gg_Name ` set (known s) \<Longrightarrow>
      \<exists>g s1. create req s = (Inr g, s1) \<and> gg_Name g = cg_Name req \<and> ready s1 \<and> set (known s1) = insert g (set (known s))
        \<and> length (known s1) = Suc (length (known s))"
    and create_taken: "ready s \<Longrightarrow> cg_Labels req \<noteq> None \<Longrightarrow> cg_Name req \<noteq> [] \<Longrightarrow> cg_Name req \<in> gg_Name ` set (known s) \<Longrightarrow>
      \<exists>m s1. create req s = (Inl (StatusErr AlreadyExists m), s1) \<and> ready s1 \<and> known s1 = known s"
    and list_first: "ready s \<Longrightarrow>
      \<exists>p s1. lst (Some \<lparr>pg_PageSize = 1000, pg_PageToken = []\<rparr>) s = (Inr (take 1000 (known s), p), s1)
        \<and> ready s1 \<and> known s1 = known s"
    and names_unique: "ready s \<Longrightarrow> distinct (map gg_Name (known s))"
begin

lemma register_known:
  assumes "ready s" "sc_GatewayID cfg \<noteq> []" "sc_Labels cfg \<noteq> []" "g \<in> set (known s)" "gg_Name g = register_name cfg"
    and "length (known s) \<le> 1000"
  shows "\<exists>s1. SelfRegister create lst cfg s =
      (Inr \<lparr>sres_GatewayID = gg_Id g, sres_Name = gg_Name g, sres_AlreadyExisted = True\<rparr>, s1)
    \<and> ready s1 \<and> known s1 = known s"
proof -
  have nm: "register_name cfg \<noteq> []" using assms(2) by (simp add: register_name_def)
  have "cg_Name (register_request cfg) \<in> gg_Name ` set (known s)"
    using assms(4,5) by (auto simp: register_request_def rev_image_eqI)
  then obtain m s1 where c: "create (register_request cfg) s = (Inl (StatusErr AlreadyExists m), s1)" "ready s1" "known s1 = known s"
    using create_taken [OF assms(1), of "register_request cfg"] assms(3) nm by (auto simp: register_request_def)
  obtain p s2 where l: "lst (Some \<lparr>pg_PageSize = 1000, pg_PageToken = []\<rparr>) s1 = (Inr (known s, p), s2)"
      "ready s2" "known s2 = known s"
    using list_first [OF c(2)] assms(6) c(3) by auto
  have "find (\<lambda>x. gg_Name x = gg_Name g) (known s) = Some g"
    using names_unique [OF assms(1)] assms(4) by (rule find_key_unique)
  with c l assms(2,5) show ?thesis
    by (simp add: SelfRegister_def Let_def has_code_def status_from_error_def findGatewayByName_def)
qed

lemma register_idempotent:
  assumes "ready s" "sc_GatewayID cfg \<noteq> []" "sc_Labels cfg \<noteq> []" "length (known s) < 1000"
  shows "\<exists>r s1 s2. SelfRegister create lst cfg s = (Inr r, s1)
    \<and> sres_AlreadyExisted r = (register_name cfg \<in> gg_Name ` set (known s))
    \<and> (\<exists>g \<in> set (known s1). gg_Name g = register_name cfg \<and> gg_Id g = sres_GatewayID r)
    \<and> SelfRegister create lst cfg s1 = (Inr (r\<lparr>sres_AlreadyExisted := True\<rparr>), s2) \<and> known s2 = known s1"
proof (cases "register_name cfg \<in> gg_Name ` set (known s)")
  case True
  then obtain g where g: "g \<in> set (known s)" "gg_Name g = register_name cfg" by auto
  from register_known [OF assms(1-3) g] assms(4) obtain s1 where s1: "SelfRegister create lst cfg s =
      (Inr \<lparr>sres_GatewayID = gg_Id g, sres_Name = gg_Name g, sres_AlreadyExisted = True\<rparr>, s1)" "ready s1" "known s1 = known s"
    by auto
  from register_known [OF s1(2) assms(2,3), of g] g s1(3) assms(4) obtain s2 where "SelfRegister create lst cfg s1 =
      (Inr \<lparr>sres_GatewayID = gg_Id g, sres_Name = gg_Name g, sres_AlreadyExisted = True\<rparr>, s2)" "known s2 = known s1"
    by auto
  with s1 g True show ?thesis
    by (intro exI [of _ "\<lparr>sres_GatewayID = gg_Id g, sres_Name = gg_Name g, sres_AlreadyExisted = True\<rparr>"] exI [of _ s1] exI [of _ s2]) auto
next
  case False
  have nm: "register_name cfg \<noteq> []" using assms(2) by (simp add: register_name_def)
  from False create_new [OF assms(1), of "register_request cfg"] assms(3) nm obtain g s1 where
    c: "create (register_request cfg) s = (Inr g, s1)" "gg_Name g = register_name cfg" "ready s1"
      "set (known s1) = insert g (set (known s))" "length (known s1) = Suc (length (known s))"
    by (auto simp: register_request_def)
  have run: "SelfRegister create lst cfg s = (Inr \<lparr>sres_GatewayID = gg_Id g, sres_Name = gg_Name g, sres_AlreadyExisted = False\<rparr>, s1)"
    using assms(2) c(1) by (simp add: SelfRegister_def Let_def)
  from register_known [OF c(3) assms(2,3), of g] c(2,4,5) assms(4) obtain s2 where "SelfRegister create lst cfg s1 =
      (Inr \<lparr>sres_GatewayID = gg_Id g, sres_Name = gg_Name g, sres_AlreadyExisted = True\<rparr>, s2)" "known s2 = known s1"
    by auto
  with run c False show ?thesis
    by (intro exI [of _ "\<lparr>sres_GatewayID = gg_Id g, sres_Name = gg_Name g, sres_AlreadyExisted = False\<rparr>"] exI [of _ s1] exI [of _ s2]) auto
qed

end

section \<open>The gateway service as registry\<close>

definition registry_ready :: "session \<Rightarrow> bool" where
  "registry_ready d = (quiet d \<and> idle d \<and> db_wf (tabs d) \<and> fresh_supply d)"

definition registry_known :: "session \<Rightarrow> GatewayMsg list" where
  "registry_known d = map rowToGatewayProto (gateway_listing [] (tabs d))"

lemma gateway_listing_all: "set (gateway_listing [] t) = set (gateways t)" "length (gateway_listing [] t) = length (gateways t)"
  by (simp_all add: gateway_listing_def gateway_where_def)

lemma known_names: "gg_Name ` set (registry_known d) = gw_Name ` set (gateways (tabs d))"
  by (simp add: registry_known_def gateway_listing_all image_image rowToGatewayProto_def)

lemma marshalled_labels: "l \<noteq> None \<Longrightarrow> \<exists>j. marshalLabels l = Raw_JSON j"
  by (auto simp: marshalLabels_def empty_object_def)

lemma fresh_supply_mono:
  assumes "fresh_supply d" "uuid_gen d1 = uuid_gen d" "stmt_no d < stmt_no d1"
    and "set (all_ids (tabs d1)) \<subseteq> insert (uuid_gen d (stmt_no d) 0) (set (all_ids (tabs d)))"
  shows "fresh_supply d1"
  unfolding fresh_supply_def
proof (intro conjI allI impI)
  fix n k
  assume n: "stmt_no d1 \<le> n"
  then have "uuid_gen d n k \<noteq> uuid_gen d (stmt_no d) 0" using assms(1,3) by (simp add: fresh_inj)
  with fresh_notin [OF assms(1), of n k] n assms(2-4) show "uuid_gen d1 n k \<notin> set (all_ids (tabs d1))" by auto
qed (use assms(1,2) in \<open>simp_all add: fresh_inj\<close>)

lemma registry_create_new:
  assumes "registry_ready d" "cg_Name req \<noteq> []" "cg_Labels req \<noteq> None" "cg_Name req \<notin> gg_Name ` set (registry_known d)"
  shows "\<exists>g d1. CreateGateway req d = (Inr g, d1) \<and> gg_Name g = cg_Name req \<and> registry_ready d1
    \<and> set (registry_known d1) = insert g (set (registry_known d)) \<and> length (registry_known d1) = Suc (length (registry_known d))"
proof -
  let ?r = "\<lparr>gw_ID = uuid_gen d (stmt_no d) 0, gw_Name = cg_Name req, gw_Region = cg_Region req,
      gw_Labels = marshalLabels (cg_Labels req), gw_Status = ''Active'', gw_Endpoint = cg_Endpoint req,
      gw_CreatedAt = clock d, gw_UpdatedAt = clock d\<rparr>"
  let ?d1 = "d\<lparr>stmt_no := Suc (stmt_no d), tabs := (tabs d)\<lparr>gateways := gateways (tabs d) @ [?r]\<rparr>\<rparr>"
  have d: "quiet d" "idle d" "db_wf (tabs d)" "fresh_supply d" using assms(1) by (auto simp: registry_ready_def)
  have new: "uuid_gen d (stmt_no d) 0 \<notin> gw_ID ` set (gateways (tabs d))"
    using fresh_notin [OF d(4) order_refl, of 0] by (simp add: all_ids_def)
  obtain j where j: "marshalLabels (cg_Labels req) = Raw_JSON j" using marshalled_labels [OF assms(3)] by blast
  have run: "CreateGateway req d = (Inr (rowToGatewayProto ?r), ?d1)"
    using d(1) new assms(2,4) j unfolding known_names
    by (simp add: CreateGateway_def run_defs insert_gateway_def sql_quiet Let_def guarded_def check_unique_def check_jsonb_def)
  have "db_wf (tabs ?d1)" using keepD [OF keep_gateway_mgmt(1) d(3) run] .
  moreover have "fresh_supply ?d1"
    by (rule fresh_supply_mono [OF d(4)]) (auto simp: all_ids_def)
  moreover have "quiet ?d1" "idle ?d1" using d(1,2) by (simp_all add: quiet_def idle_def)
  ultimately have "registry_ready ?d1" by (simp add: registry_ready_def)
  with run show ?thesis
    by (intro exI [of _ "rowToGatewayProto ?r"] exI [of _ ?d1])
      (simp add: registry_known_def gateway_listing_all, simp add: rowToGatewayProto_def)
qed

lemma registry_create_taken:
  assumes "registry_ready d" "cg_Labels req \<noteq> None" "cg_Name req \<noteq> []" "cg_Name req \<in> gg_Name ` set (registry_known d)"
  shows "\<exists>m d1. CreateGateway req d = (Inl (StatusErr AlreadyExists m), d1) \<and> registry_ready d1
    \<and> registry_known d1 = registry_known d"
proof -
  have d: "quiet d" "idle d" "db_wf (tabs d)" "fresh_supply d" using assms(1) by (auto simp: registry_ready_def)
  have new: "uuid_gen d (stmt_no d) 0 \<notin> gw_ID ` set (gateways (tabs d))"
    using fresh_notin [OF d(4) order_refl, of 0] by (simp add: all_ids_def)
  let ?d1 = "d\<lparr>stmt_no := Suc (stmt_no d), aborted := in_tx d\<rparr>"
  obtain j where j: "marshalLabels (cg_Labels req) = Raw_JSON j" using marshalled_labels [OF assms(2)] by blast
  obtain m where run: "CreateGateway req d = (Inl (StatusErr AlreadyExists m), ?d1)"
    using d(1) new assms(3,4) j unfolding known_names
    by (simp add: CreateGateway_def run_defs insert_gateway_def sql_quiet Let_def guarded_def check_unique_def
        check_jsonb_def create_gateway_error_def unique_violation_recognised)
  have "fresh_supply ?d1" by (rule fresh_supply_mono [OF d(4)]) auto
  moreover have "quiet ?d1" "idle ?d1" using d(1,2) by (simp_all add: quiet_def idle_def)
  ultimately show ?thesis
    using run d(3) by (intro exI [of _ m] exI [of _ ?d1]) (simp add: registry_ready_def registry_known_def)
qed

lemma registry_list_first:
  assumes "registry_ready d"
  shows "\<exists>p d1. ListGateways [] (Some \<lparr>pg_PageSize = 1000, pg_PageToken = []\<rparr>) d = (Inr (take 1000 (registry_known d), p), d1)
    \<and> registry_ready d1 \<and> registry_known d1 = registry_known d"
proof -
  have d: "quiet d" "idle d" "db_wf (tabs d)" "fresh_supply d" using assms by (auto simp: registry_ready_def)
  let ?d1 = "d\<lparr>stmt_no := Suc (Suc (stmt_no d))\<rparr>"
  have "fresh_supply ?d1" by (rule fresh_supply_mono [OF d(4)]) auto
  moreover have "idle ?d1" using d(2) by (simp add: idle_def)
  ultimately show ?thesis
    using d by (intro exI [of _ "page_response 0 1000 (int (count_where (gateway_where []) (gateways (tabs d))))"] exI [of _ ?d1])
      (simp add: ListGateways_def run_defs Let_def sql_read_quiet sql_read_or_quiet limit_offset_ok page_size_pos
        page_offset_empty registry_ready_def registry_known_def take_map)
qed

interpretation registry: gateway_registry CreateGateway "ListGateways []" registry_known registry_ready
proof
  fix s :: session and req :: CreateGatewayRequest
  show "registry_ready s \<Longrightarrow> distinct (map gg_Name (registry_known s))"
    by (simp add: registry_ready_def registry_known_def rowToGatewayProto_def db_wf_def gateways_wf_def
        gateway_listing_def gateway_where_def comp_def)
qed (auto intro: registry_create_new registry_create_taken registry_list_first)

text \<open>C36: self-registration is idempotent. Against the gateway service, with fewer than 1000 gateways
  registered (the page the lookup reads) and at least one label, a gateway registers under its name or
  finds the row that has the name; registering again, after a restart, gives the same id, says it
  existed, and changes nothing.\<close>

theorem self_register_idempotent:
  assumes "registry_ready d" "sc_GatewayID cfg \<noteq> []" "sc_Labels cfg \<noteq> []" "length (gateways (tabs d)) < 1000"
  shows "\<exists>r d1 d2. SelfRegister CreateGateway (ListGateways []) cfg d = (Inr r, d1)
    \<and> sres_AlreadyExisted r = (register_name cfg \<in> gw_Name ` set (gateways (tabs d)))
    \<and> (\<exists>g \<in> set (registry_known d1). gg_Name g = register_name cfg \<and> gg_Id g = sres_GatewayID r)
    \<and> SelfRegister CreateGateway (ListGateways []) cfg d1 = (Inr (r\<lparr>sres_AlreadyExisted := True\<rparr>), d2)
    \<and> registry_known d2 = registry_known d1"
proof -
  have "length (registry_known d) < 1000" using assms(4) by (simp add: registry_known_def gateway_listing_all)
  from registry.register_idempotent [OF assms(1-3) this] show ?thesis unfolding known_names .
qed

definition example_register :: "smap \<Rightarrow> SelfRegisterConfig" where
  "example_register ls = \<lparr>sc_GatewayID = ''node-1'', sc_Region = [], sc_Endpoint = ''h:1'', sc_Name = [], sc_Labels = ls\<rparr>"

lemma empty_registry: "registry_ready (session_at empty_tables 9)"
proof -
  have "all_ids empty_tables = []" by (simp add: all_ids_def empty_tables_def)
  then show ?thesis by (simp add: registry_ready_def empty_tables_wf session_at_fresh)
qed

theorem self_register_idempotent_witness:
  "\<exists>r d1 d2. SelfRegister CreateGateway (ListGateways []) (example_register [(''k'', ''v'')]) (session_at empty_tables 9) = (Inr r, d1)
     \<and> \<not> sres_AlreadyExisted r
     \<and> SelfRegister CreateGateway (ListGateways []) (example_register [(''k'', ''v'')]) d1 = (Inr (r\<lparr>sres_AlreadyExisted := True\<rparr>), d2)"
proof -
  have "gateways empty_tables = []" by (simp add: empty_tables_def)
  with self_register_idempotent [OF empty_registry, of "example_register [(''k'', ''v'')]"] show ?thesis
    by (simp add: example_register_def) blast
qed

section \<open>Forwarded onboarding\<close>

text \<open>The proxy forwards to the control plane over its own connection, without TLS
  (\<open>insecure.NewCredentials()\<close> in \<open>cmd/gateway-runtime/main.go\<close>): \<open>upstream_peer\<close> is what the control
  plane sees as the peer, whoever called the gateway.\<close>

definition Proxy_Bootstrap :: "string \<Rightarrow> (BootstrapInput \<Rightarrow> BootstrapOutput dbm) \<Rightarrow> BootstrapInput \<Rightarrow> BootstrapOutput dbm" where
  "Proxy_Bootstrap gatewayID upstream req =
     upstream (if bi_GatewayID req = [] then req\<lparr>bi_GatewayID := gatewayID\<rparr> else req)"

definition Proxy_Renew :: "(tls_peer \<Rightarrow> string \<Rightarrow> RenewOutput dbm) \<Rightarrow> tls_peer \<Rightarrow> string \<Rightarrow> RenewOutput dbm" where
  "Proxy_Renew upstream upstream_peer csrPEM = upstream upstream_peer csrPEM"

text \<open>What the proxy changes. A registration sent through a gateway without a gateway id is the same
  registration made for that gateway, and any other is forwarded as it is, so the checks of the control
  plane apply. A renewal sent through a gateway is always refused as unauthenticated and changes
  nothing, because the control plane sees the connection of the gateway, which presents no certificate,
  and not that of the node.\<close>

lemma proxy_composition:
  "Proxy_Bootstrap gw (OnboardingGRPC_Bootstrap cr s) req =
     (if bi_Token req = [] then failE (StatusErr InvalidArgument ''token is required'')
      else if bi_GatewayID req \<noteq> [] then Bootstrap cr s req
      else if gw = [] then failE (StatusErr InvalidArgument ''gateway_id is required'')
      else Bootstrap cr s (req\<lparr>bi_GatewayID := gw\<rparr>))
   \<and> Proxy_Renew (OnboardingGRPC_Renew cr dt s) TLS_Other csrPEM d =
       (Inl (StatusErr Unauthenticated ''node_id not found in mTLS context''), d)"
  by (simp add: Proxy_Bootstrap_def Proxy_Renew_def OnboardingGRPC_Bootstrap_def OnboardingGRPC_Renew_def failE_def)

end
