(* ===== verification/Host.thy ===== *)
theory Host
  imports Error_Monad "HOL-Library.AList" "HOL-Library.Char_ord" "HOL-Library.List_Lexorder"
begin

text \<open>
  The machine a process of the system runs on: its file system, the HTTP servers it asks and the
  programs it starts, with the functions of Go's \<open>os\<close>, \<open>path/filepath\<close>, \<open>io\<close>, \<open>net/http\<close> and
  \<open>os/exec\<close> the sources call. A file holds a content of type \<open>'c\<close>: bytes for artifacts and
  binaries, JSON for the task runner. Permissions and links are not modelled; relative paths start at
  the root. Every call takes the next entry of \<open>os_faults\<close> and fails with its text if there is one; a
  failing write leaves the content the fault names (a partial write), so a theorem that does not
  restrict \<open>os_faults\<close> holds whatever call fails. What servers and programs answer is a function of
  the number of the request: an arbitrary parameter. Operations run at one instant.
\<close>

section \<open>Paths\<close>

type_synonym path = "string list"

fun split_slash :: "string \<Rightarrow> string list" where
  "split_slash [] = [[]]"
| "split_slash (c # cs) =
     (if c = CHR ''/'' then [] # split_slash cs else (c # hd (split_slash cs)) # tl (split_slash cs))"

fun join_slash :: "string list \<Rightarrow> string" where
  "join_slash [] = []"
| "join_slash [p] = p"
| "join_slash (p # ps) = p @ ''/'' @ join_slash ps"

text \<open>The file a path names.\<close>

fun resolve :: "path \<Rightarrow> string list \<Rightarrow> path" where
  "resolve acc [] = rev acc"
| "resolve acc (p # ps) =
     (if p = [] \<or> p = ''.'' then resolve acc ps
      else if p = ''..'' then resolve (tl acc) ps
      else resolve (p # acc) ps)"

definition path_of :: "string \<Rightarrow> path" where
  "path_of s = resolve [] (split_slash s)"

text \<open>\<open>filepath.Clean\<close> and \<open>filepath.Join\<close>; \<open>filepath.Ext\<close> of a file name.\<close>

fun clean_parts :: "bool \<Rightarrow> string list \<Rightarrow> string list \<Rightarrow> string list" where
  "clean_parts rooted acc [] = rev acc"
| "clean_parts rooted acc (p # ps) =
     (if p = [] \<or> p = ''.'' then clean_parts rooted acc ps
      else if p = ''..'' then
        (case acc of
           [] \<Rightarrow> clean_parts rooted (if rooted then [] else [p]) ps
         | a # as \<Rightarrow> clean_parts rooted (if a = ''..'' then p # acc else as) ps)
      else clean_parts rooted (p # acc) ps)"

definition filepath_Clean :: "string \<Rightarrow> string" where
  "filepath_Clean s =
     (let rooted = has_prefix s ''/''; ps = clean_parts rooted [] (split_slash s) in
      if rooted then ''/'' @ join_slash ps else if ps = [] then ''.'' else join_slash ps)"

definition filepath_Join :: "string list \<Rightarrow> string" where
  "filepath_Join elems =
     (let es = filter (\<lambda>e. e \<noteq> []) elems in if es = [] then [] else filepath_Clean (join_slash es))"

definition filepath_Ext :: "string \<Rightarrow> string" where
  "filepath_Ext name =
     (let base = last (split_slash name) in
      if CHR ''.'' \<in> set base then ''.'' @ rev (takeWhile (\<lambda>c. c \<noteq> CHR ''.'') (rev base)) else [])"

definition filepath_Dir :: "string \<Rightarrow> string" where
  "filepath_Dir s = filepath_Clean (rev (dropWhile (\<lambda>c. c \<noteq> CHR ''/'') (rev s)))"

section \<open>The machine\<close>

datatype 'c fnode = File 'c timestamp | Dir timestamp

type_synonym 'c fs = "(path \<times> 'c fnode) list"

datatype 'c os_fault = Fails string | Leaves string 'c

record http_request =
  hq_Method :: string
  hq_URL :: string
  hq_Range :: "int option"
  hq_Form :: "(string \<times> string \<times> string) list"

text \<open>A body ends in an error if reading it does.\<close>

record http_answer =
  ha_Status :: int
  ha_Body :: string
  ha_BodyErr :: "string option"

record 'c host =
  files :: "'c fs"
  host_now :: timestamp
  os_faults :: "'c os_fault option list"
  url_error :: "string \<Rightarrow> string option"
  server :: "nat \<Rightarrow> http_request \<Rightarrow> string + http_answer"
  requests :: "http_request list"
  programs :: "nat \<Rightarrow> string list \<Rightarrow> string + string"
  commands :: "string list list"

type_synonym ('c, 'a) hostm = "('c host, 'a) em"

section \<open>The file tree\<close>

fun is_file :: "'c fnode option \<Rightarrow> bool" where
  "is_file (Some (File c t)) = True"
| "is_file _ = False"

fun is_dir :: "'c fnode option \<Rightarrow> bool" where
  "is_dir (Some (Dir t)) = True"
| "is_dir _ = False"

definition node_at :: "'c fs \<Rightarrow> path \<Rightarrow> 'c fnode option" where
  "node_at t p = (if p = [] then Some (Dir 0) else map_of t p)"

definition missing :: "'c fs \<Rightarrow> path \<Rightarrow> os_errno" where
  "missing t p = (if list_ex (\<lambda>k. is_file (node_at t (take k p))) [0..<length p] then ENOTDIR else ENOENT)"

definition touch :: "timestamp \<Rightarrow> path \<Rightarrow> 'c fs \<Rightarrow> 'c fs" where
  "touch now p t = (if p \<noteq> [] \<and> is_dir (node_at t p) then AList.update p (Dir now) t else t)"

definition put_node :: "timestamp \<Rightarrow> path \<Rightarrow> 'c fnode \<Rightarrow> 'c fs \<Rightarrow> 'c fs" where
  "put_node now p n t =
     (if node_at t p = None then touch now (butlast p) (AList.update p n t) else AList.update p n t)"

definition cut_node :: "timestamp \<Rightarrow> path \<Rightarrow> 'c fs \<Rightarrow> 'c fs" where
  "cut_node now p t = touch now (butlast p) (AList.delete p t)"

definition below :: "path \<Rightarrow> path \<Rightarrow> bool" where
  "below p q = (take (length p) q = p)"

definition children :: "'c fs \<Rightarrow> path \<Rightarrow> (string \<times> 'c fnode) list" where
  "children t p =
     sort_key fst (map (\<lambda>(q, n). (last q, n)) (filter (\<lambda>(q, n). q \<noteq> [] \<and> butlast q = p) t))"

fun mkdirs :: "timestamp \<Rightarrow> path \<Rightarrow> string list \<Rightarrow> 'c fs \<Rightarrow> os_errno + 'c fs" where
  "mkdirs now pre [] t = Inr t"
| "mkdirs now pre (x # xs) t =
     (let p = pre @ [x] in
      case node_at t p of
        Some (File c m) \<Rightarrow> Inl ENOTDIR
      | Some (Dir m) \<Rightarrow> mkdirs now p xs t
      | None \<Rightarrow> mkdirs now p xs (put_node now p (Dir now) t))"

text \<open>A file to be written: created, truncated, or as it is.\<close>

definition open_file :: "'c \<Rightarrow> bool \<Rightarrow> timestamp \<Rightarrow> path \<Rightarrow> 'c fs \<Rightarrow> os_errno + 'c fs" where
  "open_file blank trunc now p t =
     (case node_at t (butlast p) of
        None \<Rightarrow> Inl (missing t p)
      | Some (File c m) \<Rightarrow> Inl ENOTDIR
      | Some (Dir m) \<Rightarrow>
          (case node_at t p of
             Some (Dir m) \<Rightarrow> Inl EISDIR
           | Some (File c m) \<Rightarrow> Inr (if trunc then put_node now p (File blank now) t else t)
           | None \<Rightarrow> Inr (put_node now p (File blank now) t)))"

section \<open>Calls of the operating system\<close>

definition os_call ::
  "string \<Rightarrow> ('c \<Rightarrow> 'c fs \<Rightarrow> 'c fs) \<Rightarrow> (timestamp \<Rightarrow> 'c fs \<Rightarrow> os_errno + 'a \<times> 'c fs) \<Rightarrow> ('c, 'a) hostm" where
  "os_call op leave f = (\<lambda>h.
     let h1 = h\<lparr>os_faults := tl (os_faults h)\<rparr> in
     case os_faults h of
       Some (Fails msg) # _ \<Rightarrow> (Inl (OsErr op (OtherErrno msg)), h1)
     | Some (Leaves msg c) # _ \<Rightarrow> (Inl (OsErr op (OtherErrno msg)), h1\<lparr>files := leave c (files h)\<rparr>)
     | _ \<Rightarrow>
         (case f (host_now h) (files h) of
            Inl e \<Rightarrow> (Inl (OsErr op e), h1)
          | Inr (x, t) \<Rightarrow> (Inr x, h1\<lparr>files := t\<rparr>)))"

definition os_read :: "string \<Rightarrow> ('c fs \<Rightarrow> os_errno + 'a) \<Rightarrow> ('c, 'a) hostm" where
  "os_read op q = os_call op (\<lambda>_ t. t) (\<lambda>_ t. case q t of Inl e \<Rightarrow> Inl e | Inr x \<Rightarrow> Inr (x, t))"

definition os_write :: "string \<Rightarrow> ('c \<Rightarrow> 'c fs \<Rightarrow> 'c fs) \<Rightarrow> (timestamp \<Rightarrow> 'c fs \<Rightarrow> os_errno + 'c fs) \<Rightarrow> ('c, unit) hostm" where
  "os_write op leave f = os_call op leave (\<lambda>now t. case f now t of Inl e \<Rightarrow> Inl e | Inr t1 \<Rightarrow> Inr ((), t1))"

definition os_IsNotExist :: "go_err \<Rightarrow> bool" where
  "os_IsNotExist e = (case e of OsErr op n \<Rightarrow> n = ENOENT | _ \<Rightarrow> False)"

definition os_Stat :: "string \<Rightarrow> ('c, 'c fnode) hostm" where
  "os_Stat s = os_read (''stat '' @ s)
     (\<lambda>t. case node_at t (path_of s) of None \<Rightarrow> Inl (missing t (path_of s)) | Some n \<Rightarrow> Inr n)"

definition os_ReadFile :: "string \<Rightarrow> ('c, 'c) hostm" where
  "os_ReadFile s = os_read (''open '' @ s)
     (\<lambda>t. case node_at t (path_of s) of
            None \<Rightarrow> Inl (missing t (path_of s)) | Some (Dir m) \<Rightarrow> Inl EISDIR | Some (File c m) \<Rightarrow> Inr c)"

definition os_ReadDir :: "string \<Rightarrow> ('c, (string \<times> 'c fnode) list) hostm" where
  "os_ReadDir s = os_read (''open '' @ s)
     (\<lambda>t. case node_at t (path_of s) of
            None \<Rightarrow> Inl (missing t (path_of s)) | Some (File c m) \<Rightarrow> Inl ENOTDIR
          | Some (Dir m) \<Rightarrow> Inr (children t (path_of s)))"

definition os_MkdirAll :: "string \<Rightarrow> ('c, unit) hostm" where
  "os_MkdirAll s = os_write (''mkdir '' @ s) (\<lambda>_ t. t) (\<lambda>now. mkdirs now [] (path_of s))"

definition leave_file :: "path \<Rightarrow> 'c \<Rightarrow> 'c fs \<Rightarrow> 'c fs" where
  "leave_file p c t = (if is_dir (node_at t (butlast p)) \<and> \<not> is_dir (node_at t p)
     then AList.update p (File c 0) t else t)"

definition os_WriteFile :: "string \<Rightarrow> 'c \<Rightarrow> ('c, unit) hostm" where
  "os_WriteFile s c = os_write (''open '' @ s) (leave_file (path_of s)) (\<lambda>now. open_file c True now (path_of s))"

definition os_Remove :: "string \<Rightarrow> ('c, unit) hostm" where
  "os_Remove s = os_write (''remove '' @ s) (\<lambda>_ t. t) (\<lambda>now t.
     let p = path_of s in
     case node_at t p of
       None \<Rightarrow> Inl (missing t p)
     | Some (File c m) \<Rightarrow> Inr (cut_node now p t)
     | Some (Dir m) \<Rightarrow> if children t p \<noteq> [] \<or> p = [] then Inl ENOTEMPTY else Inr (cut_node now p t))"

definition os_RemoveAll :: "string \<Rightarrow> ('c, unit) hostm" where
  "os_RemoveAll s = os_write (''unlinkat '' @ s) (\<lambda>_ t. t) (\<lambda>now t.
     let p = path_of s in
     if node_at t p = None then if missing t p = ENOENT then Inr t else Inl (missing t p)
     else Inr (touch now (butlast p) (filter (\<lambda>(q, n). \<not> below p q) t)))"

text \<open>\<open>os.Rename\<close> of a file; the sources rename nothing else, and the model refuses to move a directory.\<close>

definition rename_file :: "timestamp \<Rightarrow> path \<Rightarrow> path \<Rightarrow> 'c fs \<Rightarrow> os_errno + 'c fs" where
  "rename_file now p q t =
     (case node_at t p of
        None \<Rightarrow> Inl (missing t p)
      | Some (Dir m) \<Rightarrow> Inl (OtherErrno ''not supported'')
      | Some (File c m) \<Rightarrow>
          if \<not> is_dir (node_at t (butlast q)) then Inl (missing t q)
          else if is_dir (node_at t q) then Inl EEXIST
          else if p = q then Inr t
          else Inr (touch now (butlast q) (AList.update q (File c m) (cut_node now p t))))"

definition os_Rename :: "string \<Rightarrow> string \<Rightarrow> ('c, unit) hostm" where
  "os_Rename a b = os_write (''rename '' @ a @ '' '' @ b) (\<lambda>_ t. t) (\<lambda>now. rename_file now (path_of a) (path_of b))"

text \<open>A file opened for writing bytes is named by its path until it is closed.\<close>

definition os_OpenFile :: "bool \<Rightarrow> string \<Rightarrow> (string, unit) hostm" where
  "os_OpenFile trunc s = os_write (''open '' @ s) (leave_file (path_of s)) (\<lambda>now. open_file [] trunc now (path_of s))"

definition os_Close :: "string \<Rightarrow> ('c, unit) hostm" where
  "os_Close s = os_read (''close '' @ s) (\<lambda>_. Inr ())"

definition append_bytes :: "timestamp \<Rightarrow> path \<Rightarrow> string \<Rightarrow> string fs \<Rightarrow> os_errno + string fs" where
  "append_bytes now p bs t =
     (case node_at t p of
        Some (File c m) \<Rightarrow> Inr (AList.update p (File (c @ bs) now) t) | _ \<Rightarrow> Inl (missing t p))"

definition io_Copy :: "string \<Rightarrow> http_answer \<Rightarrow> (string, unit) hostm" where
  "io_Copy s ans =
     bindE (os_write (''write '' @ s) (leave_file (path_of s)) (\<lambda>now. append_bytes now (path_of s) (ha_Body ans)))
       (\<lambda>_. case ha_BodyErr ans of None \<Rightarrow> returnE () | Some msg \<Rightarrow> failE (GoErr msg))"

section \<open>HTTP and programs\<close>

definition http_NewRequest :: "string \<Rightarrow> ('c, unit) hostm" where
  "http_NewRequest url = (\<lambda>h. case url_error h url of Some msg \<Rightarrow> (Inl (GoErr msg), h) | None \<Rightarrow> (Inr (), h))"

definition http_Do :: "http_request \<Rightarrow> ('c, http_answer) hostm" where
  "http_Do req = (\<lambda>h.
     let h1 = h\<lparr>requests := requests h @ [req]\<rparr> in
     case server h (length (requests h)) req of Inl msg \<Rightarrow> (Inl (GoErr msg), h1) | Inr ans \<Rightarrow> (Inr ans, h1))"

definition http_get :: "string \<Rightarrow> http_request" where
  "http_get url = \<lparr>hq_Method = ''GET'', hq_URL = url, hq_Range = None, hq_Form = []\<rparr>"

definition exec_Output :: "string list \<Rightarrow> ('c, string) hostm" where
  "exec_Output args = (\<lambda>h.
     let h1 = h\<lparr>commands := commands h @ [args]\<rparr> in
     case programs h (length (commands h)) args of Inl msg \<Rightarrow> (Inl (GoErr msg), h1) | Inr out \<Rightarrow> (Inr out, h1))"

text \<open>An error that is only logged.\<close>

definition ignore_err :: "('c, 'a) hostm \<Rightarrow> ('c, unit) hostm" where
  "ignore_err m = (\<lambda>h. (Inr (), snd (m h)))"

end
