(* ===== verification/Host_Facts.thy ===== *)
theory Host_Facts
  imports Host
begin

text \<open>
  Facts about the machine of \<open>Host\<close>: what \<open>filepath.Join\<close> names, and what the calls of the operating
  system do to the files a client does not name (a frame rule per call) and to the ones it names.
\<close>

section \<open>Paths\<close>

definition plain :: "string \<Rightarrow> bool" where
  "plain x = (CHR ''/'' \<notin> set x \<and> x \<noteq> [] \<and> x \<noteq> ''.'' \<and> x \<noteq> ''..'')"

lemma split_slash_nonempty [simp]: "split_slash s \<noteq> []"
  by (cases s) auto

lemma split_slash_append: "split_slash (s @ CHR ''/'' # t) = split_slash s @ split_slash t"
  by (induction s) auto

lemma split_slash_plain: "CHR ''/'' \<notin> set p \<Longrightarrow> split_slash p = [p]"
  by (induction p) auto

lemma split_slash_parts: "q \<in> set (split_slash s) \<Longrightarrow> CHR ''/'' \<notin> set q"
proof (induction s arbitrary: q)
  case (Cons c s)
  have "hd (split_slash s) \<in> set (split_slash s)" "set (tl (split_slash s)) \<subseteq> set (split_slash s)"
    by (auto intro: list.set_sel)
  with Cons show ?case by (auto split: if_splits)
qed simp

lemma join_slash_Cons: "ps \<noteq> [] \<Longrightarrow> join_slash (p # ps) = p @ ''/'' @ join_slash ps"
  by (cases ps) auto

lemma split_join:
  "ps \<noteq> [] \<Longrightarrow> split_slash (join_slash ps) = concat (map split_slash ps)"
proof (induction ps)
  case (Cons p ps)
  then show ?case by (cases "ps = []") (simp_all add: join_slash_Cons split_slash_append)
qed simp

lemma split_join_plain:
  "ps \<noteq> [] \<Longrightarrow> \<forall>p \<in> set ps. CHR ''/'' \<notin> set p \<Longrightarrow> split_slash (join_slash ps) = ps"
proof -
  assume "ps \<noteq> []" and "\<forall>p \<in> set ps. CHR ''/'' \<notin> set p"
  moreover from this(2) have "concat (map split_slash ps) = ps" by (induction ps) (auto simp: split_slash_plain)
  ultimately show ?thesis by (simp add: split_join)
qed

lemma resolve_append: "resolve acc (xs @ ys) = resolve (rev (resolve acc xs)) ys"
  by (induction acc xs rule: resolve.induct) auto

lemma resolve_dots: "resolve [] (replicate k ''..'' @ ps) = resolve [] ps"
  by (induction k) auto

lemma resolve_normal:
  "\<forall>p \<in> set qs. p \<noteq> [] \<and> p \<noteq> ''.'' \<and> p \<noteq> ''..'' \<Longrightarrow> resolve acc (qs @ ps) = resolve (rev qs @ acc) ps"
  by (induction qs arbitrary: acc) auto

lemma resolve_clean:
  assumes "\<forall>p \<in> set ns. p \<noteq> [] \<and> p \<noteq> ''.'' \<and> p \<noteq> ''..''" "rooted \<longrightarrow> k = 0"
  shows "resolve [] (clean_parts rooted (ns @ replicate k ''..'') ps) = resolve ns ps"
  using assms
proof (induction ps arbitrary: ns k)
  case Nil
  then show ?case
    using resolve_normal [of "rev ns" "[]" "[]"] by (simp add: resolve_dots)
next
  case (Cons p ps)
  show ?case
  proof (cases "p = ''..''")
    case False
    then show ?thesis using Cons.IH [of "p # ns" k] Cons.IH [of ns k] Cons.prems by auto
  next
    case True
    show ?thesis
    proof (cases ns)
      case (Cons a as)
      then show ?thesis using True Cons.IH [of as k] Cons.prems by auto
    next
      case Nil
      show ?thesis
      proof (cases k)
        case 0
        then show ?thesis using Nil True Cons.IH [of "[]" 0] Cons.IH [of "[]" 1] Cons.prems by (cases rooted) auto
      next
        case (Suc n)
        then show ?thesis using Nil True Cons.IH [of "[]" "Suc k"] Cons.prems by auto
      qed
    qed
  qed
qed

lemma clean_parts_subset: "set (clean_parts rooted acc ps) \<subseteq> set acc \<union> set ps"
proof (induction rooted acc ps rule: clean_parts.induct)
  case (2 rooted acc p ps)
  show ?case
  proof (cases "p = [] \<or> p = ''.''")
    case True
    with 2(1) show ?thesis by auto
  next
    case False
    show ?thesis
    proof (cases "p = ''..''")
      case True
      with False 2(2,3) show ?thesis by (cases acc) (auto split: if_splits)
    next
      case no: False
      with False 2(4) show ?thesis by simp
    qed
  qed
qed simp

lemma clean_parts_split: "\<forall>p \<in> set (clean_parts rooted [] (split_slash s)). CHR ''/'' \<notin> set p"
  using clean_parts_subset [of rooted "[]" "split_slash s"] by (auto dest: split_slash_parts)

lemma path_of_Clean: "path_of (filepath_Clean s) = path_of s"
proof -
  obtain r where r: "r = has_prefix s ''/''" by simp
  obtain ps where ps: "ps = clean_parts r [] (split_slash s)" by simp
  have res: "resolve [] ps = path_of s"
    using resolve_clean [of "[]" r 0 "split_slash s"] by (simp add: path_of_def ps)
  have clean: "filepath_Clean s = (if r then ''/'' @ join_slash ps else if ps = [] then ''.'' else join_slash ps)"
    unfolding filepath_Clean_def Let_def r ps ..
  show ?thesis
  proof (cases "ps = []")
    case True
    with res show ?thesis by (simp add: clean path_of_def)
  next
    case False
    then have "split_slash (join_slash ps) = ps" using clean_parts_split by (simp add: split_join_plain ps)
    with res False show ?thesis by (simp add: clean path_of_def)
  qed
qed

lemma resolve_blank_parts: "resolve acc (concat (map split_slash (filter (\<lambda>e. e \<noteq> []) es))) = resolve acc (concat (map split_slash es))"
  by (induction es arbitrary: acc) (auto simp: resolve_append)

lemma path_of_Join: "path_of (filepath_Join es) = resolve [] (concat (map split_slash es))"
proof (cases "filter (\<lambda>e. e \<noteq> []) es = []")
  case True
  then show ?thesis
    using resolve_blank_parts [of "[]" es] by (simp add: filepath_Join_def path_of_def)
next
  case False
  then show ?thesis
    using resolve_blank_parts [of "[]" es] by (simp add: filepath_Join_def Let_def path_of_Clean) (simp add: path_of_def split_join)
qed

lemma path_of_Join2: "plain x \<Longrightarrow> path_of (filepath_Join [d, x]) = path_of d @ [x]"
  by (simp add: path_of_Join split_slash_plain plain_def resolve_append) (simp add: path_of_def)

lemma clean_parts_snoc: "plain x \<Longrightarrow> clean_parts rooted acc (ps @ [x]) = clean_parts rooted acc ps @ [x]"
  by (induction rooted acc ps rule: clean_parts.induct) (auto simp: plain_def split: list.splits)

text \<open>A joined path ends in its last element, so a suffix extends the file name.\<close>

lemma Join2_suffix:
  assumes "plain x"
  shows "\<exists>u. filepath_Join [d, x] = u @ x \<and> (u = [] \<or> (\<exists>v. u = v @ ''/''))"
proof -
  have snoc: "join_slash (qs @ [x]) = (if qs = [] then [] else join_slash qs @ ''/'') @ x" for qs
    by (induction qs rule: join_slash.induct) auto
  have clean: "\<exists>u. filepath_Clean s = u @ x \<and> (u = [] \<or> (\<exists>v. u = v @ ''/''))"
    if "split_slash s = qs @ [x]" for s qs
    using that clean_parts_snoc [OF assms, of "has_prefix s ''/''" "[]" qs] snoc [of "clean_parts (has_prefix s ''/'') [] qs"]
    by (auto simp: filepath_Clean_def Let_def)
  have "x \<noteq> []" "split_slash x = [x]" using assms by (auto simp: plain_def split_slash_plain)
  then show ?thesis
    using clean [of x "[]"] clean [of "d @ ''/'' @ x" "split_slash d"] by (auto simp: filepath_Join_def split_slash_append)
qed

lemma path_of_suffix:
  assumes "plain x" "plain (x @ y)"
  shows "path_of (filepath_Join [d, x] @ y) = path_of d @ [x @ y]"
proof -
  obtain u where u: "filepath_Join [d, x] = u @ x" "u = [] \<or> (\<exists>v. u = v @ ''/'')"
    using Join2_suffix [OF assms(1)] by blast
  have parts: "split_slash x = [x]" "split_slash (x @ y) = [x @ y]"
    using assms by (auto simp: plain_def split_slash_plain)
  have "resolve a [x] = rev a @ [x]" "resolve a [x @ y] = rev a @ [x @ y]" for a
    using assms by (simp_all add: plain_def)
  with u parts path_of_Join2 [OF assms(1), of d] show ?thesis
    by (auto simp: path_of_def split_slash_append resolve_append)
qed

section \<open>The contents of the files\<close>

text \<open>What a file holds; \<open>tree_wf\<close>: no two entries have one path; \<open>whole_writes\<close>: no write is cut short.\<close>

definition content_at :: "'c fs \<Rightarrow> path \<Rightarrow> 'c option" where
  "content_at t p = (case node_at t p of Some (File c m) \<Rightarrow> Some c | _ \<Rightarrow> None)"

definition plain_path :: "path \<Rightarrow> bool" where
  "plain_path p = (\<forall>x \<in> set p. plain x)"

definition tree_wf :: "'c fs \<Rightarrow> bool" where
  "tree_wf t = (distinct (map fst t) \<and> (\<forall>(p, n) \<in> set t. plain_path p))"

definition whole_writes :: "'c host \<Rightarrow> bool" where
  "whole_writes h = (\<forall>m c. Some (Leaves m c) \<notin> set (os_faults h))"

lemma node_at_root [simp]: "node_at t [] = Some (Dir 0)"
  by (simp add: node_at_def)

lemma content_at_root [simp]: "content_at t [] = None"
  by (simp add: content_at_def)

lemma node_at_update: "p \<noteq> [] \<Longrightarrow> node_at (AList.update p n t) q = (if q = p then Some n else node_at t q)"
  by (simp add: node_at_def update_conv')

lemma node_at_delete: "node_at (AList.delete p t) q = (if q = p \<and> p \<noteq> [] then None else node_at t q)"
  by (simp add: node_at_def delete_conv' restrict_map_def)

lemma node_at_touch:
  "node_at (touch now p t) q = (if q = p \<and> p \<noteq> [] \<and> is_dir (node_at t p) then Some (Dir now) else node_at t q)"
  by (auto simp: touch_def node_at_update)

lemma is_dirD: "is_dir n \<Longrightarrow> \<exists>m. n = Some (Dir m)"
  by (cases n rule: is_dir.cases) auto

lemma content_at_touch [simp]: "content_at (touch now p t) = content_at t"
  by (auto simp: fun_eq_iff content_at_def node_at_touch dest!: is_dirD)

lemma content_at_update:
  "p \<noteq> [] \<Longrightarrow> content_at (AList.update p n t) = (content_at t)(p := case n of File c m \<Rightarrow> Some c | Dir m \<Rightarrow> None)"
  by (auto simp: fun_eq_iff content_at_def node_at_update split: fnode.splits)

lemma content_at_put:
  "p \<noteq> [] \<Longrightarrow> content_at (put_node now p n t) =
     (content_at t)(p := case n of File c m \<Rightarrow> Some c | Dir m \<Rightarrow> None)"
  by (simp add: put_node_def content_at_update)

lemma content_at_cut [simp]: "p \<noteq> [] \<Longrightarrow> content_at (cut_node now p t) = (content_at t)(p := None)"
  by (simp add: cut_node_def) (simp add: fun_eq_iff content_at_def node_at_delete)

lemma content_at_mkdirs: "mkdirs now pre xs t = Inr t1 \<Longrightarrow> content_at t1 = content_at t"
proof (induction now pre xs t rule: mkdirs.induct)
  case (2 now pre x xs t)
  then show ?case
    by (auto simp: Let_def content_at_put split: option.splits fnode.splits)
      (simp add: fun_eq_iff content_at_def)
qed simp

lemma content_at_open_file:
  assumes "open_file blank trunc now p t = Inr t1"
  shows "content_at t1 = (content_at t)(p := (if trunc \<or> content_at t p = None then Some blank else content_at t p))"
proof -
  have "p \<noteq> []" using assms by (auto simp: open_file_def)
  with assms show ?thesis
    by (auto simp: open_file_def content_at_put split: option.splits fnode.splits if_splits)
      (auto simp: fun_eq_iff content_at_def)
qed

lemma content_at_rename:
  assumes "rename_file now p q t = Inr t1"
  shows "\<exists>c. content_at t p = Some c \<and> content_at t1 = (content_at t)(p := None, q := Some c)"
proof -
  obtain c m where c: "node_at t p = Some (File c m)" and ok: "is_dir (node_at t (butlast q))" "\<not> is_dir (node_at t q)"
    and t1: "t1 = (if p = q then t else touch now (butlast q) (AList.update q (File c m) (cut_node now p t)))"
    using assms by (auto simp: rename_file_def split: option.splits fnode.splits if_splits)
  have ne: "p \<noteq> []" "q \<noteq> []" using c ok by auto
  show ?thesis
    using c ne by (auto simp: t1 content_at_update) (auto simp: fun_eq_iff content_at_def)
qed

lemma tl_subset: "set (tl xs) \<subseteq> set xs"
  by (cases xs) auto

lemma resolve_subset: "set (resolve acc ps) \<subseteq> set acc \<union> {p \<in> set ps. p \<noteq> [] \<and> p \<noteq> ''.'' \<and> p \<noteq> ''..''}"
proof (induction acc ps rule: resolve.induct)
  case (2 acc p ps)
  show ?case
  proof (cases "p = [] \<or> p = ''.'' \<or> p = ''..''")
    case True
    with 2(1,2) tl_subset [of acc] show ?thesis by (elim disjE) auto
  next
    case False
    with 2(3) show ?thesis by auto
  qed
qed simp

lemma path_of_plain [simp]: "plain_path (path_of s)"
  using resolve_subset [of "[]" "split_slash s"] by (auto simp: plain_path_def path_of_def plain_def dest: split_slash_parts)

lemma plain_path_simps [simp]:
  "plain_path []" "plain_path (p @ q) = (plain_path p \<and> plain_path q)" "plain_path (x # p) = (plain x \<and> plain_path p)"
  by (auto simp: plain_path_def)

lemma plain_path_butlast [simp]: "plain_path p \<Longrightarrow> plain_path (butlast p)"
  by (auto simp: plain_path_def dest: in_set_butlastD)

lemma update_set_subset: "set (AList.update p n t) \<subseteq> insert (p, n) (set t)"
  by (induction t) auto

lemma delete_set_subset: "set (AList.delete p t) \<subseteq> set t"
  by (induction t) auto

lemma tree_wf_update: "tree_wf t \<Longrightarrow> plain_path p \<Longrightarrow> tree_wf (AList.update p n t)"
  using update_set_subset [of p n t] by (fastforce simp: tree_wf_def distinct_update)

lemma tree_wf_delete: "tree_wf t \<Longrightarrow> tree_wf (AList.delete p t)"
  using delete_set_subset [of p t] by (fastforce simp: tree_wf_def distinct_delete)

lemma tree_wf_filter: "tree_wf t \<Longrightarrow> tree_wf (filter f t)"
  by (auto simp: tree_wf_def distinct_map_filter)

lemma tree_wf_touch: "tree_wf t \<Longrightarrow> plain_path p \<Longrightarrow> tree_wf (touch now p t)"
  by (simp add: touch_def tree_wf_update)

lemma tree_wf_put: "tree_wf t \<Longrightarrow> plain_path p \<Longrightarrow> tree_wf (put_node now p n t)"
  by (simp add: put_node_def tree_wf_update tree_wf_touch)

lemma tree_wf_cut: "tree_wf t \<Longrightarrow> plain_path p \<Longrightarrow> tree_wf (cut_node now p t)"
  by (simp add: cut_node_def tree_wf_delete tree_wf_touch)

lemma tree_wf_mkdirs:
  "mkdirs now pre xs t = Inr t1 \<Longrightarrow> tree_wf t \<Longrightarrow> plain_path (pre @ xs) \<Longrightarrow> tree_wf t1"
proof (induction now pre xs t rule: mkdirs.induct)
  case (2 now pre x xs t)
  then show ?case by (auto simp: Let_def tree_wf_put split: option.splits fnode.splits)
qed simp

lemma tree_wf_writes:
  "open_file blank trunc now p t = Inr t1 \<Longrightarrow> tree_wf t \<Longrightarrow> plain_path p \<Longrightarrow> tree_wf t1"
  "rename_file now p q t = Inr t2 \<Longrightarrow> tree_wf t \<Longrightarrow> plain_path (p @ q) \<Longrightarrow> tree_wf t2"
  "append_bytes now p bs b = Inr b1 \<Longrightarrow> tree_wf b \<Longrightarrow> plain_path p \<Longrightarrow> tree_wf b1"
  "tree_wf t \<Longrightarrow> plain_path p \<Longrightarrow> tree_wf (leave_file p c t)"
  by (auto simp: open_file_def rename_file_def append_bytes_def leave_file_def tree_wf_put tree_wf_update
      tree_wf_touch tree_wf_cut split: option.splits fnode.splits if_splits)

section \<open>What a call does to the contents\<close>

text \<open>All a client can see of the rest of the machine stays; faults are used up.\<close>

definition same_world :: "'c host \<Rightarrow> 'c host \<Rightarrow> bool" where
  "same_world h h1 = (host_now h1 = host_now h \<and> url_error h1 = url_error h \<and> server h1 = server h
     \<and> programs h1 = programs h \<and> commands h1 = commands h \<and> set (os_faults h1) \<subseteq> set (os_faults h))"

definition contents :: "'c host \<Rightarrow> path \<Rightarrow> 'c option" where
  "contents h = content_at (files h)"

lemma same_world_refl [simp]: "same_world h h"
  by (simp add: same_world_def)

lemma same_world_trans [trans]: "same_world a b \<Longrightarrow> same_world b c \<Longrightarrow> same_world a c"
  by (auto simp: same_world_def)

lemma whole_writes_world: "same_world h h1 \<Longrightarrow> whole_writes h \<Longrightarrow> whole_writes h1"
  by (auto simp: same_world_def whole_writes_def)

lemma os_call_InrD:
  "os_call op leave f h = (Inr x, h1) \<Longrightarrow> f (host_now h) (files h) = Inr (x, files h1) \<and> same_world h h1"
  using tl_subset [of "os_faults h"]
  by (auto simp: os_call_def Let_def same_world_def split: list.splits option.splits os_fault.splits sum.splits prod.splits)

lemma os_call_InlD:
  "os_call op leave f h = (Inl e, h1) \<Longrightarrow>
     (files h1 = files h \<or> (\<exists>m c. Some (Leaves m c) \<in> set (os_faults h) \<and> files h1 = leave c (files h))) \<and> same_world h h1"
  using tl_subset [of "os_faults h"]
  by (auto simp: os_call_def Let_def same_world_def split: list.splits option.splits os_fault.splits sum.splits prod.splits) blast

lemma os_read_D: "os_read op q h = (r, h1) \<Longrightarrow> files h1 = files h \<and> same_world h h1 \<and> (\<forall>x. r = Inr x \<longrightarrow> q (files h) = Inr x)"
  unfolding os_read_def by (cases r) (auto dest!: os_call_InrD os_call_InlD split: sum.splits)

lemma os_write_InrD:
  "os_write op leave f h = (Inr x, h1) \<Longrightarrow> f (host_now h) (files h) = Inr (files h1) \<and> same_world h h1"
  unfolding os_write_def by (auto dest!: os_call_InrD split: sum.splits)

lemma os_write_InlD:
  "os_write op leave f h = (Inl e, h1) \<Longrightarrow> whole_writes h \<Longrightarrow> files h1 = files h \<and> contents h1 = contents h \<and> same_world h h1"
  unfolding os_write_def by (auto simp: whole_writes_def contents_def dest!: os_call_InlD)

lemma os_write_plain_InlD:
  "os_write op (\<lambda>_ t. t) f h = (Inl e, h1) \<Longrightarrow> files h1 = files h \<and> contents h1 = contents h \<and> same_world h h1"
  unfolding os_write_def by (auto simp: contents_def dest!: os_call_InlD)

text \<open>Calls that only read, and the effect of each writing call that succeeds.\<close>

lemma os_reads:
  "os_Stat s h = (r, h1) \<Longrightarrow> files h1 = files h \<and> contents h1 = contents h \<and> same_world h h1"
  "os_ReadFile s h = (q, h1) \<Longrightarrow> files h1 = files h \<and> contents h1 = contents h \<and> same_world h h1"
  "os_ReadDir s h = (d, h1) \<Longrightarrow> files h1 = files h \<and> contents h1 = contents h \<and> same_world h h1"
  "os_Close s h = (u, h1) \<Longrightarrow> files h1 = files h \<and> contents h1 = contents h \<and> same_world h h1"
  unfolding os_Stat_def os_ReadFile_def os_ReadDir_def os_Close_def by (auto simp: contents_def dest!: os_read_D)

lemma os_ReadFile_InrD: "os_ReadFile s h = (Inr c, h1) \<Longrightarrow> contents h (path_of s) = Some c"
  unfolding os_ReadFile_def
  by (auto simp: contents_def content_at_def dest!: os_read_D split: option.splits fnode.splits)

lemma os_Stat_InrD: "os_Stat s h = (Inr n, h1) \<Longrightarrow> node_at (files h) (path_of s) = Some n"
  unfolding os_Stat_def by (auto dest!: os_read_D split: option.splits)

lemma os_MkdirAll_D: "os_MkdirAll s h = (r, h1) \<Longrightarrow> contents h1 = contents h \<and> same_world h h1"
  unfolding os_MkdirAll_def contents_def
  by (cases r) (auto dest!: os_write_InrD os_write_plain_InlD content_at_mkdirs)

lemma os_WriteFile_InrD:
  "os_WriteFile s c h = (Inr x, h1) \<Longrightarrow> contents h1 = (contents h)(path_of s := Some c) \<and> same_world h h1"
  unfolding os_WriteFile_def contents_def
  by (auto dest!: os_write_InrD content_at_open_file split: if_splits)

lemma os_WriteFile_InlD:
  "os_WriteFile s c h = (Inl e, h1) \<Longrightarrow> whole_writes h \<Longrightarrow> files h1 = files h \<and> contents h1 = contents h \<and> same_world h h1"
  unfolding os_WriteFile_def by (rule os_write_InlD)

lemma leave_file_content: "q \<noteq> p \<Longrightarrow> content_at (leave_file p c t) q = content_at t q"
  by (cases "p = []") (auto simp: leave_file_def content_at_def node_at_update)

lemma os_WriteFile_others:
  "os_WriteFile s c h = (r, h1) \<Longrightarrow> q \<noteq> path_of s \<Longrightarrow> contents h1 q = contents h q \<and> same_world h h1"
proof (cases r)
  case (Inl e)
  assume "os_WriteFile s c h = (r, h1)" "q \<noteq> path_of s"
  then show ?thesis
    unfolding Inl os_WriteFile_def os_write_def by (auto simp: contents_def leave_file_content dest!: os_call_InlD)
qed (auto dest: os_WriteFile_InrD)

lemma os_OpenFile_InrD:
  "os_OpenFile trunc s h = (Inr x, h1) \<Longrightarrow>
     contents h1 = (contents h)(path_of s := (if trunc \<or> contents h (path_of s) = None then Some [] else contents h (path_of s)))
     \<and> same_world h h1"
  unfolding os_OpenFile_def contents_def
  by (auto dest!: os_write_InrD content_at_open_file split: if_splits)

lemma os_OpenFile_InlD:
  "os_OpenFile trunc s h = (Inl e, h1) \<Longrightarrow> whole_writes h \<Longrightarrow> files h1 = files h \<and> contents h1 = contents h \<and> same_world h h1"
  unfolding os_OpenFile_def by (rule os_write_InlD)

lemma os_Remove_InrD:
  assumes "os_Remove s h = (Inr x, h1)"
  shows "contents h1 = (contents h)(path_of s := None) \<and> same_world h h1"
proof -
  have "path_of s \<noteq> [] \<and> files h1 = cut_node (host_now h) (path_of s) (files h) \<and> same_world h h1"
    using os_write_InrD [OF assms [unfolded os_Remove_def]]
    by (cases "path_of s = []") (auto simp: Let_def split: option.splits fnode.splits if_splits)
  then show ?thesis by (simp add: contents_def)
qed

lemma os_Remove_InlD: "os_Remove s h = (Inl e, h1) \<Longrightarrow> files h1 = files h \<and> contents h1 = contents h \<and> same_world h h1"
  unfolding os_Remove_def by (rule os_write_plain_InlD)

lemma os_Rename_InrD:
  "os_Rename a b h = (Inr x, h1) \<Longrightarrow>
     \<exists>c. contents h (path_of a) = Some c \<and> contents h1 = (contents h)(path_of a := None, path_of b := Some c) \<and> same_world h h1"
  unfolding os_Rename_def contents_def
  by (drule os_write_InrD) (auto dest!: content_at_rename)

lemma os_Rename_InlD: "os_Rename a b h = (Inl e, h1) \<Longrightarrow> files h1 = files h \<and> contents h1 = contents h \<and> same_world h h1"
  unfolding os_Rename_def by (rule os_write_plain_InlD)

lemma append_bytes_content:
  "append_bytes now p bs t = Inr t1 \<Longrightarrow>
     \<exists>c. content_at t p = Some c \<and> content_at t1 = (content_at t)(p := Some (c @ bs))"
  by (cases "p = []")
    (auto simp: append_bytes_def content_at_update content_at_def [of t] split: option.splits fnode.splits)

text \<open>A copy appends the whole body, or fails having appended nothing or the body read.\<close>

lemma io_Copy_D:
  assumes "io_Copy s ans h = (r, h1)" "whole_writes h"
  shows "same_world h h1 \<and> (contents h1 = contents h \<and> r \<noteq> Inr ()
    \<or> (\<exists>c. contents h (path_of s) = Some c \<and> contents h1 = (contents h)(path_of s := Some (c @ ha_Body ans))
        \<and> (r = Inr () \<longleftrightarrow> ha_BodyErr ans = None)))"
proof -
  let ?w = "os_write (''write '' @ s) (leave_file (path_of s)) (\<lambda>now. append_bytes now (path_of s) (ha_Body ans))"
  obtain q h2 where w: "?w h = (q, h2)" by force
  show ?thesis
  proof (cases q)
    case (Inl e)
    with w assms os_write_InlD [of _ _ _ h e h2] show ?thesis
      by (auto simp: io_Copy_def bindE_def contents_def)
  next
    case (Inr u)
    have "append_bytes (host_now h) (path_of s) (ha_Body ans) (files h) = Inr (files h2)" "same_world h h2"
      using os_write_InrD w Inr by blast+
    moreover have "h1 = h2" "r = Inr () \<longleftrightarrow> ha_BodyErr ans = None"
      using assms(1) w Inr by (auto simp: io_Copy_def bindE_def returnE_def failE_def split: option.splits)
    ultimately show ?thesis
      by (auto simp: contents_def dest!: append_bytes_content)
  qed
qed

lemma http_D:
  "http_NewRequest url h = (r, h1) \<Longrightarrow> h1 = h"
  "http_Do req h = (q, h2) \<Longrightarrow> files h2 = files h \<and> contents h2 = contents h \<and> same_world h h2
     \<and> (\<forall>ans. q = Inr ans \<longrightarrow> server h (length (requests h)) req = Inr ans)"
  by (auto simp: http_NewRequest_def http_Do_def Let_def contents_def same_world_def
      split: option.splits sum.splits)

section \<open>What a computation leaves alone\<close>

text \<open>\<open>spares p m\<close>: whatever fails and however writes are cut short, \<open>m\<close> keeps the content at \<open>p\<close>.\<close>

definition spares :: "path \<Rightarrow> ('c, 'a) hostm \<Rightarrow> bool" where
  "spares p m = (\<forall>h r h1. m h = (r, h1) \<longrightarrow> contents h1 p = contents h p \<and> same_world h h1)"

lemma sparesI: "(\<And>h r h1. m h = (r, h1) \<Longrightarrow> contents h1 p = contents h p \<and> same_world h h1) \<Longrightarrow> spares p m"
  by (auto simp: spares_def)

lemma sparesD: "spares p m \<Longrightarrow> m h = (r, h1) \<Longrightarrow> contents h1 p = contents h p \<and> same_world h h1"
  by (auto simp: spares_def)

lemma spares_basic [keeps]: "spares p (returnE x)" "spares p (failE e)"
  by (auto simp: spares_def returnE_def failE_def)

lemma spares_bindE [keeps]:
  assumes "spares p m" "\<And>x. spares p (f x)" shows "spares p (bindE m f)"
proof (rule sparesI)
  fix h r h1 assume run: "bindE m f h = (r, h1)"
  obtain q h2 where m: "m h = (q, h2)" by force
  with run assms(1) show "contents h1 p = contents h p \<and> same_world h h1"
    by (cases q) (auto simp: bindE_def dest!: sparesD sparesD [OF assms(2)] intro: same_world_trans)
qed

lemma spares_map_err [keeps]: "spares p m \<Longrightarrow> spares p (map_err g m)"
  by (rule sparesI) (auto simp: map_err_def dest: sparesD split: prod.splits sum.splits)

lemma spares_catchE [keeps]:
  assumes "spares p m" "\<And>e. spares p (f e)" shows "spares p (catchE m f)"
proof (rule sparesI)
  fix h r h1 assume run: "catchE m f h = (r, h1)"
  obtain q h2 where m: "m h = (q, h2)" by force
  with run assms(1) show "contents h1 p = contents h p \<and> same_world h h1"
    by (cases q) (auto simp: catchE_def dest!: sparesD sparesD [OF assms(2)] intro: same_world_trans)
qed

lemma spares_if [keeps]: "spares p a \<Longrightarrow> spares p b \<Longrightarrow> spares p (if c then a else b)"
  by simp

lemma spares_ignore_err [keeps]: "spares p m \<Longrightarrow> spares p (ignore_err m)"
  by (auto simp: spares_def ignore_err_def) (metis prod.collapse)+

lemma spares_reads [keeps]:
  "spares p (os_ReadFile s)" "spares p (os_Close s)" "spares p (os_Stat s)" "spares p (os_ReadDir s)"
  "spares p (os_MkdirAll s)" "spares p (http_NewRequest url)" "spares p (http_Do req)"
  by (rule sparesI, auto dest!: os_reads http_D os_MkdirAll_D)+

lemma spares_os_write:
  assumes "\<And>now t t1. f now t = Inr t1 \<Longrightarrow> content_at t1 p = content_at t p"
    "\<And>c t. content_at (leave c t) p = content_at t p"
  shows "spares p (os_write op leave f)"
proof (rule sparesI)
  fix h r h1 assume run: "os_write op leave f h = (r, h1)"
  then show "contents h1 p = contents h p \<and> same_world h h1"
  proof (cases r)
    case (Inl e)
    with run assms(2) show ?thesis unfolding os_write_def by (auto simp: contents_def dest!: os_call_InlD)
  next
    case (Inr u)
    with run assms(1) show ?thesis by (auto simp: contents_def dest!: os_write_InrD)
  qed
qed

lemma spares_option [keeps]:
  "spares p a \<Longrightarrow> (\<And>x. spares p (b x)) \<Longrightarrow> spares p (case r of None \<Rightarrow> a | Some x \<Rightarrow> b x)"
  by (cases r) auto

lemma spares_writes:
  assumes "p \<noteq> path_of s"
  shows "spares p (os_WriteFile s c)" "spares p (os_OpenFile b s)" "spares p (io_Copy s ans)"
    "p \<noteq> path_of s' \<Longrightarrow> spares p (os_Rename s s')"
proof -
  show "spares p (os_WriteFile s c)" "spares p (os_OpenFile b s)" unfolding os_WriteFile_def os_OpenFile_def
    by (rule spares_os_write; use assms in \<open>auto simp: leave_file_content dest!: content_at_open_file\<close>)+
  show "spares p (io_Copy s ans)" unfolding io_Copy_def
    by (intro keeps spares_os_write) (use assms in \<open>auto simp: leave_file_content dest!: append_bytes_content\<close>)
  show "p \<noteq> path_of s' \<Longrightarrow> spares p (os_Rename s s')" unfolding os_Rename_def
    by (rule spares_os_write) (use assms in \<open>auto dest!: content_at_rename\<close>)
qed

lemma spares_Remove:
  assumes "p \<noteq> path_of s" shows "spares p (os_Remove s)"
proof (rule sparesI)
  fix h r h1 assume "os_Remove s h = (r, h1)"
  with assms show "contents h1 p = contents h p \<and> same_world h h1"
    by (cases r) (auto dest!: os_Remove_InrD os_Remove_InlD)
qed

section \<open>Every call keeps the tree well-formed\<close>

abbreviation wf_host :: "'c host \<Rightarrow> bool" where
  "wf_host h \<equiv> tree_wf (files h)"

lemma stable_os_write:
  assumes "\<And>now t t1. tree_wf t \<Longrightarrow> f now t = Inr t1 \<Longrightarrow> tree_wf t1" "\<And>c t. tree_wf t \<Longrightarrow> tree_wf (leave c t)"
  shows "stable wf_host (os_write op leave f)"
proof (rule stableI)
  fix h r h1
  assume wf: "wf_host h" and run: "os_write op leave f h = (r, h1)"
  show "wf_host h1"
  proof (cases r)
    case (Inr u)
    with run wf assms(1) show ?thesis by (auto dest: os_write_InrD)
  next
    case (Inl e)
    with run wf assms(2) show ?thesis unfolding os_write_def by (auto dest!: os_call_InlD)
  qed
qed

lemma stable_os_calls [keeps]:
  "stable wf_host (os_Stat s)" "stable wf_host (os_ReadFile s)" "stable wf_host (os_ReadDir s)" "stable wf_host (os_Close s)"
  "stable wf_host (os_MkdirAll s)" "stable wf_host (os_WriteFile s c)" "stable wf_host (os_OpenFile b s)"
  "stable wf_host (os_Remove s)" "stable wf_host (os_RemoveAll s)" "stable wf_host (os_Rename s s')"
proof -
  show "stable wf_host (os_Stat s)" "stable wf_host (os_ReadFile s)" "stable wf_host (os_ReadDir s)" "stable wf_host (os_Close s)"
    by (rule stableI, auto dest!: os_reads)+
  show "stable wf_host (os_MkdirAll s)" unfolding os_MkdirAll_def
    by (rule stable_os_write) (auto dest: tree_wf_mkdirs)
  show "stable wf_host (os_WriteFile s c)" "stable wf_host (os_OpenFile b s)" unfolding os_WriteFile_def os_OpenFile_def
    by (rule stable_os_write, erule tree_wf_writes(1) [rotated], simp_all add: tree_wf_writes(4))+
  show "stable wf_host (os_Rename s s')" unfolding os_Rename_def
    by (rule stable_os_write, erule tree_wf_writes(2) [rotated], simp_all)
  show "stable wf_host (os_Remove s)" unfolding os_Remove_def
    by (rule stable_os_write)
      (auto simp: Let_def tree_wf_cut split: option.splits fnode.splits if_splits)
  show "stable wf_host (os_RemoveAll s)" unfolding os_RemoveAll_def
    by (rule stable_os_write)
      (auto simp: Let_def tree_wf_touch tree_wf_filter split: if_splits)
qed

lemma stable_io_Copy [keeps]: "stable wf_host (io_Copy s ans)"
  unfolding io_Copy_def
  by (intro keeps stable_os_write, erule tree_wf_writes(3) [rotated]) (simp_all add: tree_wf_writes(4))

lemma stable_world [keeps]: "stable wf_host (http_NewRequest url)" "stable wf_host (http_Do req)" "stable wf_host (exec_Output args)"
  by (auto simp: stable_def http_NewRequest_def http_Do_def exec_Output_def Let_def split: option.splits sum.splits)

lemma stable_ignore_err [keeps]: "stable I m \<Longrightarrow> stable I (ignore_err m)"
  by (simp add: stable_def ignore_err_def)

section \<open>Removing a tree\<close>

lemma map_of_filter_key: "map_of (filter (\<lambda>(q, n). P q) t) q = (if P q then map_of t q else None)"
  by (induction t) auto

lemma os_RemoveAll_D:
  assumes "os_RemoveAll s h = (r, h1)"
  shows "same_world h h1"
    and "\<And>x. \<not> below (path_of s) x \<Longrightarrow> x \<noteq> butlast (path_of s) \<Longrightarrow> node_at (files h1) x = node_at (files h) x"
    and "\<And>x. \<not> below (path_of s) x \<Longrightarrow> contents h1 x = contents h x"
    and "\<And>x. contents h1 x \<in> {contents h x, None}"
    and "\<And>x. r = Inr () \<Longrightarrow> below (path_of s) x \<Longrightarrow> node_at (files h) (path_of s) \<noteq> None \<Longrightarrow> x \<noteq> [] \<Longrightarrow> contents h1 x = None"
proof -
  let ?p = "path_of s"
  have "same_world h h1 \<and> (files h1 = files h \<and> (r \<noteq> Inr () \<or> node_at (files h) ?p = None)
    \<or> r = Inr () \<and> files h1 = touch (host_now h) (butlast ?p) (filter (\<lambda>(q, n). \<not> below ?p q) (files h)))"
    using assms unfolding os_RemoveAll_def
    by (cases r) (auto simp: Let_def dest!: os_write_InrD os_write_plain_InlD split: if_splits)
  moreover have "node_at (filter (\<lambda>(q, n). \<not> below ?p q) t) x = (if x \<noteq> [] \<and> below ?p x then None else node_at t x)" for t :: "'a fs" and x
    by (simp add: node_at_def map_of_filter_key)
  ultimately show "same_world h h1"
    "\<And>x. \<not> below ?p x \<Longrightarrow> x \<noteq> butlast ?p \<Longrightarrow> node_at (files h1) x = node_at (files h) x"
    "\<And>x. \<not> below ?p x \<Longrightarrow> contents h1 x = contents h x"
    "\<And>x. contents h1 x \<in> {contents h x, None}"
    "\<And>x. r = Inr () \<Longrightarrow> below ?p x \<Longrightarrow> node_at (files h) ?p \<noteq> None \<Longrightarrow> x \<noteq> [] \<Longrightarrow> contents h1 x = None"
    by (auto simp: node_at_touch contents_def) (auto simp: content_at_def split: if_splits)
qed

lemma path_below: "plain v \<Longrightarrow> path_of (base @ ''/'' @ v) = path_of base @ [v]"
  by (simp add: path_of_def split_slash_append split_slash_plain plain_def resolve_append)

section \<open>Listing a directory\<close>

lemma children_iff:
  assumes "tree_wf t"
  shows "(n, nd) \<in> set (children t P) \<longleftrightarrow> map_of t (P @ [n]) = Some nd"
proof
  assume "(n, nd) \<in> set (children t P)"
  then obtain q where "(q, nd) \<in> set t" "q \<noteq> []" "butlast q = P" "n = last q"
    by (auto simp: children_def)
  moreover from this have "q = P @ [n]" by (metis append_butlast_last_id)
  ultimately show "map_of t (P @ [n]) = Some nd" using assms unfolding tree_wf_def by (metis map_of_is_SomeI)
next
  assume "map_of t (P @ [n]) = Some nd"
  then have "(P @ [n], nd) \<in> set t" by (rule map_of_SomeD)
  then show "(n, nd) \<in> set (children t P)"
    by (auto simp: children_def intro!: image_eqI [of _ _ "(P @ [n], nd)"])
qed

lemma distinct_fst_sort: "distinct (map fst xs) \<Longrightarrow> distinct (map fst (sort_key fst xs))"
  by (simp add: distinct_map)

lemma distinct_children:
  assumes "tree_wf t"
  shows "distinct (map fst (children t P))"
proof -
  let ?xs = "filter (\<lambda>(q, n). q \<noteq> [] \<and> butlast q = P) t"
  have "distinct (map fst ?xs)" using assms by (auto simp: tree_wf_def distinct_map_filter)
  moreover have "inj_on last (fst ` set ?xs)"
    by (rule inj_onI) (auto, metis append_butlast_last_id)
  ultimately have "distinct (map last (map fst ?xs))" by (simp only: distinct_map [of last] set_map)
  then have "distinct (map fst (map (\<lambda>(q, n). (last q, n)) ?xs))" by (simp add: comp_def case_prod_beta)
  then show ?thesis unfolding children_def by (rule distinct_fst_sort)
qed

lemma children_node: "tree_wf t \<Longrightarrow> (v, n) \<in> set (children t p) \<Longrightarrow> node_at t (p @ [v]) = Some n \<and> plain v"
  using children_iff [of t v n p] by (auto simp: tree_wf_def node_at_def plain_path_def dest!: map_of_SomeD)

section \<open>A machine on which nothing fails\<close>

lemma quiet_read: "os_faults h = [] \<Longrightarrow> os_read op q h = (case q (files h) of Inl e \<Rightarrow> (Inl (OsErr op e), h) | Inr x \<Rightarrow> (Inr x, h))"
  by (simp add: os_read_def os_call_def split: sum.splits)

lemma quiet_write:
  "os_faults h = [] \<Longrightarrow> os_write op leave f h =
     (case f (host_now h) (files h) of Inl e \<Rightarrow> (Inl (OsErr op e), h) | Inr t \<Rightarrow> (Inr (), h\<lparr>files := t\<rparr>))"
  by (simp add: os_write_def os_call_def split: sum.splits)

lemma os_ReadFile_quiet:
  "os_faults h = [] \<Longrightarrow> contents h (path_of s) = Some c \<Longrightarrow> os_ReadFile s h = (Inr c, h)"
  by (auto simp: os_ReadFile_def quiet_read contents_def content_at_def split: option.splits fnode.splits)

section \<open>Example machines\<close>

text \<open>A machine on which nothing fails, without network.\<close>

definition plain_host :: "'c fs \<Rightarrow> 'c host" where
  "plain_host t = \<lparr>files = t, host_now = 9, os_faults = [], url_error = (\<lambda>_. None), server = (\<lambda>_ _. Inl ''no route''),
     requests = [], programs = (\<lambda>_ _. Inl ''none''), commands = []\<rparr>"

text \<open>The calls of a host on a given tree, for evaluation.\<close>

lemmas host_run = os_MkdirAll_def os_write_def os_read_def os_call_def os_Stat_def os_ReadFile_def os_ReadDir_def os_OpenFile_def os_Close_def os_Rename_def os_Remove_def os_RemoveAll_def io_Copy_def http_Do_def http_NewRequest_def ignore_err_def open_file_def put_node_def touch_def cut_node_def rename_file_def append_bytes_def node_at_def

end
