(* ===== verification/Artifacts.thy ===== *)
theory Artifacts
  imports Cache_Store Model_Registry Host_Facts
begin

text \<open>
  The artifact endpoint of a gateway (\<open>internal/gateway/artifacts.go\<close>): it works on the database and on
  the files of the gateway, so a request maps the pair of both states to an answer and a new pair. The
  URL of a request is its path. Of \<open>http.ServeContent\<close> the model has what a client sees of a Range from a
  position to the end; conditional headers are not modelled.
\<close>

record ArtifactHandler =
  ah_cache :: CacheStore
  ah_gatewayID :: string
  ah_cacheDir :: string
  ah_upstreamBase :: string

definition NewArtifactHandler :: "string \<Rightarrow> string \<Rightarrow> string \<Rightarrow> ArtifactHandler" where
  "NewArtifactHandler gatewayID cacheDir upstreamBaseURL =
     \<lparr>ah_cache = NewCacheStore, ah_gatewayID = gatewayID, ah_cacheDir = cacheDir,
      ah_upstreamBase = trim_right CHR ''/'' upstreamBaseURL\<rparr>"

record served = http_answer +
  sv_Headers :: smap

type_synonym gateway_state = "session \<times> string host"

definition models_prefix :: string where "models_prefix = ''/v1/artifacts/models/''"

definition parseModelPath :: "string \<Rightarrow> (string \<times> string) option" where
  "parseModelPath path =
     (if \<not> has_prefix path models_prefix then None
      else case split_two CHR ''/'' (trim_right CHR ''/'' (drop (length models_prefix) path)) of
             [name, version] \<Rightarrow> if name = [] \<or> version = [] then None else Some (name, version)
           | _ \<Rightarrow> None)"

definition localPath :: "ArtifactHandler \<Rightarrow> string \<Rightarrow> string \<Rightarrow> string" where
  "localPath h name version =
     filepath_Join [ah_cacheDir h, replace_char CHR ''/'' CHR ''_'' name, version, ''model.bin'']"

definition fetchFromUpstream :: "ArtifactHandler \<Rightarrow> string \<Rightarrow> string \<Rightarrow> (string, unit) hostm" where
  "fetchFromUpstream h artifactURI dest =
     (let url = ah_upstreamBase h @ ''/'' @ trim_left CHR ''/'' artifactURI; tmp = dest @ ''.tmp'' in
      bindE (map_err (wrap (''GET '' @ url)) (bindE (http_NewRequest url) (\<lambda>_. http_Do (http_get url)))) (\<lambda>ans.
      if ha_Status ans \<noteq> 200 then failE (GoErr (''GET '' @ url @ '': status '' @ itoa (ha_Status ans)))
      else
        bindE (map_err (wrap ''mkdir'') (os_MkdirAll (filepath_Dir dest))) (\<lambda>_.
        bindE (map_err (wrap ''create tmp'') (os_OpenFile True tmp)) (\<lambda>_.
        bindE (catchE (io_Copy tmp ans) (\<lambda>e.
                 bindE (ignore_err (os_Close tmp)) (\<lambda>_. bindE (ignore_err (os_Remove tmp)) (\<lambda>_. failE (wrap ''download'' e))))) (\<lambda>_.
        bindE (map_err (wrap ''close tmp'') (os_Close tmp)) (\<lambda>_.
          catchE (os_Rename tmp dest) (\<lambda>e. bindE (ignore_err (os_Remove tmp)) (\<lambda>_. failE (wrap ''rename'' e)))))))))"

definition http_Error :: "string \<Rightarrow> int \<Rightarrow> smap \<Rightarrow> served" where
  "http_Error msg code headers =
     \<lparr>ha_Status = code, ha_Body = msg @ [CHR 0x0A], ha_BodyErr = None, sv_Headers = headers\<rparr>"

definition ServeContent :: "string \<Rightarrow> int option \<Rightarrow> smap \<Rightarrow> string \<Rightarrow> served" where
  "ServeContent meth rng headers content =
     (case (if content = [] then None else rng) of
        None \<Rightarrow> \<lparr>ha_Status = 200, ha_Body = (if meth = ''HEAD'' then [] else content), ha_BodyErr = None, sv_Headers = headers\<rparr>
      | Some k \<Rightarrow>
          if int (length content) \<le> k then http_Error ''invalid range: failed to overlap'' 416 headers
          else \<lparr>ha_Status = 206, ha_Body = (if meth = ''HEAD'' then [] else drop (nat k) content), ha_BodyErr = None, sv_Headers = headers\<rparr>)"

definition artifact_headers :: "ModelRow \<Rightarrow> smap" where
  "artifact_headers row =
     [(''X-Checksum-SHA256'', m_Checksum row), (''X-Model-Name'', m_Name row), (''X-Model-Version'', m_Version row),
      (''Content-Type'', ''application/octet-stream'')]"

definition open_and_serve :: "http_request \<Rightarrow> smap \<Rightarrow> string \<Rightarrow> string host \<Rightarrow> served \<times> string host" where
  "open_and_serve req headers path w =
     (case os_ReadFile path w of
        (Inl e, w1) \<Rightarrow> (http_Error ''open artifact'' 500 headers, w1)
      | (Inr content, w1) \<Rightarrow>
          (case os_Stat path w1 of
             (Inl e, w2) \<Rightarrow> (http_Error ''stat artifact'' 500 headers, w2)
           | (Inr n, w2) \<Rightarrow> (ServeContent (hq_Method req) (hq_Range req) headers content, w2)))"

definition serveModel :: "ArtifactHandler \<Rightarrow> http_request \<Rightarrow> gateway_state \<Rightarrow> served \<times> gateway_state" where
  "serveModel h req = (\<lambda>(d, w).
     if hq_Method req \<notin> {''GET'', ''HEAD''} then (http_Error ''method not allowed'' 405 [], (d, w))
     else case parseModelPath (hq_URL req) of
       None \<Rightarrow> (http_Error ''invalid path; expected /v1/artifacts/models/{name}/{version}'' 400 [], (d, w))
     | Some (name, version) \<Rightarrow>
         (case Model_GetByNameVersion name version d of
            (Inl e, d1) \<Rightarrow> (http_Error ''model not found'' 404 [], (d1, w))
          | (Inr row, d1) \<Rightarrow>
              let path = localPath h (m_Name row) (m_Version row) in
              (case os_Stat path w of (st, w1) \<Rightarrow>
               case (if (\<exists>e. st = Inl e \<and> os_IsNotExist e) then fetchFromUpstream h (m_ArtifactURI row) path w1
                     else (Inr (), w1)) of
                 (Inl e, w2) \<Rightarrow> (http_Error ''failed to fetch artifact'' 502 [], (d1, w2))
               | (Inr _, w2) \<Rightarrow>
                   let d2 = snd (Touch (ah_gatewayID h) (m_ID row) (m_Version row) (m_SizeBytes row) d1);
                       d3 = snd (EvictLRU (ah_cache h) (ah_gatewayID h) d2) in
                   (case open_and_serve req (artifact_headers row) path w2 of (ans, w3) \<Rightarrow> (ans, (d3, w3))))))"

text \<open>\<open>VerifyChecksum\<close> is not called by the handler.\<close>

definition VerifyChecksum :: "(string \<Rightarrow> string) \<Rightarrow> string \<Rightarrow> string \<Rightarrow> (string, unit) hostm" where
  "VerifyChecksum sha path expected =
     (if expected = [] then returnE ()
      else bindE (map_err (wrap ''open for checksum'') (os_ReadFile path)) (\<lambda>c.
        if \<not> equal_fold (sha c) expected
        then failE (GoErr (''checksum mismatch: got '' @ sha c @ '', want '' @ expected))
        else returnE ()))"

definition FileSizeHeader :: string where "FileSizeHeader = ''X-File-Size''"

definition SetFileSizeHeader :: "int \<Rightarrow> smap \<Rightarrow> smap" where
  "SetFileSizeHeader n headers = AList.update FileSizeHeader (itoa n) headers"

section \<open>Invariants\<close>

lemma keep_serveModel: "db_wf (tabs d) \<Longrightarrow> serveModel h req (d, w) = (ans, (d1, w1)) \<Longrightarrow> db_wf (tabs d1)"
proof -
  assume wf: "db_wf (tabs d)" and run: "serveModel h req (d, w) = (ans, (d1, w1))"
  have read: "keep db_wf (Model_GetByNameVersion n v)" for n v
    unfolding Model_GetByNameVersion_def model_scanOne_def by (intro keeps)
  have touch: "db_wf (tabs (snd (Touch g m v n e)))" "db_wf (tabs (snd (EvictLRU c g e)))" if "db_wf (tabs e)" for g m v n c e
    using that keep_Touch keep_EvictLRU by (auto simp: keep_def)
  show ?thesis
    using run wf touch keepD [OF read wf]
    by (auto simp: serveModel_def Let_def split: if_splits option.splits prod.splits sum.splits)
qed

lemma stable_fetchFromUpstream [keeps]: "stable wf_host (fetchFromUpstream h uri dest)"
  unfolding fetchFromUpstream_def by (intro keeps)

section \<open>A cached artifact\<close>

text \<open>The gateway knows the model and holds its file; nothing fails.\<close>

definition caches :: "ArtifactHandler \<Rightarrow> string \<Rightarrow> string \<Rightarrow> string \<Rightarrow> gateway_state \<Rightarrow> bool" where
  "caches h name version a = (\<lambda>(d, w). quiet d \<and> idle d \<and> os_faults w = []
     \<and> (name, version) \<in> (\<lambda>r. (m_Name r, m_Version r)) ` set (models (tabs d))
     \<and> contents w (path_of (localPath h name version)) = Some a)"

definition model_path :: "string \<Rightarrow> string \<Rightarrow> string" where
  "model_path name version = models_prefix @ name @ ''/'' @ version"

lemma parse_model_path:
  assumes "CHR ''/'' \<notin> set name" "name \<noteq> []" "CHR ''/'' \<notin> set version" "version \<noteq> []"
  shows "parseModelPath (model_path name version) = Some (name, version)"
proof -
  obtain u c where v: "version = u @ [c]" using assms(4) by (metis rev_exhaust)
  then have "trim_right CHR ''/'' (name @ ''/'' @ version) = name @ ''/'' @ version"
    using assms(3) by (auto simp: trim_right_def)
  moreover have "split_two CHR ''/'' (name @ ''/'' @ version) = [name, version]"
    using assms(1) by (auto simp: split_two_def dropWhile_append3 takeWhile_append2 dropWhile_append)
  ultimately show ?thesis using assms by (simp add: parseModelPath_def model_path_def)
qed

lemma snd_quiet_statement:
  "quiet d \<Longrightarrow> idle d \<Longrightarrow> quiet (snd (Touch g m v n d)) \<and> idle (snd (Touch g m v n d)) \<and> models (tabs (snd (Touch g m v n d))) = models (tabs d)"
  "quiet d \<Longrightarrow> idle d \<Longrightarrow> quiet (snd (EvictLRU c g d)) \<and> idle (snd (EvictLRU c g d)) \<and> models (tabs (snd (EvictLRU c g d))) = models (tabs d)"
  by (auto simp: Touch_def EvictLRU_def map_err_def sql_quiet Let_def guarded_def quiet_def idle_def split: sum.splits option.splits if_splits)

lemma serve_cached:
  assumes c: "caches h name version a s" and p: "parseModelPath (hq_URL req) = Some (name, version)"
    and m: "hq_Method req = ''GET''"
  shows "\<exists>headers s1. serveModel h req s = (ServeContent ''GET'' (hq_Range req) headers a, s1) \<and> caches h name version a s1"
proof -
  obtain d w where s: "s = (d, w)" by force
  have d: "quiet d" "idle d" "os_faults w = []"
      "contents w (path_of (localPath h name version)) = Some a"
    and row: "(name, version) \<in> (\<lambda>r. (m_Name r, m_Version r)) ` set (models (tabs d))"
    using c by (auto simp: s caches_def)
  obtain r where r: "find (\<lambda>r. m_Name r = name \<and> m_Version r = version) (models (tabs d)) = Some r"
    using row by (cases "find (\<lambda>r. m_Name r = name \<and> m_Version r = version) (models (tabs d))") (auto simp: find_None_iff)
  then have nv: "m_Name r = name" "m_Version r = version" by (auto dest: find_Some_set)
  let ?d1 = "d\<lparr>stmt_no := Suc (stmt_no d)\<rparr>"
  have get: "Model_GetByNameVersion name version d = (Inr r, ?d1)"
    using d(1) r by (simp add: Model_GetByNameVersion_def model_scanOne_def run_defs sql_row_quiet)
  obtain t where node: "node_at (files w) (path_of (localPath h name version)) = Some (File a t)"
    using d(4) by (auto simp: contents_def content_at_def split: option.splits fnode.splits)
  have st: "os_Stat (localPath h name version) w = (Inr (File a t), w)"
      "os_ReadFile (localPath h name version) w = (Inr a, w)"
    using node d(3) by (simp_all add: os_Stat_def os_ReadFile_def os_read_def os_call_def)
  let ?d2 = "snd (Touch (ah_gatewayID h) (m_ID r) version (m_SizeBytes r) ?d1)"
  let ?d3 = "snd (EvictLRU (ah_cache h) (ah_gatewayID h) ?d2)"
  have "quiet ?d1" "idle ?d1" using d(1,2) by (simp_all add: idle_def)
  then have d3: "quiet ?d3" "idle ?d3" "models (tabs ?d3) = models (tabs d)" using snd_quiet_statement by simp_all
  have "serveModel h req s = (ServeContent ''GET'' (hq_Range req) (artifact_headers r) a, (?d3, w))"
    using m p get nv st by (simp add: s serveModel_def open_and_serve_def)
  moreover have "caches h name version a (?d3, w)" using d3 d(3,4) row by (simp add: caches_def)
  ultimately show ?thesis by blast
qed

end
