(* ===== verification/Downloader.thy ===== *)
theory Downloader
  imports Host_Facts
begin

text \<open>
  The download of model artifacts by the agent (\<open>internal/agent/downloader.go\<close>): the request with a
  Range for what a partial file already holds, the checks, and the pruning of old versions. SHA-256 in
  hexadecimal is the parameter \<open>sha\<close>. The size of a directory is not read for its value, so it is 0.
  \<open>sort.Slice\<close> is not stable; the model sorts directories with the same time in the order of their
  names, and no theorem here depends on it.
\<close>

definition defaultMaxLocalVersions :: int where "defaultMaxLocalVersions = 3"

record Downloader =
  dl_gatewayBaseURL :: string
  dl_dataDir :: string
  dl_maxLocalVersions :: int

definition NewDownloader :: "string \<Rightarrow> string \<Rightarrow> int \<Rightarrow> Downloader" where
  "NewDownloader baseURL dataDir maxVersions =
     \<lparr>dl_gatewayBaseURL = trim_right CHR ''/'' baseURL, dl_dataDir = dataDir,
      dl_maxLocalVersions = (if maxVersions \<le> 0 then defaultMaxLocalVersions else maxVersions)\<rparr>"

record DownloadResult =
  dr_LocalPath :: string
  dr_Checksum :: string
  dr_SizeBytes :: int

definition sanitizeName :: "string \<Rightarrow> string" where
  "sanitizeName name = replace_char CHR ''/'' CHR ''_'' name"

definition modelDir :: "Downloader \<Rightarrow> string \<Rightarrow> string \<Rightarrow> string" where
  "modelDir d name version = filepath_Join [dl_dataDir d, ''models'', sanitizeName name, version]"

definition node_size :: "string fnode \<Rightarrow> int" where
  "node_size n = (case n of File c m \<Rightarrow> int (length c) | Dir m \<Rightarrow> 0)"

definition artifact_url :: "Downloader \<Rightarrow> string \<Rightarrow> string \<Rightarrow> string" where
  "artifact_url d name version = dl_gatewayBaseURL d @ ''/v1/artifacts/models/'' @ name @ ''/'' @ version"

text \<open>A call whose failure is only logged, and the removal that logs its failure.\<close>

definition closeWithLog :: "string \<Rightarrow> ('c, unit) hostm" where
  "closeWithLog s = ignore_err (os_Close s)"

definition removeWithLog :: "string \<Rightarrow> ('c, unit) hostm" where
  "removeWithLog s = ignore_err (os_Remove s)"

definition range_request :: "string \<Rightarrow> int \<Rightarrow> http_request" where
  "range_request url existing =
     \<lparr>hq_Method = ''GET'', hq_URL = url, hq_Range = (if existing > 0 then Some existing else None), hq_Form = []\<rparr>"

definition save_body :: "string \<Rightarrow> string \<Rightarrow> bool \<Rightarrow> http_answer \<Rightarrow> (string, unit) hostm" where
  "save_body partPath dest resuming ans =
     bindE (map_err (wrap ''open part'') (os_OpenFile (\<not> resuming) partPath)) (\<lambda>_.
     bindE (catchE (io_Copy partPath ans) (\<lambda>e. bindE (closeWithLog partPath) (\<lambda>_. failE (wrap ''copy'' e)))) (\<lambda>_.
     bindE (map_err (wrap ''close part'') (os_Close partPath)) (\<lambda>_. os_Rename partPath dest)))"

definition downloadWithResume :: "Downloader \<Rightarrow> string \<Rightarrow> string \<Rightarrow> string \<Rightarrow> (string, unit) hostm" where
  "downloadWithResume d name version dest =
     (let url = artifact_url d name version; partPath = dest @ ''.part'' in
      bindE (result_of (os_Stat partPath)) (\<lambda>st.
      let existing = (case st of Inr n \<Rightarrow> node_size n | Inl _ \<Rightarrow> 0) in
      bindE (map_err (wrap ''new request'') (http_NewRequest url)) (\<lambda>_.
      bindE (map_err (wrap (''GET '' @ url)) (http_Do (range_request url existing))) (\<lambda>ans.
      if ha_Status ans \<notin> {200, 206} then failE (GoErr (''GET '' @ url @ '': status '' @ itoa (ha_Status ans)))
      else save_body partPath dest (ha_Status ans = 206 \<and> existing > 0) ans))))"

definition fileSHA256 :: "(string \<Rightarrow> string) \<Rightarrow> string \<Rightarrow> (string, string) hostm" where
  "fileSHA256 sha s = bindE (os_ReadFile s) (\<lambda>c. returnE (sha c))"

definition verifyFileSHA256 :: "(string \<Rightarrow> string) \<Rightarrow> string \<Rightarrow> string \<Rightarrow> (string, unit) hostm" where
  "verifyFileSHA256 sha s expected =
     bindE (fileSHA256 sha s) (\<lambda>got.
       if \<not> equal_fold got expected then failE (GoErr (''sha256 mismatch: got '' @ got @ '', want '' @ expected))
       else returnE ())"

text \<open>The directories of a model with their times, then the removal of all but the newest.\<close>

fun version_dirs :: "string \<Rightarrow> (string \<times> 'c fnode) list \<Rightarrow> ('c, (string \<times> timestamp) list) hostm" where
  "version_dirs base [] = returnE []"
| "version_dirs base ((n, File c m) # es) = version_dirs base es"
| "version_dirs base ((n, Dir m) # es) =
     bindE (result_of (os_Stat (base @ ''/'' @ n))) (\<lambda>info.
     bindE (version_dirs base es) (\<lambda>vs.
       returnE (case info of Inr (Dir t) \<Rightarrow> (n, t) # vs | Inr (File c t) \<Rightarrow> (n, t) # vs | Inl _ \<Rightarrow> vs)))"

fun remove_versions :: "string \<Rightarrow> (string \<times> timestamp) list \<Rightarrow> ('c, unit) hostm" where
  "remove_versions base [] = returnE ()"
| "remove_versions base (v # vs) =
     bindE (ignore_err (os_RemoveAll (filepath_Join [base, fst v]))) (\<lambda>_. remove_versions base vs)"

definition pruneOldVersions :: "Downloader \<Rightarrow> string \<Rightarrow> (string, unit) hostm" where
  "pruneOldVersions d name =
     (let base = filepath_Join [dl_dataDir d, ''models'', sanitizeName name] in
      bindE (result_of (os_ReadDir base)) (\<lambda>r.
        case r of
          Inl e \<Rightarrow> if os_IsNotExist e then returnE () else failE e
        | Inr entries \<Rightarrow>
            bindE (version_dirs base entries) (\<lambda>dirs.
              if int (length dirs) \<le> dl_maxLocalVersions d then returnE ()
              else remove_versions base (drop (nat (dl_maxLocalVersions d)) (order_desc snd dirs)))))"

definition Download :: "(string \<Rightarrow> string) \<Rightarrow> Downloader \<Rightarrow> string \<Rightarrow> string \<Rightarrow> string \<Rightarrow> (string, DownloadResult) hostm" where
  "Download sha d name version expectedChecksum =
     (let destDir = modelDir d name version; destPath = filepath_Join [destDir, ''model.bin''] in
      bindE (map_err (wrap ''downloader: mkdir'') (os_MkdirAll destDir)) (\<lambda>_.
      bindE (map_err (wrap ''downloader: fetch'') (downloadWithResume d name version destPath)) (\<lambda>_.
      bindE (if expectedChecksum \<noteq> []
             then catchE (verifyFileSHA256 sha destPath expectedChecksum)
                    (\<lambda>e. bindE (removeWithLog destPath) (\<lambda>_. failE (wrap ''downloader: checksum'' e)))
             else returnE ()) (\<lambda>_.
      bindE (map_err (wrap ''downloader: stat'') (os_Stat destPath)) (\<lambda>info.
      bindE (map_err (wrap ''downloader: hash'') (fileSHA256 sha destPath)) (\<lambda>actual.
      bindE (ignore_err (pruneOldVersions d name)) (\<lambda>_.
        returnE \<lparr>dr_LocalPath = destPath, dr_Checksum = actual, dr_SizeBytes = node_size info\<rparr>)))))))"

end
