(* ===== verification/Download_Resume.thy ===== *)
theory Download_Resume
  imports Downloader
begin

text \<open>
  Resumed downloads. The locale \<open>range_server\<close> is the contract of an artifact server: the whole
  artifact without a Range, the rest of it from a position inside, status 416 from its end on. Over a
  link that loses answers and cuts bodies short, a partial file stays a prefix of the artifact, so a
  download that ends without an error has the artifact.
\<close>

section \<open>The calls of a download\<close>

lemma ignore_err_D: "ignore_err m h = (r, h1) \<Longrightarrow> \<exists>q. m h = (q, h1)"
  by (cases "m h") (auto simp: ignore_err_def)

lemma closeWithLog_D: "closeWithLog s h = (r, h1) \<Longrightarrow> contents h1 = contents h \<and> same_world h h1"
  unfolding closeWithLog_def by (auto dest!: ignore_err_D os_reads(4))

text \<open>Opening the partial file, then a copy into it: it holds an acceptable content at every point.\<close>

lemma copy_into_part:
  assumes run: "catchE (io_Copy s ans) (\<lambda>e. bindE (closeWithLog s) (\<lambda>_. failE (g e))) h = (r, h1)"
    and w: "whole_writes h" and c: "contents h (path_of s) = Some c"
  shows "same_world h h1 \<and> contents h1 \<in> {contents h, (contents h)(path_of s := Some (c @ ha_Body ans))}
    \<and> (r = Inr () \<longrightarrow> ha_BodyErr ans = None \<and> contents h1 = (contents h)(path_of s := Some (c @ ha_Body ans)))"
proof -
  obtain q h2 where q: "io_Copy s ans h = (q, h2)" by force
  note cp = io_Copy_D [OF q w]
  show ?thesis
  proof (cases q)
    case (Inr u)
    with q run have "h1 = h2" "r = Inr ()" by (auto simp: catchE_def)
    with cp Inr c show ?thesis by auto
  next
    case (Inl e)
    obtain v h3 where v: "closeWithLog s h2 = (v, h3)" by force
    have "h1 = h3" "r \<noteq> Inr ()"
      using q run v Inl by (auto simp: catchE_def bindE_def failE_def split: sum.splits)
    with cp c closeWithLog_D [OF v] show ?thesis
      by (auto intro: same_world_trans)
  qed
qed

text \<open>The last two steps of a download: the part is closed and renamed.\<close>

lemma finish_part_D:
  assumes "bindE (map_err f (os_Close part)) (\<lambda>_. os_Rename part dest) h = (r, h1)" and ne: "path_of dest \<noteq> path_of part"
    and c: "contents h (path_of part) = Some c"
  shows "same_world h h1
    \<and> contents h1 (path_of part) \<in> {Some c, None}
    \<and> (r \<noteq> Inr () \<longrightarrow> contents h1 (path_of part) = Some c \<and> contents h1 (path_of dest) = contents h (path_of dest))
    \<and> (r = Inr () \<longrightarrow> contents h1 (path_of dest) = Some c \<and> (\<exists>h4. os_Rename part dest h4 = (Inr (), h1) \<and> same_world h h4))"
proof -
  obtain q h4 where cl: "os_Close part h = (q, h4)" by force
  have w4: "contents h4 = contents h" "same_world h h4" using os_reads(4) [OF cl] by auto
  show ?thesis
  proof (cases q)
    case (Inl e)
    with cl assms(1) have "h1 = h4" "r \<noteq> Inr ()" by (auto simp: bindE_def map_err_def)
    with w4 c show ?thesis by auto
  next
    case (Inr x)
    with cl assms(1) have mv: "os_Rename part dest h4 = (r, h1)" by (simp add: bindE_def map_err_def)
    show ?thesis
    proof (cases r)
      case (Inl e)
      with mv os_Rename_InlD [of part dest h4 e h1] w4 c show ?thesis by (auto intro: same_world_trans)
    next
      case (Inr y)
      with mv os_Rename_InrD [of part dest h4 y h1] w4 c ne show ?thesis by (auto intro: same_world_trans)
    qed
  qed
qed

lemma save_body_D:
  assumes run: "save_body part dest res ans h = (r, h1)" and w: "whole_writes h"
    and ne: "path_of dest \<noteq> path_of part"
    and res: "res \<Longrightarrow> contents h (path_of part) = Some c" and fresh: "\<not> res \<Longrightarrow> c = []"
  shows "same_world h h1
    \<and> contents h1 (path_of part) \<in> {contents h (path_of part), Some c, Some (c @ ha_Body ans), None}
    \<and> (r \<noteq> Inr () \<longrightarrow> contents h1 (path_of dest) = contents h (path_of dest))
    \<and> (r = Inr () \<longrightarrow> ha_BodyErr ans = None \<and> contents h1 (path_of dest) = Some (c @ ha_Body ans)
        \<and> (\<exists>h4. os_Rename part dest h4 = (Inr (), h1) \<and> same_world h h4))"
proof -
  obtain q1 h2 where o: "os_OpenFile (\<not> res) part h = (q1, h2)" by force
  show ?thesis
  proof (cases q1)
    case (Inl e)
    with o run have "h1 = h2" "r \<noteq> Inr ()" by (auto simp: save_body_def bindE_def map_err_def)
    with os_OpenFile_InlD [of "\<not> res" part h e h2] o Inl w show ?thesis by auto
  next
    case (Inr u)
    have o2: "contents h2 = (contents h)(path_of part := Some c)" "same_world h h2"
      using os_OpenFile_InrD o Inr res fresh by fastforce+
    let ?cp = "catchE (io_Copy part ans) (\<lambda>e. bindE (closeWithLog part) (\<lambda>_. failE (wrap ''copy'' e)))"
    obtain q2 h3 where cp: "?cp h2 = (q2, h3)" by force
    have c3: "same_world h2 h3" "contents h3 \<in> {contents h2, (contents h2)(path_of part := Some (c @ ha_Body ans))}"
        "q2 = Inr () \<longrightarrow> ha_BodyErr ans = None \<and> contents h3 = (contents h2)(path_of part := Some (c @ ha_Body ans))"
      using copy_into_part [OF cp whole_writes_world [OF o2(2) w], of c] o2(1) by auto
    note world = same_world_trans [OF o2(2) c3(1)]
    show ?thesis
    proof (cases q2)
      case e: (Inl e)
      with o Inr cp run have "h1 = h3" "r \<noteq> Inr ()" by (auto simp: save_body_def bindE_def map_err_def)
      with c3(2) o2(1) world ne show ?thesis by auto
    next
      case (Inr v)
      with o \<open>q1 = Inr u\<close> cp run have "bindE (map_err (wrap ''close part'') (os_Close part)) (\<lambda>_. os_Rename part dest) h3 = (r, h1)"
        by (simp add: save_body_def bindE_def map_err_def)
      from finish_part_D [OF this ne, of "c @ ha_Body ans"] c3(3) Inr o2(1) ne world
      show ?thesis by (auto intro: same_world_trans)
    qed
  qed
qed

lemma has_prefix_refl [simp]: "has_prefix s s"
  by (simp add: has_prefix_def)

section \<open>Pruning\<close>

text \<open>The directories found are among the entries, with the times the tree gives them.\<close>

definition listed :: "'c fs \<Rightarrow> path \<Rightarrow> (string \<times> 'c fnode) list \<Rightarrow> (string \<times> timestamp) list \<Rightarrow> bool" where
  "listed t b es vs = (set (map fst vs) \<subseteq> set (map fst es) \<and> (distinct (map fst es) \<longrightarrow> distinct (map fst vs))
     \<and> (\<forall>(v, m) \<in> set vs. node_at t (b @ [v]) = Some (Dir m)))"

lemma listed_simps [simp]:
  "listed t b [] []"
  "listed t b es vs \<Longrightarrow> listed t b (e # es) vs"
  "listed t b es vs \<Longrightarrow> node_at t (b @ [n]) = Some (Dir m) \<Longrightarrow> listed t b ((n, x) # es) ((n, m) # vs)"
  by (auto simp: listed_def)

lemma version_dirs_D:
  assumes "version_dirs base es h = (r, h1)"
    "\<forall>(v, n) \<in> set es. node_at (files h) (path_of base @ [v]) = Some n \<and> plain v"
  shows "same_world h h1 \<and> files h1 = files h \<and> (\<exists>vs. r = Inr vs \<and> listed (files h) (path_of base) es vs)"
  using assms
proof (induction base es arbitrary: h r h1 rule: version_dirs.induct)
  case (1 base)
  then show ?case by (auto simp: returnE_def)
next
  case (2 base n c m es)
  then show ?case by fastforce
next
  case (3 base n m es)
  obtain st h2 where st: "os_Stat (base @ ''/'' @ n) h = (st, h2)" by force
  obtain r3 h3 where v: "version_dirs base es h2 = (r3, h3)" by force
  have h2: "files h2 = files h" "same_world h h2" using os_reads(1) [OF st] by auto
  have n: "node_at (files h) (path_of base @ [n]) = Some (Dir m)" "plain n" using "3.prems"(2) by auto
  have st': "x = Dir m" if "st = Inr x" for x
    using os_Stat_InrD [of "base @ ''/'' @ n" h x h2] st n path_below [OF n(2), of base] that by simp
  have "same_world h2 h3 \<and> files h3 = files h2 \<and> (\<exists>vs. r3 = Inr vs \<and> listed (files h2) (path_of base) es vs)"
    by (rule "3.IH" [OF v]) (use "3.prems" h2 in auto)
  then obtain vs where vs: "same_world h2 h3" "files h3 = files h" "r3 = Inr vs" "listed (files h) (path_of base) es vs"
    using h2(1) by auto
  have "h1 = h3" "r = Inr (case st of Inr (Dir t) \<Rightarrow> (n, t) # vs | Inr (File c t) \<Rightarrow> (n, t) # vs | Inl _ \<Rightarrow> vs)"
    using "3.prems"(1) st v vs(3) by (auto simp: bindE_def result_of_def returnE_def)
  moreover have "same_world h h3" using vs(1) h2(2) by (rule same_world_trans [rotated])
  ultimately show ?case
    using vs(2,4) n(1) st' by (cases st) auto
qed

lemma remove_versions_D:
  assumes "remove_versions base ws h = (r, h1)" "\<forall>w \<in> set ws. plain (fst w)"
  shows "same_world h h1
    \<and> (\<forall>x. contents h1 x \<in> {contents h x, None})
    \<and> (\<forall>v. v \<notin> fst ` set ws \<longrightarrow> node_at (files h1) (path_of base @ [v]) = node_at (files h) (path_of base @ [v]))
    \<and> (\<forall>v x. v \<notin> fst ` set ws \<longrightarrow> contents h1 (path_of base @ v # x) = contents h (path_of base @ v # x))"
  using assms
proof (induction ws arbitrary: h)
  case (Cons w ws)
  obtain q h2 where q: "ignore_err (os_RemoveAll (filepath_Join [base, fst w])) h = (q, h2)" by force
  obtain q' where rm: "os_RemoveAll (filepath_Join [base, fst w]) h = (q', h2)"
    using ignore_err_D [OF q] by blast
  have p: "path_of (filepath_Join [base, fst w]) = path_of base @ [fst w]"
    using Cons.prems(2) by (simp add: path_of_Join2)
  note R = os_RemoveAll_D [OF rm, unfolded p]
  have run: "remove_versions base ws h2 = (r, h1)"
    using Cons.prems(1) q by (auto simp: bindE_def ignore_err_def)
  have IH: "same_world h2 h1"
    "\<And>x. contents h1 x \<in> {contents h2 x, None}"
    "\<And>v. v \<notin> fst ` set ws \<Longrightarrow> node_at (files h1) (path_of base @ [v]) = node_at (files h2) (path_of base @ [v])"
    "\<And>v x. v \<notin> fst ` set ws \<Longrightarrow> contents h1 (path_of base @ v # x) = contents h2 (path_of base @ v # x)"
    using Cons.IH [OF run] Cons.prems(2) by auto
  have apart: "\<not> below (path_of base @ [fst w]) (path_of base @ v # x)" if "v \<noteq> fst w" for v x
    using that by (simp add: below_def)
  have "contents h1 x \<in> {contents h x, None}" for x using IH(2) [of x] R(4) [of x] by auto
  moreover have "node_at (files h1) (path_of base @ [v]) = node_at (files h) (path_of base @ [v])" if "v \<notin> fst ` set (w # ws)" for v
    using that IH(3) [of v] R(2) [OF apart] by auto
  moreover have "contents h1 (path_of base @ v # x) = contents h (path_of base @ v # x)" if "v \<notin> fst ` set (w # ws)" for v x
    using that IH(4) [of v x] R(3) [OF apart] by auto
  ultimately show ?case using R(1) IH(1) same_world_trans by blast
qed (auto simp: returnE_def)

text \<open>The versions beyond the newest \<open>m\<close> leave one that is no older than any of them.\<close>

lemma newest_kept:
  fixes t :: int
  assumes "distinct (map fst vs)" "(v, t) \<in> set (drop m (order_desc snd vs))" "0 < m"
  obtains u tu where "(u, tu) \<in> set vs" "u \<notin> fst ` set (drop m (order_desc snd vs))" "t \<le> tu" "u \<noteq> v"
proof -
  let ?l = "order_desc snd vs"
  have lvs: "set ?l = set vs" "distinct (map fst ?l)" using assms(1) by simp_all
  obtain u tu l' where l: "?l = (u, tu) # l'" using assms(2) by (cases ?l) auto
  have "(v, t) \<in> set l'" using assms(2,3) l by (cases m) (auto dest: in_set_dropD)
  moreover have "sorted (map (\<lambda>x. - snd x) ?l)" by (rule sorted_order_desc)
  ultimately have "t \<le> tu" "u \<noteq> v" using l lvs(2) by (auto dest: rev_image_eqI [of "(v, t)" "set l'" v fst])
  moreover have "u \<notin> fst ` set (drop m ?l)" using lvs(2) l assms(3) by (cases m) (auto dest: in_set_dropD)
  moreover have "(u, tu) \<in> set vs" using l lvs(1) by auto
  ultimately show thesis using that by blast
qed

lemma pruneOldVersions_cases:
  fixes base :: string
  assumes run: "pruneOldVersions d name h = (r, h1)" and wf: "tree_wf (files h)"
    and base: "base = filepath_Join [dl_dataDir d, ''models'', sanitizeName name]"
  obtains (nothing) "files h1 = files h" "same_world h h1"
  | (prune) vs h3 where "files h3 = files h" "same_world h h3" "distinct (map fst vs)" "\<forall>w \<in> set vs. plain (fst w)"
      "\<forall>(v, t) \<in> set vs. node_at (files h) (path_of base @ [v]) = Some (Dir t)"
      "remove_versions base (drop (nat (dl_maxLocalVersions d)) (order_desc snd vs)) h3 = (r, h1)"
proof -
  obtain rd h2 where rd: "os_ReadDir base h = (rd, h2)" by force
  have h2: "files h2 = files h" "same_world h h2" using os_reads(3) [OF rd] by auto
  show thesis
  proof (cases rd)
    case (Inl e)
    then have "h1 = h2"
      using run rd base by (auto simp: pruneOldVersions_def Let_def bindE_def result_of_def returnE_def failE_def split: if_splits)
    with h2 show thesis by (intro that(1)) simp_all
  next
    case (Inr es)
    have es: "es = children (files h) (path_of base)"
      using rd Inr unfolding os_ReadDir_def by (auto dest!: os_read_D split: option.splits fnode.splits)
    obtain r3 h3 where vd: "version_dirs base es h2 = (r3, h3)" by force
    have node: "\<forall>(v, n) \<in> set es. node_at (files h2) (path_of base @ [v]) = Some n \<and> plain v"
      using children_node [OF wf] es h2(1) by auto
    from version_dirs_D [OF vd this] distinct_children [OF wf, of "path_of base"] h2 es
    obtain vs where vs: "same_world h h3" "files h3 = files h" "r3 = Inr vs" "set (map fst vs) \<subseteq> set (map fst es)"
      "distinct (map fst vs)" "\<forall>(v, t) \<in> set vs. node_at (files h) (path_of base @ [v]) = Some (Dir t)"
      by (auto simp: listed_def intro: same_world_trans)
    have plain: "\<forall>w \<in> set vs. plain (fst w)" using vs(4) node by fastforce
    show thesis
    proof (cases "int (length vs) \<le> dl_maxLocalVersions d")
      case True
      then have "h1 = h3"
        using run rd Inr vd vs(3) base by (auto simp: pruneOldVersions_def Let_def bindE_def result_of_def returnE_def)
      with vs(1,2) show thesis by (intro that(1)) simp_all
    next
      case False
      then have "remove_versions base (drop (nat (dl_maxLocalVersions d)) (order_desc snd vs)) h3 = (r, h1)"
        using run rd Inr vd vs(3) base by (simp add: pruneOldVersions_def Let_def bindE_def result_of_def)
      with vs(1,2,5,6) plain show thesis by (intro that(2))
    qed
  qed
qed

text \<open>Pruning removes a version only if one dated no earlier is kept.\<close>

lemma prune_D:
  fixes base :: string
  assumes run: "pruneOldVersions d name h = (r, h1)" and wf: "tree_wf (files h)" and pos: "1 \<le> dl_maxLocalVersions d"
    and base: "base = filepath_Join [dl_dataDir d, ''models'', sanitizeName name]"
    and v: "node_at (files h) (path_of base @ [v]) = Some (Dir t)"
  shows "same_world h h1 \<and> (\<forall>x. contents h1 x \<in> {contents h x, None})
    \<and> ((\<forall>x. contents h1 (path_of base @ v # x) = contents h (path_of base @ v # x))
       \<or> (\<exists>u t'. u \<noteq> v \<and> t \<le> t' \<and> node_at (files h1) (path_of base @ [u]) = Some (Dir t')))"
  using run wf base
proof (cases rule: pruneOldVersions_cases)
  case nothing
  then show ?thesis by (simp add: contents_def)
next
  case (prune vs h3)
  let ?gone = "drop (nat (dl_maxLocalVersions d)) (order_desc snd vs)"
  have "\<forall>w \<in> set ?gone. plain (fst w)" using prune(4) by (auto dest!: in_set_dropD)
  note R = remove_versions_D [OF prune(6) this]
  have c3: "contents h3 = contents h" using prune(1) by (simp add: contents_def)
  show ?thesis
  proof (cases "v \<in> fst ` set ?gone")
    case False
    with R prune(2) c3 show ?thesis by (auto intro: same_world_trans)
  next
    case True
    then obtain t1 where vt: "(v, t1) \<in> set ?gone" by force
    then have "t1 = t" using prune(5) v in_set_dropD by fastforce
    with vt have "(v, t) \<in> set ?gone" "0 < nat (dl_maxLocalVersions d)" using pos by auto
    then obtain u tu where u: "(u, tu) \<in> set vs" "u \<notin> fst ` set ?gone" "t \<le> tu" "u \<noteq> v"
      by (rule newest_kept [OF prune(3)])
    then have "node_at (files h1) (path_of base @ [u]) = Some (Dir tu)"
      using R prune(1,5) by fastforce
    with R prune(2) c3 u(3,4) show ?thesis by (metis same_world_trans)
  qed
qed

section \<open>The parts of a download\<close>

lemma sane_name: "CHR ''/'' \<notin> set (sanitizeName n)"
  by (auto simp: sanitizeName_def replace_char_def)

lemma modelDir_path:
  assumes "plain (sanitizeName name)" "plain version"
  shows "path_of (modelDir d name version) =
     path_of (filepath_Join [dl_dataDir d, ''models'', sanitizeName name]) @ [version]"
  using assms
  by (simp add: modelDir_def path_of_Join split_slash_plain plain_def resolve_append)

lemma model_bin_plain: "plain ''model.bin''" "plain (''model.bin'' @ ''.part'')"
  by (simp_all add: plain_def)

lemma verify_D:
  assumes "(if expected \<noteq> [] then catchE (verifyFileSHA256 sha s expected)
       (\<lambda>e. bindE (removeWithLog s) (\<lambda>_. failE (g e))) else returnE ()) h = (r, h1)"
  shows "same_world h h1 \<and> (\<forall>x. x \<noteq> path_of s \<longrightarrow> contents h1 x = contents h x)
    \<and> (r = Inr () \<longrightarrow> files h1 = files h \<and> (expected \<noteq> [] \<longrightarrow> (\<exists>c. contents h (path_of s) = Some c \<and> equal_fold (sha c) expected)))"
proof (cases "expected = []")
  case False
  obtain q h2 where q: "verifyFileSHA256 sha s expected h = (q, h2)" by force
  obtain c h3 where rd: "os_ReadFile s h = (c, h3)" by force
  have h2: "h2 = h3" "q = Inr () \<longrightarrow> (\<exists>x. c = Inr x \<and> equal_fold (sha x) expected)"
    using q rd by (auto simp: verifyFileSHA256_def fileSHA256_def bindE_def returnE_def failE_def split: sum.splits if_splits)
  note h3 = os_reads(2) [OF rd]
  show ?thesis
  proof (cases q)
    case (Inr u)
    with assms False q have "h1 = h2" "r = Inr ()" by (auto simp: catchE_def)
    with h2 h3 Inr rd False show ?thesis by (auto dest: os_ReadFile_InrD)
  next
    case (Inl e)
    obtain v h4 where v: "os_Remove s h2 = (v, h4)" by force
    have "h1 = h4" "r \<noteq> Inr ()"
      using assms False q Inl v by (auto simp: catchE_def bindE_def failE_def removeWithLog_def ignore_err_def)
    moreover have "same_world h2 h4 \<and> (\<forall>x. x \<noteq> path_of s \<longrightarrow> contents h4 x = contents h2 x)"
      using v by (cases v) (auto dest: os_Remove_InrD os_Remove_InlD)
    ultimately show ?thesis using h2 h3 by (auto intro: same_world_trans)
  qed
qed (use assms in \<open>auto simp: returnE_def\<close>)

lemma stable_save_body [keeps]: "stable wf_host (save_body part dest res ans)"
  unfolding save_body_def closeWithLog_def by (intro keeps)

lemma stable_resume [keeps]: "stable wf_host (downloadWithResume d name version dest)"
  unfolding downloadWithResume_def by (intro keeps)

text \<open>After the fetch the directory of the version is dated now.\<close>

lemma rename_dates_dir:
  assumes "os_Rename a b h = (Inr x, h1)" "path_of a \<noteq> path_of b" "butlast (path_of b) \<noteq> []" "butlast (path_of b) \<noteq> path_of b"
    "butlast (path_of b) \<noteq> path_of a"
  shows "node_at (files h1) (butlast (path_of b)) = Some (Dir (host_now h))"
proof -
  have "rename_file (host_now h) (path_of a) (path_of b) (files h) = Inr (files h1)"
    using assms(1) unfolding os_Rename_def by (auto dest: os_write_InrD)
  then have ren: "rename_file (host_now h) (path_of a) (path_of b) (files h) = Inr (files h1)" .
  then obtain c m where c: "is_dir (node_at (files h) (butlast (path_of b)))" "\<not> is_dir (node_at (files h) (path_of b))"
    and n: "node_at (files h) (path_of a) = Some (File c m)"
    using assms(2) by (auto simp: rename_file_def split: option.splits fnode.splits if_splits)
  have h1: "files h1 = touch (host_now h) (butlast (path_of b)) (AList.update (path_of b) (File c m) (cut_node (host_now h) (path_of a) (files h)))"
    using ren c n assms(2) by (simp add: rename_file_def)
  have "path_of b \<noteq> []" using c by auto
  then have "is_dir (node_at (AList.update (path_of b) (File c m) (cut_node (host_now h) (path_of a) (files h))) (butlast (path_of b)))"
    using c(1) assms(4,5) by (simp add: node_at_update cut_node_def node_at_touch node_at_delete)
  with assms(3) show ?thesis unfolding h1 node_at_touch by simp
qed

section \<open>The contract of the server\<close>

definition lossy :: "(nat \<Rightarrow> string + nat option) \<Rightarrow> (http_request \<Rightarrow> http_answer) \<Rightarrow> nat \<Rightarrow> http_request \<Rightarrow> string + http_answer" where
  "lossy link answer n req =
     (case link n of
        Inl msg \<Rightarrow> Inl msg
      | Inr None \<Rightarrow> Inr (answer req)
      | Inr (Some k) \<Rightarrow> Inr ((answer req)\<lparr>ha_Body := take k (ha_Body (answer req)), ha_BodyErr := Some ''unexpected EOF''\<rparr>))"

definition linked :: "(http_request \<Rightarrow> http_answer) \<Rightarrow> string \<Rightarrow> 'c host \<Rightarrow> bool" where
  "linked answer url h = (\<exists>link. \<forall>n k. server h n (range_request url k) = lossy link answer n (range_request url k))"

definition part_ok :: "string \<Rightarrow> string option \<Rightarrow> bool" where
  "part_ok a c = (case c of None \<Rightarrow> True | Some c \<Rightarrow> has_prefix a c)"

lemma linked_world: "same_world h h1 \<Longrightarrow> linked answer url h \<Longrightarrow> linked answer url h1"
  by (simp add: same_world_def linked_def)

locale range_server =
  fixes answer :: "http_request \<Rightarrow> http_answer" and url :: string and artifact :: string
  assumes whole: "ha_Status (answer (range_request url 0)) = 200 \<and> ha_Body (answer (range_request url 0)) = artifact
      \<and> ha_BodyErr (answer (range_request url 0)) = None"
    and rest: "0 < k \<Longrightarrow> k < int (length artifact) \<Longrightarrow> ha_Status (answer (range_request url k)) = 206
      \<and> ha_Body (answer (range_request url k)) = drop (nat k) artifact \<and> ha_BodyErr (answer (range_request url k)) = None"
    and beyond: "artifact \<noteq> [] \<Longrightarrow> 0 < k \<Longrightarrow> int (length artifact) \<le> k \<Longrightarrow> ha_Status (answer (range_request url k)) = 416"
begin

lemma answer_extends:
  assumes "has_prefix artifact c" "lossy link answer n (range_request url (int (length c))) = Inr ans"
    "ha_Status ans \<in> {200, 206}"
  shows "(ha_Status ans = 206) = (c \<noteq> []) \<and> has_prefix artifact (c @ ha_Body ans)
    \<and> (ha_BodyErr ans = None \<longrightarrow> c @ ha_Body ans = artifact)"
proof -
  obtain d where d: "artifact = c @ d" using assms(1) by (metis append_take_drop_id has_prefix_def)
  show ?thesis
  proof (cases "c = []")
    case True
    with assms(2) whole d show ?thesis
      by (auto simp: lossy_def split: sum.splits option.splits)
  next
    case False
    with assms(2,3) beyond [of "int (length c)"] rest [of "int (length c)"] d show ?thesis
      by (cases "d = []") (auto simp: lossy_def split: sum.splits option.splits)
  qed
qed

lemma part_size:
  assumes "os_Stat p h = (st, h2)" "part_ok artifact (contents h (path_of p))"
  obtains c where "(case st of Inr n \<Rightarrow> node_size n | Inl _ \<Rightarrow> 0) = int (length c)" "has_prefix artifact c"
    and "c \<noteq> [] \<longrightarrow> contents h (path_of p) = Some c"
proof (cases "\<exists>x m. st = Inr (File x m)")
  case True
  then obtain x m where x: "st = Inr (File x m)" by blast
  with assms(1) have "contents h (path_of p) = Some x" by (auto simp: contents_def content_at_def dest: os_Stat_InrD)
  with that [of x] x assms(2) show thesis by (simp add: node_size_def part_ok_def)
next
  case False
  then have "(case st of Inr n \<Rightarrow> node_size n | Inl _ \<Rightarrow> 0) = int (length [])"
    by (auto simp: node_size_def split: sum.splits fnode.splits)
  with that [of "[]"] show thesis by (simp add: has_prefix_def)
qed

lemma resume_D:
  assumes run: "downloadWithResume d name version dest h = (r, h1)" and w: "whole_writes h"
    and url: "artifact_url d name version = url" and l: "linked answer url h"
    and part: "part_ok artifact (contents h (path_of (dest @ ''.part'')))"
    and ne: "path_of dest \<noteq> path_of (dest @ ''.part'')"
  shows "same_world h h1 \<and> part_ok artifact (contents h1 (path_of (dest @ ''.part'')))
    \<and> (r = Inr () \<longrightarrow> contents h1 (path_of dest) = Some artifact
        \<and> (\<exists>h4. os_Rename (dest @ ''.part'') dest h4 = (Inr (), h1) \<and> same_world h h4))
    \<and> (r \<noteq> Inr () \<longrightarrow> contents h1 (path_of dest) = contents h (path_of dest))"
proof -
  let ?q = "path_of (dest @ ''.part'')"
  obtain st h2 where st: "os_Stat (dest @ ''.part'') h = (st, h2)" by force
  have h2: "contents h2 = contents h" "same_world h h2" using os_reads(1) [OF st] by auto
  define k where "k = (case st of Inr n \<Rightarrow> node_size n | Inl _ \<Rightarrow> 0)"
  obtain c where c: "k = int (length c)" "has_prefix artifact c" "c \<noteq> [] \<longrightarrow> contents h ?q = Some c"
    unfolding k_def by (rule part_size [OF st part])
  obtain q3 h3 where g: "http_Do (range_request url k) h2 = (q3, h3)" by force
  have h3: "contents h3 = contents h" "same_world h h3" using http_D(2) [OF g] h2 by (auto intro: same_world_trans)
  show ?thesis
  proof (cases "url_error h2 url = None \<and> (\<exists>ans. q3 = Inr ans \<and> ha_Status ans \<in> {200, 206})")
    case False
    then have "contents h1 = contents h \<and> same_world h h1 \<and> r \<noteq> Inr ()"
      using run st g url h2 h3
      by (auto simp: downloadWithResume_def Let_def bindE_def result_of_def map_err_def http_NewRequest_def failE_def
          k_def [symmetric] split: option.splits sum.splits prod.splits if_splits)
    with part show ?thesis by simp
  next
    case True
    then obtain ans where ans: "url_error h2 url = None" "q3 = Inr ans" "ha_Status ans \<in> {200, 206}" by blast
    obtain link where link: "\<forall>n k. server h n (range_request url k) = lossy link answer n (range_request url k)"
      using l by (auto simp: linked_def)
    have "lossy link answer (length (requests h2)) (range_request url k) = Inr ans"
      using http_D(2) [OF g] link h2(2) ans(2) by (simp add: same_world_def)
    with answer_extends [OF c(2)] c(1) ans(3)
    have ext: "(ha_Status ans = 206) = (c \<noteq> [])" "has_prefix artifact (c @ ha_Body ans)"
        "ha_BodyErr ans = None \<longrightarrow> c @ ha_Body ans = artifact" by blast+
    have "save_body (dest @ ''.part'') dest (ha_Status ans = 206 \<and> k > 0) ans h3 = (r, h1)"
      using run st g url ans
      by (simp add: downloadWithResume_def Let_def bindE_def result_of_def map_err_def http_NewRequest_def flip: k_def)
        (auto simp: k_def split: if_splits)
    moreover have "(ha_Status ans = 206 \<and> k > 0) = (c \<noteq> [])" using ext(1) c(1) by auto
    ultimately have body: "save_body (dest @ ''.part'') dest (c \<noteq> []) ans h3 = (r, h1)" by simp
    have sb: "same_world h3 h1" "contents h1 ?q \<in> {contents h ?q, Some c, Some (c @ ha_Body ans), None}"
        "r \<noteq> Inr () \<longrightarrow> contents h1 (path_of dest) = contents h (path_of dest)"
        "r = Inr () \<longrightarrow> ha_BodyErr ans = None \<and> contents h1 (path_of dest) = Some (c @ ha_Body ans)
          \<and> (\<exists>h4. os_Rename (dest @ ''.part'') dest h4 = (Inr (), h1) \<and> same_world h3 h4)"
      using save_body_D [OF body whole_writes_world [OF h3(2) w] ne, of c] h3(1) c(3) by auto
    have "\<forall>x \<in> {contents h ?q, Some c, Some (c @ ha_Body ans), None}. part_ok artifact x"
      using part c(2) ext(2) by (simp add: part_ok_def)
    with sb(2) have "part_ok artifact (contents h1 ?q)" by blast
    with sb h3(2) ext(3) show ?thesis by (blast intro: same_world_trans)
  qed
qed

text \<open>The first half of a download, up to the file in place, and the second one.\<close>

lemma fetch_D:
  fixes d :: Downloader and name version :: string
  defines "dest \<equiv> filepath_Join [modelDir d name version, ''model.bin'']"
  assumes run: "bindE (map_err g (os_MkdirAll (modelDir d name version)))
        (\<lambda>_. map_err g' (downloadWithResume d name version dest)) h = (r, h1)"
    and w: "whole_writes h" and wf: "tree_wf (files h)" and url: "artifact_url d name version = url"
    and l: "linked answer url h" and M: "path_of (modelDir d name version) = B @ [version]"
    and part: "part_ok artifact (contents h (path_of (dest @ ''.part'')))"
  shows "same_world h h1 \<and> tree_wf (files h1) \<and> part_ok artifact (contents h1 (path_of (dest @ ''.part'')))
    \<and> (r = Inr () \<longrightarrow> contents h1 (path_of dest) = Some artifact
        \<and> node_at (files h1) (B @ [version]) = Some (Dir (host_now h)))"
proof -
  have p: "path_of dest = B @ [version, ''model.bin'']" and q: "path_of (dest @ ''.part'') = B @ [version, ''model.bin.part'']"
    unfolding dest_def using path_of_Join2 [OF model_bin_plain(1)] path_of_suffix [OF model_bin_plain] M by auto
  have ne: "path_of dest \<noteq> path_of (dest @ ''.part'')" unfolding p q by simp
  obtain r2 h2 where mk: "os_MkdirAll (modelDir d name version) h = (r2, h2)" by force
  have h2: "contents h2 = contents h" "same_world h h2" "tree_wf (files h2)"
    using os_MkdirAll_D [OF mk] stableD [OF stable_os_calls(5) wf mk] by auto
  show ?thesis
  proof (cases r2)
    case (Inl e)
    then have "h1 = h2" "r \<noteq> Inr ()" using run mk by (auto simp: bindE_def map_err_def)
    with h2 part show ?thesis by simp
  next
    case (Inr u)
    obtain r3 where f: "downloadWithResume d name version dest h2 = (r3, h1)" and r: "r = Inr () \<longleftrightarrow> r3 = Inr ()"
      using run mk Inr by (auto simp: bindE_def map_err_def split: prod.splits sum.splits)
    have f3: "same_world h2 h1" "part_ok artifact (contents h1 (path_of (dest @ ''.part'')))"
      "r3 = Inr () \<longrightarrow> contents h1 (path_of dest) = Some artifact
         \<and> (\<exists>h4. os_Rename (dest @ ''.part'') dest h4 = (Inr (), h1) \<and> same_world h2 h4)"
      using resume_D [OF f whole_writes_world [OF h2(2) w] url linked_world [OF h2(2) l] _ ne] part h2(1) by auto
    have "node_at (files h1) (B @ [version]) = Some (Dir (host_now h))" if r3: "r3 = Inr ()"
    proof -
      obtain h4 where h4: "os_Rename (dest @ ''.part'') dest h4 = (Inr (), h1)" "same_world h2 h4" using f3(3) r3 by auto
      have "host_now h4 = host_now h" using h4(2) h2(2) by (simp add: same_world_def)
      with rename_dates_dir [OF h4(1) ne [symmetric]] show ?thesis by (simp add: p q butlast_append)
    qed
    with f3 r h2(2) stableD [OF stable_resume h2(3) f] show ?thesis by (auto intro: same_world_trans)
  qed
qed

end

text \<open>The second half, for any content of the downloaded file.\<close>

lemma settle_D:
  fixes d :: Downloader and name version :: string
  defines "dest \<equiv> filepath_Join [modelDir d name version, ''model.bin'']"
    and "base \<equiv> filepath_Join [dl_dataDir d, ''models'', sanitizeName name]"
  assumes run: "bindE (if expected \<noteq> [] then catchE (verifyFileSHA256 sha dest expected)
          (\<lambda>e. bindE (removeWithLog dest) (\<lambda>_. failE (wrap ''downloader: checksum'' e))) else returnE ()) (\<lambda>_.
      bindE (map_err g (os_Stat dest)) (\<lambda>info.
      bindE (map_err g' (fileSHA256 sha dest)) (\<lambda>actual.
      bindE (ignore_err (pruneOldVersions d name)) (\<lambda>_.
        returnE \<lparr>dr_LocalPath = dest, dr_Checksum = actual, dr_SizeBytes = node_size info\<rparr>)))) h3 = (r, h1)"
    and wf: "tree_wf (files h3)" and pos: "1 \<le> dl_maxLocalVersions d"
    and p: "path_of dest = path_of base @ [version, ''model.bin'']"
    and dated: "node_at (files h3) (path_of base @ [version]) = Some (Dir now)"
    and got: "contents h3 (path_of dest) = Some a"
  shows "same_world h3 h1 \<and> (\<forall>x. x \<noteq> path_of dest \<longrightarrow> contents h1 x \<in> {contents h3 x, None})
    \<and> (\<forall>res. r = Inr res \<longrightarrow> res = \<lparr>dr_LocalPath = dest, dr_Checksum = sha a, dr_SizeBytes = int (length a)\<rparr>
        \<and> (expected \<noteq> [] \<longrightarrow> equal_fold (sha a) expected)
        \<and> (contents h1 (path_of dest) = Some a
           \<or> (\<exists>u t. u \<noteq> version \<and> now \<le> t \<and> node_at (files h1) (path_of base @ [u]) = Some (Dir t))))"
proof -
  let ?v = "if expected \<noteq> [] then catchE (verifyFileSHA256 sha dest expected)
      (\<lambda>e. bindE (removeWithLog dest) (\<lambda>_. failE (wrap ''downloader: checksum'' e))) else returnE ()"
  obtain r4 h4 where v: "?v h3 = (r4, h4)" by force
  note v4 = verify_D [OF v]
  show ?thesis
  proof (cases r4)
    case (Inl e)
    then have "h1 = h4" "\<forall>res. r \<noteq> Inr res" using run v by (auto simp: bindE_def)
    with v4 show ?thesis by simp
  next
    case r4: (Inr u4)
    have h4: "files h4 = files h3" "expected \<noteq> [] \<Longrightarrow> equal_fold (sha a) expected" using v4 r4 got by auto
    obtain r5 h5 where st: "os_Stat dest h4 = (r5, h5)" by force
    obtain r6 h6 where hs: "os_ReadFile dest h5 = (r6, h6)" by force
    have h6: "files h5 = files h3" "files h6 = files h3" "same_world h3 h5" "same_world h3 h6"
      using os_reads(1) [OF st] os_reads(2) [OF hs] h4(1) v4 by (auto intro: same_world_trans)
    show ?thesis
    proof (cases "\<exists>n c. r5 = Inr n \<and> r6 = Inr c")
      case False
      then have "(h1 = h5 \<or> h1 = h6) \<and> (\<forall>res. r \<noteq> Inr res)"
        using run v r4 st hs
        by (auto simp: bindE_def map_err_def fileSHA256_def returnE_def split: sum.splits)
      with h6 show ?thesis by (auto simp: contents_def)
    next
      case True
      then obtain n c where ok: "r5 = Inr n" "r6 = Inr c" by blast
      then have "node_at (files h3) (path_of dest) = Some n" "contents h3 (path_of dest) = Some c"
        using os_Stat_InrD [of dest h4 n h5] os_ReadFile_InrD [of dest h5 c h6] st hs h4(1) h6(1)
        by (auto simp: contents_def)
      with got have nc: "c = a" "node_size n = int (length a)"
        by (auto simp: contents_def content_at_def node_size_def split: fnode.splits)
      obtain r7 h7 where pr: "pruneOldVersions d name h6 = (r7, h7)" by force
      have P: "same_world h6 h7" "\<And>x. contents h7 x \<in> {contents h3 x, None}"
        "contents h7 (path_of dest) = contents h3 (path_of dest)
          \<or> (\<exists>u t'. u \<noteq> version \<and> now \<le> t' \<and> node_at (files h7) (path_of base @ [u]) = Some (Dir t'))"
        using prune_D [OF pr _ pos, of base version now] wf h6(2) dated unfolding base_def [symmetric]
        by (auto simp: contents_def p)
      have "h1 = h7" "r = Inr \<lparr>dr_LocalPath = dest, dr_Checksum = sha c, dr_SizeBytes = node_size n\<rparr>"
        using run v r4 st hs pr ok by (auto simp: bindE_def map_err_def fileSHA256_def returnE_def ignore_err_def)
      moreover have "same_world h3 h7" using h6(4) P(1) by (rule same_world_trans)
      ultimately show ?thesis using P(2,3) h4(2) nc got by auto
    qed
  qed
qed

lemma Download_halves:
  "Download sha d name version expected =
     bindE (bindE (map_err (wrap ''downloader: mkdir'') (os_MkdirAll (modelDir d name version)))
        (\<lambda>_. map_err (wrap ''downloader: fetch'') (downloadWithResume d name version (filepath_Join [modelDir d name version, ''model.bin'']))))
      (\<lambda>_. bindE (if expected \<noteq> [] then catchE (verifyFileSHA256 sha (filepath_Join [modelDir d name version, ''model.bin'']) expected)
          (\<lambda>e. bindE (removeWithLog (filepath_Join [modelDir d name version, ''model.bin''])) (\<lambda>_. failE (wrap ''downloader: checksum'' e))) else returnE ()) (\<lambda>_.
      bindE (map_err (wrap ''downloader: stat'') (os_Stat (filepath_Join [modelDir d name version, ''model.bin'']))) (\<lambda>info.
      bindE (map_err (wrap ''downloader: hash'') (fileSHA256 sha (filepath_Join [modelDir d name version, ''model.bin'']))) (\<lambda>actual.
      bindE (ignore_err (pruneOldVersions d name)) (\<lambda>_.
        returnE \<lparr>dr_LocalPath = filepath_Join [modelDir d name version, ''model.bin''], dr_Checksum = actual, dr_SizeBytes = node_size info\<rparr>)))))"
  unfolding Download_def Let_def bindE_assoc ..

context range_server
begin

lemma download_sound:
  fixes d :: Downloader and name version :: string
  defines "dest \<equiv> filepath_Join [modelDir d name version, ''model.bin'']"
    and "base \<equiv> filepath_Join [dl_dataDir d, ''models'', sanitizeName name]"
  assumes run: "Download sha d name version expected h = (r, h1)"
    and w: "whole_writes h" and wf: "tree_wf (files h)" and url: "artifact_url d name version = url"
    and l: "linked answer url h" and plain: "plain (sanitizeName name)" "plain version"
    and pos: "1 \<le> dl_maxLocalVersions d" and part: "part_ok artifact (contents h (path_of (dest @ ''.part'')))"
  shows "same_world h h1 \<and> part_ok artifact (contents h1 (path_of (dest @ ''.part'')))
    \<and> (\<forall>res. r = Inr res \<longrightarrow> res = \<lparr>dr_LocalPath = dest, dr_Checksum = sha artifact, dr_SizeBytes = int (length artifact)\<rparr>
        \<and> (expected \<noteq> [] \<longrightarrow> equal_fold (sha artifact) expected)
        \<and> (contents h1 (path_of dest) = Some artifact
           \<or> (\<exists>u t. u \<noteq> version \<and> host_now h \<le> t \<and> node_at (files h1) (path_of base @ [u]) = Some (Dir t))))"
proof -
  have M: "path_of (modelDir d name version) = path_of base @ [version]" unfolding base_def by (rule modelDir_path [OF plain])
  have p: "path_of dest = path_of base @ [version, ''model.bin'']"
      "path_of (dest @ ''.part'') = path_of base @ [version, ''model.bin.part'']"
    unfolding dest_def using path_of_Join2 [OF model_bin_plain(1)] path_of_suffix [OF model_bin_plain] M by auto
  let ?f = "bindE (map_err (wrap ''downloader: mkdir'') (os_MkdirAll (modelDir d name version)))
        (\<lambda>_. map_err (wrap ''downloader: fetch'') (downloadWithResume d name version dest))"
  obtain q h3 where f: "?f h = (q, h3)" by force
  note F = fetch_D [OF f [unfolded dest_def] w wf url l M part [unfolded dest_def], folded dest_def]
  show ?thesis
  proof (cases q)
    case (Inl e)
    with run f have "h1 = h3" "\<forall>res. r \<noteq> Inr res" unfolding Download_halves by (auto simp: bindE_Inl simp flip: dest_def)
    with F show ?thesis by simp
  next
    case (Inr u)
    have step: "bindE ?f k h = k u h3" for k :: "unit \<Rightarrow> (string, DownloadResult) hostm"
      using bindE_Inr [of ?f h u h3 k] f Inr by simp
    note S = settle_D [OF run [unfolded Download_halves step [unfolded dest_def]], folded dest_def base_def]
    have "same_world h3 h1 \<and> (\<forall>x. x \<noteq> path_of dest \<longrightarrow> contents h1 x \<in> {contents h3 x, None})
      \<and> (\<forall>res. r = Inr res \<longrightarrow> res = \<lparr>dr_LocalPath = dest, dr_Checksum = sha artifact, dr_SizeBytes = int (length artifact)\<rparr>
        \<and> (expected \<noteq> [] \<longrightarrow> equal_fold (sha artifact) expected)
        \<and> (contents h1 (path_of dest) = Some artifact
           \<or> (\<exists>u t. u \<noteq> version \<and> host_now h \<le> t \<and> node_at (files h1) (path_of base @ [u]) = Some (Dir t))))"
      by (rule S) (use F Inr pos p in auto)
    moreover from this have "contents h1 (path_of (dest @ ''.part'')) \<in> {contents h3 (path_of (dest @ ''.part'')), None}"
      using p by simp
    then have "part_ok artifact (contents h1 (path_of (dest @ ''.part'')))" using F by (auto simp: part_ok_def)
    ultimately show ?thesis using F by (blast intro: same_world_trans)
  qed
qed

text \<open>A partial file that is complete is asked for from its end on: the server refuses, and nothing changes.\<close>

lemma complete_part_refused:
  fixes d :: Downloader and name version :: string
  defines "dest \<equiv> filepath_Join [modelDir d name version, ''model.bin'']"
  assumes "os_faults h = []" "artifact_url d name version = url" "linked answer url h" "artifact \<noteq> []"
    and part: "contents h (path_of (dest @ ''.part'')) = Some artifact"
    and run: "Download sha d name version expected h = (r, h1)"
  shows "r \<noteq> Inr res \<and> os_faults h1 = [] \<and> linked answer url h1 \<and> contents h1 = contents h"
proof -
  obtain r2 h2 where mk: "os_MkdirAll (modelDir d name version) h = (r2, h2)" by force
  have h2: "contents h2 = contents h" "same_world h h2" using os_MkdirAll_D [OF mk] by auto
  have quiet2: "os_faults h2 = []" using h2(2) assms(2) by (simp add: same_world_def)
  obtain r3 h3 where f: "downloadWithResume d name version dest h2 = (r3, h3)" by force
  have "contents h3 = contents h \<and> same_world h2 h3 \<and> r3 \<noteq> Inr ()"
  proof -
    obtain st h4 where st: "os_Stat (dest @ ''.part'') h2 = (st, h4)" by force
    have h4: "contents h4 = contents h" "same_world h2 h4" using os_reads(1) [OF st] h2 by auto
    have "content_at (files h2) (path_of (dest @ ''.part'')) = Some artifact" using part h2(1) by (simp add: contents_def)
    then obtain m where "node_at (files h2) (path_of (dest @ ''.part'')) = Some (File artifact m)"
      by (auto simp: content_at_def split: option.splits fnode.splits)
    then have k: "st = Inr (File artifact m)"
      using st quiet2 by (simp add: os_Stat_def os_read_def os_call_def)
    let ?k = "int (length artifact)"
    obtain q h5 where g: "http_Do (range_request url ?k) h4 = (q, h5)" by force
    have h5: "contents h5 = contents h" "same_world h2 h5" using http_D(2) [OF g] h4 by (auto intro: same_world_trans)
    have "\<not> (\<exists>ans. q = Inr ans \<and> ha_Status ans \<in> {200, 206})"
    proof
      assume "\<exists>ans. q = Inr ans \<and> ha_Status ans \<in> {200, 206}"
      then obtain ans where ans: "q = Inr ans" "ha_Status ans \<in> {200, 206}" by blast
      obtain link where "\<forall>n k. server h n (range_request url k) = lossy link answer n (range_request url k)"
        using assms(4) by (auto simp: linked_def)
      then have "lossy link answer (length (requests h4)) (range_request url ?k) = Inr ans"
        using http_D(2) [OF g] h4(2) h2(2) ans(1) by (simp add: same_world_def)
      with ans(2) assms(5) beyond [of ?k] show False
        by (auto simp: lossy_def split: sum.splits option.splits)
    qed
    then show ?thesis
      using f st k g assms(3) h4 h5
      by (cases q; cases "url_error h4 url")
        (auto simp: downloadWithResume_def Let_def bindE_def result_of_def map_err_def http_NewRequest_def failE_def node_size_def)
  qed
  then have "contents h1 = contents h \<and> same_world h h1 \<and> r \<noteq> Inr res"
    using run mk f h2 unfolding Download_def Let_def dest_def [symmetric]
    by (cases r2) (auto simp: bindE_def map_err_def intro: same_world_trans split: sum.splits)
  with assms(2,4) show ?thesis by (auto simp: same_world_def linked_def)
qed

lemma complete_part_stuck:
  fixes d :: Downloader and name version :: string
  defines "dest \<equiv> filepath_Join [modelDir d name version, ''model.bin'']"
  assumes "os_faults h = []" "artifact_url d name version = url" "linked answer url h" "artifact \<noteq> []"
    and "contents h (path_of (dest @ ''.part'')) = Some artifact"
  shows "fst (Download sha d name version expected (((\<lambda>s. snd (Download sha d name version expected s)) ^^ n) h)) \<noteq> Inr res"
proof -
  let ?s = "((\<lambda>s. snd (Download sha d name version expected s)) ^^ n) h"
  have "os_faults ?s = [] \<and> linked answer url ?s \<and> contents ?s = contents h"
  proof (induction n)
    case (Suc n)
    let ?t = "((\<lambda>s. snd (Download sha d name version expected s)) ^^ n) h"
    obtain r h1 where run: "Download sha d name version expected ?t = (r, h1)" by force
    have "os_faults h1 = [] \<and> linked answer url h1 \<and> contents h1 = contents ?t"
      using complete_part_refused [OF _ assms(3) _ assms(5) _ run] Suc assms(6) unfolding dest_def by simp
    with Suc run show ?case by simp
  qed (use assms in simp)
  with complete_part_refused [of ?s d name version sha expected "fst (Download sha d name version expected ?s)"
      "snd (Download sha d name version expected ?s)" res] assms
  show ?thesis by (simp add: dest_def)
qed

end

end
