(* ===== verification/Artifact_Delivery.thy ===== *)
theory Artifact_Delivery
  imports Artifacts Download_Resume
begin

text \<open>
  Artifacts from the gateway to the node: the handler of the gateway (\<open>Artifacts\<close>) fulfils the contract
  of a range server, so the downloads of the agent (\<open>Downloader\<close>) from a gateway that has the artifact in
  its cache are the ones the contract describes.
\<close>

definition content_answer :: "string \<Rightarrow> http_request \<Rightarrow> http_answer" where
  "content_answer a req = http_answer.truncate (ServeContent ''GET'' (hq_Range req) [] a)"

interpretation content: range_server "content_answer a" url a
  by unfold_locales
    (auto simp: content_answer_def ServeContent_def range_request_def http_Error_def http_answer.defs)

lemma truncate_ServeContent:
  "http_answer.truncate (ServeContent m r headers a) = http_answer.truncate (ServeContent m r [] a)"
  by (simp add: ServeContent_def http_Error_def http_answer.defs split: option.splits)

text \<open>The host of the agent asks a gateway over a link: request \<open>n\<close> finds the gateway in state \<open>gs n\<close>.\<close>

definition asks_gateway ::
  "ArtifactHandler \<Rightarrow> string \<Rightarrow> (nat \<Rightarrow> gateway_state) \<Rightarrow> (nat \<Rightarrow> string + nat option) \<Rightarrow> string host \<Rightarrow> bool" where
  "asks_gateway ah baseURL gs link h =
     (\<forall>n req. has_prefix (hq_URL req) baseURL \<longrightarrow> server h n req =
        lossy link (\<lambda>r. http_answer.truncate
          (fst (serveModel ah (r\<lparr>hq_URL := drop (length baseURL) (hq_URL r)\<rparr>) (gs n)))) n req)"

lemma lossy_cong: "f req = g req \<Longrightarrow> lossy link f n req = lossy link g n req"
  by (auto simp: lossy_def split: sum.splits option.splits)

lemma gateway_linked:
  assumes "asks_gateway ah (dl_gatewayBaseURL d) gs link h" "\<forall>n. caches ah name version a (gs n)" "plain name" "plain version"
  shows "linked (content_answer a) (artifact_url d name version) h"
  unfolding linked_def
proof (intro exI [of _ link] allI)
  fix n k
  let ?req = "range_request (artifact_url d name version) k"
  have url: "artifact_url d name version = dl_gatewayBaseURL d @ model_path name version"
    by (simp add: artifact_url_def model_path_def models_prefix_def)
  obtain headers s1 where "serveModel ah (?req\<lparr>hq_URL := model_path name version\<rparr>) (gs n) = (ServeContent ''GET'' (hq_Range ?req) headers a, s1)"
    using serve_cached [of ah name version a "gs n" "?req\<lparr>hq_URL := model_path name version\<rparr>"] assms(2-4)
      parse_model_path [of name version] by (auto simp: plain_def range_request_def)
  then have "http_answer.truncate (fst (serveModel ah (?req\<lparr>hq_URL := model_path name version\<rparr>) (gs n))) = content_answer a ?req"
    using truncate_ServeContent [of "''GET''" "hq_Range ?req" headers a] by (simp add: content_answer_def)
  with assms(1) show "server h n ?req = lossy link (content_answer a) n ?req"
    by (auto simp: asks_gateway_def url range_request_def intro!: lossy_cong)
qed

lemma plain_sanitized: "plain name \<Longrightarrow> sanitizeName name = name"
  by (auto simp: plain_def sanitizeName_def replace_char_def intro!: map_idI)

section \<open>Downloads\<close>


text \<open>C35: a complete partial file blocks the download for good. If an earlier attempt was cut off after the
  whole artifact was written but before the file was renamed, every later attempt asks for the bytes
  from its end on, which the gateway refuses with status 416; the agent never removes or uses the
  partial file, so no attempt ever succeeds, even if nothing fails.\<close>

theorem complete_part_never_installed:
  assumes "os_faults h = []" "plain name" "plain version" "a \<noteq> []"
    and "asks_gateway ah (dl_gatewayBaseURL d) gs link h" "\<forall>n. caches ah name version a (gs n)"
    and "contents h (path_of (filepath_Join [modelDir d name version, ''model.bin''] @ ''.part'')) = Some a"
  shows "fst (Download sha d name version expected (((\<lambda>s. snd (Download sha d name version expected s)) ^^ n) h)) \<noteq> Inr res"
  using content.complete_part_stuck [OF assms(1) refl gateway_linked [OF assms(5,6,2,3)] assms(4,7)] .

section \<open>An example\<close>

definition example_agent :: Downloader where
  "example_agent = NewDownloader ''http://gw/'' ''/d'' 0"

definition example_handler :: ArtifactHandler where
  "example_handler = NewArtifactHandler ''g1'' ''/c'' ''http://up''"

definition example_cache :: gateway_state where
  "example_cache = (session_at cache_tables 9,
     plain_host [([''c'', ''llama'', ''v1'', ''model.bin''], File ''abc'' 1)])"

definition example_server :: "nat \<Rightarrow> http_request \<Rightarrow> string + http_answer" where
  "example_server n req = lossy (\<lambda>_. Inr None) (\<lambda>r. http_answer.truncate
     (fst (serveModel example_handler (r\<lparr>hq_URL := drop (length ''http://gw'') (hq_URL r)\<rparr>) example_cache))) n req"

definition example_node_host :: "string fs \<Rightarrow> string host" where
  "example_node_host t = (plain_host t)\<lparr>server := example_server\<rparr>"

lemma example_asks: "asks_gateway example_handler (dl_gatewayBaseURL example_agent) (\<lambda>_. example_cache) (\<lambda>_. Inr None) (example_node_host t)"
  by (simp add: asks_gateway_def example_agent_def NewDownloader_def str example_node_host_def example_server_def)

lemma example_caches: "caches example_handler ''llama'' ''v1'' ''abc'' example_cache"
proof -
  have "path_of (localPath example_handler ''llama'' ''v1'') = [''c'', ''llama'', ''v1'', ''model.bin'']"
    by (simp add: localPath_def example_handler_def NewArtifactHandler_def path_of_Join replace_char_def)
  then show ?thesis
    by (simp add: caches_def example_cache_def session_at_def cache_tables_def quiet_def idle_def plain_host_def contents_def
        content_at_def node_at_def)
qed

definition example_part :: path where
  "example_part = [''d'', ''models'', ''llama'', ''v1'', ''model.bin.part'']"

lemma example_part_path: "path_of (filepath_Join [modelDir example_agent ''llama'' ''v1'', ''model.bin''] @ ''.part'') = example_part"
  using path_of_suffix [of "''model.bin''" "''.part''" "modelDir example_agent ''llama'' ''v1''"]
  by (simp add: plain_def modelDir_def example_agent_def NewDownloader_def path_of_Join sanitizeName_def replace_char_def
      example_part_def)

definition example_tree :: "string \<Rightarrow> string fs" where
  "example_tree part = [([''d''], Dir 1), ([''d'', ''models''], Dir 1), ([''d'', ''models'', ''llama''], Dir 1),
     ([''d'', ''models'', ''llama'', ''v1''], Dir 1), (example_part, File part 1)]"

lemma example_paths:
  "path_of (filepath_Join [modelDir example_agent ''llama'' ''v1'', ''model.bin''] @ ''.part'') = [''d'', ''models'', ''llama'', ''v1'', ''model.bin.part'']"
  "path_of (modelDir example_agent ''llama'' ''v1'') = [''d'', ''models'', ''llama'', ''v1'']"
  "path_of (filepath_Join [modelDir example_agent ''llama'' ''v1'', ''model.bin'']) = [''d'', ''models'', ''llama'', ''v1'', ''model.bin'']"
  "artifact_url example_agent ''llama'' ''v1'' = ''http://gw/v1/artifacts/models/llama/v1''"
proof -
  show d: "path_of (modelDir example_agent ''llama'' ''v1'') = [''d'', ''models'', ''llama'', ''v1'']"
    by (simp add: modelDir_def example_agent_def NewDownloader_def path_of_Join sanitizeName_def replace_char_def)
  show "path_of (filepath_Join [modelDir example_agent ''llama'' ''v1'', ''model.bin'']) = [''d'', ''models'', ''llama'', ''v1'', ''model.bin'']"
    using path_of_Join2 [of "''model.bin''" "modelDir example_agent ''llama'' ''v1''"] d by (simp add: plain_def)
qed (use example_part_path in \<open>simp_all add: example_part_def artifact_url_def example_agent_def NewDownloader_def str\<close>)

lemma example_range_answer: "example_server n (range_request ''http://gw/v1/artifacts/models/llama/v1'' k) = Inr (content_answer ''abc'' (range_request ''http://gw/v1/artifacts/models/llama/v1'' k))"
proof -
  obtain hs s1 where "serveModel example_handler (range_request ''/v1/artifacts/models/llama/v1'' k) example_cache = (ServeContent ''GET'' (hq_Range (range_request ''/v1/artifacts/models/llama/v1'' k)) hs ''abc'', s1)"
    using serve_cached [OF example_caches, of "range_request ''/v1/artifacts/models/llama/v1'' k"] parse_model_path [of "''llama''" "''v1''"]
    by (auto simp: range_request_def model_path_def models_prefix_def)
  then show ?thesis
    using truncate_ServeContent [of "''GET''" "hq_Range (range_request ''/v1/artifacts/models/llama/v1'' k)" hs "''abc''"]
    by (simp add: example_server_def lossy_def content_answer_def range_request_def)
qed

lemmas example_rest =
  example_range_answer [of 0 1, simplified range_request_def content_answer_def ServeContent_def http_answer.defs, simplified]

lemma example_download:
  "fst (Download (\<lambda>s. s) example_agent ''llama'' ''v1'' ''abc'' (example_node_host (example_tree ''a''))) =
     Inr \<lparr>dr_LocalPath = filepath_Join [modelDir example_agent ''llama'' ''v1'', ''model.bin''], dr_Checksum = ''abc'', dr_SizeBytes = 3\<rparr>"
  by (simp add: Download_def Let_def downloadWithResume_def save_body_def fileSHA256_def verifyFileSHA256_def result_of_def
      bindE_def map_err_def catchE_def returnE_def failE_def host_run example_paths example_rest example_node_host_def
      range_request_def plain_host_def example_tree_def example_part_def str node_size_def)

lemma example_host_ok:
  "whole_writes (example_node_host (example_tree c))" "tree_wf (files (example_node_host (example_tree c)))"
  "1 \<le> dl_maxLocalVersions example_agent" "plain ''llama''" "plain ''v1''" "os_faults (example_node_host t) = []"
  "contents (example_node_host (example_tree c)) example_part = Some c"
  by (simp_all add: whole_writes_def example_node_host_def plain_host_def tree_wf_def example_tree_def example_part_def plain_def
      plain_path_def example_agent_def NewDownloader_def defaultMaxLocalVersions_def contents_def content_at_def node_at_def)


theorem complete_part_never_installed_witness:
  "\<forall>res. fst (Download (\<lambda>s. s) example_agent ''llama'' ''v1'' [] (((\<lambda>s. snd (Download (\<lambda>s. s) example_agent ''llama'' ''v1'' [] s)) ^^ 5)
     (example_node_host (example_tree ''abc'')))) \<noteq> Inr res"
  by (rule allI, rule complete_part_never_installed [OF example_host_ok(6,4,5) _ example_asks allI [OF example_caches]])
    (simp_all add: example_part_path example_host_ok)

end
