(* ===== verification/Runtime.thy ===== *)
theory Runtime
  imports Error_Monad "HOL-Library.AList"
begin

text \<open>
  The runtimes that serve models on a node (\<open>internal/runtime\<close>): the interface of an adapter, the adapter
  for llama.cpp and the manager that dispatches to adapters by name. An adapter is a record of operations
  on a state \<open>'w\<close>. The contract the rest of the agent relies on is the locale \<open>runtime_adapter\<close>, which
  the llama.cpp adapter fulfils. Operations hold the lock of the adapter, so they are run one after the
  other.
\<close>

section \<open>Adapters\<close>

record RtStatus =
  st_Running :: bool
  st_State :: string
  st_Info :: smap

record InstallConfig =
  in_ModelName :: string
  in_ModelVersion :: string
  in_ArtifactURI :: string
  in_RuntimeConfig :: smap

record 'w RuntimeAdapter =
  ad_Name :: string
  ad_Install :: "InstallConfig \<Rightarrow> ('w, unit) em"
  ad_Start :: "string \<Rightarrow> string \<Rightarrow> ('w, unit) em"
  ad_Stop :: "string \<Rightarrow> string \<Rightarrow> ('w, unit) em"
  ad_Restart :: "string \<Rightarrow> string \<Rightarrow> ('w, unit) em"
  ad_Uninstall :: "string \<Rightarrow> string \<Rightarrow> ('w, unit) em"
  ad_Status :: "string \<Rightarrow> string \<Rightarrow> ('w, RtStatus) em"

section \<open>llama.cpp\<close>

record LlamaCppAdapter =
  la_dataDir :: string
  la_running :: "(string \<times> bool) list"

definition NewLlamaCppAdapter :: "string \<Rightarrow> LlamaCppAdapter" where
  "NewLlamaCppAdapter dataDir = \<lparr>la_dataDir = dataDir, la_running = []\<rparr>"

definition modelKey :: "string \<Rightarrow> string \<Rightarrow> string" where
  "modelKey name version = name @ '':'' @ version"

definition is_running :: "LlamaCppAdapter \<Rightarrow> string \<Rightarrow> bool" where
  "is_running a key = map_get False (la_running a) key"

definition Llama_Install :: "InstallConfig \<Rightarrow> (LlamaCppAdapter, unit) em" where
  "Llama_Install cfg = returnE ()"

definition Llama_Start :: "string \<Rightarrow> string \<Rightarrow> (LlamaCppAdapter, unit) em" where
  "Llama_Start modelName modelVersion = (\<lambda>a.
     let key = modelKey modelName modelVersion in
     if is_running a key then (Inl (GoErr (''llamacpp: '' @ key @ '' already running'')), a)
     else (Inr (), a\<lparr>la_running := AList.update key True (la_running a)\<rparr>))"

definition Llama_Stop :: "string \<Rightarrow> string \<Rightarrow> (LlamaCppAdapter, unit) em" where
  "Llama_Stop modelName modelVersion = (\<lambda>a.
     let key = modelKey modelName modelVersion in
     if \<not> is_running a key then (Inl (GoErr (''llamacpp: '' @ key @ '' not running'')), a)
     else (Inr (), a\<lparr>la_running := AList.delete key (la_running a)\<rparr>))"

definition Llama_Restart :: "string \<Rightarrow> string \<Rightarrow> (LlamaCppAdapter, unit) em" where
  "Llama_Restart modelName modelVersion =
     bindE (catchE (Llama_Stop modelName modelVersion) (\<lambda>_. returnE ())) (\<lambda>_. Llama_Start modelName modelVersion)"

definition Llama_Uninstall :: "string \<Rightarrow> string \<Rightarrow> (LlamaCppAdapter, unit) em" where
  "Llama_Uninstall modelName modelVersion =
     bindE (catchE (Llama_Stop modelName modelVersion) (\<lambda>_. returnE ())) (\<lambda>_. returnE ())"

definition Llama_Status :: "string \<Rightarrow> string \<Rightarrow> (LlamaCppAdapter, RtStatus) em" where
  "Llama_Status modelName modelVersion = (\<lambda>a.
     if is_running a (modelKey modelName modelVersion)
     then (Inr \<lparr>st_Running = True, st_State = ''Running'', st_Info = []\<rparr>, a)
     else (Inr \<lparr>st_Running = False, st_State = ''Stopped'', st_Info = []\<rparr>, a))"

definition llama_adapter :: "LlamaCppAdapter RuntimeAdapter" where
  "llama_adapter = \<lparr>ad_Name = ''llamacpp'', ad_Install = Llama_Install, ad_Start = Llama_Start, ad_Stop = Llama_Stop,
     ad_Restart = Llama_Restart, ad_Uninstall = Llama_Uninstall, ad_Status = Llama_Status\<rparr>"

section \<open>The manager\<close>

text \<open>Registering a name twice panics: None.\<close>

type_synonym 'w Manager = "(string \<times> 'w RuntimeAdapter) list"

definition NewManager :: "'w Manager" where
  "NewManager = []"

definition Manager_Register :: "'w RuntimeAdapter \<Rightarrow> 'w Manager \<Rightarrow> 'w Manager option" where
  "Manager_Register adapter m =
     (if ad_Name adapter \<in> set (map fst m) then None else Some ((ad_Name adapter, adapter) # m))"

definition Manager_Get :: "'w Manager \<Rightarrow> string \<Rightarrow> go_err + 'w RuntimeAdapter" where
  "Manager_Get m rt =
     (case map_of m rt of None \<Rightarrow> Inl (GoErr (''runtime: unknown adapter '' @ quote rt)) | Some a \<Rightarrow> Inr a)"

definition dispatch :: "'w Manager \<Rightarrow> string \<Rightarrow> ('w RuntimeAdapter \<Rightarrow> ('w, 'a) em) \<Rightarrow> ('w, 'a) em" where
  "dispatch m rt f = (case Manager_Get m rt of Inl e \<Rightarrow> failE e | Inr a \<Rightarrow> f a)"

definition Manager_Install :: "'w Manager \<Rightarrow> string \<Rightarrow> InstallConfig \<Rightarrow> ('w, unit) em" where
  "Manager_Install m rt cfg = dispatch m rt (\<lambda>a. ad_Install a cfg)"

definition Manager_Start :: "'w Manager \<Rightarrow> string \<Rightarrow> string \<Rightarrow> string \<Rightarrow> ('w, unit) em" where
  "Manager_Start m rt modelName modelVersion = dispatch m rt (\<lambda>a. ad_Start a modelName modelVersion)"

definition Manager_Stop :: "'w Manager \<Rightarrow> string \<Rightarrow> string \<Rightarrow> string \<Rightarrow> ('w, unit) em" where
  "Manager_Stop m rt modelName modelVersion = dispatch m rt (\<lambda>a. ad_Stop a modelName modelVersion)"

definition Manager_Restart :: "'w Manager \<Rightarrow> string \<Rightarrow> string \<Rightarrow> string \<Rightarrow> ('w, unit) em" where
  "Manager_Restart m rt modelName modelVersion = dispatch m rt (\<lambda>a. ad_Restart a modelName modelVersion)"

definition Manager_Uninstall :: "'w Manager \<Rightarrow> string \<Rightarrow> string \<Rightarrow> string \<Rightarrow> ('w, unit) em" where
  "Manager_Uninstall m rt modelName modelVersion = dispatch m rt (\<lambda>a. ad_Uninstall a modelName modelVersion)"

definition Manager_Status :: "'w Manager \<Rightarrow> string \<Rightarrow> string \<Rightarrow> string \<Rightarrow> ('w, RtStatus) em" where
  "Manager_Status m rt modelName modelVersion = dispatch m rt (\<lambda>a. ad_Status a modelName modelVersion)"

text \<open>The order of the names is that of a Go map, so only their set means something.\<close>

definition ListAdapters :: "'w Manager \<Rightarrow> string list" where
  "ListAdapters m = map fst m"

lemma Manager_Register_Get:
  "Manager_Register a m = Some m1 \<Longrightarrow> Manager_Get m1 (ad_Name a) = Inr a
     \<and> (rt \<noteq> ad_Name a \<longrightarrow> Manager_Get m1 rt = Manager_Get m rt)
     \<and> set (ListAdapters m1) = insert (ad_Name a) (set (ListAdapters m))"
  by (auto simp: Manager_Register_def Manager_Get_def ListAdapters_def split: if_splits)

section \<open>The contract\<close>

text \<open>An adapter serves instances, one per key of a name and a version; every operation that changes
  something changes only the instance of its key.\<close>

locale runtime_adapter =
  fixes ad :: "'w RuntimeAdapter" and key :: "string \<Rightarrow> string \<Rightarrow> 'k" and serving :: "'w \<Rightarrow> 'k \<Rightarrow> bool"
  assumes start_idle: "\<not> serving w (key n v) \<Longrightarrow>
      \<exists>w1. ad_Start ad n v w = (Inr (), w1) \<and> serving w1 = (serving w)(key n v := True)"
    and start_serving: "serving w (key n v) \<Longrightarrow> \<exists>e. ad_Start ad n v w = (Inl e, w)"
    and stop_serving: "serving w (key n v) \<Longrightarrow>
      \<exists>w1. ad_Stop ad n v w = (Inr (), w1) \<and> serving w1 = (serving w)(key n v := False)"
    and stop_idle: "\<not> serving w (key n v) \<Longrightarrow> \<exists>e. ad_Stop ad n v w = (Inl e, w)"
    and restart: "\<exists>w1. ad_Restart ad n v w = (Inr (), w1) \<and> serving w1 = (serving w)(key n v := True)"
    and install: "\<exists>w1. ad_Install ad cfg w = (Inr (), w1) \<and> serving w1 = serving w"
    and status: "\<exists>st. ad_Status ad n v w = (Inr st, w) \<and> st_Running st = serving w (key n v)
      \<and> st_State st = (if serving w (key n v) then ''Running'' else ''Stopped'')"
begin

lemma start_status: "\<not> serving w (key n v) \<Longrightarrow>
    \<exists>w1 st. bindE (ad_Start ad n v) (\<lambda>_. ad_Status ad n v) w = (Inr st, w1) \<and> st_Running st
      \<and> serving w1 = (serving w)(key n v := True)"
proof -
  assume "\<not> serving w (key n v)"
  then obtain w1 where w1: "ad_Start ad n v w = (Inr (), w1)" "serving w1 = (serving w)(key n v := True)"
    using start_idle by blast
  obtain st where "ad_Status ad n v w1 = (Inr st, w1)" "st_Running st = serving w1 (key n v)" using status by blast
  with w1 show ?thesis by (simp add: bindE_def)
qed

end

lemma map_get_update: "map_get z (AList.update k b m) q = (if q = k then b else map_get z m q)"
  by (simp add: map_get_def update_conv')

lemma map_get_delete: "map_get z (AList.delete k m) q = (if q = k then z else map_get z m q)"
  by (simp add: map_get_def delete_conv' restrict_map_def)

lemmas llama_ops = llama_adapter_def Llama_Install_def Llama_Start_def Llama_Stop_def Llama_Restart_def
  Llama_Uninstall_def Llama_Status_def Let_def bindE_def catchE_def returnE_def failE_def

interpretation llama: runtime_adapter llama_adapter modelKey is_running
  by unfold_locales (auto simp: llama_ops is_running_def map_get_update map_get_delete fun_eq_iff)

end
