(* ===== verification/Updater.thy ===== *)
theory Updater
  imports Downloader
begin

text \<open>
  The upgrade of the agent binary (\<open>internal/agent/updater.go\<close>). SHA-256 in hexadecimal and
  \<open>ed25519.Verify\<close> are parameters, and so is the package \<open>golang.org/x/mod/semver\<close>. The text of an
  error of \<open>json.Unmarshal\<close> or \<open>hex.DecodeString\<close> is not modelled. \<open>systemctl restart\<close> is started, not
  awaited: the model records the command.
\<close>

definition json_error :: go_err where "json_error = GoErr ''json: cannot unmarshal''"

text \<open>The fields of a Go struct read from an object, one after the other; null leaves the zero values.\<close>

fun unmarshal_strings_of :: "string list \<Rightarrow> (string \<times> json) list \<Rightarrow> bool \<times> string list" where
  "unmarshal_strings_of [] kvs = (True, [])"
| "unmarshal_strings_of (n # ns) kvs =
     (let (ok1, s) = unmarshal_field unmarshal_string n kvs []; (ok2, ss) = unmarshal_strings_of ns kvs in (ok1 \<and> ok2, s # ss))"

definition unmarshal_struct :: "string list \<Rightarrow> raw \<Rightarrow> go_err + string list" where
  "unmarshal_struct names r =
     (case r of
        Raw_JSON (JObj kvs) \<Rightarrow> (case unmarshal_strings_of names kvs of (ok, vs) \<Rightarrow> if ok then Inr vs else Inl json_error)
      | Raw_JSON JNull \<Rightarrow> Inr (map (\<lambda>_. []) names)
      | _ \<Rightarrow> Inl json_error)"

definition TaskTypeUpgradeAgent :: string where "TaskTypeUpgradeAgent = ''UpgradeAgent''"

record ReleaseManifest =
  rm_Version :: string
  rm_SHA256 :: string
  rm_Signature :: string
  rm_MinAllowedVersion :: string
  rm_DownloadURL :: string

definition unmarshal_manifest :: "raw \<Rightarrow> go_err + ReleaseManifest" where
  "unmarshal_manifest r =
     (case unmarshal_struct [''version'', ''sha256'', ''signature'', ''min_allowed_version'', ''download_url''] r of
        Inr [v, s, g, m, u] \<Rightarrow> Inr \<lparr>rm_Version = v, rm_SHA256 = s, rm_Signature = g, rm_MinAllowedVersion = m, rm_DownloadURL = u\<rparr>
      | Inl e \<Rightarrow> Inl e
      | _ \<Rightarrow> Inl json_error)"

record release_env =
  re_sha :: "string \<Rightarrow> string"
  re_verify :: "string \<Rightarrow> string \<Rightarrow> string \<Rightarrow> bool"
  re_semver_valid :: "string \<Rightarrow> bool"
  re_semver_compare :: "string \<Rightarrow> string \<Rightarrow> int"

record Updater =
  up_currentVersion :: string
  up_binaryPath :: string
  up_dataDir :: string
  up_verifyKey :: string

definition NewUpdater :: "string \<Rightarrow> string \<Rightarrow> string \<Rightarrow> string \<Rightarrow> Updater" where
  "NewUpdater currentVersion binaryPath dataDir verifyKey =
     \<lparr>up_currentVersion = currentVersion, up_binaryPath = binaryPath, up_dataDir = dataDir, up_verifyKey = verifyKey\<rparr>"

definition ensureVPrefix :: "string \<Rightarrow> string" where
  "ensureVPrefix v = (if v = [] then [] else if \<not> has_prefix v ''v'' then ''v'' @ v else v)"

definition validateManifest :: "release_env \<Rightarrow> ReleaseManifest \<Rightarrow> go_err option" where
  "validateManifest env m =
     (if rm_Version m = [] \<or> rm_SHA256 m = [] \<or> rm_Signature m = [] then Some (GoErr ''updater: incomplete manifest'')
      else if rm_DownloadURL m = [] then Some (GoErr ''updater: download_url is required'')
      else
        let newVer = ensureVPrefix (rm_Version m); minVer = ensureVPrefix (rm_MinAllowedVersion m) in
        if rm_MinAllowedVersion m \<noteq> [] \<and> re_semver_valid env newVer \<and> re_semver_valid env minVer
           \<and> re_semver_compare env newVer minVer < 0
        then Some (GoErr (''updater: version '' @ rm_Version m @ '' is below min_allowed_version '' @ rm_MinAllowedVersion m
                @ '' (rollback rejected)''))
        else None)"

definition downloadBinary :: "string \<Rightarrow> string \<Rightarrow> (string, unit) hostm" where
  "downloadBinary url dest =
     bindE (map_err (wrap ''updater: create request'') (http_NewRequest url)) (\<lambda>_.
     bindE (map_err (wrap ''updater: download'') (http_Do (http_get url))) (\<lambda>ans.
     if ha_Status ans \<noteq> 200 then failE (GoErr (''updater: download status '' @ itoa (ha_Status ans)))
     else
       bindE (map_err (wrap ''updater: create file'') (os_OpenFile True dest)) (\<lambda>_.
       bindE (catchE (io_Copy dest ans) (\<lambda>e.
                bindE (closeWithLog dest) (\<lambda>_. bindE (removeWithLog dest) (\<lambda>_. failE (wrap ''updater: write'' e))))) (\<lambda>_.
         os_Close dest))))"

definition verifyChecksum :: "release_env \<Rightarrow> string \<Rightarrow> string \<Rightarrow> (string, unit) hostm" where
  "verifyChecksum env path expected =
     bindE (map_err (wrap ''updater: open for checksum'') (os_ReadFile path)) (\<lambda>c.
       if \<not> equal_fold (re_sha env c) expected
       then failE (GoErr (''updater: sha256 mismatch: got '' @ re_sha env c @ '', want '' @ expected))
       else returnE ())"

definition hex_digits :: string where "hex_digits = ''0123456789abcdef''"

definition hex_value :: "char \<Rightarrow> nat option" where
  "hex_value c = map_of (zip hex_digits [0..<16]) (lower_char c)"

fun hex_decode :: "string \<Rightarrow> string option" where
  "hex_decode [] = Some []"
| "hex_decode [c] = None"
| "hex_decode (a # b # s) =
     (case (hex_value a, hex_value b, hex_decode s) of
        (Some x, Some y, Some t) \<Rightarrow> Some (char_of (16 * x + y) # t) | _ \<Rightarrow> None)"

definition verifySignature :: "release_env \<Rightarrow> Updater \<Rightarrow> string \<Rightarrow> string \<Rightarrow> go_err option" where
  "verifySignature env u sha256Hex signatureHex =
     (if up_verifyKey u = [] then None
      else case hex_decode signatureHex of
             None \<Rightarrow> Some (wrap ''updater: decode signature'' (GoErr ''encoding/hex''))
           | Some sig \<Rightarrow>
               if \<not> re_verify env (up_verifyKey u) sha256Hex sig
               then Some (GoErr ''updater: ed25519 signature verification failed'') else None)"

definition replaceBinary :: "Updater \<Rightarrow> string \<Rightarrow> (string, unit) hostm" where
  "replaceBinary u tmpPath =
     (let backupPath = up_binaryPath u @ ''.bak'' in
      bindE (catchE (os_Rename (up_binaryPath u) backupPath) (\<lambda>e.
               if os_IsNotExist e then returnE () else failE (wrap ''updater: backup old binary'' e))) (\<lambda>_.
      catchE (os_Rename tmpPath (up_binaryPath u)) (\<lambda>e.
        bindE (ignore_err (os_Rename backupPath (up_binaryPath u))) (\<lambda>_. failE (wrap ''updater: replace binary'' e)))))"

definition restart_command :: "string list" where "restart_command = [''systemctl'', ''restart'', ''edge-agent'']"

definition restart :: "('c, unit) hostm" where
  "restart = ignore_err (exec_Output restart_command)"

text \<open>An error value returned after the temporary file is removed.\<close>

definition checked :: "string \<Rightarrow> ('c, unit) hostm \<Rightarrow> ('c, unit) hostm" where
  "checked tmpPath m = catchE m (\<lambda>e. bindE (removeWithLog tmpPath) (\<lambda>_. failE e))"

definition returned :: "go_err option \<Rightarrow> ('s, unit) em" where
  "returned e = (case e of None \<Rightarrow> returnE () | Some e \<Rightarrow> failE e)"

definition upgrade_result :: "Updater \<Rightarrow> ReleaseManifest \<Rightarrow> json" where
  "upgrade_result u m = json_of_smap [(''new_version'', rm_Version m), (''old_version'', up_currentVersion u)]"

definition Updater_Execute :: "release_env \<Rightarrow> Updater \<Rightarrow> string \<Rightarrow> raw \<Rightarrow> (string, json) hostm" where
  "Updater_Execute env u taskType payload =
     (if taskType \<noteq> TaskTypeUpgradeAgent then failE (GoErr (''updater: unexpected task type '' @ quote taskType))
      else case unmarshal_manifest payload of
        Inl e \<Rightarrow> failE (wrap ''updater: parse manifest'' e)
      | Inr m \<Rightarrow>
          let tmpPath = up_binaryPath u @ ''.new'' in
          bindE (returned (validateManifest env m)) (\<lambda>_.
          bindE (downloadBinary (rm_DownloadURL m) tmpPath) (\<lambda>_.
          bindE (checked tmpPath (verifyChecksum env tmpPath (rm_SHA256 m))) (\<lambda>_.
          bindE (checked tmpPath (returned (verifySignature env u (rm_SHA256 m) (rm_Signature m)))) (\<lambda>_.
          bindE (replaceBinary u tmpPath) (\<lambda>_.
          bindE restart (\<lambda>_. returnE (upgrade_result u m))))))))"

section \<open>Replacing the binary\<close>

lemma Rename_missing:
  assumes "os_Rename a b h = (Inl e, h1)" "os_IsNotExist e" "is_dir (node_at (files h) (butlast (path_of b)))"
  shows "contents h (path_of a) = None"
proof -
  have "rename_file (host_now h) (path_of a) (path_of b) (files h) = Inl ENOENT"
    using assms(1,2) unfolding os_Rename_def os_write_def
    by (auto simp: os_call_def Let_def os_IsNotExist_def split: list.splits option.splits os_fault.splits sum.splits)
  with assms(3) show ?thesis
    by (auto simp: rename_file_def contents_def content_at_def split: option.splits fnode.splits if_splits)
qed

lemma Rename_into_dir:
  "os_Rename a b h = (Inr x, h1) \<Longrightarrow> is_dir (node_at (files h) (butlast (path_of b)))"
  unfolding os_Rename_def
  by (auto simp: rename_file_def dest!: os_write_InrD split: option.splits fnode.splits if_splits)

text \<open>The paths of the binary, of the release beside it and of its backup.\<close>

definition binary_paths :: "Updater \<Rightarrow> bool" where
  "binary_paths u =
     (let b = path_of (up_binaryPath u); n = path_of (up_binaryPath u @ ''.new''); k = path_of (up_binaryPath u @ ''.bak'') in
      b \<noteq> n \<and> b \<noteq> k \<and> n \<noteq> k \<and> butlast k = butlast b)"

text \<open>A rename moves the contents or leaves everything; then the step that sets the old binary aside, and the one that
  puts the new one in its place or the old one back.\<close>

lemma rename_cases:
  assumes "os_Rename src dst h = (q, h1)"
  shows "same_world h h1
    \<and> (case q of Inl e \<Rightarrow> files h1 = files h \<and> contents h1 = contents h
       | Inr _ \<Rightarrow> is_dir (node_at (files h) (butlast (path_of dst)))
           \<and> (\<exists>c. contents h (path_of src) = Some c \<and> contents h1 = (contents h)(path_of src := None, path_of dst := Some c)))"
  using assms os_Rename_InlD [of src dst h _ h1] os_Rename_InrD [of src dst h _ h1] Rename_into_dir [of src dst h _ h1]
  by (cases q) auto

lemma set_aside_D:
  assumes "catchE (os_Rename b k) (\<lambda>e. if os_IsNotExist e then returnE () else failE (f e)) h = (q, h2)"
    and "butlast (path_of k) = butlast (path_of b)"
  shows "same_world h h2
    \<and> (contents h2 = contents h \<and> (q = Inr () \<longrightarrow> files h2 = files h
           \<and> (is_dir (node_at (files h) (butlast (path_of b))) \<longrightarrow> contents h (path_of b) = None))
       \<or> q = Inr () \<and> contents h (path_of b) \<noteq> None
           \<and> contents h2 = (contents h)(path_of b := None, path_of k := contents h (path_of b)))"
proof -
  obtain q1 h1 where mv: "os_Rename b k h = (q1, h1)" by force
  with assms(1) have "h2 = h1" by (cases q1) (auto simp: catchE_def returnE_def failE_def split: if_splits)
  with mv assms rename_cases [OF mv] Rename_missing [of b k h _ h1] show ?thesis
    by (cases q1) (auto simp: catchE_def returnE_def failE_def split: if_splits)
qed

lemma put_in_place_D:
  assumes run: "catchE (os_Rename tmp b) (\<lambda>e. bindE (ignore_err (os_Rename k b)) (\<lambda>_. failE (f e))) h = (r, h1)"
    and c: "contents h (path_of tmp) = Some c" and ne: "path_of b \<noteq> path_of tmp"
  shows "same_world h h1
    \<and> (r = Inr () \<longrightarrow> is_dir (node_at (files h) (butlast (path_of b)))
         \<and> contents h1 = (contents h)(path_of tmp := None, path_of b := Some c))
    \<and> (r \<noteq> Inr () \<longrightarrow> contents h1 = contents h
         \<or> is_dir (node_at (files h) (butlast (path_of b))) \<and> contents h (path_of k) \<noteq> None
           \<and> contents h1 = (contents h)(path_of k := None, path_of b := contents h (path_of k)))"
proof -
  obtain q2 h2 where mv2: "os_Rename tmp b h = (q2, h2)" by force
  obtain q3 h3 where mv3: "os_Rename k b h2 = (q3, h3)" by force
  show ?thesis
  proof (cases q2)
    case (Inr x)
    with run mv2 have "r = Inr ()" "h1 = h2" by (auto simp: catchE_def)
    with rename_cases [OF mv2] Inr c show ?thesis by auto
  next
    case (Inl e)
    with run mv2 mv3 have "r = Inl (f e)" "h1 = h3" by (auto simp: catchE_def bindE_def failE_def ignore_err_def returnE_def split: sum.splits)
    with rename_cases [OF mv2] rename_cases [OF mv3] Inl show ?thesis by (cases q3) (auto intro: same_world_trans)
  qed
qed

lemma replaceBinary_D:
  assumes run: "replaceBinary u tmp h = (r, h1)" and paths: "binary_paths u"
    and tmp: "tmp = up_binaryPath u @ ''.new''" and c: "contents h (path_of tmp) = Some c"
  defines "b \<equiv> path_of (up_binaryPath u)" and "k \<equiv> path_of (up_binaryPath u @ ''.bak'')"
  shows "same_world h h1
    \<and> (r = Inr () \<longrightarrow> contents h1 b = Some c \<and> (contents h b \<noteq> None \<longrightarrow> contents h1 k = contents h b))
    \<and> (r \<noteq> Inr () \<longrightarrow> contents h1 b = contents h b \<or> contents h1 b = None \<and> contents h1 k = contents h b
         \<or> contents h b = None \<and> contents h1 b = contents h k)"
proof -
  have ne: "b \<noteq> path_of tmp" "b \<noteq> k" "path_of tmp \<noteq> k" "butlast k = butlast b"
    using paths by (simp_all add: binary_paths_def Let_def b_def k_def tmp)
  let ?bak = "up_binaryPath u @ ''.bak''"
  let ?aside = "catchE (os_Rename (up_binaryPath u) ?bak) (\<lambda>e. if os_IsNotExist e then returnE () else failE (wrap ''updater: backup old binary'' e))"
  let ?place = "catchE (os_Rename tmp (up_binaryPath u)) (\<lambda>e. bindE (ignore_err (os_Rename ?bak (up_binaryPath u)))
      (\<lambda>_. failE (wrap ''updater: replace binary'' e)))"
  obtain q h2 where aside: "?aside h = (q, h2)" by force
  note A = set_aside_D [OF aside, folded b_def k_def, OF ne(4)]
  show ?thesis
  proof (cases q)
    case (Inl e)
    with run aside have "h1 = h2" "r \<noteq> Inr ()" by (auto simp: replaceBinary_def Let_def bindE_def)
    with A Inl show ?thesis by auto
  next
    case (Inr x)
    with run aside have place: "?place h2 = (r, h1)" by (simp add: replaceBinary_def Let_def bindE_def)
    have "contents h2 (path_of tmp) = Some c" using A c ne by auto
    note P = put_in_place_D [OF place this, folded b_def k_def, OF ne(1)]
    show ?thesis
    proof (cases "r = Inr ()")
      case True
      with P A Inr ne show ?thesis by (auto intro: same_world_trans)
    next
      case False
      with P A Inr ne show ?thesis by (auto intro: same_world_trans)
    qed
  qed
qed

section \<open>The steps before\<close>

lemma spares_steps [keeps]:
  assumes "p \<noteq> path_of tmp"
  shows "spares p (downloadBinary url tmp)" "spares p (verifyChecksum env tmp expected)" "spares p (returned e)"
    "spares p m \<Longrightarrow> spares p (checked tmp m)"
  using assms
  unfolding downloadBinary_def verifyChecksum_def returned_def checked_def closeWithLog_def removeWithLog_def
  by (intro keeps spares_writes spares_Remove; simp)+

lemma checked_InrD: "checked tmp m h = (Inr x, h1) \<Longrightarrow> m h = (Inr x, h1)"
  by (auto simp: checked_def catchE_def bindE_def failE_def removeWithLog_def ignore_err_def split: prod.splits sum.splits)

lemma returned_InrD: "returned e h = (Inr x, h1) \<Longrightarrow> e = None \<and> h1 = h"
  by (auto simp: returned_def returnE_def failE_def split: option.splits)

lemma verifyChecksum_InrD:
  "verifyChecksum env path expected h = (Inr x, h1) \<Longrightarrow>
     \<exists>c. contents h1 (path_of path) = Some c \<and> equal_fold (re_sha env c) expected"
  unfolding verifyChecksum_def
  by (auto simp: returnE_def failE_def dest!: bindE_InrD map_err_InrD split: if_splits)
    (metis os_ReadFile_InrD os_reads(2))

text \<open>Everything up to the replacement: the verified release lies beside the binary.\<close>

definition fetch_release :: "release_env \<Rightarrow> Updater \<Rightarrow> ReleaseManifest \<Rightarrow> string \<Rightarrow> (string, unit) hostm" where
  "fetch_release env u m tmpPath =
     bindE (returned (validateManifest env m)) (\<lambda>_.
     bindE (downloadBinary (rm_DownloadURL m) tmpPath) (\<lambda>_.
     bindE (checked tmpPath (verifyChecksum env tmpPath (rm_SHA256 m))) (\<lambda>_.
       checked tmpPath (returned (verifySignature env u (rm_SHA256 m) (rm_Signature m))))))"

lemma Execute_release:
  "unmarshal_manifest payload = Inr m \<Longrightarrow> Updater_Execute env u TaskTypeUpgradeAgent payload =
     bindE (fetch_release env u m (up_binaryPath u @ ''.new'')) (\<lambda>_.
     bindE (replaceBinary u (up_binaryPath u @ ''.new'')) (\<lambda>_. bindE restart (\<lambda>_. returnE (upgrade_result u m))))"
  by (simp add: Updater_Execute_def fetch_release_def Let_def bindE_assoc)

definition release_ok :: "release_env \<Rightarrow> Updater \<Rightarrow> ReleaseManifest \<Rightarrow> string \<Rightarrow> bool" where
  "release_ok env u m c = (validateManifest env m = None \<and> equal_fold (re_sha env c) (rm_SHA256 m)
     \<and> verifySignature env u (rm_SHA256 m) (rm_Signature m) = None)"

lemma fetch_release_D:
  assumes "fetch_release env u m tmp h = (r, h1)"
  shows "p \<noteq> path_of tmp \<Longrightarrow> contents h1 p = contents h p" "same_world h h1"
    "r = Inr x \<Longrightarrow> \<exists>c. contents h1 (path_of tmp) = Some c \<and> release_ok env u m c"
proof -
  have sp: "spares p (fetch_release env u m tmp)" if "p \<noteq> path_of tmp" for p
    unfolding fetch_release_def by (intro keeps) (rule that)+
  show "p \<noteq> path_of tmp \<Longrightarrow> contents h1 p = contents h p" using sparesD [OF sp assms] by simp
  obtain p where "p \<noteq> path_of tmp" by (metis list.distinct(1))
  then show "same_world h h1" using sparesD [OF sp assms] by simp
  show "r = Inr x \<Longrightarrow> \<exists>c. contents h1 (path_of tmp) = Some c \<and> release_ok env u m c"
    using assms unfolding fetch_release_def release_ok_def
    by (auto dest!: bindE_InrD checked_InrD returned_InrD verifyChecksum_InrD)
qed


definition example_release_env :: release_env where
  "example_release_env = \<lparr>re_sha = (\<lambda>c. c), re_verify = (\<lambda>key msg sig. sig = msg), re_semver_valid = (\<lambda>v. has_prefix v ''v''),
     re_semver_compare = (\<lambda>a b. if a = b then 0 else 1)\<rparr>"

definition example_updater :: Updater where
  "example_updater = NewUpdater ''1.0.0'' ''/agent'' ''/d'' ''key''"

definition example_payload :: raw where
  "example_payload = Raw_JSON (JObj [(''version'', JStr ''1.1.0''), (''sha256'', JStr ''ab''), (''signature'', JStr ''6162''),
     (''min_allowed_version'', JStr ''1.0.0''), (''download_url'', JStr ''http://x'')])"

definition example_release_host :: "string host" where
  "example_release_host = (plain_host [([''agent''], File ''old'' 1)])\<lparr>server := (\<lambda>n req.
     Inr \<lparr>ha_Status = 200, ha_Body = ''ab'', ha_BodyErr = None\<rparr>)\<rparr>"

lemma example_manifest: "unmarshal_manifest example_payload = Inr \<lparr>rm_Version = ''1.1.0'', rm_SHA256 = ''ab'',
    rm_Signature = ''6162'', rm_MinAllowedVersion = ''1.0.0'', rm_DownloadURL = ''http://x''\<rparr>"
  by (simp add: unmarshal_manifest_def example_payload_def unmarshal_struct_def unmarshal_field_def json_field_def
      unmarshal_string_def)

lemma example_binary_paths:
  "path_of ''/agent'' = [''agent'']" "path_of ''/agent.new'' = [''agent.new'']" "path_of ''/agent.bak'' = [''agent.bak'']"
  by (simp_all add: path_of_def)

lemma example_chars: "char_of (97 :: nat) = CHR ''a''" "char_of (98 :: nat) = CHR ''b''"
  by code_simp+

lemma example_upgrade: "fst (Updater_Execute example_release_env example_updater TaskTypeUpgradeAgent example_payload example_release_host)
    = Inr (upgrade_result example_updater \<lparr>rm_Version = ''1.1.0'', rm_SHA256 = ''ab'',
    rm_Signature = ''6162'', rm_MinAllowedVersion = ''1.0.0'', rm_DownloadURL = ''http://x''\<rparr>)"
  unfolding Execute_release [OF example_manifest]
  by (simp add: fetch_release_def validateManifest_def ensureVPrefix_def downloadBinary_def verifyChecksum_def verifySignature_def
      hex_value_def hex_digits_def upt_rec returned_def checked_def replaceBinary_def restart_def exec_Output_def Let_def
      bindE_def map_err_def catchE_def returnE_def failE_def host_run http_get_def example_release_env_def example_updater_def
      NewUpdater_def example_release_host_def plain_host_def example_binary_paths example_chars str)


end
