(* ===== verification/Runtime_Executor.thy ===== *)
theory Runtime_Executor
  imports Runtime Updater
begin

text \<open>
  The executor of runtime tasks on a node (\<open>internal/agent/runtime_executor.go\<close>). What a task does is proved
  for any manager with an adapter that keeps the contract of \<open>Runtime\<close>, and holds for the manager of the
  agent with its llama.cpp adapter. The result is the JSON of the status.
\<close>

record runtimeTaskPayload =
  rp_DeploymentID :: string
  rp_ModelName :: string
  rp_ModelVersion :: string
  rp_Runtime :: string
  rp_Action :: string
  rp_ArtifactURI :: string

definition unmarshal_runtime_payload :: "raw \<Rightarrow> go_err + runtimeTaskPayload" where
  "unmarshal_runtime_payload r =
     (case unmarshal_struct [''deployment_id'', ''model_name'', ''model_version'', ''runtime'', ''action'', ''artifact_uri''] r of
        Inr [d, n, v, rt, a, u] \<Rightarrow> Inr \<lparr>rp_DeploymentID = d, rp_ModelName = n, rp_ModelVersion = v, rp_Runtime = rt,
          rp_Action = a, rp_ArtifactURI = u\<rparr>
      | Inl e \<Rightarrow> Inl e
      | _ \<Rightarrow> Inl json_error)"

definition status_json :: "RtStatus \<Rightarrow> json" where
  "status_json st =
     JObj ([(''running'', JBool (st_Running st)), (''state'', JStr (st_State st))]
           @ (if st_Info st = [] then [] else [(''info'', json_of_smap (st_Info st))]))"

definition install_config :: "runtimeTaskPayload \<Rightarrow> InstallConfig" where
  "install_config p = \<lparr>in_ModelName = rp_ModelName p, in_ModelVersion = rp_ModelVersion p,
     in_ArtifactURI = rp_ArtifactURI p, in_RuntimeConfig = []\<rparr>"

definition startRuntime :: "'w Manager \<Rightarrow> runtimeTaskPayload \<Rightarrow> ('w, unit) em" where
  "startRuntime m p =
     bindE (if rp_ArtifactURI p \<noteq> [] then map_err (wrap ''install'') (Manager_Install m (rp_Runtime p) (install_config p))
            else returnE ())
       (\<lambda>_. Manager_Start m (rp_Runtime p) (rp_ModelName p) (rp_ModelVersion p))"

definition stopRuntime :: "'w Manager \<Rightarrow> runtimeTaskPayload \<Rightarrow> ('w, unit) em" where
  "stopRuntime m p = Manager_Stop m (rp_Runtime p) (rp_ModelName p) (rp_ModelVersion p)"

definition restartRuntime :: "'w Manager \<Rightarrow> runtimeTaskPayload \<Rightarrow> ('w, unit) em" where
  "restartRuntime m p = Manager_Restart m (rp_Runtime p) (rp_ModelName p) (rp_ModelVersion p)"

definition upgradeRuntime :: "'w Manager \<Rightarrow> runtimeTaskPayload \<Rightarrow> ('w, unit) em" where
  "upgradeRuntime m p =
     bindE (catchE (Manager_Stop m (rp_Runtime p) (rp_ModelName p) (rp_ModelVersion p)) (\<lambda>_. returnE ())) (\<lambda>_.
     bindE (if rp_ArtifactURI p \<noteq> []
            then map_err (wrap ''upgrade install'') (Manager_Install m (rp_Runtime p) (install_config p)) else returnE ())
       (\<lambda>_. Manager_Start m (rp_Runtime p) (rp_ModelName p) (rp_ModelVersion p)))"

definition runtime_action :: "'w Manager \<Rightarrow> string \<Rightarrow> runtimeTaskPayload \<Rightarrow> ('w, unit) em" where
  "runtime_action m taskType p =
     (if taskType = ''StartRuntime'' then startRuntime m p
      else if taskType = ''StopRuntime'' then stopRuntime m p
      else if taskType = ''RestartRuntime'' then restartRuntime m p
      else if taskType = ''UpgradeRuntime'' then upgradeRuntime m p
      else failE (GoErr (''runtime executor: unknown task type '' @ quote taskType)))"

definition Runtime_Execute :: "'w Manager \<Rightarrow> string \<Rightarrow> raw \<Rightarrow> ('w, json) em" where
  "Runtime_Execute m taskType payload =
     (case unmarshal_runtime_payload payload of
        Inl e \<Rightarrow> failE (wrap ''runtime executor: unmarshal payload'' e)
      | Inr p \<Rightarrow>
          if rp_Runtime p = [] then failE (GoErr ''runtime executor: runtime field is required'')
          else
            bindE (runtime_action m taskType p) (\<lambda>_.
            bindE (map_err (wrap (''runtime executor: get status after '' @ taskType))
                     (Manager_Status m (rp_Runtime p) (rp_ModelName p) (rp_ModelVersion p)))
              (\<lambda>st. returnE (status_json st))))"

section \<open>With an adapter that keeps its contract\<close>

context runtime_adapter
begin

text \<open>The state of the instance of a task after it, or None if the task fails.\<close>

definition target :: "string \<Rightarrow> bool \<Rightarrow> bool option" where
  "target taskType on =
     (if taskType = ''StartRuntime'' then (if on then None else Some True)
      else if taskType = ''StopRuntime'' then (if on then Some False else None)
      else if taskType \<in> {''RestartRuntime'', ''UpgradeRuntime''} then Some True
      else None)"

lemma install_first:
  assumes reg: "Manager_Get m rt = Inr ad"
  shows "\<exists>w1. (if b then map_err g (Manager_Install m rt cfg) else returnE ()) w = (Inr (), w1) \<and> serving w1 = serving w"
proof -
  obtain w1 where "ad_Install ad cfg w = (Inr (), w1)" "serving w1 = serving w" using install by blast
  with reg show ?thesis by (cases b) (auto simp: Manager_Install_def dispatch_def map_err_def returnE_def)
qed

lemma install_start:
  assumes reg: "Manager_Get m rt = Inr ad"
  shows "if serving w (key n v)
    then \<exists>e w1. bindE (if b then map_err g (Manager_Install m rt cfg) else returnE ()) (\<lambda>_. Manager_Start m rt n v) w = (Inl e, w1)
           \<and> serving w1 = serving w
    else \<exists>w1. bindE (if b then map_err g (Manager_Install m rt cfg) else returnE ()) (\<lambda>_. Manager_Start m rt n v) w = (Inr (), w1)
           \<and> serving w1 = (serving w)(key n v := True)"
proof -
  obtain w1 where w1: "(if b then map_err g (Manager_Install m rt cfg) else returnE ()) w = (Inr (), w1)" "serving w1 = serving w"
    using install_first [OF reg] by blast
  have run: "bindE (if b then map_err g (Manager_Install m rt cfg) else returnE ()) (\<lambda>_. Manager_Start m rt n v) w = ad_Start ad n v w1"
    using w1(1) reg by (simp add: bindE_def Manager_Start_def dispatch_def)
  show ?thesis
    using start_serving [of w1 n v] start_idle [of w1 n v] w1(2) unfolding run by auto
qed

lemma upgrade_outcome:
  assumes reg: "Manager_Get m (rp_Runtime p) = Inr ad"
  defines "k \<equiv> key (rp_ModelName p) (rp_ModelVersion p)"
  shows "\<exists>w1. upgradeRuntime m p w = (Inr (), w1) \<and> serving w1 = (serving w)(k := True)"
proof -
  obtain w1 where w1: "catchE (Manager_Stop m (rp_Runtime p) (rp_ModelName p) (rp_ModelVersion p)) (\<lambda>_. returnE ()) w = (Inr (), w1)"
    "serving w1 = (serving w)(k := False)"
  proof (cases "serving w k")
    case True
    then obtain w1 where "ad_Stop ad (rp_ModelName p) (rp_ModelVersion p) w = (Inr (), w1)" "serving w1 = (serving w)(k := False)"
      using stop_serving k_def by blast
    with reg that show thesis by (simp add: catchE_def Manager_Stop_def dispatch_def)
  next
    case False
    then obtain e where "ad_Stop ad (rp_ModelName p) (rp_ModelVersion p) w = (Inl e, w)" using stop_idle k_def by blast
    with reg False that show thesis by (simp add: catchE_def Manager_Stop_def dispatch_def returnE_def fun_upd_idem)
  qed
  have "\<not> serving w1 (key (rp_ModelName p) (rp_ModelVersion p))" using w1(2) by (simp add: k_def)
  with install_start [OF reg, of w1 "rp_ModelName p" "rp_ModelVersion p" "rp_ArtifactURI p \<noteq> []" "wrap ''upgrade install''" "install_config p"]
  obtain w2 where "bindE (if rp_ArtifactURI p \<noteq> [] then map_err (wrap ''upgrade install'') (Manager_Install m (rp_Runtime p) (install_config p))
        else returnE ()) (\<lambda>_. Manager_Start m (rp_Runtime p) (rp_ModelName p) (rp_ModelVersion p)) w1 = (Inr (), w2)"
      "serving w2 = (serving w1)(k := True)"
    unfolding k_def by auto
  with w1 show ?thesis unfolding upgradeRuntime_def by (simp add: bindE_Inr)
qed

lemma action_outcome:
  assumes reg: "Manager_Get m (rp_Runtime p) = Inr ad"
  defines "k \<equiv> key (rp_ModelName p) (rp_ModelVersion p)"
  shows "case target ty (serving w k) of
      Some on \<Rightarrow> \<exists>w1. runtime_action m ty p w = (Inr (), w1) \<and> serving w1 = (serving w)(k := on)
    | None \<Rightarrow> \<exists>e w1. runtime_action m ty p w = (Inl e, w1) \<and> serving w1 = serving w"
proof -
  consider (start) "ty = ''StartRuntime''" | (stop) "ty = ''StopRuntime''" | (again) "ty = ''RestartRuntime''"
    | (upgrade) "ty = ''UpgradeRuntime''" | (other) "ty \<notin> {''StartRuntime'', ''StopRuntime'', ''RestartRuntime'', ''UpgradeRuntime''}"
    by blast
  then show ?thesis
  proof cases
    case start
    then show ?thesis
      using install_start [OF reg, of w "rp_ModelName p" "rp_ModelVersion p" "rp_ArtifactURI p \<noteq> []" "wrap ''install''" "install_config p"]
      by (auto simp: runtime_action_def startRuntime_def target_def k_def)
  next
    case stop
    then show ?thesis
      using stop_serving [of w "rp_ModelName p" "rp_ModelVersion p"] stop_idle [of w "rp_ModelName p" "rp_ModelVersion p"] reg
      by (auto simp: runtime_action_def stopRuntime_def Manager_Stop_def dispatch_def target_def k_def)
  next
    case again
    then show ?thesis
      using restart [of "rp_ModelName p" "rp_ModelVersion p" w] reg
      by (auto simp: runtime_action_def restartRuntime_def Manager_Restart_def dispatch_def target_def k_def)
  next
    case upgrade
    then show ?thesis
      using upgrade_outcome [OF reg, of w] by (auto simp: runtime_action_def target_def k_def)
  next
    case other
    then show ?thesis by (auto simp: runtime_action_def target_def failE_def)
  qed
qed

lemma execute_outcome:
  assumes "unmarshal_runtime_payload payload = Inr p" "rp_Runtime p \<noteq> []" "Manager_Get m (rp_Runtime p) = Inr ad"
  defines "k \<equiv> key (rp_ModelName p) (rp_ModelVersion p)"
  shows "case target ty (serving w k) of
      Some on \<Rightarrow> \<exists>w1 st. Runtime_Execute m ty payload w = (Inr (status_json st), w1) \<and> serving w1 = (serving w)(k := on)
        \<and> st_Running st = on \<and> st_State st = (if on then ''Running'' else ''Stopped'')
    | None \<Rightarrow> \<exists>e w1. Runtime_Execute m ty payload w = (Inl e, w1) \<and> serving w1 = serving w"
proof -
  note act = action_outcome [OF assms(3), of ty w, folded k_def]
  show ?thesis
  proof (cases "target ty (serving w k)")
    case None
    with act obtain e w1 where "runtime_action m ty p w = (Inl e, w1)" "serving w1 = serving w" by auto
    with assms(1,2) None show ?thesis by (simp add: Runtime_Execute_def bindE_Inl)
  next
    case (Some on)
    with act obtain w1 where w1: "runtime_action m ty p w = (Inr (), w1)" "serving w1 = (serving w)(k := on)" by auto
    obtain st where st: "ad_Status ad (rp_ModelName p) (rp_ModelVersion p) w1 = (Inr st, w1)" "st_Running st = serving w1 k"
      "st_State st = (if serving w1 k then ''Running'' else ''Stopped'')"
      using status k_def by blast
    have "Runtime_Execute m ty payload w = (Inr (status_json st), w1)"
      using assms(1-3) w1(1) st(1)
      by (simp add: Runtime_Execute_def bindE_def map_err_def Manager_Status_def dispatch_def returnE_def)
    with Some w1(2) st show ?thesis by auto
  qed
qed

end

section \<open>The agent's runtimes\<close>

text \<open>The manager of the agent has the llama.cpp adapter.\<close>

definition agent_manager :: "LlamaCppAdapter Manager" where
  "agent_manager = [(ad_Name llama_adapter, llama_adapter)]"

lemma agent_manager_registered: "Manager_Register llama_adapter NewManager = Some agent_manager"
  by (simp add: Manager_Register_def NewManager_def agent_manager_def)

lemma agent_manager_get: "Manager_Get agent_manager ''llamacpp'' = Inr llama_adapter"
  by (simp add: Manager_Get_def agent_manager_def llama_adapter_def)

definition runtime_target :: "string \<Rightarrow> bool \<Rightarrow> bool option" where
  "runtime_target taskType on =
     (if taskType = ''StartRuntime'' then (if on then None else Some True)
      else if taskType = ''StopRuntime'' then (if on then Some False else None)
      else if taskType \<in> {''RestartRuntime'', ''UpgradeRuntime''} then Some True
      else None)"

text \<open>C33: runtime tasks. A start of an instance that runs fails and a stop of one that does not; a restart
  and an upgrade always end with the instance of the task running; any other type fails. A failing task
  changes nothing, a successful one changes the instance of its name and version only, and its result
  is the status that instance then has. So an upgrade stops no other version of its model: the version
  it replaces keeps running.\<close>

theorem runtime_task_outcome:
  assumes "unmarshal_runtime_payload payload = Inr p" "rp_Runtime p = ''llamacpp''"
  shows "case runtime_target ty (is_running a (modelKey (rp_ModelName p) (rp_ModelVersion p))) of
      Some on \<Rightarrow> \<exists>a1 st. Runtime_Execute agent_manager ty payload a = (Inr (status_json st), a1)
        \<and> is_running a1 = (is_running a)(modelKey (rp_ModelName p) (rp_ModelVersion p) := on)
        \<and> st_Running st = on \<and> st_State st = (if on then ''Running'' else ''Stopped'')
    | None \<Rightarrow> \<exists>e a1. Runtime_Execute agent_manager ty payload a = (Inl e, a1) \<and> is_running a1 = is_running a"
  using llama.execute_outcome [OF assms(1), where m = agent_manager and w = a and ty = ty] assms(2) agent_manager_get
  by (simp add: runtime_target_def llama.target_def)

definition upgrade_payload :: raw where
  "upgrade_payload = Raw_JSON (JObj [(''model_name'', JStr ''llama''), (''model_version'', JStr ''v2''), (''runtime'', JStr ''llamacpp'')])"

theorem runtime_task_outcome_witness:
  "\<exists>a1 st. Runtime_Execute agent_manager ''UpgradeRuntime'' upgrade_payload \<lparr>la_dataDir = [], la_running = [(''llama:v1'', True)]\<rparr>
       = (Inr (status_json st), a1)
     \<and> st_State st = ''Running'' \<and> is_running a1 ''llama:v1'' \<and> is_running a1 ''llama:v2''"
proof -
  have p: "unmarshal_runtime_payload upgrade_payload = Inr \<lparr>rp_DeploymentID = [], rp_ModelName = ''llama'', rp_ModelVersion = ''v2'',
      rp_Runtime = ''llamacpp'', rp_Action = [], rp_ArtifactURI = []\<rparr>"
    by (simp add: unmarshal_runtime_payload_def upgrade_payload_def unmarshal_struct_def unmarshal_field_def json_field_def
        unmarshal_string_def str)
  show ?thesis
    using runtime_task_outcome [OF p, of "''UpgradeRuntime''" "\<lparr>la_dataDir = [], la_running = [(''llama:v1'', True)]\<rparr>"]
    by (auto simp: runtime_target_def modelKey_def is_running_def map_get_def fun_eq_iff)
qed

end
