(* ===== verification/Encoding.thy ===== *)
theory Encoding
  imports Go_Values
begin

text \<open>
  The texts of \<open>encoding/json\<close> the agent produces: base64 of byte slices with its decoding, which is proved
  to invert it, and the text of a JSON value as \<open>json.Marshal\<close> writes it (valid UTF-8 assumed; the two line
  separators U+2028 and U+2029 are not treated apart).
\<close>

section \<open>Base64\<close>

definition base64_alphabet :: string where
  "base64_alphabet = upper_letters @ lower_letters @ decimal_digits @ ''+/''"

definition base64_char :: "nat \<Rightarrow> char" where
  "base64_char n = base64_alphabet ! n"

definition base64_value :: "char \<Rightarrow> nat option" where
  "base64_value c = map_of (zip base64_alphabet [0..<64]) c"

definition byte :: "char \<Rightarrow> nat" where
  "byte c = of_char c"

fun base64_encode :: "string \<Rightarrow> string" where
  "base64_encode [] = []"
| "base64_encode [a] =
     [base64_char (byte a div 4), base64_char (byte a mod 4 * 16), CHR ''='', CHR ''='']"
| "base64_encode [a, b] =
     [base64_char (byte a div 4), base64_char (byte a mod 4 * 16 + byte b div 16), base64_char (byte b mod 16 * 4), CHR ''='']"
| "base64_encode (a # b # c # s) =
     base64_char (byte a div 4) # base64_char (byte a mod 4 * 16 + byte b div 16)
     # base64_char (byte b mod 16 * 4 + byte c div 64) # base64_char (byte c mod 64) # base64_encode s"

text \<open>The decoding with padding; bits left over in the last group are ignored, as Go does.\<close>

fun base64_decode :: "string \<Rightarrow> string option" where
  "base64_decode [] = Some []"
| "base64_decode (p # q # r # t # s) =
     (case (base64_value p, base64_value q) of
        (Some x, Some y) \<Rightarrow>
          let a = char_of (x * 4 + y div 16) in
          (case (base64_value r, base64_value t) of
             (Some z, Some v) \<Rightarrow>
               map_option (\<lambda>rest. a # char_of (y mod 16 * 16 + z div 4) # char_of (z mod 4 * 64 + v) # rest) (base64_decode s)
           | (Some z, None) \<Rightarrow>
               if t = CHR ''='' \<and> s = [] then Some [a, char_of (y mod 16 * 16 + z div 4)] else None
           | (None, _) \<Rightarrow> if r = CHR ''='' \<and> t = CHR ''='' \<and> s = [] then Some [a] else None)
      | _ \<Rightarrow> None)"
| "base64_decode s = None"

lemma byte_less [simp]: "byte c < 256"
  by (simp add: byte_def)

lemma char_of_byte [simp]: "char_of (byte c) = c"
  by (simp add: byte_def)

lemma base64_alphabet_props: "length base64_alphabet = 64" "distinct base64_alphabet" "CHR ''='' \<notin> set base64_alphabet"
  by (simp_all add: base64_alphabet_def upper_letters_def lower_letters_def decimal_digits_def)

lemma base64_value_char: "n < 64 \<Longrightarrow> base64_value (base64_char n) = Some n"
  using base64_alphabet_props by (simp add: base64_value_def base64_char_def map_of_zip_nth)

lemma base64_value_pad [simp]: "base64_value CHR ''='' = None"
  using base64_alphabet_props by (simp add: base64_value_def)

lemma base64_roundtrip: "base64_decode (base64_encode s) = Some s"
proof (induction s rule: base64_encode.induct)
  case (2 a)
  have "byte a div 4 < 64" "byte a mod 4 * 16 < 64" using byte_less [of a] by linarith+
  moreover have "byte a div 4 * 4 + byte a mod 4 * 16 div 16 = byte a" by simp
  ultimately show ?case by (simp add: base64_value_char)
next
  case (3 a b)
  have lim: "byte a div 4 < 64" "byte a mod 4 * 16 + byte b div 16 < 64" "byte b mod 16 * 4 < 64"
    using byte_less [of a] byte_less [of b] by linarith+
  have q: "byte b div 16 < 16" using byte_less [of b] by linarith
  have "byte a div 4 * 4 + (byte a mod 4 * 16 + byte b div 16) div 16 = byte a"
    "(byte a mod 4 * 16 + byte b div 16) mod 16 * 16 + byte b mod 16 * 4 div 4 = byte b"
    using q by simp_all
  with lim show ?case by (simp add: base64_value_char)
next
  case (4 a b c s)
  have lim: "byte a div 4 < 64" "byte a mod 4 * 16 + byte b div 16 < 64" "byte b mod 16 * 4 + byte c div 64 < 64" "byte c mod 64 < 64"
    using byte_less [of a] byte_less [of b] byte_less [of c] by linarith+
  have q: "byte b div 16 < 16" "byte c div 64 < 4" using byte_less [of b] byte_less [of c] by linarith+
  have "byte a div 4 * 4 + (byte a mod 4 * 16 + byte b div 16) div 16 = byte a"
    "(byte a mod 4 * 16 + byte b div 16) mod 16 * 16 + (byte b mod 16 * 4 + byte c div 64) div 4 = byte b"
    "(byte b mod 16 * 4 + byte c div 64) mod 4 * 64 + byte c mod 64 = byte c"
    using q by simp_all
  with lim 4 show ?case by (simp add: base64_value_char)
qed simp

section \<open>The text of JSON\<close>

definition hex_pair :: "nat \<Rightarrow> string" where
  "hex_pair n = [''0123456789abcdef'' ! (n div 16), ''0123456789abcdef'' ! (n mod 16)]"

definition escape_char :: "char \<Rightarrow> string" where
  "escape_char c =
     (if c = CHR 0x22 then [CHR 0x5C, CHR 0x22]
      else if c = CHR 0x5C then [CHR 0x5C, CHR 0x5C]
      else if c = CHR 0x08 then CHR 0x5C # ''b''
      else if c = CHR 0x0C then CHR 0x5C # ''f''
      else if c = CHR 0x0A then CHR 0x5C # ''n''
      else if c = CHR 0x0D then CHR 0x5C # ''r''
      else if c = CHR 0x09 then CHR 0x5C # ''t''
      else if byte c < 32 \<or> c \<in> set ''<>&'' then CHR 0x5C # ''u00'' @ hex_pair (byte c)
      else [c])"

definition json_string :: "string \<Rightarrow> string" where
  "json_string s = [CHR 0x22] @ concat (map escape_char s) @ [CHR 0x22]"

fun comma_sep :: "string list \<Rightarrow> string" where
  "comma_sep [] = []"
| "comma_sep [s] = s"
| "comma_sep (s # ss) = s @ '','' @ comma_sep ss"

fun json_marshal :: "json \<Rightarrow> string" where
  "json_marshal JNull = ''null''"
| "json_marshal (JBool b) = (if b then ''true'' else ''false'')"
| "json_marshal (JNum n) = itoa n"
| "json_marshal (JFrac s) = s"
| "json_marshal (JStr s) = json_string s"
| "json_marshal (JArr js) = ''['' @ comma_sep (map json_marshal js) @ '']''"
| "json_marshal (JObj kvs) = ''{'' @ comma_sep (map (\<lambda>kv. json_string (fst kv) @ '':'' @ json_marshal (snd kv)) kvs) @ ''}''"

end
