(* ===== verification/Task_Runner.thy ===== *)
theory Task_Runner
  imports Host_Facts Encoding
begin

text \<open>
  The task runner of the agent (\<open>internal/agent/task_runner.go\<close>): it polls the gateway, starts a goroutine per
  new task that executes it, saves the result on disk, reports it and removes the file, and on start it
  reports the results an earlier process left. The gateway is a client on a state \<open>'g\<close>, the executor works
  on a state \<open>'e\<close>; the content of a pending file is what its JSON denotes.
  A step of the system is one step of a goroutine, a poll, a change of the gateway by others, or the end
  of the process followed by the start of a new one; its events record executions, saves and reports.
\<close>

record TaskRunnerConfig =
  tc_PollInterval :: duration
  tc_MaxTasks :: int
  tc_DataDir :: string

definition runner_defaults :: "TaskRunnerConfig \<Rightarrow> TaskRunnerConfig" where
  "runner_defaults c = c\<lparr>tc_PollInterval := (if tc_PollInterval c = 0 then 5 * second else tc_PollInterval c),
     tc_MaxTasks := (if tc_MaxTasks c = 0 then 10 else tc_MaxTasks c)\<rparr>"

record pendingResult =
  pr_TaskID :: string
  pr_NodeID :: string
  pr_Status :: string
  pr_ErrorMessage :: string
  pr_Result :: string

text \<open>A task as the agent gets it.\<close>

record agent_task =
  at_TaskId :: string
  at_Type :: string
  at_Payload :: raw
  at_TimeoutSeconds :: int

record 'g agent_client =
  cl_pull :: "string \<Rightarrow> int \<Rightarrow> ('g, agent_task list) em"
  cl_report :: "pendingResult \<Rightarrow> ('g, unit) em"

type_synonym 'e executor = "duration \<Rightarrow> string \<Rightarrow> raw \<Rightarrow> ('e, string) em"

record ('e, 'g) TaskRunner =
  tr_nodeID :: string
  tr_cfg :: TaskRunnerConfig
  tr_client :: "'g agent_client"
  tr_executor :: "'e executor"

definition NewTaskRunner :: "'g agent_client \<Rightarrow> string \<Rightarrow> 'e executor \<Rightarrow> TaskRunnerConfig \<Rightarrow> ('e, 'g) TaskRunner" where
  "NewTaskRunner client nodeID ex cfg =
     \<lparr>tr_nodeID = nodeID, tr_cfg = runner_defaults cfg, tr_client = client, tr_executor = ex\<rparr>"

section \<open>Pending results on disk\<close>

definition pending_json :: "pendingResult \<Rightarrow> json" where
  "pending_json pr =
     JObj ([(''task_id'', JStr (pr_TaskID pr)), (''node_id'', JStr (pr_NodeID pr)), (''status'', JStr (pr_Status pr))]
           @ (if pr_ErrorMessage pr = [] then [] else [(''error_message'', JStr (pr_ErrorMessage pr))])
           @ (if pr_Result pr = [] then [] else [(''result'', JStr (base64_encode (pr_Result pr)))]))"

definition unmarshal_bytes :: "json \<Rightarrow> string \<Rightarrow> bool \<times> string" where
  "unmarshal_bytes j old =
     (case j of JStr s \<Rightarrow> (case base64_decode s of Some bs \<Rightarrow> (True, bs) | None \<Rightarrow> (False, old))
      | JNull \<Rightarrow> (True, []) | _ \<Rightarrow> (False, old))"

definition unmarshal_pending :: "raw \<Rightarrow> pendingResult option" where
  "unmarshal_pending r =
     (case r of
        Raw_JSON (JObj kvs) \<Rightarrow>
          let (ok1, t) = unmarshal_field unmarshal_string ''task_id'' kvs [];
              (ok2, n) = unmarshal_field unmarshal_string ''node_id'' kvs [];
              (ok3, s) = unmarshal_field unmarshal_string ''status'' kvs [];
              (ok4, e) = unmarshal_field unmarshal_string ''error_message'' kvs [];
              (ok5, b) = unmarshal_field unmarshal_bytes ''result'' kvs [] in
          if ok1 \<and> ok2 \<and> ok3 \<and> ok4 \<and> ok5
          then Some \<lparr>pr_TaskID = t, pr_NodeID = n, pr_Status = s, pr_ErrorMessage = e, pr_Result = b\<rparr> else None
      | Raw_JSON JNull \<Rightarrow> Some \<lparr>pr_TaskID = [], pr_NodeID = [], pr_Status = [], pr_ErrorMessage = [], pr_Result = []\<rparr>
      | _ \<Rightarrow> None)"

lemma pending_roundtrip: "unmarshal_pending (Raw_JSON (pending_json pr)) = Some pr"
  by (cases "pr_ErrorMessage pr = []"; cases "pr_Result pr = []")
    (simp_all add: unmarshal_pending_def pending_json_def unmarshal_field_def json_field_def unmarshal_string_def
      unmarshal_bytes_def base64_roundtrip str)

definition pendingDir :: "TaskRunnerConfig \<Rightarrow> string" where
  "pendingDir cfg = filepath_Join [tc_DataDir cfg, ''pending-results'']"

definition pendingFilePath :: "TaskRunnerConfig \<Rightarrow> string \<Rightarrow> string" where
  "pendingFilePath cfg taskID = filepath_Join [pendingDir cfg, taskID @ ''.json'']"

definition savePendingResult :: "TaskRunnerConfig \<Rightarrow> pendingResult \<Rightarrow> (raw, unit) hostm" where
  "savePendingResult cfg pr =
     bindE (os_MkdirAll (pendingDir cfg)) (\<lambda>_.
       os_WriteFile (pendingFilePath cfg (pr_TaskID pr)) (Raw_JSON (pending_json pr)))"

definition removePendingResult :: "TaskRunnerConfig \<Rightarrow> string \<Rightarrow> (raw, unit) hostm" where
  "removePendingResult cfg taskID = ignore_err (os_Remove (pendingFilePath cfg taskID))"

section \<open>The state of a process\<close>

datatype job =
    Executing agent_task
  | Executed pendingResult
  | Saved pendingResult
  | Reported pendingResult

record ('e, 'g) runner =
  rn_exec :: 'e
  rn_gateway :: 'g
  rn_disk :: "raw host"
  rn_processed :: "string set"
  rn_jobs :: "job list"

datatype event = Execution string | Save pendingResult | Report pendingResult

definition isDuplicate :: "string \<Rightarrow> ('e, 'g) runner \<Rightarrow> bool" where
  "isDuplicate taskID w = (taskID \<in> rn_processed w)"

definition markProcessed :: "string \<Rightarrow> ('e, 'g) runner \<Rightarrow> ('e, 'g) runner" where
  "markProcessed taskID w = w\<lparr>rn_processed := insert taskID (rn_processed w)\<rparr>"

section \<open>Polling\<close>

definition start_task :: "agent_task \<Rightarrow> ('e, 'g) runner \<Rightarrow> ('e, 'g) runner" where
  "start_task t w =
     (if isDuplicate (at_TaskId t) w then w
      else (markProcessed (at_TaskId t) w)\<lparr>rn_jobs := rn_jobs w @ [Executing t]\<rparr>)"

definition poll :: "('e, 'g) TaskRunner \<Rightarrow> ('e, 'g) runner \<Rightarrow> ('e, 'g) runner" where
  "poll r w =
     (case cl_pull (tr_client r) (tr_nodeID r) (tc_MaxTasks (tr_cfg r)) (rn_gateway w) of
        (Inl e, g) \<Rightarrow> w\<lparr>rn_gateway := g\<rparr>
      | (Inr ts, g) \<Rightarrow> fold start_task ts (w\<lparr>rn_gateway := g\<rparr>))"

section \<open>One task\<close>

definition exec_timeout :: "agent_task \<Rightarrow> duration" where
  "exec_timeout t =
     (let timeout = wrap64 (at_TimeoutSeconds t * second) in if timeout = 0 then 10 * minute else timeout)"

definition execution_result :: "string \<Rightarrow> agent_task \<Rightarrow> go_err + string \<Rightarrow> pendingResult" where
  "execution_result nodeID t r =
     (case r of
        Inr out \<Rightarrow> \<lparr>pr_TaskID = at_TaskId t, pr_NodeID = nodeID, pr_Status = ''Success'', pr_ErrorMessage = [], pr_Result = out\<rparr>
      | Inl e \<Rightarrow> \<lparr>pr_TaskID = at_TaskId t, pr_NodeID = nodeID, pr_Status = ''Failed'', pr_ErrorMessage = err_text e, pr_Result = []\<rparr>)"

text \<open>The steps of \<open>executeAndReport\<close>: a goroutine that is done leaves no job.\<close>

fun advance :: "('e, 'g) TaskRunner \<Rightarrow> job \<Rightarrow> ('e, 'g) runner \<Rightarrow> job list \<times> event list \<times> ('e, 'g) runner" where
  "advance r (Executing t) w =
     (case tr_executor r (exec_timeout t) (at_Type t) (at_Payload t) (rn_exec w) of
        (out, e) \<Rightarrow> ([Executed (execution_result (tr_nodeID r) t out)], [Execution (at_TaskId t)], w\<lparr>rn_exec := e\<rparr>))"
| "advance r (Executed pr) w =
     (case savePendingResult (tr_cfg r) pr (rn_disk w) of
        (ok, d) \<Rightarrow> ([Saved pr], if ok = Inr () then [Save pr] else [], w\<lparr>rn_disk := d\<rparr>))"
| "advance r (Saved pr) w =
     (case cl_report (tr_client r) pr (rn_gateway w) of
        (Inl e, g) \<Rightarrow> ([], [], w\<lparr>rn_gateway := g\<rparr>)
      | (Inr _, g) \<Rightarrow> ([Reported pr], [Report pr], w\<lparr>rn_gateway := g\<rparr>))"
| "advance r (Reported pr) w =
     ([], [], w\<lparr>rn_disk := snd (removePendingResult (tr_cfg r) (pr_TaskID pr) (rn_disk w))\<rparr>)"

definition advance_job :: "('e, 'g) TaskRunner \<Rightarrow> nat \<Rightarrow> ('e, 'g) runner \<Rightarrow> event list \<times> ('e, 'g) runner" where
  "advance_job r i w =
     (case advance r (rn_jobs w ! i) w of
        (js, evs, w1) \<Rightarrow> (evs, w1\<lparr>rn_jobs := take i (rn_jobs w) @ js @ drop (Suc i) (rn_jobs w)\<rparr>))"

section \<open>Draining what an earlier process left\<close>

fun drain_entries :: "('e, 'g) TaskRunner \<Rightarrow> (string \<times> raw fnode) list \<Rightarrow> ('e, 'g) runner \<Rightarrow> event list \<times> ('e, 'g) runner" where
  "drain_entries r [] w = ([], w)"
| "drain_entries r ((name, node) # es) w =
     (if is_dir (Some node) \<or> filepath_Ext name \<noteq> ''.json'' then drain_entries r es w
      else
        (case os_ReadFile (filepath_Join [pendingDir (tr_cfg r), name]) (rn_disk w) of
           (Inl e, d) \<Rightarrow> drain_entries r es (w\<lparr>rn_disk := d\<rparr>)
         | (Inr data, d) \<Rightarrow>
             (case unmarshal_pending data of
                None \<Rightarrow> drain_entries r es (w\<lparr>rn_disk := d\<rparr>)
              | Some pr \<Rightarrow>
                  let w1 = markProcessed (pr_TaskID pr) (w\<lparr>rn_disk := d\<rparr>) in
                  (case cl_report (tr_client r) pr (rn_gateway w1) of
                     (Inl e, g) \<Rightarrow> drain_entries r es (w1\<lparr>rn_gateway := g\<rparr>)
                   | (Inr _, g) \<Rightarrow>
                       (case drain_entries r es (w1\<lparr>rn_gateway := g, rn_disk := snd (removePendingResult (tr_cfg r) (pr_TaskID pr) (rn_disk w1))\<rparr>) of
                          (evs, w2) \<Rightarrow> (Report pr # evs, w2))))))"

definition drainPendingResults :: "('e, 'g) TaskRunner \<Rightarrow> ('e, 'g) runner \<Rightarrow> event list \<times> ('e, 'g) runner" where
  "drainPendingResults r w =
     (case os_ReadDir (pendingDir (tr_cfg r)) (rn_disk w) of
        (Inl e, d) \<Rightarrow> ([], w\<lparr>rn_disk := d\<rparr>)
      | (Inr es, d) \<Rightarrow> drain_entries r es (w\<lparr>rn_disk := d\<rparr>))"

text \<open>The process ends, and a new one starts with its executor state \<open>e\<close> and drains.\<close>

definition restart_runner :: "('e, 'g) TaskRunner \<Rightarrow> 'e \<Rightarrow> ('e, 'g) runner \<Rightarrow> event list \<times> ('e, 'g) runner" where
  "restart_runner r e w = drainPendingResults r (w\<lparr>rn_exec := e, rn_processed := {}, rn_jobs := []\<rparr>)"

inductive runner_step :: "('e, 'g) TaskRunner \<Rightarrow> ('e, 'g) runner \<Rightarrow> bool \<Rightarrow> event list \<Rightarrow> ('e, 'g) runner \<Rightarrow> bool" for r where
  poll: "runner_step r w False [] (poll r w)"
| job: "i < length (rn_jobs w) \<Longrightarrow> advance_job r i w = (evs, w1) \<Longrightarrow> runner_step r w False evs w1"
| others: "runner_step r w False [] (w\<lparr>rn_gateway := g\<rparr>)"
| crash: "restart_runner r e w = (evs, w1) \<Longrightarrow> runner_step r w True evs w1"

text \<open>Runs of the system, with the events since the beginning and those since the last restart.\<close>

inductive runs :: "('e, 'g) TaskRunner \<Rightarrow> ('e, 'g) runner \<Rightarrow> event list \<Rightarrow> event list \<Rightarrow> ('e, 'g) runner \<Rightarrow> bool" for r w0 where
  start: "runs r w0 [] [] w0"
| step: "runs r w0 evs life w \<Longrightarrow> runner_step r w False es w1 \<Longrightarrow> runs r w0 (evs @ es) (life @ es) w1"
| crash: "runs r w0 evs life w \<Longrightarrow> runner_step r w True es w1 \<Longrightarrow> runs r w0 (evs @ es) es w1"

inductive_cases life_stepE: "runner_step r w False es w1"
inductive_cases crash_stepE: "runner_step r w True es w1"

end
