(* ===== verification/Agent_Exec.thy ===== *)
theory Agent_Exec
  imports Runtime_Executor Encoding Task_Runner
begin

text \<open>
  The executors of the agent: installing and deleting models (\<open>internal/agent/model_executor.go\<close>), collecting
  logs (\<open>internal/agent/log_collector.go\<close>), and the multiplexer the task runner calls
  (\<open>internal/agent/executor_mux.go\<close>) with the handlers \<open>cmd/edge-agent/main.go\<close> registers. An executor works
  on the machine and on the state of the llama.cpp adapter; its result is the text of its JSON.
\<close>

section \<open>Models\<close>

record modelTaskPayload =
  mp_ModelName :: string
  mp_ModelVersion :: string
  mp_Checksum :: string
  mp_ArtifactURI :: string

definition unmarshal_model_payload :: "raw \<Rightarrow> go_err + modelTaskPayload" where
  "unmarshal_model_payload r =
     (case unmarshal_struct [''model_name'', ''model_version'', ''checksum'', ''artifact_uri''] r of
        Inr [n, v, c, u] \<Rightarrow> Inr \<lparr>mp_ModelName = n, mp_ModelVersion = v, mp_Checksum = c, mp_ArtifactURI = u\<rparr>
      | Inl e \<Rightarrow> Inl e
      | _ \<Rightarrow> Inl json_error)"

record modelTaskResult =
  mr_ModelName :: string
  mr_ModelVersion :: string
  mr_LocalPath :: string
  mr_Checksum :: string
  mr_SizeBytes :: int
  mr_Deleted :: bool

definition model_result_json :: "modelTaskResult \<Rightarrow> json" where
  "model_result_json r =
     JObj ([(''model_name'', JStr (mr_ModelName r)), (''model_version'', JStr (mr_ModelVersion r))]
           @ (if mr_LocalPath r = [] then [] else [(''local_path'', JStr (mr_LocalPath r))])
           @ (if mr_Checksum r = [] then [] else [(''checksum'', JStr (mr_Checksum r))])
           @ (if mr_SizeBytes r = 0 then [] else [(''size_bytes'', JNum (mr_SizeBytes r))])
           @ (if mr_Deleted r then [(''deleted'', JBool True)] else []))"

record ModelExecutor =
  me_downloader :: Downloader
  me_dataDir :: string

definition NewModelExecutor :: "Downloader \<Rightarrow> string \<Rightarrow> ModelExecutor" where
  "NewModelExecutor d dataDir = \<lparr>me_downloader = d, me_dataDir = dataDir\<rparr>"

definition model_ref :: "modelTaskPayload \<Rightarrow> string" where
  "model_ref p = mp_ModelName p @ '':'' @ mp_ModelVersion p"

definition installModel :: "(string \<Rightarrow> string) \<Rightarrow> ModelExecutor \<Rightarrow> modelTaskPayload \<Rightarrow> (string, json) hostm" where
  "installModel sha e p =
     bindE (map_err (wrap (''model executor: download '' @ model_ref p))
              (Download sha (me_downloader e) (mp_ModelName p) (mp_ModelVersion p) (mp_Checksum p)))
       (\<lambda>r. returnE (model_result_json \<lparr>mr_ModelName = mp_ModelName p, mr_ModelVersion = mp_ModelVersion p,
              mr_LocalPath = dr_LocalPath r, mr_Checksum = dr_Checksum r, mr_SizeBytes = dr_SizeBytes r, mr_Deleted = False\<rparr>))"

definition executor_modelDir :: "ModelExecutor \<Rightarrow> modelTaskPayload \<Rightarrow> string" where
  "executor_modelDir e p = filepath_Join [me_dataDir e, ''models'', sanitizeName (mp_ModelName p), mp_ModelVersion p]"

definition remove_model :: "string \<Rightarrow> ('c, unit) hostm" where
  "remove_model dir =
     bindE (result_of (os_Stat dir)) (\<lambda>st.
       case st of
         Inl err \<Rightarrow> if os_IsNotExist err then returnE () else failE (wrap (''model executor: stat '' @ dir) err)
       | Inr n \<Rightarrow> map_err (wrap (''model executor: remove '' @ dir)) (os_RemoveAll dir))"

definition deleteModel :: "ModelExecutor \<Rightarrow> modelTaskPayload \<Rightarrow> ('c, json) hostm" where
  "deleteModel e p =
     bindE (remove_model (executor_modelDir e p))
       (\<lambda>_. returnE (model_result_json \<lparr>mr_ModelName = mp_ModelName p, mr_ModelVersion = mp_ModelVersion p,
              mr_LocalPath = [], mr_Checksum = [], mr_SizeBytes = 0, mr_Deleted = True\<rparr>))"

definition Model_Execute :: "(string \<Rightarrow> string) \<Rightarrow> ModelExecutor \<Rightarrow> string \<Rightarrow> raw \<Rightarrow> (string, json) hostm" where
  "Model_Execute sha e taskType payload =
     (case unmarshal_model_payload payload of
        Inl err \<Rightarrow> failE (wrap ''model executor: unmarshal payload'' err)
      | Inr p \<Rightarrow>
          if mp_ModelName p = [] then failE (GoErr ''model executor: model_name is required'')
          else if mp_ModelVersion p = [] then failE (GoErr ''model executor: model_version is required'')
          else if taskType = ''InstallModel'' then installModel sha e p
          else if taskType = ''DeleteModel'' then deleteModel e p
          else failE (GoErr (''model executor: unknown task type '' @ quote taskType)))"

section \<open>Logs\<close>

definition TaskTypeCollectLogs :: string where "TaskTypeCollectLogs = ''CollectLogs''"

record CollectLogsPayload =
  cp_Since :: string
  cp_Until :: string
  cp_Unit :: string
  cp_UploadURL :: string

definition unmarshal_logs_payload :: "raw \<Rightarrow> go_err + CollectLogsPayload" where
  "unmarshal_logs_payload r =
     (case unmarshal_struct [''since'', ''until'', ''unit'', ''upload_url''] r of
        Inr [s, t, u, url] \<Rightarrow> Inr \<lparr>cp_Since = s, cp_Until = t, cp_Unit = u, cp_UploadURL = url\<rparr>
      | Inl e \<Rightarrow> Inl e
      | _ \<Rightarrow> Inl json_error)"

text \<open>\<open>lc_stamp\<close> writes a time as \<open>20060102T150405\<close>.\<close>

record LogCollector =
  lc_nodeID :: string
  lc_gatewayBaseURL :: string
  lc_stamp :: "timestamp \<Rightarrow> string"

definition NewLogCollector :: "(timestamp \<Rightarrow> string) \<Rightarrow> string \<Rightarrow> string \<Rightarrow> LogCollector" where
  "NewLogCollector stamp nodeID base = \<lparr>lc_nodeID = nodeID, lc_gatewayBaseURL = base, lc_stamp = stamp\<rparr>"

definition fallbackCollect :: "('c, string) hostm" where
  "fallbackCollect = map_err (wrap ''fallback dmesg'') (exec_Output [''dmesg'', ''-T''])"

definition journal_args :: "CollectLogsPayload \<Rightarrow> string list" where
  "journal_args p =
     [''-u'', cp_Unit p, ''--no-pager'', ''-o'', ''short-iso'']
     @ (if cp_Since p = [] then [] else [''--since'', cp_Since p])
     @ (if cp_Until p = [] then [] else [''--until'', cp_Until p])"

definition collectJournalLogs :: "CollectLogsPayload \<Rightarrow> ('c, string) hostm" where
  "collectJournalLogs p = catchE (exec_Output (''journalctl'' # journal_args p)) (\<lambda>_. fallbackCollect)"

definition upload_request :: "LogCollector \<Rightarrow> timestamp \<Rightarrow> string \<Rightarrow> string \<Rightarrow> CollectLogsPayload \<Rightarrow> http_request" where
  "upload_request lc now url data p =
     \<lparr>hq_Method = ''POST'', hq_URL = url, hq_Range = None,
      hq_Form = [(''logs'', ''logs-'' @ lc_nodeID lc @ ''-'' @ lc_stamp lc now @ ''.txt'', data), (''node_id'', [], lc_nodeID lc),
        (''since'', [], cp_Since p), (''until'', [], cp_Until p)]\<rparr>"

definition upload :: "LogCollector \<Rightarrow> string \<Rightarrow> string \<Rightarrow> CollectLogsPayload \<Rightarrow> ('c, unit) hostm" where
  "upload lc url data p =
     bindE (map_err (wrap ''create upload request'') (http_NewRequest url)) (\<lambda>_.
     bindE (map_err (wrap ''upload'') (\<lambda>h. http_Do (upload_request lc (host_now h) url data p) h)) (\<lambda>ans.
       if ha_Status ans \<ge> 300 then failE (GoErr (''upload status '' @ itoa (ha_Status ans))) else returnE ()))"

definition logs_result :: "LogCollector \<Rightarrow> string \<Rightarrow> json" where
  "logs_result lc data = JObj [(''node_id'', JStr (lc_nodeID lc)), (''size_bytes'', JNum (int (length data)))]"

definition Logs_Execute :: "LogCollector \<Rightarrow> string \<Rightarrow> raw \<Rightarrow> ('c, json) hostm" where
  "Logs_Execute lc taskType payload =
     (if taskType \<noteq> TaskTypeCollectLogs then failE (GoErr (''log_collector: unexpected task type '' @ quote taskType))
      else case unmarshal_logs_payload payload of
        Inl e \<Rightarrow> failE (wrap ''log_collector: parse payload'' e)
      | Inr p0 \<Rightarrow>
          let p = (if cp_Unit p0 = [] then p0\<lparr>cp_Unit := ''edge-agent''\<rparr> else p0);
              url = (if cp_UploadURL p = [] then lc_gatewayBaseURL lc @ ''/v1/logs/'' @ lc_nodeID lc else cp_UploadURL p) in
          bindE (map_err (wrap ''log_collector: collect'') (collectJournalLogs p)) (\<lambda>data.
          bindE (map_err (wrap ''log_collector: upload'') (upload lc url data p)) (\<lambda>_. returnE (logs_result lc data))))"

section \<open>The multiplexer\<close>

type_synonym 'e ExecutorMux = "(string \<times> 'e executor) list"

definition NewExecutorMux :: "'e ExecutorMux" where "NewExecutorMux = []"

definition Mux_Register :: "'e executor \<Rightarrow> string list \<Rightarrow> 'e ExecutorMux \<Rightarrow> 'e ExecutorMux" where
  "Mux_Register ex types m = fold (\<lambda>ty. AList.update ty ex) types m"

definition Mux_Execute :: "'e ExecutorMux \<Rightarrow> 'e executor" where
  "Mux_Execute m timeout taskType payload =
     (case map_of m taskType of
        None \<Rightarrow> failE (GoErr (''executor mux: unsupported task type '' @ quote taskType))
      | Some ex \<Rightarrow> ex timeout taskType payload)"

section \<open>The agent\<close>

record agent_state =
  ag_host :: "string host"
  ag_runtime :: LlamaCppAdapter

definition on_host :: "(string \<Rightarrow> raw \<Rightarrow> (string, json) hostm) \<Rightarrow> agent_state executor" where
  "on_host run timeout ty payload w =
     (case run ty payload (ag_host w) of (r, h) \<Rightarrow> (map_sum id json_marshal r, w\<lparr>ag_host := h\<rparr>))"

definition on_runtime :: "(string \<Rightarrow> raw \<Rightarrow> (LlamaCppAdapter, json) em) \<Rightarrow> agent_state executor" where
  "on_runtime run timeout ty payload w =
     (case run ty payload (ag_runtime w) of (r, a) \<Rightarrow> (map_sum id json_marshal r, w\<lparr>ag_runtime := a\<rparr>))"

definition agent_mux :: "release_env \<Rightarrow> Downloader \<Rightarrow> string \<Rightarrow> Updater \<Rightarrow> LogCollector \<Rightarrow> agent_state ExecutorMux" where
  "agent_mux env d dataDir u lc =
     Mux_Register (on_host (Logs_Execute lc)) [TaskTypeCollectLogs]
     (Mux_Register (on_host (Updater_Execute env u)) [TaskTypeUpgradeAgent]
     (Mux_Register (on_runtime (Runtime_Execute agent_manager)) [''StartRuntime'', ''StopRuntime'', ''RestartRuntime'', ''UpgradeRuntime'']
     (Mux_Register (on_host (Model_Execute (re_sha env) (NewModelExecutor d dataDir))) [''InstallModel'', ''DeleteModel'']
        NewExecutorMux)))"

lemma map_of_update: "map_of (AList.update k v m) = (map_of m)(k \<mapsto> v)"
  by (rule update_conv')

definition runtime_types :: "string list" where
  "runtime_types = [''StartRuntime'', ''StopRuntime'', ''RestartRuntime'', ''UpgradeRuntime'']"

definition host_types :: "string list" where
  "host_types = [''InstallModel'', ''DeleteModel'', TaskTypeUpgradeAgent, TaskTypeCollectLogs]"

text \<open>The agent executes the eight types of tasks its handlers are registered for and fails on any other type without
  an effect; a runtime task leaves the files of the machine alone, and the others leave the runtimes alone.\<close>

lemma agent_task_types:
  "case Mux_Execute (agent_mux env d dataDir u lc) timeout ty payload w of (r, w1) \<Rightarrow>
     (if ty \<in> set runtime_types then ag_host w1 = ag_host w
      else if ty \<in> set host_types then ag_runtime w1 = ag_runtime w
      else r = Inl (GoErr (''executor mux: unsupported task type '' @ quote ty)) \<and> w1 = w)"
  by (simp add: Mux_Execute_def agent_mux_def Mux_Register_def map_of_update NewExecutorMux_def runtime_types_def host_types_def
      TaskTypeUpgradeAgent_def TaskTypeCollectLogs_def on_host_def on_runtime_def failE_def split: prod.splits)

text \<open>The updater \<open>cmd/edge-agent/main.go\<close> constructs has no key, so no signature is ever checked.\<close>

lemma shipped_updater_unsigned: "verifySignature env (NewUpdater version binary dataDir []) sha signature = None"
  by (simp add: verifySignature_def NewUpdater_def)

section \<open>Deleting a model\<close>

text \<open>Every node of the tree has its directory.\<close>

definition parents_in :: "'c fs \<Rightarrow> bool" where
  "parents_in t = (\<forall>(q, n) \<in> set t. node_at t (butlast q) \<noteq> None)"

lemma parents_inD: "parents_in t \<Longrightarrow> node_at t (p @ q) = Some n \<Longrightarrow> \<exists>m. node_at t p = Some m"
proof (induction q arbitrary: n rule: rev_induct)
  case (snoc x q)
  from snoc.prems(2) have "(p @ q @ [x], n) \<in> set t" by (auto simp: node_at_def dest: map_of_SomeD)
  with snoc.prems(1) have "node_at t (butlast (p @ q @ [x])) \<noteq> None" unfolding parents_in_def by blast
  with snoc show ?case by (auto simp: butlast_append)
qed simp

lemma absent_below: "parents_in (files h) \<Longrightarrow> node_at (files h) p = None \<Longrightarrow> below p x \<Longrightarrow> contents h x = None"
  using parents_inD [of "files h" p "drop (length p) x"] append_take_drop_id [of "length p" x]
  by (cases "node_at (files h) x") (auto simp: below_def contents_def content_at_def)

text \<open>The calls that remove a directory, whatever fails.\<close>

lemma remove_model_D:
  assumes "remove_model dir h = (r, h1)"
  shows "\<not> below (path_of dir) x \<Longrightarrow> contents h1 x = contents h x"
    and "r = Inr () \<Longrightarrow> parents_in (files h) \<Longrightarrow> below (path_of dir) x \<Longrightarrow> contents h1 x = None"
proof -
  obtain st h0 where st: "os_Stat dir h = (st, h0)" by fastforce
  note same = os_reads(1) [OF st]
  have absent: "node_at (files h) (path_of dir) = None" if "st = Inl err" "os_IsNotExist err" for err
    using st that by (auto simp: os_Stat_def os_read_def os_call_def Let_def os_IsNotExist_def
        split: list.splits option.splits os_fault.splits sum.splits fnode.splits)
  show "\<not> below (path_of dir) x \<Longrightarrow> contents h1 x = contents h x"
    using assms st same by (auto simp: remove_model_def bindE_def result_of_def map_err_def failE_def returnE_def
        dest: os_RemoveAll_D(3) split: sum.splits if_splits prod.splits)
  show "r = Inr () \<Longrightarrow> parents_in (files h) \<Longrightarrow> below (path_of dir) x \<Longrightarrow> contents h1 x = None"
    using assms st same absent absent_below [of h "path_of dir" x] os_Stat_InrD [of dir h _ h0]
    by (cases "x = []") (auto simp: remove_model_def bindE_def result_of_def map_err_def failE_def returnE_def contents_def
        dest: os_RemoveAll_D(5) split: sum.splits if_splits prod.splits)
qed

lemma remove_model_quiet:
  "os_faults h = [] \<Longrightarrow> node_at (files h) (path_of dir) = Some n \<Longrightarrow> \<exists>h1. remove_model dir h = (Inr (), h1)"
  by (simp add: remove_model_def bindE_def result_of_def map_err_def os_Stat_def os_RemoveAll_def quiet_read quiet_write Let_def)

lemma models_path:
  assumes "plain n"
  shows "plain v \<Longrightarrow> path_of (filepath_Join [d, ''models'', n, v]) = path_of d @ [''models'', n, v]"
    and "path_of (filepath_Join [d, ''models'', n, ''..'']) = path_of d @ [''models'']"
  using assms by (simp_all add: path_of_Join split_slash_plain plain_def resolve_append) (simp_all add: path_of_def)

text \<open>C34: deleting a model removes the directory of its version with everything in it and no other file, whatever call
  fails on the way; but the version is not checked, and a deletion of version \<open>..\<close> removes every model of the node.\<close>

theorem delete_model_outcome:
  assumes "unmarshal_model_payload payload = Inr p" "mp_ModelName p \<noteq> []" "plain (sanitizeName (mp_ModelName p))"
    and "plain (mp_ModelVersion p) \<or> mp_ModelVersion p = ''..''"
    and "Model_Execute sha e ''DeleteModel'' payload h = (r, h1)"
  shows "let models = path_of (me_dataDir e) @ [''models''];
             gone = (if mp_ModelVersion p = ''..'' then models else models @ [sanitizeName (mp_ModelName p), mp_ModelVersion p]) in
    (\<forall>x. \<not> below gone x \<longrightarrow> contents h1 x = contents h x)
    \<and> (\<not> isl r \<and> parents_in (files h) \<longrightarrow> (\<forall>x. below gone x \<longrightarrow> contents h1 x = None))"
proof -
  let ?dir = "executor_modelDir e p"
  let ?gone = "path_of (me_dataDir e) @ (if mp_ModelVersion p = ''..'' then [''models'']
    else [''models'', sanitizeName (mp_ModelName p), mp_ModelVersion p])"
  have dir: "path_of ?dir = ?gone"
    using models_path [OF assms(3)] assms(4) by (auto simp: executor_modelDir_def)
  have "mp_ModelVersion p \<noteq> []" using assms(4) by (auto simp: plain_def)
  with assms(1,2,5) obtain q where q: "remove_model ?dir h = (q, h1)" "\<not> isl r \<Longrightarrow> q = Inr ()"
    by (auto simp: Model_Execute_def deleteModel_def bindE_def returnE_def split: prod.splits sum.splits)
  show ?thesis using remove_model_D [OF q(1)] q(2) by (auto simp: Let_def dir)
qed

definition example_executor :: ModelExecutor where
  "example_executor = NewModelExecutor (NewDownloader ''http://gw:8081'' ''/d'' 0) ''/d''"

definition delete_payload :: raw where
  "delete_payload = Raw_JSON (JObj [(''model_name'', JStr ''m''), (''model_version'', JStr ''..'')])"

definition two_models :: "string host" where
  "two_models = plain_host [([''d''], Dir 0), ([''d'', ''models''], Dir 0), ([''d'', ''models'', ''m''], Dir 0),
     ([''d'', ''models'', ''other''], Dir 0), ([''d'', ''models'', ''other'', ''v1''], Dir 0),
     ([''d'', ''models'', ''other'', ''v1'', ''model.bin''], File ''weights'' 0)]"

theorem delete_model_outcome_witness:
  "\<exists>j h1. Model_Execute id example_executor ''DeleteModel'' delete_payload two_models = (Inr j, h1)
     \<and> contents two_models [''d'', ''models'', ''other'', ''v1'', ''model.bin''] = Some ''weights''
     \<and> contents h1 [''d'', ''models'', ''other'', ''v1'', ''model.bin''] = None"
proof -
  let ?p = "\<lparr>mp_ModelName = ''m'', mp_ModelVersion = ''..'', mp_Checksum = [], mp_ArtifactURI = []\<rparr>"
  have p: "unmarshal_model_payload delete_payload = Inr ?p"
    by (simp add: unmarshal_model_payload_def delete_payload_def unmarshal_struct_def unmarshal_field_def json_field_def
        unmarshal_string_def str)
  have s: "sanitizeName ''m'' = ''m''" "plain ''m''" by (simp_all add: sanitizeName_def str plain_def)
  have d: "path_of ''/d'' = [''d'']" by (simp add: path_of_def)
  have dir: "path_of (executor_modelDir example_executor ?p) = [''d'', ''models'']"
    using models_path(2) [OF s(2), of "''/d''"] by (simp add: executor_modelDir_def example_executor_def NewModelExecutor_def s d)
  have "\<exists>h1. remove_model (executor_modelDir example_executor ?p) two_models = (Inr (), h1)"
    by (rule remove_model_quiet) (simp_all add: dir two_models_def plain_host_def node_at_def)
  then obtain j h1 where run: "Model_Execute id example_executor ''DeleteModel'' delete_payload two_models = (Inr j, h1)"
    by (auto simp: Model_Execute_def p deleteModel_def bindE_def returnE_def)
  have "parents_in (files two_models)" by (simp add: parents_in_def two_models_def plain_host_def node_at_def)
  with delete_model_outcome [OF p _ _ _ run] have "contents h1 [''d'', ''models'', ''other'', ''v1'', ''model.bin''] = None"
    by (simp add: s d example_executor_def NewModelExecutor_def below_def Let_def)
  with run show ?thesis by (simp add: two_models_def plain_host_def contents_def content_at_def node_at_def)
qed

end
