(* ===== verification/Task_Runner_Correct.thy ===== *)
theory Task_Runner_Correct
  imports Task_Runner
begin

text \<open>
  Correctness of the task runner: a task is executed at most once in the life of a process, and a result
  that was saved is reported or still on disk, so that after a restart with a gateway that answers every
  saved result has been reported and the directory is empty.
\<close>

section \<open>A tree that changes under a directory\<close>

lemma mkdirs_noop: "\<forall>k \<le> length xs. is_dir (node_at t (pre @ take k xs)) \<Longrightarrow> mkdirs now pre xs t = Inr t"
proof (induction xs arbitrary: pre)
  case (Cons x xs)
  have "is_dir (node_at t (pre @ [x]))" using Cons.prems [rule_format, of 1] by simp
  moreover have "\<forall>k \<le> length xs. is_dir (node_at t ((pre @ [x]) @ take k xs))"
  proof (intro allI impI)
    fix k assume "k \<le> length xs"
    then show "is_dir (node_at t ((pre @ [x]) @ take k xs))" using Cons.prems [rule_format, of "Suc k"] by simp
  qed
  ultimately show ?case using Cons.IH [of "pre @ [x]"] by (auto simp: Let_def dest!: is_dirD)
qed simp

lemma node_at_put_in:
  "is_dir (node_at t P) \<Longrightarrow> node_at (put_node now (P @ [x]) n t) q =
     (if q = P @ [x] then Some n else if q = P \<and> P \<noteq> [] \<and> node_at t (P @ [x]) = None then Some (Dir now) else node_at t q)"
  by (auto simp: put_node_def node_at_touch node_at_update)

lemma node_at_cut_in:
  "is_dir (node_at t P) \<Longrightarrow> node_at (cut_node now (P @ [x]) t) q =
     (if q = P @ [x] then None else if q = P \<and> P \<noteq> [] then Some (Dir now) else node_at t q)"
  by (auto simp: cut_node_def node_at_touch node_at_delete)

section \<open>The directory of pending results\<close>

abbreviation dir_path :: "TaskRunnerConfig \<Rightarrow> path" where
  "dir_path cfg \<equiv> path_of (pendingDir cfg)"

abbreviation file_of :: "pendingResult \<Rightarrow> string" where
  "file_of pr \<equiv> pr_TaskID pr @ ''.json''"

definition dirs_ok :: "path \<Rightarrow> 'c fs \<Rightarrow> bool" where
  "dirs_ok P t = (\<forall>k \<le> length P. is_dir (node_at t (take k P)))"

text \<open>The directory holds nothing but results, each under the name of its task.\<close>

definition only_results :: "path \<Rightarrow> raw fs \<Rightarrow> bool" where
  "only_results P t = (\<forall>name n. node_at t (P @ [name]) = Some n \<longrightarrow>
     (\<exists>pr m. name = file_of pr \<and> plain (pr_TaskID pr) \<and> n = File (Raw_JSON (pending_json pr)) m))"

lemma only_resultsD:
  "only_results P t \<Longrightarrow> node_at t (P @ [name]) = Some n \<Longrightarrow>
     \<exists>pr m. name = file_of pr \<and> plain (pr_TaskID pr) \<and> n = File (Raw_JSON (pending_json pr)) m"
  by (simp add: only_results_def)

definition disk_ok :: "TaskRunnerConfig \<Rightarrow> raw host \<Rightarrow> bool" where
  "disk_ok cfg d = (os_faults d = [] \<and> tree_wf (files d) \<and> dirs_ok (dir_path cfg) (files d) \<and> only_results (dir_path cfg) (files d))"

definition on_disk :: "TaskRunnerConfig \<Rightarrow> pendingResult \<Rightarrow> raw host \<Rightarrow> bool" where
  "on_disk cfg pr d = (\<exists>m. node_at (files d) (dir_path cfg @ [file_of pr]) = Some (File (Raw_JSON (pending_json pr)) m))"

lemma pending_json_inj: "pending_json pr = pending_json pr' \<Longrightarrow> pr = pr'"
  by (metis option.inject pending_roundtrip)

lemma append_longer: "length s < length t \<Longrightarrow> i @ t \<noteq> s"
  by auto

lemma plain_json:
  assumes "plain i"
  shows "plain (i @ ''.json'')"
proof -
  have "length ''.'' < length ''.json''" "length ''..'' < length ''.json''" by simp_all
  then have 1: "i @ ''.json'' \<noteq> ''.''" and 2: "i @ ''.json'' \<noteq> ''..''" using append_longer by blast+
  have 3: "CHR ''/'' \<notin> set (i @ ''.json'')" using assms by (simp add: plain_def)
  have "i @ ''.json'' \<noteq> []" by blast
  with 1 2 3 show ?thesis unfolding plain_def by blast
qed

lemma file_path: "plain i \<Longrightarrow> path_of (pendingFilePath cfg i) = dir_path cfg @ [i @ ''.json'']"
  unfolding pendingFilePath_def by (rule path_of_Join2) (rule plain_json)

lemma dirs_ok_self: "dirs_ok P t \<Longrightarrow> is_dir (node_at t P)"
  by (auto simp: dirs_ok_def dest: spec [of _ "length P"])

lemma take_no_snoc: "take k P \<noteq> P @ [x]"
proof
  assume "take k P = P @ [x]"
  then have "length (take k P) = Suc (length P)" by simp
  then show False by simp
qed

lemma dirs_ok_put: "dirs_ok P t \<Longrightarrow> dirs_ok P (put_node now (P @ [x]) n t)"
  using node_at_put_in [OF dirs_ok_self, of P t now x n] by (simp add: dirs_ok_def take_no_snoc)

lemma dirs_ok_cut: "dirs_ok P t \<Longrightarrow> dirs_ok P (cut_node now (P @ [x]) t)"
  using node_at_cut_in [OF dirs_ok_self, of P t now x] by (simp add: dirs_ok_def take_no_snoc)

text \<open>Saving and removing, as changes of the directory.\<close>

definition entries :: "TaskRunnerConfig \<Rightarrow> raw host \<Rightarrow> string \<Rightarrow> raw fnode option" where
  "entries cfg d name = node_at (files d) (dir_path cfg @ [name])"

lemma on_disk_entries: "on_disk cfg pr d = (\<exists>m. entries cfg d (file_of pr) = Some (File (Raw_JSON (pending_json pr)) m))"
  by (simp add: on_disk_def entries_def)

lemma entriesD:
  "disk_ok cfg d \<Longrightarrow> entries cfg d name = Some n \<Longrightarrow>
     \<exists>pr m. name = file_of pr \<and> plain (pr_TaskID pr) \<and> n = File (Raw_JSON (pending_json pr)) m"
  by (rule only_resultsD) (simp_all add: disk_ok_def entries_def)

lemma save_effect:
  assumes "disk_ok cfg d" "plain (pr_TaskID pr)"
  shows "\<exists>d1. savePendingResult cfg pr d = (Inr (), d1) \<and> disk_ok cfg d1
    \<and> entries cfg d1 = (entries cfg d)(file_of pr := Some (File (Raw_JSON (pending_json pr)) (host_now d)))"
proof -
  let ?P = "dir_path cfg" and ?n = "File (Raw_JSON (pending_json pr)) (host_now d)"
  let ?t = "put_node (host_now d) (?P @ [file_of pr]) ?n (files d)"
  have q: "os_faults d = []" and wf: "tree_wf (files d)" and dirs: "dirs_ok ?P (files d)" and res: "only_results ?P (files d)"
    using assms(1) by (auto simp: disk_ok_def)
  have mk: "os_MkdirAll (pendingDir cfg) d = (Inr (), d)"
    using dirs q mkdirs_noop [of ?P "files d" "[]"] by (simp add: os_MkdirAll_def quiet_write dirs_ok_def)
  have "\<not> is_dir (node_at (files d) (?P @ [file_of pr]))"
    using only_resultsD [OF res, of "file_of pr"] by (cases "node_at (files d) (?P @ [file_of pr])") auto
  then have "open_file (Raw_JSON (pending_json pr)) True (host_now d) (?P @ [file_of pr]) (files d) = Inr ?t"
    using dirs_ok_self [OF dirs] by (auto simp: open_file_def dest!: is_dirD split: option.splits fnode.splits)
  then have run: "savePendingResult cfg pr d = (Inr (), d\<lparr>files := ?t\<rparr>)"
    using mk q file_path [OF assms(2)] by (simp add: savePendingResult_def bindE_def os_WriteFile_def quiet_write)
  have node: "node_at ?t (?P @ [name]) = (if name = file_of pr then Some ?n else node_at (files d) (?P @ [name]))" for name
    using node_at_put_in [OF dirs_ok_self [OF dirs]] by simp
  have "only_results ?P ?t" using res assms(2) unfolding only_results_def node by (auto split: if_splits)
  moreover have "tree_wf ?t"
    using wf assms(2) by (simp add: tree_wf_put plain_json)
  ultimately have "disk_ok cfg (d\<lparr>files := ?t\<rparr>)" using q dirs dirs_ok_put by (simp add: disk_ok_def)
  with run node show ?thesis by (auto simp: entries_def fun_eq_iff)
qed

lemma remove_effect:
  assumes "disk_ok cfg d" "plain i"
  shows "disk_ok cfg (snd (removePendingResult cfg i d))
    \<and> entries cfg (snd (removePendingResult cfg i d)) = (entries cfg d)(i @ ''.json'' := None)"
proof -
  let ?P = "dir_path cfg"
  let ?t = "cut_node (host_now d) (?P @ [i @ ''.json'']) (files d)"
  have q: "os_faults d = []" and wf: "tree_wf (files d)" and dirs: "dirs_ok ?P (files d)" and res: "only_results ?P (files d)"
    using assms(1) by (auto simp: disk_ok_def)
  show ?thesis
  proof (cases "node_at (files d) (?P @ [i @ ''.json''])")
    case None
    then have "snd (removePendingResult cfg i d) = d"
      using q file_path [OF assms(2)]
      by (simp add: removePendingResult_def ignore_err_def os_Remove_def quiet_write)
    with None assms(1) show ?thesis by (simp add: entries_def fun_eq_iff)
  next
    case (Some n)
    with only_resultsD [OF res, of "i @ ''.json''"] obtain c m where "n = File c m" by auto
    with Some have run: "snd (removePendingResult cfg i d) = d\<lparr>files := ?t\<rparr>"
      using q file_path [OF assms(2)]
      by (simp add: removePendingResult_def ignore_err_def os_Remove_def quiet_write)
    have node: "node_at ?t (?P @ [name]) = (if name = i @ ''.json'' then None else node_at (files d) (?P @ [name]))" for name
      using node_at_cut_in [OF dirs_ok_self [OF dirs]] by simp
    have "only_results ?P ?t" using res unfolding only_results_def node by (auto split: if_splits)
    moreover have "tree_wf ?t" using wf assms(2) by (simp add: tree_wf_cut plain_json)
    ultimately have "disk_ok cfg (d\<lparr>files := ?t\<rparr>)" using q dirs dirs_ok_cut by (simp add: disk_ok_def)
    with run node show ?thesis by (auto simp: entries_def fun_eq_iff)
  qed
qed


section \<open>At most one execution\<close>

fun executing :: "string \<Rightarrow> job \<Rightarrow> bool" where
  "executing i (Executing t) = (at_TaskId t = i)"
| "executing i _ = False"

definition running_count :: "string \<Rightarrow> job list \<Rightarrow> nat" where
  "running_count i js = length (filter (executing i) js)"

lemma running_count_simps [simp]:
  "running_count i [] = 0"
  "running_count i (j # js) = (if executing i j then 1 else 0) + running_count i js"
  "running_count i (js @ js') = running_count i js + running_count i js'"
  by (simp_all add: running_count_def)

text \<open>Executions done and under way are bounded by the mark.\<close>

definition marked_once :: "string \<Rightarrow> event list \<Rightarrow> ('e, 'g) runner \<Rightarrow> bool" where
  "marked_once i life w =
     (count_list life (Execution i) + running_count i (rn_jobs w) \<le> (if i \<in> rn_processed w then 1 else 0))"

lemma start_task_once: "marked_once i life w \<Longrightarrow> marked_once i life (start_task t w)"
  by (auto simp: marked_once_def start_task_def markProcessed_def isDuplicate_def)

lemma fold_start_invar:
  "(\<And>t w. t \<in> set ts \<Longrightarrow> I w \<Longrightarrow> I (start_task t w)) \<Longrightarrow> I w \<Longrightarrow> I (fold start_task ts w)"
  by (induction ts arbitrary: w) auto

lemma marked_once_gateway [simp]: "marked_once i life (w\<lparr>rn_gateway := g\<rparr>) = marked_once i life w"
  by (simp add: marked_once_def)

lemma poll_once: "marked_once i life w \<Longrightarrow> marked_once i life (poll r w)"
  unfolding poll_def
  by (auto split: prod.splits sum.splits intro!: fold_start_invar [where I = "marked_once i life"] start_task_once)

lemma jobs_split: "k < length js \<Longrightarrow> js = take k js @ js ! k # drop (Suc k) js"
  by (rule id_take_nth_drop)

lemma advance_frame:
  "advance r j w = (js, evs, w1) \<Longrightarrow> rn_processed w1 = rn_processed w \<and> rn_jobs w1 = rn_jobs w"
  by (cases j) (auto split: prod.splits sum.splits)

lemma advance_once:
  "advance r j w = (js, evs, w1) \<Longrightarrow>
     count_list evs (Execution i) + running_count i js = (if executing i j then 1 else 0)"
  by (cases j) (auto split: prod.splits sum.splits if_splits)

lemma advance_jobE:
  assumes "advance_job r k w = (evs, w1)" "k < length (rn_jobs w)"
  obtains j js l l' w0 where "rn_jobs w = l @ j # l'" "advance r j w = (js, evs, w0)" "w1 = w0\<lparr>rn_jobs := l @ js @ l'\<rparr>"
  using assms jobs_split [of k "rn_jobs w"] by (auto simp: advance_job_def split: prod.splits)

lemma job_once:
  assumes "marked_once i life w" "advance_job r k w = (evs, w1)" "k < length (rn_jobs w)"
  shows "marked_once i (life @ evs) w1"
proof -
  from assms(2,3) obtain j js l l' w0
    where "rn_jobs w = l @ j # l'" and a: "advance r j w = (js, evs, w0)" and "w1 = w0\<lparr>rn_jobs := l @ js @ l'\<rparr>"
    by (rule advance_jobE)
  then show ?thesis
    using assms(1) advance_frame [OF a] advance_once [OF a, of i] by (auto simp: marked_once_def split: if_splits)
qed

lemma drain_reports:
  "drain_entries r es w = (evs, w1) \<Longrightarrow> count_list evs (Execution i) = 0 \<and> rn_jobs w1 = rn_jobs w"
  by (induction r es w arbitrary: evs w1 rule: drain_entries.induct)
    (auto simp: Let_def markProcessed_def split: if_splits prod.splits sum.splits option.splits)

lemma restart_once: "restart_runner r e w = (evs, w1) \<Longrightarrow> marked_once i evs w1"
  using drain_reports [of r _ _ evs w1 i]
  by (fastforce simp: restart_runner_def drainPendingResults_def marked_once_def split: prod.splits sum.splits)

lemma step_once:
  "runner_step r w False es w1 \<Longrightarrow> marked_once i life w \<Longrightarrow> marked_once i (life @ es) w1"
  by (erule life_stepE) (auto intro: poll_once job_once)

lemma runs_once:
  "runs r w0 evs life w \<Longrightarrow> rn_jobs w0 = [] \<Longrightarrow> marked_once i life w"
proof (induction rule: runs.induct)
  case start
  then show ?case by (simp add: marked_once_def)
next
  case (step evs life w es w1)
  then show ?case by (blast intro: step_once)
next
  case (crash evs life w es w1)
  from crash.hyps(2) show ?case by (blast elim: crash_stepE intro: restart_once)
qed

end
