(* ===== verification/Task_Runner_Recovery.thy ===== *)
theory Task_Runner_Recovery
  imports Task_Runner_Correct
begin

text \<open>
  Recovery of saved results: the invariant of a run on a machine whose disk does not fail, kept by polls,
  goroutines and restarts, and what a restart with an answering gateway achieves.
\<close>

section \<open>Names of results\<close>

lemma Ext_json: "plain i \<Longrightarrow> filepath_Ext (i @ ''.json'') = ''.json''"
  by (simp add: filepath_Ext_def split_slash_plain plain_def)

section \<open>Draining\<close>

abbreviation disk_entries :: "('e, 'g) TaskRunner \<Rightarrow> ('e, 'g) runner \<Rightarrow> string \<Rightarrow> raw fnode option" where
  "disk_entries r w \<equiv> entries (tr_cfg r) (rn_disk w)"

definition accepts :: "'g agent_client \<Rightarrow> bool" where
  "accepts c = (\<forall>pr g. \<exists>g1. cl_report c pr g = (Inr (), g1))"

lemma read_pending:
  assumes "disk_ok cfg d" "entries cfg d n = Some (File c m)" "plain n"
  shows "os_ReadFile (filepath_Join [pendingDir cfg, n]) d = (Inr c, d)"
  using assms path_of_Join2 [OF assms(3), of "pendingDir cfg"]
  by (simp add: os_ReadFile_def quiet_read disk_ok_def entries_def)

text \<open>What becomes of an entry that a drain visits.\<close>

definition settled :: "('e, 'g) TaskRunner \<Rightarrow> event list \<Rightarrow> ('e, 'g) runner \<Rightarrow> string \<times> raw fnode \<Rightarrow> bool" where
  "settled r evs w en =
     (\<exists>pr m. en = (file_of pr, File (Raw_JSON (pending_json pr)) m) \<and> pr_TaskID pr \<in> rn_processed w
       \<and> (disk_entries r w (fst en) = Some (snd en) \<and> \<not> accepts (tr_client r)
          \<or> disk_entries r w (fst en) = None \<and> Report pr \<in> set evs))"

definition drains :: "('e, 'g) TaskRunner \<Rightarrow> (string \<times> raw fnode) list \<Rightarrow> ('e, 'g) runner \<Rightarrow> event list \<Rightarrow> ('e, 'g) runner \<Rightarrow> bool" where
  "drains r es w evs w1 =
     (disk_ok (tr_cfg r) (rn_disk w1) \<and> rn_jobs w1 = rn_jobs w \<and> rn_processed w \<subseteq> rn_processed w1
       \<and> (\<forall>n. n \<notin> fst ` set es \<longrightarrow> disk_entries r w1 n = disk_entries r w n) \<and> (\<forall>en \<in> set es. settled r evs w1 en))"

lemma drain_step:
  assumes ok: "disk_ok (tr_cfg r) (rn_disk w)" and at: "disk_entries r w n = Some nd"
    and run: "drain_entries r ((n, nd) # es) w = (evs, w1)"
  obtains pr m w0 evs0 where
    "(n, nd) = (file_of pr, File (Raw_JSON (pending_json pr)) m)" "drain_entries r es w0 = (evs0, w1)"
    "disk_ok (tr_cfg r) (rn_disk w0)" "rn_jobs w0 = rn_jobs w" "rn_processed w0 = insert (pr_TaskID pr) (rn_processed w)"
    "disk_entries r w0 = disk_entries r w \<and> \<not> accepts (tr_client r) \<and> evs = evs0
     \<or> disk_entries r w0 = (disk_entries r w)(n := None) \<and> evs = Report pr # evs0"
proof -
  from entriesD [OF ok at] obtain pr m where n: "n = file_of pr" and pl: "plain (pr_TaskID pr)"
    and nd: "nd = File (Raw_JSON (pending_json pr)) m" by blast
  let ?w = "w\<lparr>rn_processed := insert (pr_TaskID pr) (rn_processed w)\<rparr>"
  let ?d = "snd (removePendingResult (tr_cfg r) (pr_TaskID pr) (rn_disk w))"
  have read: "os_ReadFile (filepath_Join [pendingDir (tr_cfg r), n]) (rn_disk w) = (Inr (Raw_JSON (pending_json pr)), rn_disk w)"
    using ok at plain_json [OF pl] unfolding n nd by (rule read_pending)
  note gone = remove_effect [OF ok pl]
  obtain a g where rep: "cl_report (tr_client r) pr (rn_gateway w) = (a, g)" by fastforce
  show thesis
  proof (cases a)
    case (Inl e)
    have "\<not> accepts (tr_client r)"
      using rep Inl unfolding accepts_def by (metis Inl_Inr_False prod.inject)
    moreover have "drain_entries r es (?w\<lparr>rn_gateway := g\<rparr>) = (evs, w1)"
      using run read rep Inl Ext_json [OF pl] by (simp add: n nd pending_roundtrip markProcessed_def)
    ultimately show thesis
      using that [of pr m "?w\<lparr>rn_gateway := g\<rparr>" evs] ok n nd by simp
  next
    case (Inr x)
    from run read rep Inr Ext_json [OF pl] obtain evs0 where
      "drain_entries r es (?w\<lparr>rn_gateway := g, rn_disk := ?d\<rparr>) = (evs0, w1)" "evs = Report pr # evs0"
      by (auto simp: n nd pending_roundtrip markProcessed_def split: prod.splits)
    then show thesis
      using that [of pr m "?w\<lparr>rn_gateway := g, rn_disk := ?d\<rparr>" evs0] gone n nd by simp
  qed
qed

lemma settled_mono:
  "settled r evs w en \<Longrightarrow> rn_processed w \<subseteq> rn_processed w1 \<Longrightarrow> disk_entries r w1 (fst en) = disk_entries r w (fst en)
     \<Longrightarrow> set evs \<subseteq> set evs1 \<Longrightarrow> settled r evs1 w1 en"
  unfolding settled_def by (elim exE conjE) (rule exI, rule exI, rule conjI, assumption, auto)

lemma drain_entries_drains:
  "drain_entries r es w = (evs, w1) \<Longrightarrow> distinct (map fst es) \<Longrightarrow> disk_ok (tr_cfg r) (rn_disk w) \<Longrightarrow>
     \<forall>(n, nd) \<in> set es. disk_entries r w n = Some nd \<Longrightarrow> drains r es w evs w1"
proof (induction es arbitrary: w evs w1)
  case Nil
  then show ?case by (simp add: drains_def)
next
  case (Cons en es)
  obtain n nd where en: "en = (n, nd)" by fastforce
  have at: "disk_entries r w n = Some nd" using Cons.prems(4) en by simp
  from drain_step [OF Cons.prems(3) at Cons.prems(1) [unfolded en]] obtain pr m w0 evs0 where
    e: "(n, nd) = (file_of pr, File (Raw_JSON (pending_json pr)) m)" and run: "drain_entries r es w0 = (evs0, w1)"
    and ok: "disk_ok (tr_cfg r) (rn_disk w0)" and frame: "rn_jobs w0 = rn_jobs w" "rn_processed w0 = insert (pr_TaskID pr) (rn_processed w)"
    and cases: "disk_entries r w0 = disk_entries r w \<and> \<not> accepts (tr_client r) \<and> evs = evs0
      \<or> disk_entries r w0 = (disk_entries r w)(n := None) \<and> evs = Report pr # evs0" by blast
  have fresh: "n \<notin> fst ` set es" using Cons.prems(2) en by simp
  then have "\<forall>(k, kd) \<in> set es. disk_entries r w0 k = Some kd"
    using Cons.prems(4) cases by (fastforce simp: rev_image_eqI)
  from Cons.IH [OF run _ ok this] Cons.prems(2) have d: "drains r es w0 evs0 w1" by simp
  have sub: "set evs0 \<subseteq> set evs" using cases by auto
  have keep: "disk_entries r w1 n = disk_entries r w0 n" using d fresh by (simp add: drains_def)
  have "settled r evs w1 (n, nd)"
    unfolding settled_def using e cases keep at d frame(2) by (intro exI [of _ pr] exI [of _ m]) (auto simp: drains_def)
  moreover have "\<forall>en \<in> set es. settled r evs w1 en"
    using d sub by (auto simp: drains_def intro: settled_mono)
  moreover have "\<forall>k. k \<notin> fst ` set (en # es) \<longrightarrow> disk_entries r w1 k = disk_entries r w k"
    using d cases by (auto simp: drains_def en)
  ultimately show ?case using d frame by (auto simp: drains_def en)
qed

lemma drain_entries_saves: "drain_entries r es w = (evs, w1) \<Longrightarrow> Save pr \<notin> set evs"
  by (induction r es w arbitrary: evs w1 rule: drain_entries.induct)
    (auto simp: Let_def split: if_splits prod.splits sum.splits option.splits)

lemma restart_saves: "restart_runner r e w = (evs, w1) \<Longrightarrow> Save pr \<notin> set evs"
  using drain_entries_saves [of r _ _ evs w1 pr]
  by (fastforce simp: restart_runner_def drainPendingResults_def split: prod.splits sum.splits)

text \<open>A restart visits every entry.\<close>

lemma restart_drains:
  assumes ok: "disk_ok (tr_cfg r) (rn_disk w)" and run: "restart_runner r e w = (evs, w1)"
  shows "disk_ok (tr_cfg r) (rn_disk w1) \<and> rn_jobs w1 = []
    \<and> (\<forall>n nd. disk_entries r w n = Some nd \<longrightarrow> settled r evs w1 (n, nd))
    \<and> (\<forall>n. disk_entries r w n = None \<longrightarrow> disk_entries r w1 n = None)"
proof -
  let ?w = "w\<lparr>rn_exec := e, rn_processed := {}, rn_jobs := []\<rparr>" and ?P = "dir_path (tr_cfg r)"
  let ?es = "children (files (rn_disk w)) ?P"
  have wf: "tree_wf (files (rn_disk w))" using ok by (simp add: disk_ok_def)
  have mem: "(n, nd) \<in> set ?es \<longleftrightarrow> disk_entries r w n = Some nd" for n nd
    using children_iff [OF wf] by (simp add: entries_def node_at_def)
  have "\<exists>m. node_at (files (rn_disk w)) ?P = Some (Dir m)"
    using ok dirs_ok_self by (auto simp: disk_ok_def dest: is_dirD)
  then have "os_ReadDir (pendingDir (tr_cfg r)) (rn_disk w) = (Inr ?es, rn_disk w)"
    using ok by (auto simp: os_ReadDir_def quiet_read disk_ok_def)
  with run have "drain_entries r ?es ?w = (evs, w1)" by (simp add: restart_runner_def drainPendingResults_def)
  from drain_entries_drains [OF this distinct_children [OF wf]] ok mem have d: "drains r ?es ?w evs w1" by auto
  have "n \<notin> fst ` set ?es" if "disk_entries r w n = None" for n using that mem by force
  with d mem show ?thesis by (simp add: drains_def)
qed

section \<open>The invariant of a run\<close>

fun job_id :: "job \<Rightarrow> string" where
  "job_id (Executing t) = at_TaskId t"
| "job_id (Executed pr) = pr_TaskID pr"
| "job_id (Saved pr) = pr_TaskID pr"
| "job_id (Reported pr) = pr_TaskID pr"

abbreviation holds_result :: "('e, 'g) TaskRunner \<Rightarrow> ('e, 'g) runner \<Rightarrow> pendingResult \<Rightarrow> bool" where
  "holds_result r w pr \<equiv> on_disk (tr_cfg r) pr (rn_disk w)"

text \<open>What the file of a job may hold in each of its phases.\<close>

fun job_file :: "('e, 'g) TaskRunner \<Rightarrow> event list \<Rightarrow> ('e, 'g) runner \<Rightarrow> job \<Rightarrow> bool" where
  "job_file r evs w (Executing t) = (disk_entries r w (at_TaskId t @ ''.json'') = None)"
| "job_file r evs w (Executed pr) = (disk_entries r w (file_of pr) = None)"
| "job_file r evs w (Saved pr) = (disk_entries r w (file_of pr) = None \<or> holds_result r w pr)"
| "job_file r evs w (Reported pr) = ((disk_entries r w (file_of pr) = None \<or> holds_result r w pr) \<and> Report pr \<in> set evs)"

definition job_ok :: "('e, 'g) TaskRunner \<Rightarrow> event list \<Rightarrow> ('e, 'g) runner \<Rightarrow> job \<Rightarrow> bool" where
  "job_ok r evs w j = (plain (job_id j) \<and> job_id j \<in> rn_processed w \<and> job_file r evs w j)"

definition kept :: "('e, 'g) TaskRunner \<Rightarrow> event list \<Rightarrow> ('e, 'g) runner \<Rightarrow> bool" where
  "kept r evs w =
     (disk_ok (tr_cfg r) (rn_disk w)
       \<and> (\<forall>pr. Save pr \<in> set evs \<longrightarrow> Report pr \<in> set evs \<or> holds_result r w pr)
       \<and> (\<forall>pr. holds_result r w pr \<longrightarrow> pr_TaskID pr \<in> rn_processed w)
       \<and> distinct (map job_id (rn_jobs w)) \<and> (\<forall>j \<in> set (rn_jobs w). job_ok r evs w j))"

lemma job_ok_mono:
  "job_ok r evs w j \<Longrightarrow> disk_entries r w1 (job_id j @ ''.json'') = disk_entries r w (job_id j @ ''.json'') \<Longrightarrow>
     rn_processed w \<subseteq> rn_processed w1 \<Longrightarrow> set evs \<subseteq> set evs1 \<Longrightarrow> job_ok r evs1 w1 j"
  by (cases j) (auto simp: job_ok_def on_disk_entries)

lemma kept_gateway [simp]: "kept r evs (w\<lparr>rn_gateway := g\<rparr>) = kept r evs w"
proof -
  have "job_ok r evs (w\<lparr>rn_gateway := g\<rparr>) j = job_ok r evs w j" for j by (cases j) (simp_all add: job_ok_def)
  then show ?thesis by (simp add: kept_def)
qed

lemma unmarked_no_entry:
  "kept r evs w \<Longrightarrow> i \<notin> rn_processed w \<Longrightarrow> disk_entries r w (i @ ''.json'') = None"
  using entriesD [of "tr_cfg r" "rn_disk w" "i @ ''.json''"]
  by (cases "disk_entries r w (i @ ''.json'')") (auto simp: kept_def on_disk_entries)

lemma start_task_kept:
  assumes "kept r evs w" "plain (at_TaskId t)"
  shows "kept r evs (start_task t w)"
proof (cases "isDuplicate (at_TaskId t) w")
  case False
  then have new: "at_TaskId t \<notin> rn_processed w" by (simp add: isDuplicate_def)
  have "at_TaskId t \<notin> job_id ` set (rn_jobs w)"
    using assms(1) new by (auto simp: kept_def job_ok_def)
  moreover have "job_ok r evs (start_task t w) j" if "j \<in> set (rn_jobs w)" for j
    by (rule job_ok_mono [of r evs w]) (use assms(1) that in \<open>auto simp: kept_def start_task_def markProcessed_def\<close>)
  moreover have "job_ok r evs (start_task t w) (Executing t)"
    using unmarked_no_entry [OF assms(1) new] assms(2) False by (simp add: job_ok_def start_task_def markProcessed_def)
  ultimately show ?thesis using assms(1) False by (auto simp: kept_def start_task_def markProcessed_def)
qed (simp add: start_task_def assms(1))

definition plain_ids :: "'g agent_client \<Rightarrow> bool" where
  "plain_ids c = (\<forall>n k g ts g1. cl_pull c n k g = (Inr ts, g1) \<longrightarrow> (\<forall>t \<in> set ts. plain (at_TaskId t)))"

lemma plain_idsD: "plain_ids c \<Longrightarrow> cl_pull c n k g = (Inr ts, g1) \<Longrightarrow> t \<in> set ts \<Longrightarrow> plain (at_TaskId t)"
  unfolding plain_ids_def by blast

lemma poll_kept: "plain_ids (tr_client r) \<Longrightarrow> kept r evs w \<Longrightarrow> kept r evs (poll r w)"
  unfolding poll_def
  by (auto split: prod.splits sum.splits
      intro!: fold_start_invar [where I = "kept r evs"] start_task_kept dest: plain_idsD)

text \<open>A phase of a job changes the file of its task only.\<close>

lemma save_job:
  assumes "disk_ok (tr_cfg r) (rn_disk w)" "plain (pr_TaskID pr)" "advance r (Executed pr) w = (js, es, w1)"
  shows "disk_ok (tr_cfg r) (rn_disk w1) \<and> js = [Saved pr] \<and> es = [Save pr]
    \<and> (\<exists>m. disk_entries r w1 = (disk_entries r w)(file_of pr := Some (File (Raw_JSON (pending_json pr)) m)))"
proof -
  from save_effect [OF assms(1,2)] obtain d1 where "savePendingResult (tr_cfg r) pr (rn_disk w) = (Inr (), d1)"
    "disk_ok (tr_cfg r) d1"
    "entries (tr_cfg r) d1 = (disk_entries r w)(file_of pr := Some (File (Raw_JSON (pending_json pr)) (host_now (rn_disk w))))"
    by blast
  with assms(3) show ?thesis by auto
qed

lemma advance_kept:
  assumes ok: "disk_ok (tr_cfg r) (rn_disk w)" and j: "job_ok r evs w j" and run: "advance r j w = (js, es, w1)"
  shows "disk_ok (tr_cfg r) (rn_disk w1) \<and> rn_processed w1 = rn_processed w
    \<and> (\<forall>n. n \<noteq> job_id j @ ''.json'' \<longrightarrow> disk_entries r w1 n = disk_entries r w n)
    \<and> (js = [] \<or> (\<exists>j1. js = [j1] \<and> job_id j1 = job_id j \<and> job_ok r (evs @ es) w1 j1))
    \<and> (\<forall>pr. Save pr \<in> set es \<or> holds_result r w pr \<longrightarrow> Report pr \<in> set (evs @ es) \<or> holds_result r w1 pr)"
proof (cases j)
  case (Executing t)
  with run j ok show ?thesis
    by (auto simp: job_ok_def execution_result_def split: prod.splits sum.splits)
next
  case (Executed pr)
  with j have pl: "plain (pr_TaskID pr)" by (simp add: job_ok_def)
  note s = save_job [OF ok pl run [unfolded Executed]]
  have other: "pr_TaskID pr' \<noteq> pr_TaskID pr" if "holds_result r w pr'" for pr'
    using that Executed j by (auto simp: job_ok_def on_disk_entries)
  have "holds_result r w1 pr'" if "holds_result r w pr' \<or> pr' = pr" for pr'
    using that other s by (auto simp: on_disk_entries)
  with s Executed j advance_frame [OF run] show ?thesis by (auto simp: job_ok_def on_disk_entries)
next
  case (Saved pr)
  with run j ok show ?thesis
    by (auto simp: job_ok_def on_disk_entries split: prod.splits sum.splits)
next
  case (Reported pr)
  with j have pl: "plain (pr_TaskID pr)" by (simp add: job_ok_def)
  note gone = remove_effect [OF ok pl]
  have "Report pr' \<in> set evs \<or> holds_result r w1 pr'" if "holds_result r w pr'" for pr'
  proof (cases "pr_TaskID pr' = pr_TaskID pr")
    case True
    with that Reported j have "pr' = pr" by (auto simp: job_ok_def on_disk_entries dest: pending_json_inj)
    then show ?thesis using Reported j by (simp add: job_ok_def)
  next
    case False
    then show ?thesis using that gone Reported run by (auto simp: on_disk_entries)
  qed
  then show ?thesis using gone Reported run by auto
qed

lemma job_kept:
  assumes k: "kept r evs w" and run: "advance_job r i w = (es, w1)" and i: "i < length (rn_jobs w)"
  shows "kept r (evs @ es) w1"
proof -
  from run i obtain j js l l' w0
    where jobs: "rn_jobs w = l @ j # l'" and a: "advance r j w = (js, es, w0)" and w1: "w1 = w0\<lparr>rn_jobs := l @ js @ l'\<rparr>"
    by (rule advance_jobE)
  have ok: "disk_ok (tr_cfg r) (rn_disk w)" and jok: "job_ok r evs w j" using k jobs by (auto simp: kept_def)
  note step = advance_kept [OF ok jok a]
  have same: "job_ok r es' w1 x = job_ok r es' w0 x" for es' x by (cases x) (simp_all add: job_ok_def w1)
  have ids: "distinct (map job_id (l @ j # l'))" using k jobs by (simp add: kept_def)
  have others: "job_ok r (evs @ es) w1 x" if "x \<in> set l \<union> set l'" for x
  proof -
    have "job_id x \<in> job_id ` (set l \<union> set l')" using that by blast
    moreover have "job_id j \<notin> job_id ` (set l \<union> set l')" using ids by auto
    ultimately have "job_id x \<noteq> job_id j" by metis
    moreover have "job_ok r evs w x" using that k jobs by (auto simp: kept_def)
    ultimately show ?thesis unfolding same using step by (intro job_ok_mono [of r evs w x w0]) simp_all
  qed
  have mine: "js = [] \<or> (\<exists>j1. js = [j1] \<and> job_id j1 = job_id j \<and> job_ok r (evs @ es) w1 j1)"
    using step unfolding same by blast
  from mine have "js = [] \<or> (\<exists>j1. js = [j1] \<and> job_id j1 = job_id j)" by blast
  then have "distinct (map job_id (l @ js @ l'))" using ids by (elim disjE exE conjE) simp_all
  moreover have "\<forall>x \<in> set (l @ js @ l'). job_ok r (evs @ es) w1 x" using mine others by auto
  moreover have "pr_TaskID pr \<in> rn_processed w1" if "holds_result r w1 pr" for pr
  proof (cases "pr_TaskID pr = job_id j")
    case True
    then show ?thesis using jok step by (simp add: job_ok_def w1)
  next
    case False
    then have "holds_result r w pr" using that step by (auto simp: on_disk_entries w1)
    then show ?thesis using k step by (simp add: kept_def w1)
  qed
  moreover have "\<forall>pr. Save pr \<in> set (evs @ es) \<longrightarrow> Report pr \<in> set (evs @ es) \<or> holds_result r w1 pr"
    using k step by (auto simp: kept_def w1)
  ultimately show ?thesis using step by (auto simp: kept_def w1)
qed

lemma restart_kept:
  assumes "disk_ok (tr_cfg r) (rn_disk w)" "restart_runner r e w = (es, w1)"
    and saves: "\<forall>pr. Save pr \<in> set evs \<longrightarrow> Report pr \<in> set evs \<or> holds_result r w pr"
  shows "kept r (evs @ es) w1"
proof -
  note d = restart_drains [OF assms(1,2)]
  have visited: "pr_TaskID pr \<in> rn_processed w1 \<and> (Report pr \<in> set es \<or> holds_result r w1 pr)" if "holds_result r w pr" for pr
    using that d by (fastforce simp: settled_def on_disk_entries dest: pending_json_inj)
  have "pr_TaskID pr \<in> rn_processed w1" if "holds_result r w1 pr" for pr
  proof -
    from that obtain m where at: "disk_entries r w1 (file_of pr) = Some (File (Raw_JSON (pending_json pr)) m)"
      by (auto simp: on_disk_entries)
    then obtain nd where "disk_entries r w (file_of pr) = Some nd" using d by (cases "disk_entries r w (file_of pr)") auto
    then show ?thesis using d by (fastforce simp: settled_def)
  qed
  moreover have "Report pr \<in> set (evs @ es) \<or> holds_result r w1 pr" if "Save pr \<in> set (evs @ es)" for pr
    using that saves visited restart_saves [OF assms(2)] by auto
  ultimately show ?thesis using d by (simp add: kept_def)
qed

lemma runs_kept:
  "runs r w0 evs life w \<Longrightarrow> plain_ids (tr_client r) \<Longrightarrow> kept r [] w0 \<Longrightarrow> kept r evs w"
proof (induction rule: runs.induct)
  case (step evs life w es w1)
  from step.hyps(2) step.IH [OF step.prems] show ?case
    by (elim life_stepE) (auto intro: poll_kept [OF step.prems(1)] job_kept)
next
  case (crash evs life w es w1)
  then have k: "kept r evs w" by simp
  from crash.hyps(2) obtain e where "restart_runner r e w = (es, w1)" by (blast elim: crash_stepE)
  moreover from k have "disk_ok (tr_cfg r) (rn_disk w)"
    "\<forall>pr. Save pr \<in> set evs \<longrightarrow> Report pr \<in> set evs \<or> holds_result r w pr" by (simp_all add: kept_def)
  ultimately show ?case by (blast intro: restart_kept)
qed

section \<open>A small system\<close>

definition demo_task :: agent_task where
  "demo_task = \<lparr>at_TaskId = ''t'', at_Type = ''TASK_TYPE_UPDATE'', at_Payload = Raw_JSON JNull, at_TimeoutSeconds = 60\<rparr>"

text \<open>A gateway that hands its task out once and accepts every report.\<close>

definition demo_runner :: "(unit, bool) TaskRunner" where
  "demo_runner = NewTaskRunner \<lparr>cl_pull = (\<lambda>n k g. (Inr (if g then [demo_task] else []), False)), cl_report = (\<lambda>pr g. (Inr (), g))\<rparr> ''n''
     (\<lambda>d ty p e. (Inr ''ok'', e)) \<lparr>tc_PollInterval = 0, tc_MaxTasks = 0, tc_DataDir = ''/d''\<rparr>"

definition demo_world :: "(unit, bool) runner" where
  "demo_world = \<lparr>rn_exec = (), rn_gateway = True,
     rn_disk = plain_host [([''d''], Dir 0), ([''d'', ''pending-results''], Dir 0)], rn_processed = {}, rn_jobs = []\<rparr>"

definition demo_result :: pendingResult where
  "demo_result = \<lparr>pr_TaskID = ''t'', pr_NodeID = ''n'', pr_Status = ''Success'', pr_ErrorMessage = [], pr_Result = ''ok''\<rparr>"

lemma demo_dir: "dir_path (tr_cfg demo_runner) = [''d'', ''pending-results'']"
proof -
  have "plain ''pending-results''" by (simp add: plain_def)
  then have "dir_path (tr_cfg demo_runner) = path_of ''/d'' @ [''pending-results'']"
    by (simp add: demo_runner_def NewTaskRunner_def runner_defaults_def pendingDir_def path_of_Join2)
  then show ?thesis by (simp add: path_of_def)
qed

lemma demo_disk: "disk_ok (tr_cfg demo_runner) (rn_disk demo_world)"
  by (auto simp: disk_ok_def demo_dir demo_world_def plain_host_def dirs_ok_def only_results_def node_at_def tree_wf_def
      plain_path_def plain_def le_Suc_eq numeral_2_eq_2 take_Cons')

lemma demo_client: "plain_ids (tr_client demo_runner)" "accepts (tr_client demo_runner)"
  by (auto simp: accepts_def demo_runner_def NewTaskRunner_def plain_ids_def demo_task_def plain_def)

lemma demo_restart: "restart_runner demo_runner () demo_world = ([], demo_world)"
proof -
  have "os_ReadDir (pendingDir (tr_cfg demo_runner)) (rn_disk demo_world) = (Inr [], rn_disk demo_world)"
    by (simp add: os_ReadDir_def quiet_read demo_world_def plain_host_def demo_dir node_at_def children_def)
  then show ?thesis by (simp add: restart_runner_def drainPendingResults_def demo_world_def)
qed

lemma demo_saved:
  "\<exists>w1. runs demo_runner demo_world [Execution ''t'', Save demo_result] [Execution ''t'', Save demo_result] w1"
proof -
  let ?w1 = "demo_world\<lparr>rn_gateway := False, rn_processed := {''t''}, rn_jobs := [Executing demo_task]\<rparr>"
  let ?w2 = "?w1\<lparr>rn_jobs := [Executed demo_result]\<rparr>"
  have "poll demo_runner demo_world = ?w1"
    by (simp add: poll_def demo_runner_def NewTaskRunner_def demo_world_def start_task_def isDuplicate_def markProcessed_def demo_task_def)
  with runs.step [OF runs.start [of demo_runner demo_world] runner_step.poll]
  have 1: "runs demo_runner demo_world [] [] ?w1" by simp
  have "advance_job demo_runner 0 ?w1 = ([Execution ''t''], ?w2)"
    by (simp add: advance_job_def demo_runner_def NewTaskRunner_def execution_result_def demo_task_def demo_result_def)
  then have "runner_step demo_runner ?w1 False [Execution ''t''] ?w2" by (intro runner_step.job [where i = 0]) simp_all
  from runs.step [OF 1 this] have 2: "runs demo_runner demo_world [Execution ''t''] [Execution ''t''] ?w2" by simp
  have pl: "plain (pr_TaskID demo_result)" by (simp add: demo_result_def plain_def)
  obtain js es w0 where a: "advance demo_runner (Executed demo_result) ?w2 = (js, es, w0)" by (metis prod_cases3)
  with save_job [OF _ pl a] demo_disk have "es = [Save demo_result]" by simp
  with a have "advance_job demo_runner 0 ?w2 = ([Save demo_result], w0\<lparr>rn_jobs := js\<rparr>)" by (simp add: advance_job_def)
  then have "runner_step demo_runner ?w2 False [Save demo_result] (w0\<lparr>rn_jobs := js\<rparr>)"
    by (intro runner_step.job [where i = 0]) simp_all
  from runs.step [OF 2 this] show ?thesis by auto
qed

lemma restart_fresh:
  "disk_ok (tr_cfg r) (rn_disk w) \<Longrightarrow> restart_runner r e w = (es, w0) \<Longrightarrow> kept r [] w0"
  using restart_kept [of r w e es w0 "[]"] restart_drains [of r w e es w0] by (simp add: kept_def)

section \<open>Properties\<close>

text \<open>C5: in the life of a process a task is executed at most once, whatever the gateway delivers again.\<close>

theorem executed_at_most_once:
  assumes "runs r w0 evs life w" "rn_jobs w0 = []"
  shows "count_list life (Execution i) \<le> 1"
  using runs_once [OF assms, of i] by (simp add: marked_once_def split: if_splits)

theorem executed_at_most_once_witness:
  "\<exists>w. runs demo_runner demo_world [Execution ''t'', Save demo_result] [Execution ''t'', Save demo_result] w
     \<and> count_list [Execution ''t'', Save demo_result] (Execution ''t'') \<le> 1"
  using demo_saved executed_at_most_once [where i = "''t''"] by (fastforce simp: demo_world_def)

text \<open>C6: on a disk that does not fail a saved result has been reported or is still on disk, through polls, goroutines
  and restarts in any order, and no task with a result on disk is being executed.\<close>

theorem saved_result_survives:
  assumes "plain_ids (tr_client r)" "disk_ok (tr_cfg r) (rn_disk w)" "restart_runner r e w = (es, w0)"
    and "runs r w0 evs life w1"
  shows "(\<forall>pr. Save pr \<in> set evs \<longrightarrow> Report pr \<in> set evs \<or> on_disk (tr_cfg r) pr (rn_disk w1))
    \<and> (\<forall>pr t. on_disk (tr_cfg r) pr (rn_disk w1) \<longrightarrow> Executing t \<in> set (rn_jobs w1) \<longrightarrow> at_TaskId t \<noteq> pr_TaskID pr)"
proof -
  have k: "kept r evs w1" by (rule runs_kept [OF assms(4,1) restart_fresh [OF assms(2,3)]])
  have "at_TaskId t \<noteq> pr_TaskID pr" if "holds_result r w1 pr" "Executing t \<in> set (rn_jobs w1)" for pr t
  proof -
    have "job_ok r evs w1 (Executing t)" using k that(2) by (simp add: kept_def)
    then show ?thesis using that(1) by (auto simp: job_ok_def on_disk_entries)
  qed
  then show ?thesis using k by (simp add: kept_def)
qed

theorem saved_result_survives_witness:
  "\<exists>w. runs demo_runner demo_world [Execution ''t'', Save demo_result] [Execution ''t'', Save demo_result] w
     \<and> on_disk (tr_cfg demo_runner) demo_result (rn_disk w)"
  using demo_saved saved_result_survives [OF demo_client(1) demo_disk demo_restart] by fastforce

text \<open>C7: after a restart with a gateway that accepts reports the directory of pending results is empty, and every
  result saved before has been reported.\<close>

theorem restart_reports_saved:
  assumes "plain_ids (tr_client r)" "disk_ok (tr_cfg r) (rn_disk w)" "restart_runner r e w = (es, w0)"
    and "runs r w0 evs life w1" and "accepts (tr_client r)"
  shows "case restart_runner r e1 w1 of (es1, w2) \<Rightarrow>
    (\<forall>name. entries (tr_cfg r) (rn_disk w2) name = None) \<and> (\<forall>pr. Save pr \<in> set evs \<longrightarrow> Report pr \<in> set (evs @ es1))"
proof -
  obtain es1 w2 where run: "restart_runner r e1 w1 = (es1, w2)" by fastforce
  have k: "kept r evs w1" by (rule runs_kept [OF assms(4,1) restart_fresh [OF assms(2,3)]])
  then have ok: "disk_ok (tr_cfg r) (rn_disk w1)" by (simp add: kept_def)
  note d = restart_drains [OF ok run]
  have empty: "disk_entries r w2 n = None" for n
    using d assms(5) by (cases "disk_entries r w1 n") (auto simp: settled_def)
  have "\<forall>pr. Save pr \<in> set evs \<longrightarrow> Report pr \<in> set evs \<or> holds_result r w1 pr" using k by (simp add: kept_def)
  from restart_kept [OF ok run this] have "kept r (evs @ es1) w2" .
  then have "Report pr \<in> set (evs @ es1)" if "Save pr \<in> set evs" for pr
    using that empty by (auto simp: kept_def on_disk_entries)
  with empty run show ?thesis by simp
qed

theorem restart_reports_saved_witness:
  "\<exists>w. runs demo_runner demo_world [Execution ''t'', Save demo_result] [Execution ''t'', Save demo_result] w
     \<and> Report demo_result \<in> set (fst (restart_runner demo_runner () w))"
  using demo_saved restart_reports_saved [OF demo_client(1) demo_disk demo_restart _ demo_client(2), of _ _ _ "()"]
  by (fastforce split: prod.splits)

end
