(* ===== verification/Agent_Config.thy ===== *)
theory Agent_Config
  imports Host_Facts Encoding Updater
begin

text \<open>
  The configuration of the agent (\<open>internal/agent/config.go\<close>), the version of the build
  (\<open>internal/version/version.go\<close>), the helpers of \<open>cmd/edge-agent/main.go\<close> that read it, and the heartbeat
  loop it sets the pace of (\<open>internal/agent/heartbeat.go\<close>). The environment is a function that gives the
  empty text for a variable that is not set. Reading the text of a duration, and a float as a duration, are
  functions of a \<open>time_env\<close>, a parameter.
\<close>

section \<open>The version of the build\<close>

record build_info =
  bi_Version :: string
  bi_Commit :: string
  bi_BuildDate :: string

definition dev_build :: build_info where
  "dev_build = \<lparr>bi_Version = ''dev'', bi_Commit = ''unknown'', bi_BuildDate = ''unknown''\<rparr>"

definition Version_String :: "build_info \<Rightarrow> string" where
  "Version_String b = ''version='' @ bi_Version b @ '' commit='' @ bi_Commit b @ '' build_date='' @ bi_BuildDate b"

definition Version_Info :: "build_info \<Rightarrow> string \<Rightarrow> string" where
  "Version_Info b name = name @ '' '' @ Version_String b"

definition ShouldPrint :: "string list \<Rightarrow> bool" where
  "ShouldPrint args = list_ex (\<lambda>a. trim_space a \<in> {''version'', ''--version'', ''-version''}) args"

definition EffectiveVersion :: "build_info \<Rightarrow> string \<Rightarrow> string" where
  "EffectiveVersion b fallback =
     (if trim_space (bi_Version b) \<noteq> [] \<and> bi_Version b \<noteq> ''dev'' then bi_Version b
      else if trim_space fallback \<noteq> [] then fallback
      else bi_Version b)"

section \<open>The configuration\<close>

record Config =
  cf_GatewayAddr :: string
  cf_GatewayID :: string
  cf_GatewayHTTPAddr :: string
  cf_Token :: string
  cf_DataDir :: string
  cf_HeartbeatInterval :: duration
  cf_AgentVersion :: string

definition zero_Config :: Config where
  "zero_Config = \<lparr>cf_GatewayAddr = [], cf_GatewayID = [], cf_GatewayHTTPAddr = [], cf_Token = [], cf_DataDir = [],
     cf_HeartbeatInterval = 0, cf_AgentVersion = []\<rparr>"

definition config_defaults :: "Config \<Rightarrow> Config" where
  "config_defaults c = c\<lparr>cf_DataDir := (if cf_DataDir c = [] then ''/etc/edge-agent'' else cf_DataDir c),
     cf_HeartbeatInterval := (if cf_HeartbeatInterval c = 0 then 10 * second else cf_HeartbeatInterval c),
     cf_AgentVersion := (if cf_AgentVersion c = [] then ''dev'' else cf_AgentVersion c)\<rparr>"

definition config_validate :: "Config \<Rightarrow> go_err option" where
  "config_validate c = (if cf_GatewayAddr c = [] then Some (GoErr ''agent: gateway_addr is required'') else None)"

definition KeyPath :: "Config \<Rightarrow> string" where "KeyPath c = cf_DataDir c @ ''/node.key''"
definition CertPath :: "Config \<Rightarrow> string" where "CertPath c = cf_DataDir c @ ''/node.crt''"
definition CAPath :: "Config \<Rightarrow> string" where "CAPath c = cf_DataDir c @ ''/ca.crt''"
definition NodeIDPath :: "Config \<Rightarrow> string" where "NodeIDPath c = cf_DataDir c @ ''/node-id''"

record time_env =
  te_parse :: "string \<Rightarrow> go_err + duration"
  te_float :: "json \<Rightarrow> duration option"

text \<open>A number that is no \<open>int64\<close> is read as a float; the text of any other value is its compact form.\<close>

definition parseDurationValue :: "time_env \<Rightarrow> json \<Rightarrow> go_err + duration" where
  "parseDurationValue te j =
     (let bad = Inl (GoErr (''invalid duration value: '' @ quote (json_marshal j)));
          as_float = (case te_float te j of Some d \<Rightarrow> Inr d | None \<Rightarrow> bad) in
      case j of
        JStr s \<Rightarrow> te_parse te s
      | JNull \<Rightarrow> te_parse te []
      | JNum n \<Rightarrow> if in_int64 n then Inr n else as_float
      | JFrac s \<Rightarrow> as_float
      | _ \<Rightarrow> bad)"

definition heartbeat_field :: "raw \<Rightarrow> json option" where
  "heartbeat_field data =
     (case data of
        Raw_JSON (JObj kvs) \<Rightarrow> (case json_field ''heartbeat_interval'' kvs of Some JNull \<Rightarrow> None | v \<Rightarrow> v)
      | _ \<Rightarrow> None)"

definition unmarshalConfig :: "time_env \<Rightarrow> raw \<Rightarrow> Config \<Rightarrow> go_err + Config" where
  "unmarshalConfig te data c =
     (case unmarshal_struct [''gateway_addr'', ''gateway_id'', ''gateway_http_addr'', ''token'', ''data_dir'', ''agent_version''] data of
        Inr [a, g, h, t, d, v] \<Rightarrow>
          let c1 = c\<lparr>cf_GatewayAddr := a, cf_GatewayID := g, cf_GatewayHTTPAddr := h, cf_Token := t, cf_DataDir := d,
                     cf_AgentVersion := v\<rparr> in
          (case heartbeat_field data of
             None \<Rightarrow> Inr c1
           | Some j \<Rightarrow> map_sum id (\<lambda>d. c1\<lparr>cf_HeartbeatInterval := d\<rparr>) (parseDurationValue te j))
      | Inl e \<Rightarrow> Inl e
      | _ \<Rightarrow> Inl json_error)"

type_synonym environment = "string \<Rightarrow> string"

definition env_or :: "environment \<Rightarrow> string \<Rightarrow> string \<Rightarrow> string" where
  "env_or env key old = (if env key = [] then old else env key)"

definition env_overrides :: "environment \<Rightarrow> Config \<Rightarrow> Config" where
  "env_overrides env c =
     c\<lparr>cf_GatewayAddr := env_or env ''EDGE_GATEWAY_ADDR'' (cf_GatewayAddr c),
       cf_GatewayID := env_or env ''EDGE_GATEWAY_ID'' (cf_GatewayID c),
       cf_GatewayHTTPAddr := env_or env ''EDGE_GATEWAY_HTTP_ADDR'' (cf_GatewayHTTPAddr c),
       cf_Token := env_or env ''EDGE_TOKEN'' (cf_Token c),
       cf_DataDir := env_or env ''EDGE_DATA_DIR'' (cf_DataDir c)\<rparr>"

definition env_heartbeat :: "time_env \<Rightarrow> environment \<Rightarrow> Config \<Rightarrow> go_err + Config" where
  "env_heartbeat te env c =
     (let v = env ''EDGE_HEARTBEAT_INTERVAL'' in
      if v = [] then Inr c
      else map_sum (wrap ''agent: invalid EDGE_HEARTBEAT_INTERVAL'') (\<lambda>d. c\<lparr>cf_HeartbeatInterval := d\<rparr>) (te_parse te v))"

definition read_config :: "time_env \<Rightarrow> string \<Rightarrow> (raw, Config) hostm" where
  "read_config te file =
     (if file = [] then returnE zero_Config
      else bindE (map_err (wrap ''agent: read config'') (os_ReadFile file)) (\<lambda>data.
             case unmarshalConfig te data zero_Config of
               Inl e \<Rightarrow> failE (wrap ''agent: parse config'' e) | Inr c \<Rightarrow> returnE c))"

definition LoadConfig :: "time_env \<Rightarrow> environment \<Rightarrow> string \<Rightarrow> (raw, Config) hostm" where
  "LoadConfig te env file =
     bindE (read_config te file) (\<lambda>c.
       case env_heartbeat te env (env_overrides env c) of
         Inl e \<Rightarrow> failE e
       | Inr c1 \<Rightarrow>
           let c2 = config_defaults c1 in
           case config_validate c2 of Some e \<Rightarrow> failE e | None \<Rightarrow> returnE c2)"

section \<open>Helpers of main\<close>

definition envOrDefault :: "environment \<Rightarrow> string \<Rightarrow> string \<Rightarrow> string" where
  "envOrDefault env key def = (if env key \<noteq> [] then env key else def)"

definition envOrDefaultBool :: "environment \<Rightarrow> string \<Rightarrow> bool \<Rightarrow> bool" where
  "envOrDefaultBool env key def =
     (let v = trim_space (to_lower (env key)) in
      if v \<in> {''1'', ''true'', ''yes'', ''on''} then True
      else if v \<in> {''0'', ''false'', ''no'', ''off''} then False
      else def)"

text \<open>\<open>net.SplitHostPort\<close>: the host of an address, without the brackets of an IPv6 address, and the port.\<close>

definition no_brackets :: "string \<Rightarrow> bool" where
  "no_brackets s = (CHR ''['' \<notin> set s \<and> CHR '']'' \<notin> set s)"

definition SplitHostPort :: "string \<Rightarrow> (string \<times> string) option" where
  "SplitHostPort s =
     (if CHR '':'' \<notin> set s then None
      else
        let port = rev (takeWhile (\<lambda>c. c \<noteq> CHR '':'') (rev s)); before = take (length s - Suc (length port)) s in
        case before of
          CHR ''['' # rest \<Rightarrow>
            (if rest \<noteq> [] \<and> last rest = CHR '']'' \<and> no_brackets (butlast rest) \<and> no_brackets port
             then Some (butlast rest, port) else None)
        | _ \<Rightarrow> if CHR '':'' \<in> set before \<or> \<not> no_brackets s then None else Some (before, port))"

definition deriveGatewayHTTPAddr :: "Config \<Rightarrow> bool \<Rightarrow> string" where
  "deriveGatewayHTTPAddr c useMTLS =
     (if cf_GatewayHTTPAddr c \<noteq> [] then trim_right CHR ''/'' (cf_GatewayHTTPAddr c)
      else
        let host = (case SplitHostPort (cf_GatewayAddr c) of Some (h, p) \<Rightarrow> h | None \<Rightarrow> cf_GatewayAddr c) in
        (if useMTLS then ''https'' else ''http'') @ ''://'' @ host @ '':8081'')"

section \<open>Heartbeats\<close>

record heartbeat =
  hb_NodeId :: string
  hb_AgentVersion :: string
  hb_Timestamp :: timestamp

text \<open>The gateway a heartbeat is sent to is a client on a state \<open>'g\<close>; a loop is seen through its ticks, at
  the times given. \<open>time.NewTicker\<close> panics on an interval that is not positive: no result.\<close>

type_synonym 'g heartbeat_client = "heartbeat \<Rightarrow> ('g, unit) em"

definition sendHeartbeat :: "'g heartbeat_client \<Rightarrow> string \<Rightarrow> string \<Rightarrow> timestamp \<Rightarrow> 'g \<Rightarrow> 'g" where
  "sendHeartbeat client nodeID version now g =
     snd (client \<lparr>hb_NodeId = nodeID, hb_AgentVersion = version, hb_Timestamp = now\<rparr> g)"

definition RunHeartbeat :: "'g heartbeat_client \<Rightarrow> string \<Rightarrow> Config \<Rightarrow> timestamp list \<Rightarrow> 'g \<Rightarrow> 'g option" where
  "RunHeartbeat client nodeID c ticks g =
     (if cf_HeartbeatInterval c \<le> 0 then None
      else Some (fold (sendHeartbeat client nodeID (cf_AgentVersion c)) ticks g))"

section \<open>What is loaded\<close>

lemma read_config_reads: "read_config te file h = (r, h1) \<Longrightarrow> files h1 = files h"
  by (auto simp: read_config_def bindE_def map_err_def returnE_def failE_def dest: os_reads(2)
      split: if_splits sum.splits prod.splits)

lemma load_config_sound:
  assumes "LoadConfig te env file h = (Inr c, h1)"
  shows "cf_GatewayAddr c \<noteq> []" "cf_DataDir c \<noteq> []" "cf_HeartbeatInterval c \<noteq> 0" "cf_AgentVersion c \<noteq> []"
    and "files h1 = files h"
    and "env ''EDGE_GATEWAY_ADDR'' \<noteq> [] \<Longrightarrow> cf_GatewayAddr c = env ''EDGE_GATEWAY_ADDR''"
    and "env ''EDGE_GATEWAY_ID'' \<noteq> [] \<Longrightarrow> cf_GatewayID c = env ''EDGE_GATEWAY_ID''"
    and "env ''EDGE_GATEWAY_HTTP_ADDR'' \<noteq> [] \<Longrightarrow> cf_GatewayHTTPAddr c = env ''EDGE_GATEWAY_HTTP_ADDR''"
    and "env ''EDGE_TOKEN'' \<noteq> [] \<Longrightarrow> cf_Token c = env ''EDGE_TOKEN''"
    and "env ''EDGE_DATA_DIR'' \<noteq> [] \<Longrightarrow> cf_DataDir c = env ''EDGE_DATA_DIR''"
proof -
  from assms obtain c0 c1 where r: "read_config te file h = (Inr c0, h1)"
    and e: "env_heartbeat te env (env_overrides env c0) = Inr c1" and c: "c = config_defaults c1" and v: "config_validate c = None"
    by (auto simp: LoadConfig_def bindE_def returnE_def failE_def Let_def split: prod.splits sum.splits option.splits)
  show "files h1 = files h" using r by (rule read_config_reads)
  show "cf_GatewayAddr c \<noteq> []" using v by (auto simp: config_validate_def split: if_splits)
  show "cf_DataDir c \<noteq> []" "cf_HeartbeatInterval c \<noteq> 0" "cf_AgentVersion c \<noteq> []"
    by (simp_all add: c config_defaults_def second_def)
  have same: "cf_GatewayAddr c1 = cf_GatewayAddr (env_overrides env c0)" "cf_GatewayID c1 = cf_GatewayID (env_overrides env c0)"
    "cf_GatewayHTTPAddr c1 = cf_GatewayHTTPAddr (env_overrides env c0)" "cf_Token c1 = cf_Token (env_overrides env c0)"
    "cf_DataDir c1 = cf_DataDir (env_overrides env c0)"
    using e by (auto simp: env_heartbeat_def Let_def split: if_splits sum.splits) (cases "te_parse te (env ''EDGE_HEARTBEAT_INTERVAL'')", auto)+
  show "env ''EDGE_GATEWAY_ADDR'' \<noteq> [] \<Longrightarrow> cf_GatewayAddr c = env ''EDGE_GATEWAY_ADDR''"
    "env ''EDGE_GATEWAY_ID'' \<noteq> [] \<Longrightarrow> cf_GatewayID c = env ''EDGE_GATEWAY_ID''"
    "env ''EDGE_GATEWAY_HTTP_ADDR'' \<noteq> [] \<Longrightarrow> cf_GatewayHTTPAddr c = env ''EDGE_GATEWAY_HTTP_ADDR''"
    "env ''EDGE_TOKEN'' \<noteq> [] \<Longrightarrow> cf_Token c = env ''EDGE_TOKEN''"
    "env ''EDGE_DATA_DIR'' \<noteq> [] \<Longrightarrow> cf_DataDir c = env ''EDGE_DATA_DIR''"
    using same by (simp_all add: c config_defaults_def env_overrides_def env_or_def)
qed

text \<open>The configuration that is loaded has an address of the gateway, a directory, an interval and a version, and
  the value of every variable that is set; but an interval below zero, from the file or from the environment, is
  accepted, and then the heartbeat loop of the agent panics.\<close>

lemma load_config_outcome:
  assumes "LoadConfig te env file h = (Inr c, h1)"
  shows "cf_GatewayAddr c \<noteq> [] \<and> cf_DataDir c \<noteq> [] \<and> cf_HeartbeatInterval c \<noteq> 0 \<and> cf_AgentVersion c \<noteq> []
    \<and> (env ''EDGE_GATEWAY_ADDR'' \<noteq> [] \<longrightarrow> cf_GatewayAddr c = env ''EDGE_GATEWAY_ADDR'')
    \<and> (env ''EDGE_GATEWAY_ID'' \<noteq> [] \<longrightarrow> cf_GatewayID c = env ''EDGE_GATEWAY_ID'')
    \<and> (env ''EDGE_TOKEN'' \<noteq> [] \<longrightarrow> cf_Token c = env ''EDGE_TOKEN'')
    \<and> (env ''EDGE_DATA_DIR'' \<noteq> [] \<longrightarrow> cf_DataDir c = env ''EDGE_DATA_DIR'')
    \<and> (RunHeartbeat client nodeID c ticks g = None \<longleftrightarrow> cf_HeartbeatInterval c < 0)"
  using load_config_sound [OF assms] by (auto simp: RunHeartbeat_def)

definition example_environment :: environment where
  "example_environment v = (if v = ''EDGE_GATEWAY_ADDR'' then ''gw:9443'' else if v = ''EDGE_HEARTBEAT_INTERVAL'' then ''-5s'' else [])"

definition example_times :: time_env where
  "example_times = \<lparr>te_parse = (\<lambda>s. if s = ''-5s'' then Inr (- 5 * second) else Inl (GoErr ''time'')), te_float = (\<lambda>_. None)\<rparr>"

lemma load_config_outcome_witness:
  "\<exists>c. LoadConfig example_times example_environment [] (plain_host []) = (Inr c, plain_host [])
     \<and> cf_GatewayAddr c = ''gw:9443'' \<and> RunHeartbeat (\<lambda>_ g. (Inr (), g)) ''n'' c [1, 2] () = None"
proof -
  let ?c = "\<lparr>cf_GatewayAddr = ''gw:9443'', cf_GatewayID = [], cf_GatewayHTTPAddr = [], cf_Token = [], cf_DataDir = ''/etc/edge-agent'',
    cf_HeartbeatInterval = - 5 * second, cf_AgentVersion = ''dev''\<rparr>"
  have run: "LoadConfig example_times example_environment [] (plain_host []) = (Inr ?c, plain_host [])"
    by (simp add: LoadConfig_def read_config_def bindE_def returnE_def env_heartbeat_def example_environment_def example_times_def
        env_overrides_def env_or_def config_defaults_def config_validate_def zero_Config_def second_def)
  from load_config_outcome [OF run, of "\<lambda>_ g. (Inr (), g)" "''n''" "[1, 2]" "()"] run show ?thesis
    by (auto simp: second_def example_environment_def)
qed

text \<open>The address derived from an IPv6 address has lost its brackets.\<close>

lemma derived_address_ipv6:
  "deriveGatewayHTTPAddr (zero_Config\<lparr>cf_GatewayAddr := ''[::1]:9443''\<rparr>) False = ''http://::1:8081''"
  by (simp add: deriveGatewayHTTPAddr_def zero_Config_def SplitHostPort_def no_brackets_def)

end
