(* ===== verification/Agent_Identity.thy ===== *)
theory Agent_Identity
  imports Agent_Config Onboarding
begin

text \<open>
  The identity of a node: registration (\<open>internal/agent/bootstrap.go\<close>) and the renewal of its certificate
  (\<open>internal/agent/cert_renew.go\<close>). Keys, certificate requests and the checks of \<open>crypto/tls\<close> and
  \<open>crypto/x509\<close> are functions of an \<open>agent_crypto\<close>, a parameter; the number of a key stands for the
  randomness that makes it. The gateway is a client on a state \<open>'g\<close>. A nil dereference is the error
  \<open>nil_panic\<close>: the process ends there.
\<close>

record agent_crypto =
  ak_key :: "nat \<Rightarrow> go_err + string"
  ak_marshal_key :: "string \<Rightarrow> string"
  ak_csr :: "string option \<Rightarrow> string \<Rightarrow> go_err + string"
  ak_key_pair :: "string \<Rightarrow> string \<Rightarrow> go_err + string list"
  ak_pool :: "string \<Rightarrow> bool"
  ak_pem_decode :: "string \<Rightarrow> (string \<times> string) option"
  ak_pem_encode :: "string \<Rightarrow> string \<Rightarrow> string"
  ak_parse :: "string \<Rightarrow> go_err + timestamp"

definition nil_panic :: go_err where "nil_panic = GoErr ''panic: nil pointer dereference''"

text \<open>A certificate is its chain; the authority is the bytes of its certificate and the PEM of the pool.\<close>

record Identity =
  ag_NodeID :: string
  ag_Cert :: "string list"
  ag_CACert :: string
  ag_CAPool :: string

record 'g agent_world =
  aw_disk :: "string host"
  aw_gateway :: 'g
  aw_keys :: nat

record 'g onboarding_client =
  oc_Bootstrap :: "BootstrapInput \<Rightarrow> ('g, BootstrapOutput) em"
  oc_Renew :: "string \<Rightarrow> ('g, RenewOutput) em"

type_synonym ('g, 'a) agentm = "('g agent_world, 'a) em"

definition on_disk_of :: "(string, 'a) hostm \<Rightarrow> ('g, 'a) agentm" where
  "on_disk_of m w = (case m (aw_disk w) of (r, h) \<Rightarrow> (r, w\<lparr>aw_disk := h\<rparr>))"

definition on_gateway :: "('g, 'a) em \<Rightarrow> ('g, 'a) agentm" where
  "on_gateway m w = (case m (aw_gateway w) of (r, g) \<Rightarrow> (r, w\<lparr>aw_gateway := g\<rparr>))"

definition lift_result :: "go_err + 'a \<Rightarrow> ('s, 'a) em" where
  "lift_result r = (\<lambda>s. (r, s))"

definition generate_key :: "agent_crypto \<Rightarrow> ('g, string) agentm" where
  "generate_key ak w = (ak_key ak (aw_keys w), w\<lparr>aw_keys := Suc (aw_keys w)\<rparr>)"

definition pemEncodeECKey :: "agent_crypto \<Rightarrow> string \<Rightarrow> string" where
  "pemEncodeECKey ak key = ak_pem_encode ak ''EC PRIVATE KEY'' (ak_marshal_key ak key)"

section \<open>Loading\<close>

definition ca_certificate :: "agent_crypto \<Rightarrow> string \<Rightarrow> go_err + string" where
  "ca_certificate ak caPEM =
     (case ak_pem_decode ak caPEM of
        None \<Rightarrow> Inl nil_panic
      | Some (ty, bytes) \<Rightarrow> (case ak_parse ak bytes of Inl e \<Rightarrow> Inl (wrap ''agent: parse CA cert'' e) | Inr t \<Rightarrow> Inr bytes))"

definition LoadX509KeyPair :: "agent_crypto \<Rightarrow> string \<Rightarrow> string \<Rightarrow> (string, string list) hostm" where
  "LoadX509KeyPair ak certFile keyFile =
     bindE (os_ReadFile certFile) (\<lambda>cert. bindE (os_ReadFile keyFile) (\<lambda>key. lift_result (ak_key_pair ak cert key)))"

definition loadIdentity :: "agent_crypto \<Rightarrow> Config \<Rightarrow> (string, Identity) hostm" where
  "loadIdentity ak c =
     bindE (LoadX509KeyPair ak (CertPath c) (KeyPath c)) (\<lambda>cert.
     bindE (os_ReadFile (CAPath c)) (\<lambda>caPEM.
     if \<not> ak_pool ak caPEM then failE (GoErr ''agent: failed to parse CA cert'')
     else bindE (lift_result (ca_certificate ak caPEM)) (\<lambda>caCert.
     bindE (os_ReadFile (NodeIDPath c)) (\<lambda>nodeID.
       returnE \<lparr>ag_NodeID = nodeID, ag_Cert = cert, ag_CACert = caCert, ag_CAPool = caPEM\<rparr>))))"

section \<open>Registration\<close>

definition persistIdentity :: "agent_crypto \<Rightarrow> Config \<Rightarrow> string \<Rightarrow> BootstrapOutput \<Rightarrow> (string, unit) hostm" where
  "persistIdentity ak c key resp =
     bindE (map_err (wrap (''agent: mkdir '' @ cf_DataDir c)) (os_MkdirAll (cf_DataDir c))) (\<lambda>_.
     bindE (map_err (wrap ''agent: write key'') (os_WriteFile (KeyPath c) (pemEncodeECKey ak key))) (\<lambda>_.
     bindE (map_err (wrap ''agent: write cert'') (os_WriteFile (CertPath c) (bo_CertPEM resp))) (\<lambda>_.
     bindE (map_err (wrap ''agent: write CA'') (os_WriteFile (CAPath c) (bo_CAPEM resp))) (\<lambda>_.
       map_err (wrap ''agent: write node-id'') (os_WriteFile (NodeIDPath c) (bo_NodeID resp))))))"

definition csr_pem :: "agent_crypto \<Rightarrow> string option \<Rightarrow> string \<Rightarrow> go_err + string" where
  "csr_pem ak cn key = map_sum id (ak_pem_encode ak ''CERTIFICATE REQUEST'') (ak_csr ak cn key)"

definition bootstrap_request :: "Config \<Rightarrow> string \<Rightarrow> BootstrapInput" where
  "bootstrap_request c csr =
     \<lparr>bi_Token = cf_Token c, bi_GatewayID = cf_GatewayID c, bi_CSRPEM = csr, bi_Serial = [], bi_HardwareInfo = None, bi_Labels = None\<rparr>"

definition issued_identity :: "agent_crypto \<Rightarrow> string \<Rightarrow> BootstrapOutput \<Rightarrow> go_err + Identity" where
  "issued_identity ak key resp =
     (case ak_key_pair ak (bo_CertPEM resp) (pemEncodeECKey ak key) of
        Inl e \<Rightarrow> Inl (wrap ''agent: parse issued cert'' e)
      | Inr cert \<Rightarrow> map_sum id (\<lambda>ca. \<lparr>ag_NodeID = bo_NodeID resp, ag_Cert = cert, ag_CACert = ca, ag_CAPool = bo_CAPEM resp\<rparr>)
          (ca_certificate ak (bo_CAPEM resp)))"

definition agent_bootstrap :: "agent_crypto \<Rightarrow> 'g onboarding_client \<Rightarrow> Config \<Rightarrow> ('g, Identity) agentm" where
  "agent_bootstrap ak client c =
     bindE (map_err (wrap ''agent: generate key'') (generate_key ak)) (\<lambda>key.
     bindE (map_err (wrap ''agent: create CSR'') (lift_result (csr_pem ak None key))) (\<lambda>csr.
     bindE (map_err (wrap ''agent: bootstrap RPC'') (on_gateway (oc_Bootstrap client (bootstrap_request c csr)))) (\<lambda>resp.
     bindE (on_disk_of (persistIdentity ak c key resp)) (\<lambda>_. lift_result (issued_identity ak key resp)))))"

definition LoadOrBootstrap :: "agent_crypto \<Rightarrow> 'g onboarding_client \<Rightarrow> Config \<Rightarrow> ('g, Identity) agentm" where
  "LoadOrBootstrap ak client c =
     catchE (on_disk_of (loadIdentity ak c)) (\<lambda>_. agent_bootstrap ak client c)"

section \<open>Renewal\<close>

definition defaultRenewThreshold :: duration where "defaultRenewThreshold = 30 * 24 * hour"

record CertRenewer =
  cw_cfg :: Config
  cw_identity :: Identity
  cw_checkInterval :: duration
  cw_renewThreshold :: duration

definition NewCertRenewer :: "Config \<Rightarrow> Identity \<Rightarrow> duration \<Rightarrow> duration \<Rightarrow> CertRenewer" where
  "NewCertRenewer c ident interval threshold =
     \<lparr>cw_cfg = c, cw_identity = ident, cw_checkInterval = (if interval = 0 then 12 * hour else interval),
      cw_renewThreshold = (if threshold = 0 then defaultRenewThreshold else threshold)\<rparr>"

text \<open>The expiry of the leaf certificate, if there is one that parses.\<close>

definition leafCert :: "agent_crypto \<Rightarrow> CertRenewer \<Rightarrow> timestamp option" where
  "leafCert ak cr =
     (case ag_Cert (cw_identity cr) of
        [] \<Rightarrow> None
      | leaf # _ \<Rightarrow> (case ak_parse ak leaf of Inl e \<Rightarrow> None | Inr notAfter \<Rightarrow> Some notAfter))"

definition write_renewed :: "Config \<Rightarrow> string \<Rightarrow> RenewOutput \<Rightarrow> (string, unit) hostm" where
  "write_renewed c keyPEM resp =
     bindE (map_err (wrap ''write key'') (os_WriteFile (KeyPath c) keyPEM)) (\<lambda>_.
     bindE (map_err (wrap ''write cert'') (os_WriteFile (CertPath c) (ro_CertPEM resp))) (\<lambda>_.
       if ro_CAPEM resp \<noteq> [] then map_err (wrap ''write CA'') (os_WriteFile (CAPath c) (ro_CAPEM resp)) else returnE ()))"

definition renew :: "agent_crypto \<Rightarrow> 'g onboarding_client \<Rightarrow> CertRenewer \<Rightarrow> ('g, CertRenewer) agentm" where
  "renew ak client cr =
     bindE (map_err (wrap ''generate key'') (generate_key ak)) (\<lambda>key.
     bindE (map_err (wrap ''create CSR'') (lift_result (csr_pem ak (Some (ag_NodeID (cw_identity cr))) key))) (\<lambda>csr.
     bindE (map_err (wrap ''renew RPC'') (on_gateway (oc_Renew client csr))) (\<lambda>resp.
     bindE (on_disk_of (write_renewed (cw_cfg cr) (pemEncodeECKey ak key) resp)) (\<lambda>_.
       lift_result
         (case ak_key_pair ak (ro_CertPEM resp) (pemEncodeECKey ak key) of
            Inl e \<Rightarrow> Inl (wrap ''parse renewed cert'' e)
          | Inr cert \<Rightarrow> Inr (cr\<lparr>cw_identity := (cw_identity cr)\<lparr>ag_Cert := cert\<rparr>\<rparr>))))))"

definition checkAndRenew :: "agent_crypto \<Rightarrow> 'g onboarding_client \<Rightarrow> CertRenewer \<Rightarrow> 'g agent_world \<Rightarrow> CertRenewer \<times> 'g agent_world" where
  "checkAndRenew ak client cr w =
     (case leafCert ak cr of
        None \<Rightarrow> (cr, w)
      | Some notAfter \<Rightarrow>
          if notAfter - host_now (aw_disk w) > cw_renewThreshold cr then (cr, w)
          else (case renew ak client cr w of (Inl e, w1) \<Rightarrow> (cr, w1) | (Inr cr1, w1) \<Rightarrow> (cr1, w1)))"

section \<open>The files of an identity\<close>

lemma identity_paths:
  "path_of (KeyPath c) = path_of (cf_DataDir c) @ [''node.key'']" "path_of (CertPath c) = path_of (cf_DataDir c) @ [''node.crt'']"
  "path_of (CAPath c) = path_of (cf_DataDir c) @ [''ca.crt'']" "path_of (NodeIDPath c) = path_of (cf_DataDir c) @ [''node-id'']"
  using path_below [of "''node.key''" "cf_DataDir c"] path_below [of "''node.crt''" "cf_DataDir c"]
    path_below [of "''ca.crt''" "cf_DataDir c"] path_below [of "''node-id''" "cf_DataDir c"]
  by (simp_all add: KeyPath_def CertPath_def CAPath_def NodeIDPath_def plain_def)

abbreviation stored :: "Config \<Rightarrow> string host \<Rightarrow> string \<Rightarrow> string option" where
  "stored c h name \<equiv> contents h (path_of (cf_DataDir c) @ [name])"

lemma persistIdentity_InrD:
  assumes "persistIdentity ak c key resp h = (Inr u, h1)"
  shows "stored c h1 ''node.key'' = Some (pemEncodeECKey ak key)" "stored c h1 ''node.crt'' = Some (bo_CertPEM resp)"
    "stored c h1 ''ca.crt'' = Some (bo_CAPEM resp)" "stored c h1 ''node-id'' = Some (bo_NodeID resp)"
proof -
  from assms obtain h2 h3 h4 h5 v2 v3 v4 v5 where
    w: "os_WriteFile (KeyPath c) (pemEncodeECKey ak key) h2 = (Inr v2, h3)" "os_WriteFile (CertPath c) (bo_CertPEM resp) h3 = (Inr v3, h4)"
      "os_WriteFile (CAPath c) (bo_CAPEM resp) h4 = (Inr v4, h5)" "os_WriteFile (NodeIDPath c) (bo_NodeID resp) h5 = (Inr v5, h1)"
    unfolding persistIdentity_def by (blast dest!: bindE_InrD map_err_InrD)
  note writes = os_WriteFile_InrD [OF w(1)] os_WriteFile_InrD [OF w(2)] os_WriteFile_InrD [OF w(3)] os_WriteFile_InrD [OF w(4)]
  show "stored c h1 ''node.key'' = Some (pemEncodeECKey ak key)" "stored c h1 ''node.crt'' = Some (bo_CertPEM resp)"
    "stored c h1 ''ca.crt'' = Some (bo_CAPEM resp)" "stored c h1 ''node-id'' = Some (bo_NodeID resp)"
    using writes by (simp_all add: identity_paths)
qed

lemma ReadFile_InrD: "os_ReadFile s h = (Inr c, h1) \<Longrightarrow> contents h (path_of s) = Some c \<and> contents h1 = contents h"
  using os_ReadFile_InrD [of s h c h1] os_reads(2) [of s h "Inr c" h1] by blast

lemma loadIdentity_InrD:
  assumes "loadIdentity ak c h = (Inr i, h1)"
  obtains certPEM keyPEM where "stored c h ''node.crt'' = Some certPEM" "stored c h ''node.key'' = Some keyPEM"
    "ak_key_pair ak certPEM keyPEM = Inr (ag_Cert i)" "stored c h ''ca.crt'' = Some (ag_CAPool i)" "ak_pool ak (ag_CAPool i)"
    "ca_certificate ak (ag_CAPool i) = Inr (ag_CACert i)" "stored c h ''node-id'' = Some (ag_NodeID i)"
    "contents h1 = contents h"
proof -
  from assms obtain crt h2 key h3 cert ca h4 cacert nid where
    r: "os_ReadFile (CertPath c) h = (Inr crt, h2)" "os_ReadFile (KeyPath c) h2 = (Inr key, h3)"
      "os_ReadFile (CAPath c) h3 = (Inr ca, h4)" "os_ReadFile (NodeIDPath c) h4 = (Inr nid, h1)"
    and k: "ak_key_pair ak crt key = Inr cert" "ak_pool ak ca" "ca_certificate ak ca = Inr cacert"
    and i: "i = \<lparr>ag_NodeID = nid, ag_Cert = cert, ag_CACert = cacert, ag_CAPool = ca\<rparr>"
    unfolding loadIdentity_def LoadX509KeyPair_def lift_result_def
    by (auto simp: failE_def returnE_def dest!: bindE_InrD split: if_splits)
  note reads = ReadFile_InrD [OF r(1)] ReadFile_InrD [OF r(2)] ReadFile_InrD [OF r(3)] ReadFile_InrD [OF r(4)]
  show thesis by (rule that [of crt key]) (use reads k in \<open>simp_all add: i identity_paths\<close>)
qed

lemma loadIdentity_quiet:
  assumes "os_faults h = []" "stored c h ''node.crt'' = Some crt" "stored c h ''node.key'' = Some key"
    "stored c h ''ca.crt'' = Some (ag_CAPool i)" "stored c h ''node-id'' = Some (ag_NodeID i)"
    "ak_key_pair ak crt key = Inr (ag_Cert i)" "ak_pool ak (ag_CAPool i)" "ca_certificate ak (ag_CAPool i) = Inr (ag_CACert i)"
  shows "loadIdentity ak c h = (Inr i, h)"
  using assms
  by (simp add: loadIdentity_def LoadX509KeyPair_def lift_result_def bindE_def returnE_def os_ReadFile_quiet identity_paths)

section \<open>Loading what was stored\<close>

lemma agent_bootstrap_InrD:
  assumes "agent_bootstrap ak client c w = (Inr i, w1)"
  obtains key csr resp h where "oc_Bootstrap client (bootstrap_request c csr) (aw_gateway w) = (Inr resp, aw_gateway w1)"
    "persistIdentity ak c key resp h = (Inr (), aw_disk w1)" "issued_identity ak key resp = Inr i"
proof -
  from assms obtain key w0 csr w00 resp w2 w3 u where
    k: "generate_key ak w = (Inr key, w0)" and r: "lift_result (csr_pem ak None key) w0 = (Inr csr, w00)"
    and b: "on_gateway (oc_Bootstrap client (bootstrap_request c csr)) w00 = (Inr resp, w2)"
    and p: "on_disk_of (persistIdentity ak c key resp) w2 = (Inr u, w3)" and i: "lift_result (issued_identity ak key resp) w3 = (Inr i, w1)"
    unfolding agent_bootstrap_def by (blast dest!: bindE_InrD map_err_InrD)
  have w00: "aw_gateway w00 = aw_gateway w" using k r by (auto simp: generate_key_def lift_result_def)
  from b w00 have "oc_Bootstrap client (bootstrap_request c csr) (aw_gateway w) = (Inr resp, aw_gateway w2)"
    by (auto simp: on_gateway_def split: prod.splits)
  moreover from p have "persistIdentity ak c key resp (aw_disk w2) = (Inr (), aw_disk w3)" "aw_gateway w3 = aw_gateway w2"
    by (auto simp: on_disk_of_def split: prod.splits)
  ultimately show thesis using i that by (simp add: lift_result_def)
qed

lemma issued_identity_InrD:
  "issued_identity ak key resp = Inr i \<Longrightarrow>
     ak_key_pair ak (bo_CertPEM resp) (pemEncodeECKey ak key) = Inr (ag_Cert i) \<and> ag_NodeID i = bo_NodeID resp
     \<and> ag_CAPool i = bo_CAPEM resp \<and> ca_certificate ak (bo_CAPEM resp) = Inr (ag_CACert i)"
  by (cases "ca_certificate ak (bo_CAPEM resp)") (auto simp: issued_identity_def split: sum.splits)

lemma load_quiet_world:
  assumes "os_faults (aw_disk w) = []" "loadIdentity ak c (aw_disk w) = (r, aw_disk w)"
  shows "LoadOrBootstrap ak client c w = (case r of Inr i \<Rightarrow> (Inr i, w) | Inl e \<Rightarrow> agent_bootstrap ak client c w)"
  using assms by (simp add: LoadOrBootstrap_def catchE_def on_disk_of_def split: sum.splits)

text \<open>C20: an identity that was loaded or obtained by a registration is on disk: started again on a disk that can be read,
  the agent loads the same identity and asks nobody, provided the bundle of the authority can be read.\<close>

theorem identity_persists:
  assumes "LoadOrBootstrap ak client c w = (Inr i, w1)" "ak_pool ak (ag_CAPool i)" "os_faults (aw_disk w1) = []"
  shows "LoadOrBootstrap ak client1 c w1 = (Inr i, w1)"
proof -
  obtain r h where ld: "loadIdentity ak c (aw_disk w) = (r, h)" by fastforce
  have "loadIdentity ak c (aw_disk w1) = (Inr i, aw_disk w1)"
  proof (cases r)
    case (Inr i0)
    with assms(1) ld have w1: "w1 = w\<lparr>aw_disk := h\<rparr>" and i: "i0 = i"
      by (auto simp: LoadOrBootstrap_def catchE_def on_disk_of_def)
    from ld [unfolded Inr i] show ?thesis
      by (rule loadIdentity_InrD) (use assms(3) in \<open>simp add: w1 loadIdentity_quiet\<close>)
  next
    case (Inl e)
    with assms(1) ld have "agent_bootstrap ak client c (w\<lparr>aw_disk := h\<rparr>) = (Inr i, w1)"
      by (simp add: LoadOrBootstrap_def catchE_def on_disk_of_def)
    then obtain key csr resp h2 where p: "persistIdentity ak c key resp h2 = (Inr (), aw_disk w1)"
      and i: "issued_identity ak key resp = Inr i" by (rule agent_bootstrap_InrD)
    show ?thesis
      using persistIdentity_InrD [OF p] issued_identity_InrD [OF i] assms(2,3) by (simp add: loadIdentity_quiet)
  qed
  with load_quiet_world [OF assms(3)] show ?thesis by simp
qed

section \<open>A renewal that is interrupted\<close>

lemma WriteFile_next:
  assumes "os_faults h = None # fs" "is_dir (node_at (files h) (butlast (path_of s)))" "contents h (path_of s) = Some old"
  shows "\<exists>h1. os_WriteFile s new h = (Inr (), h1) \<and> os_faults h1 = fs \<and> contents h1 = (contents h)(path_of s := Some new)"
proof -
  obtain m k where d: "node_at (files h) (butlast (path_of s)) = Some (Dir m)" "node_at (files h) (path_of s) = Some (File old k)"
    using assms(2,3) by (auto simp: contents_def content_at_def dest!: is_dirD split: option.splits fnode.splits)
  then obtain h1 where w: "os_WriteFile s new h = (Inr (), h1)" "os_faults h1 = fs"
    using assms(1) by (simp add: os_WriteFile_def os_write_def os_call_def open_file_def Let_def)
  with os_WriteFile_InrD [OF w(1)] show ?thesis by blast
qed

lemma WriteFile_fault:
  "os_faults h = Some (Fails msg) # fs \<Longrightarrow> \<exists>e. os_WriteFile s c h = (Inl e, h\<lparr>os_faults := fs\<rparr>)"
  by (simp add: os_WriteFile_def os_write_def os_call_def Let_def)

text \<open>C21: a renewal writes the new key before the new certificate. If the second write fails, the agent keeps its identity
  in memory, but the disk holds the new key with the old certificate: the next start cannot load the pair and registers
  the node anew, with the token of its configuration.\<close>

theorem torn_renewal:
  assumes "leafCert ak cr = Some notAfter" "notAfter - host_now (aw_disk w) \<le> cw_renewThreshold cr"
    and "ak_key ak (aw_keys w) = Inr key" "csr_pem ak (Some (ag_NodeID (cw_identity cr))) key = Inr csr"
    and "oc_Renew client csr (aw_gateway w) = (Inr resp, g1)"
    and "is_dir (node_at (files (aw_disk w)) (path_of (cf_DataDir (cw_cfg cr))))"
    and "stored (cw_cfg cr) (aw_disk w) ''node.key'' = Some oldkey" "stored (cw_cfg cr) (aw_disk w) ''node.crt'' = Some oldcert"
    and "os_faults (aw_disk w) = [None, Some (Fails msg)]"
    and "ak_key_pair ak oldcert (pemEncodeECKey ak key) = Inl mismatch"
  shows "case checkAndRenew ak client cr w of (cr1, w1) \<Rightarrow>
    cr1 = cr \<and> stored (cw_cfg cr) (aw_disk w1) ''node.key'' = Some (pemEncodeECKey ak key)
    \<and> stored (cw_cfg cr) (aw_disk w1) ''node.crt'' = Some oldcert
    \<and> LoadOrBootstrap ak client1 (cw_cfg cr) w1 = agent_bootstrap ak client1 (cw_cfg cr) w1"
proof -
  let ?c = "cw_cfg cr" and ?new = "pemEncodeECKey ak key"
  let ?w = "w\<lparr>aw_keys := Suc (aw_keys w), aw_gateway := g1\<rparr>"
  have "\<exists>h1. os_WriteFile (KeyPath ?c) ?new (aw_disk w) = (Inr (), h1) \<and> os_faults h1 = [Some (Fails msg)]
      \<and> contents h1 = (contents (aw_disk w))(path_of (KeyPath ?c) := Some ?new)"
    by (rule WriteFile_next) (use assms(6,7,9) in \<open>simp_all add: identity_paths\<close>)
  then obtain h1 where k: "os_WriteFile (KeyPath ?c) ?new (aw_disk w) = (Inr (), h1)" "os_faults h1 = [Some (Fails msg)]"
    "contents h1 = (contents (aw_disk w))(path_of (KeyPath ?c) := Some ?new)" by blast
  from WriteFile_fault [OF k(2)] obtain e where e: "os_WriteFile (CertPath ?c) (ro_CertPEM resp) h1 = (Inl e, h1\<lparr>os_faults := []\<rparr>)"
    by blast
  let ?h = "h1\<lparr>os_faults := []\<rparr>"
  have "write_renewed ?c ?new resp (aw_disk w) = (Inl (wrap ''write cert'' e), ?h)"
    by (simp add: write_renewed_def bindE_def map_err_def k e)
  then have "renew ak client cr w = (Inl (wrap ''write cert'' e), ?w\<lparr>aw_disk := ?h\<rparr>)"
    using assms(3,4,5) by (simp add: renew_def bindE_def map_err_def generate_key_def lift_result_def on_gateway_def on_disk_of_def)
  then have run: "checkAndRenew ak client cr w = (cr, ?w\<lparr>aw_disk := ?h\<rparr>)"
    using assms(1,2) by (simp add: checkAndRenew_def)
  have at: "stored ?c ?h ''node.key'' = Some ?new" "stored ?c ?h ''node.crt'' = Some oldcert"
    using k(3) assms(8) by (simp_all add: contents_def identity_paths)
  have "loadIdentity ak ?c ?h = (Inl mismatch, ?h)"
    using at assms(10)
    by (simp add: loadIdentity_def LoadX509KeyPair_def bindE_def lift_result_def os_ReadFile_quiet identity_paths)
  then have "LoadOrBootstrap ak client1 ?c (?w\<lparr>aw_disk := ?h\<rparr>) = agent_bootstrap ak client1 ?c (?w\<lparr>aw_disk := ?h\<rparr>)"
    using load_quiet_world [of "?w\<lparr>aw_disk := ?h\<rparr>" ak ?c "Inl mismatch" client1] by simp
  with run at show ?thesis by simp
qed

section \<open>A small node\<close>

definition example_agent_crypto :: agent_crypto where
  "example_agent_crypto = \<lparr>ak_key = (\<lambda>n. Inr (if n = 0 then ''k0'' else ''k1'')), ak_marshal_key = (\<lambda>k. k), ak_csr = (\<lambda>cn k. Inr k),
     ak_key_pair = (\<lambda>c k. if c = ''cert-'' @ k then Inr [c] else Inl (GoErr ''tls: private key does not match public key'')),
     ak_pool = (\<lambda>s. s \<noteq> []), ak_pem_decode = (\<lambda>s. Some (''CERTIFICATE'', s)), ak_pem_encode = (\<lambda>ty s. s), ak_parse = (\<lambda>s. Inr 100)\<rparr>"

text \<open>An authority that answers every request with a certificate of its key.\<close>

definition example_onboarding :: "unit onboarding_client" where
  "example_onboarding =
     \<lparr>oc_Bootstrap = (\<lambda>inp g. (Inr \<lparr>bo_NodeID = ''n1'', bo_CertPEM = ''cert-'' @ bi_CSRPEM inp, bo_CAPEM = ''ca'', bo_ExpiresAt = 100\<rparr>, g)),
      oc_Renew = (\<lambda>csr g. (Inr \<lparr>ro_CertPEM = ''cert-'' @ csr, ro_CAPEM = [], ro_ExpiresAt = 200\<rparr>, g))\<rparr>"

definition example_config :: Config where
  "example_config = zero_Config\<lparr>cf_DataDir := ''/d''\<rparr>"

definition registered_identity :: Identity where
  "registered_identity = \<lparr>ag_NodeID = ''n1'', ag_Cert = [''cert-k0''], ag_CACert = ''ca'', ag_CAPool = ''ca''\<rparr>"

definition identity_files :: "string \<Rightarrow> string \<Rightarrow> string \<Rightarrow> string \<Rightarrow> string fs" where
  "identity_files key crt ca nodeID = [([''d''], Dir 9), ([''d'', ''node.key''], File key 9), ([''d'', ''node.crt''], File crt 9),
     ([''d'', ''ca.crt''], File ca 9), ([''d'', ''node-id''], File nodeID 9)]"

definition example_files :: "string fs" where
  "example_files = identity_files ''k0'' ''cert-k0'' ''ca'' ''n1''"

definition example_node :: "nat \<Rightarrow> string fs \<Rightarrow> string os_fault option list \<Rightarrow> unit agent_world" where
  "example_node n t fl = \<lparr>aw_disk = (plain_host t)\<lparr>os_faults := fl\<rparr>, aw_gateway = (), aw_keys = n\<rparr>"

lemma example_persist:
  assumes "cf_DataDir c = ''/d''"
  shows "persistIdentity ak c key resp (plain_host [([''d''], Dir 0)])
    = (Inr (), plain_host (identity_files (pemEncodeECKey ak key) (bo_CertPEM resp) (bo_CAPEM resp) (bo_NodeID resp)))"
proof -
  have dir: "path_of (cf_DataDir c) = [''d'']" by (simp add: assms path_of_def)
  note paths = identity_paths [of c, unfolded dir, simplified]
  show ?thesis
    by (simp add: persistIdentity_def bindE_def map_err_def os_MkdirAll_def os_WriteFile_def quiet_write plain_host_def paths dir
        open_file_def put_node_def touch_def node_at_def identity_files_def)
qed

lemma example_dir: "path_of (cf_DataDir example_config) = [''d'']"
  by (simp add: example_config_def path_of_def)

lemmas example_paths = identity_paths [of example_config, unfolded example_dir, simplified]

lemma example_calls:
  "ak_key example_agent_crypto 0 = Inr ''k0''" "ak_key example_agent_crypto (Suc 0) = Inr ''k1''" "ak_csr example_agent_crypto cn k = Inr k"
  "ak_pem_encode example_agent_crypto ty s = s" "ak_marshal_key example_agent_crypto k = k" "ak_parse example_agent_crypto s = Inr 100"
  "ak_pem_decode example_agent_crypto s = Some (''CERTIFICATE'', s)" "ak_pool example_agent_crypto s = (s \<noteq> [])"
  "ak_key_pair example_agent_crypto (''cert-'' @ k) k = Inr [''cert-'' @ k]"
  "ak_key_pair example_agent_crypto ''cert-k0'' ''k0'' = Inr [''cert-k0'']"
  "ak_key_pair example_agent_crypto ''cert-k0'' ''k1'' = Inl (GoErr ''tls: private key does not match public key'')"
  "oc_Bootstrap example_onboarding inp g
     = (Inr \<lparr>bo_NodeID = ''n1'', bo_CertPEM = ''cert-'' @ bi_CSRPEM inp, bo_CAPEM = ''ca'', bo_ExpiresAt = 100\<rparr>, g)"
  "oc_Renew example_onboarding csr g = (Inr \<lparr>ro_CertPEM = ''cert-'' @ csr, ro_CAPEM = [], ro_ExpiresAt = 200\<rparr>, g)"
  "(plain_host t)\<lparr>os_faults := []\<rparr> = plain_host t"
  by (simp_all add: example_agent_crypto_def example_onboarding_def plain_host_def)

lemma example_registers:
  "LoadOrBootstrap example_agent_crypto example_onboarding example_config (example_node 0 [([''d''], Dir 0)] [])
     = (Inr registered_identity, example_node 1 example_files [])"
proof -
  let ?w = "example_node 0 [([''d''], Dir 0)] []"
  have d: "aw_disk ?w = plain_host [([''d''], Dir 0)]" "os_faults (aw_disk ?w) = []"
    by (simp_all add: example_node_def plain_host_def)
  have "\<exists>e. loadIdentity example_agent_crypto example_config (aw_disk ?w) = (Inl e, aw_disk ?w)"
    by (simp add: d(1) loadIdentity_def LoadX509KeyPair_def bindE_def os_ReadFile_def quiet_read plain_host_def example_paths node_at_def)
  then obtain e where "loadIdentity example_agent_crypto example_config (aw_disk ?w) = (Inl e, aw_disk ?w)" by blast
  from load_quiet_world [OF d(2) this] have "LoadOrBootstrap example_agent_crypto example_onboarding example_config ?w
      = agent_bootstrap example_agent_crypto example_onboarding example_config ?w" by simp
  also have "\<dots> = (Inr registered_identity, example_node 1 example_files [])"
    by (simp add: agent_bootstrap_def bindE_def map_err_def generate_key_def lift_result_def csr_pem_def on_gateway_def on_disk_of_def
        example_node_def example_calls example_persist example_files_def example_config_def bootstrap_request_def issued_identity_def ca_certificate_def
        pemEncodeECKey_def registered_identity_def)
  finally show ?thesis .
qed

theorem identity_persists_witness:
  "LoadOrBootstrap example_agent_crypto example_onboarding example_config (example_node 0 [([''d''], Dir 0)] [])
     = (Inr registered_identity, example_node 1 example_files [])
   \<and> LoadOrBootstrap example_agent_crypto example_onboarding example_config (example_node 1 example_files [])
     = (Inr registered_identity, example_node 1 example_files [])"
  using identity_persists [OF example_registers, of example_onboarding] example_registers
  by (simp add: registered_identity_def example_calls example_node_def plain_host_def)

definition example_renewer :: CertRenewer where
  "example_renewer = NewCertRenewer example_config registered_identity 0 0"

theorem torn_renewal_witness:
  "case checkAndRenew example_agent_crypto example_onboarding example_renewer (example_node 1 example_files [None, Some (Fails ''disk full'')])
     of (cr1, w1) \<Rightarrow> cr1 = example_renewer \<and> stored example_config (aw_disk w1) ''node.key'' = Some ''k1''
       \<and> stored example_config (aw_disk w1) ''node.crt'' = Some ''cert-k0''
       \<and> LoadOrBootstrap example_agent_crypto example_onboarding example_config w1
           = agent_bootstrap example_agent_crypto example_onboarding example_config w1"
proof -
  have cfg: "cw_cfg example_renewer = example_config" by (simp add: example_renewer_def NewCertRenewer_def)
  have "case checkAndRenew example_agent_crypto example_onboarding example_renewer
      (example_node 1 example_files [None, Some (Fails ''disk full'')]) of (cr1, w1) \<Rightarrow>
    cr1 = example_renewer \<and> stored (cw_cfg example_renewer) (aw_disk w1) ''node.key'' = Some (pemEncodeECKey example_agent_crypto ''k1'')
    \<and> stored (cw_cfg example_renewer) (aw_disk w1) ''node.crt'' = Some ''cert-k0''
    \<and> LoadOrBootstrap example_agent_crypto example_onboarding (cw_cfg example_renewer) w1
        = agent_bootstrap example_agent_crypto example_onboarding (cw_cfg example_renewer) w1"
    by (rule torn_renewal [where key = "''k1''" and oldkey = "''k0''" and csr = "''k1''" and notAfter = 100])
      (simp_all add: leafCert_def example_renewer_def NewCertRenewer_def registered_identity_def example_calls example_node_def
        plain_host_def defaultRenewThreshold_def hour_def minute_def second_def csr_pem_def example_dir contents_def content_at_def
        node_at_def example_files_def identity_files_def pemEncodeECKey_def)
  then show ?thesis by (simp add: cfg pemEncodeECKey_def example_calls)
qed

end
