(* ===== verification/Platform.thy ===== *)
theory Platform
  imports Task_Claims Auth Rollout Agent_Service Onboarding_Correct Onboarding_Api Model_Registry Cache_Store Dispatcher
    Self_Register Artifacts Agent_Identity
begin

text \<open>
  The platform as a whole: the services that \<open>cmd/apiserver\<close> and \<open>cmd/gateway-runtime\<close> register and the
  controller of \<open>cmd/controller\<close>, all on one database, as an automaton whose actions are their calls; and
  the agent behind its gateway.
\<close>

section \<open>The calls\<close>

datatype api_call =
    CreateGateway_call CreateGatewayRequest
  | GetGateway_call string
  | ListGateways_call string "PageRequest option"
  | UpdateGateway_call UpdateGatewayRequest
  | DeleteGateway_call string
  | GetNode_call string
  | ListNodes_call string "PageRequest option"
  | UpdateNode_call string "smap option"
  | GetIdentity_call string
  | ListIdentities_call string "PageRequest option"
  | RevokeIdentity_call string string
  | Bootstrap_call BootstrapInput
  | Renew_call tls_peer string
  | CreateBootstrapToken_call "go_err + string" CreateBootstrapTokenRequest
  | GetBootstrapToken_call string
  | ListBootstrapTokens_call string "PageRequest option"
  | FreezeBootstrapToken_call string
  | RevokeBootstrapToken_call string
  | CreateTask_call CreateTaskRequest
  | GetTask_call string
  | ListTasks_call ListTasksRequest
  | CancelTask_call string string
  | CreateModel_call CreateModelRequest
  | GetModel_call GetModelRequest
  | ListModels_call ListModelsRequest
  | CreateDeployment_call CreateDeploymentRequest
  | GetDeployment_call string
  | ListDeployments_call ListDeploymentsRequest
  | UpdateDeployment_call UpdateDeploymentRequest

datatype gateway_call =
    Proxy_Bootstrap_call BootstrapInput
  | Proxy_Renew_call string
  | PushRegionalTask_call PushRegionalTaskRequest
  | SyncGatewayStatus_call string
  | ReportHeartbeat_call rpc_ctx string string "timestamp option"
  | PullTasks_call rpc_ctx string int
  | ReportTaskResult_call rpc_ctx ReportTaskResultRequest
  | ReportRuntimeState_call rpc_ctx string "RuntimeStateEntry list"
  | Artifact_call http_request "string host"

text \<open>An action is a call, a round of the controller, or what the model leaves to the environment: the time and the
  statements that fail.\<close>

datatype action =
    At_control_plane api_call
  | At_gateway string gateway_call
  | Controller_round
  | Environment timestamp "string option list"

record platform =
  pf_crypto :: crypto
  pf_signer :: Signer
  pf_duration_text :: "duration \<Rightarrow> string"
  pf_claimDuration :: duration
  pf_artifacts :: "string \<Rightarrow> ArtifactHandler"

definition after :: "'a dbm \<Rightarrow> session \<Rightarrow> session" where
  "after m d = snd (m d)"

fun serve_api :: "platform \<Rightarrow> api_call \<Rightarrow> session \<Rightarrow> session" where
  "serve_api pf (CreateGateway_call r) = after (CreateGateway r)"
| "serve_api pf (GetGateway_call i) = after (GetGateway i)"
| "serve_api pf (ListGateways_call g p) = after (ListGateways g p)"
| "serve_api pf (UpdateGateway_call r) = after (UpdateGateway r)"
| "serve_api pf (DeleteGateway_call i) = after (DeleteGateway i)"
| "serve_api pf (GetNode_call i) = after (GetNode i)"
| "serve_api pf (ListNodes_call g p) = after (ListNodes g p)"
| "serve_api pf (UpdateNode_call i l) = after (UpdateNode i l)"
| "serve_api pf (GetIdentity_call i) = after (GetIdentity i)"
| "serve_api pf (ListIdentities_call n p) = after (ListIdentities n p)"
| "serve_api pf (RevokeIdentity_call i r) = after (RevokeIdentity i r)"
| "serve_api pf (Bootstrap_call r) = after (OnboardingGRPC_Bootstrap (pf_crypto pf) (pf_signer pf) r)"
| "serve_api pf (Renew_call p c) = after (OnboardingGRPC_Renew (pf_crypto pf) (pf_duration_text pf) (pf_signer pf) p c)"
| "serve_api pf (CreateBootstrapToken_call rnd r) = after (CreateBootstrapToken (pf_crypto pf) rnd r)"
| "serve_api pf (GetBootstrapToken_call i) = after (GetBootstrapToken i)"
| "serve_api pf (ListBootstrapTokens_call g p) = after (ListBootstrapTokens g p)"
| "serve_api pf (FreezeBootstrapToken_call i) = after (FreezeBootstrapToken i)"
| "serve_api pf (RevokeBootstrapToken_call i) = after (RevokeBootstrapToken i)"
| "serve_api pf (CreateTask_call r) = after (Service_CreateTask r)"
| "serve_api pf (GetTask_call i) = after (Service_GetTask i)"
| "serve_api pf (ListTasks_call r) = after (Service_ListTasks r)"
| "serve_api pf (CancelTask_call i reason) = after (Service_CancelTask i reason)"
| "serve_api pf (CreateModel_call r) = after (CreateModel r)"
| "serve_api pf (GetModel_call r) = after (GetModel r)"
| "serve_api pf (ListModels_call r) = after (ListModels r)"
| "serve_api pf (CreateDeployment_call r) = after (Service_CreateDeployment r)"
| "serve_api pf (GetDeployment_call i) = after (Service_GetDeployment i)"
| "serve_api pf (ListDeployments_call r) = after (Service_ListDeployments r)"
| "serve_api pf (UpdateDeployment_call r) = after (Service_UpdateDeployment r)"

text \<open>The proxy of a gateway reaches the control plane over a connection without a certificate.\<close>

fun serve_gateway :: "platform \<Rightarrow> string \<Rightarrow> gateway_call \<Rightarrow> session \<Rightarrow> session" where
  "serve_gateway pf g (Proxy_Bootstrap_call r) =
     after (Proxy_Bootstrap g (OnboardingGRPC_Bootstrap (pf_crypto pf) (pf_signer pf)) r)"
| "serve_gateway pf g (Proxy_Renew_call c) =
     after (Proxy_Renew (OnboardingGRPC_Renew (pf_crypto pf) (pf_duration_text pf) (pf_signer pf)) TLS_Other c)"
| "serve_gateway pf g (PushRegionalTask_call r) = after (PushRegionalTask (NewDispatcher g (pf_claimDuration pf)) r)"
| "serve_gateway pf g (SyncGatewayStatus_call i) = after (SyncGatewayStatus (NewDispatcher g (pf_claimDuration pf)) i)"
| "serve_gateway pf g (ReportHeartbeat_call ctx n v t) = after (ReportHeartbeat ctx n v t)"
| "serve_gateway pf g (PullTasks_call ctx n m) = after (PullTasks g ctx n m)"
| "serve_gateway pf g (ReportTaskResult_call ctx r) = after (ReportTaskResult ctx r)"
| "serve_gateway pf g (ReportRuntimeState_call ctx n es) = after (ReportRuntimeState ctx n es)"
| "serve_gateway pf g (Artifact_call r h) = (\<lambda>d. fst (snd (serveModel (pf_artifacts pf g) r (d, h))))"

fun act :: "platform \<Rightarrow> action \<Rightarrow> session \<Rightarrow> session" where
  "act pf (At_control_plane c) = serve_api pf c"
| "act pf (At_gateway g c) = serve_gateway pf g c"
| "act pf Controller_round = after (reconcile CreateDeploymentTask)"
| "act pf (Environment t fl) = (\<lambda>d. d\<lparr>clock := t, faults := fl\<rparr>)"

section \<open>The schema\<close>

lemma keep_after: "keep I m \<Longrightarrow> I (tabs d) \<Longrightarrow> I (tabs (after m d))"
  by (simp add: keep_def after_def)

lemma keep_reconcile_each: "keep db_wf (reconcile_each CreateDeploymentTask ds)"
proof (induction ds)
  case (Cons d ds)
  then show ?case using controller_tasks.keep_reconcileOne [of d] by (simp, intro keeps)
qed (simp, intro keeps)

lemma keep_reconcile: "keep db_wf (reconcile CreateDeploymentTask)"
  unfolding reconcile_def by (intro keeps keep_reconcile_each)

lemma keep_reads:
  "keep db_wf (Service_GetTask i)" "keep db_wf (Service_ListTasks lt)" "keep db_wf (Service_ListDeployments ld)"
  "keep db_wf (SyncGatewayStatus dp g)"
  unfolding Service_GetTask_def Service_ListTasks_def Service_ListDeployments_def SyncGatewayStatus_def
    Let_def case_prod_unfold
  by (intro keeps | simp)+

lemma keep_proxy: "keep db_wf (Proxy_Bootstrap g (OnboardingGRPC_Bootstrap cr s) r)" "keep db_wf (Proxy_Renew (OnboardingGRPC_Renew cr dt s) p c)"
  unfolding Proxy_Bootstrap_def Proxy_Renew_def by (intro keeps)+

lemma serve_api_wf: "db_wf (tabs d) \<Longrightarrow> db_wf (tabs (serve_api pf c d))"
  by (cases c) (simp_all, (rule keep_after, rule keeps keep_reads, assumption)+)

lemma serve_gateway_wf:
  assumes "db_wf (tabs d)"
  shows "db_wf (tabs (serve_gateway pf g c d))"
proof (cases c)
  case (Artifact_call r h)
  obtain ans d1 h1 where "serveModel (pf_artifacts pf g) r (d, h) = (ans, (d1, h1))" by (metis prod_cases3)
  with keep_serveModel [OF assms this] show ?thesis by (simp add: Artifact_call)
qed (simp_all, (rule keep_after, rule keeps keep_reads keep_proxy, rule assms)+)

lemma act_wf: "db_wf (tabs d) \<Longrightarrow> db_wf (tabs (act pf a d))"
  by (cases a) (simp_all add: serve_api_wf serve_gateway_wf keep_after keep_reconcile)


section \<open>The agent behind its gateway\<close>

definition gateway_client :: "platform \<Rightarrow> string \<Rightarrow> session onboarding_client" where
  "gateway_client pf g =
     \<lparr>oc_Bootstrap = Proxy_Bootstrap g (OnboardingGRPC_Bootstrap (pf_crypto pf) (pf_signer pf)),
      oc_Renew = Proxy_Renew (OnboardingGRPC_Renew (pf_crypto pf) (pf_duration_text pf) (pf_signer pf)) TLS_Other\<rparr>"

text \<open>C19: a renewal through a gateway never succeeds: however often the agent checks, its certificate, its files and the
  tables stay as they are, so the certificate expires.\<close>

theorem renewal_never_succeeds:
  "case ((\<lambda>(cr, w). checkAndRenew ak (gateway_client pf g) cr w) ^^ n) (cr, w) of (cr1, w1) \<Rightarrow>
     cr1 = cr \<and> aw_disk w1 = aw_disk w \<and> aw_gateway w1 = aw_gateway w"
proof -
  have refused: "oc_Renew (gateway_client pf g) csr d = (Inl (StatusErr Unauthenticated ''node_id not found in mTLS context''), d)"
    for csr d by (simp add: gateway_client_def Proxy_Renew_def OnboardingGRPC_Renew_def failE_def)
  have once: "checkAndRenew ak (gateway_client pf g) cr w = (cr1, w1) \<Longrightarrow>
      cr1 = cr \<and> aw_disk w1 = aw_disk w \<and> aw_gateway w1 = aw_gateway w" for cr w cr1 w1
    by (auto simp: checkAndRenew_def renew_def bindE_def map_err_def generate_key_def lift_result_def on_gateway_def refused
        split: option.splits if_splits sum.splits)
  show ?thesis
  proof (induction n)
    case (Suc n)
    then show ?case
      using once by (cases "((\<lambda>(cr, w). checkAndRenew ak (gateway_client pf g) cr w) ^^ n) (cr, w)") (fastforce split: prod.splits)
  qed simp
qed

lemma gateway_bootstrap_InrD:
  assumes "oc_Bootstrap (gateway_client pf g) (bootstrap_request c csr) d = (Inr out, d1)"
  shows "\<exists>inp. Bootstrap (pf_crypto pf) (pf_signer pf) inp d = (Inr out, d1) \<and> bi_Serial inp = []
    \<and> bi_GatewayID inp = (if cf_GatewayID c = [] then g else cf_GatewayID c)"
  using assms
  by (auto simp: gateway_client_def Proxy_Bootstrap_def OnboardingGRPC_Bootstrap_def bootstrap_request_def failE_def
      intro: exI [of _ "bootstrap_request c csr"] split: if_splits)


definition example_platform :: platform where
  "example_platform = \<lparr>pf_crypto = example_crypto, pf_signer = example_signer, pf_duration_text = (\<lambda>_. []), pf_claimDuration = 0,
     pf_artifacts = (\<lambda>g. NewArtifactHandler g ''/cache'' ''http://store'')\<rparr>"

definition trusting_crypto :: agent_crypto where
  "trusting_crypto = example_agent_crypto\<lparr>ak_key_pair := (\<lambda>c k. Inr [c])\<rparr>"

definition token_config :: Config where
  "token_config = zero_Config\<lparr>cf_Token := ''tok'', cf_DataDir := ''/d''\<rparr>"

definition first_node :: "session agent_world" where
  "first_node = \<lparr>aw_disk = plain_host [([''d''], Dir 0)], aw_gateway = session_at token_tables 9, aw_keys = 0\<rparr>"

lemma example_registration:
  "\<exists>i w1. agent_bootstrap trusting_crypto (gateway_client example_platform ''g1'') token_config first_node = (Inr i, w1)"
proof -
  let ?inp = "(bootstrap_request token_config ''k0'')\<lparr>bi_GatewayID := ''g1''\<rparr>" and ?d = "session_at token_tables 9"
  have "fst (Bootstrap example_crypto example_signer ?inp ?d) = bootstrap_answer example_crypto example_signer ?inp ?d"
    by (rule Bootstrap_answer) (simp_all add: token_tables_wf)
  also have "\<dots> = Inr \<lparr>bo_NodeID = sample_uuid 3 0, bo_CertPEM = sample_uuid 3 0 @ ''k0'', bo_CAPEM = ''ca'',
       bo_ExpiresAt = 9 + 90 * 24 * hour\<rparr>"
    by (simp add: bootstrap_answer_def onboarding_examples bootstrap_request_def token_config_def zero_Config_def token_by_hash_def
        token_verdict_def empty_tables_def serial_taken_def fingerprint_taken_def bootstrap_node_id_def SignCSR_def CAPem_def
        Let_def cert_for_def)
  finally obtain out d1 where b: "Bootstrap example_crypto example_signer ?inp ?d = (Inr out, d1)" and ca: "bo_CAPEM out = ''ca''"
    by (metis BootstrapOutput.select_convs(3) prod.collapse)
  have "oc_Bootstrap (gateway_client example_platform ''g1'') (bootstrap_request token_config ''k0'') ?d = (Inr out, d1)"
    using b by (simp add: gateway_client_def example_platform_def Proxy_Bootstrap_def OnboardingGRPC_Bootstrap_def
        bootstrap_request_def token_config_def zero_Config_def)
  then show ?thesis
    by (simp add: agent_bootstrap_def bindE_def map_err_def generate_key_def lift_result_def csr_pem_def on_gateway_def on_disk_of_def
        first_node_def trusting_crypto_def example_calls example_persist token_config_def issued_identity_def ca_certificate_def)
qed


end
