(* ===== verification/Server_Main.thy ===== *)
theory Server_Main
  imports Platform Autonomy
begin

text \<open>
  The processes: the connection pool (\<open>internal/store/db.go\<close>), the certificate authority for development
  (\<open>internal/pki/ca.go\<close>), and the start of \<open>cmd/apiserver\<close>, \<open>cmd/gateway-runtime\<close> and \<open>cmd/controller\<close> from
  the environment to the configuration they serve with. \<open>log.Fatal\<close> is an error; listeners, signals and
  the shutdown are not modelled.
\<close>

section \<open>The database\<close>

record DBConfig =
  dc_Host :: string
  dc_Port :: int
  dc_User :: string
  dc_Password :: string
  dc_DBName :: string
  dc_SSLMode :: string
  dc_MaxOpenConns :: int
  dc_MaxIdleConns :: int
  dc_ConnMaxLifetime :: duration

definition DSN :: "DBConfig \<Rightarrow> string" where
  "DSN c = ''host='' @ dc_Host c @ '' port='' @ itoa (dc_Port c) @ '' user='' @ dc_User c @ '' password='' @ dc_Password c
     @ '' dbname='' @ dc_DBName c @ '' sslmode='' @ (if dc_SSLMode c = [] then ''disable'' else dc_SSLMode c)"

text \<open>The driver opens a pool for a DSN, answers a ping, and closes the pool; the limits of a pool are unset unless
  they are positive.\<close>

record sql_driver =
  dr_open :: "string \<Rightarrow> go_err option"
  dr_ping :: "string \<Rightarrow> go_err option"
  dr_close :: "go_err option"

record pool =
  po_DSN :: string
  po_MaxOpenConns :: "int option"
  po_MaxIdleConns :: "int option"
  po_ConnMaxLifetime :: "duration option"

definition positive :: "int \<Rightarrow> int option" where
  "positive n = (if n > 0 then Some n else None)"

definition store_New :: "sql_driver \<Rightarrow> DBConfig \<Rightarrow> go_err + pool" where
  "store_New dr c =
     (case dr_open dr (DSN c) of
        Some e \<Rightarrow> Inl (wrap ''store: open db'' e)
      | None \<Rightarrow>
          (case dr_ping dr (DSN c) of
             Some e \<Rightarrow> Inl (Wrap ''store: ping db: '' e
               (case dr_close dr of None \<Rightarrow> [] | Some e2 \<Rightarrow> '' (close db: '' @ err_text e2 @ '')''))
           | None \<Rightarrow> Inr \<lparr>po_DSN = DSN c, po_MaxOpenConns = positive (dc_MaxOpenConns c),
               po_MaxIdleConns = positive (dc_MaxIdleConns c), po_ConnMaxLifetime = positive (dc_ConnMaxLifetime c)\<rparr>))"

text \<open>The values are not quoted: a value with a blank changes the meaning of what follows, and different
  configurations can have the same DSN.\<close>

lemma DSN_ambiguous:
  "DSN (c\<lparr>dc_User := u @ '' password='' @ p, dc_Password := q\<rparr>) = DSN (c\<lparr>dc_User := u, dc_Password := p @ '' password='' @ q\<rparr>)"
  by (simp add: DSN_def)

section \<open>The environment\<close>

definition envOrDefaultInt :: "environment \<Rightarrow> string \<Rightarrow> int \<Rightarrow> int" where
  "envOrDefaultInt env key def =
     (if env key \<noteq> [] then (case atoi (env key) of Some n \<Rightarrow> n | None \<Rightarrow> def) else def)"

definition envOrDefaultDuration :: "time_env \<Rightarrow> environment \<Rightarrow> string \<Rightarrow> duration \<Rightarrow> duration" where
  "envOrDefaultDuration te env key def =
     (if env key \<noteq> [] then (case te_parse te (env key) of Inr d \<Rightarrow> d | Inl _ \<Rightarrow> def) else def)"

definition envBool :: "environment \<Rightarrow> string \<Rightarrow> bool" where
  "envBool env key = (to_lower (trim_space (env key)) \<in> {''1'', ''true'', ''yes'', ''on''})"

definition db_config :: "environment \<Rightarrow> DBConfig" where
  "db_config env =
     \<lparr>dc_Host = envOrDefault env ''DB_HOST'' ''localhost'', dc_Port = envOrDefaultInt env ''DB_PORT'' 5432,
      dc_User = envOrDefault env ''DB_USER'' ''postgres'', dc_Password = envOrDefault env ''DB_PASSWORD'' ''postgres'',
      dc_DBName = envOrDefault env ''DB_NAME'' ''edgeai'', dc_SSLMode = envOrDefault env ''DB_SSLMODE'' ''disable'',
      dc_MaxOpenConns = 0, dc_MaxIdleConns = 0, dc_ConnMaxLifetime = 0\<rparr>"

section \<open>The certificate authority\<close>

record ca_template =
  ca_SerialNumber :: int
  ca_CommonName :: string
  ca_Organization :: string
  ca_NotBefore :: timestamp
  ca_NotAfter :: timestamp
  ca_IsCA :: bool
  ca_CertSign :: bool
  ca_CRLSign :: bool
  ca_BasicConstraintsValid :: bool
  ca_MaxPathLen :: int

text \<open>The elliptic curve keys and the self-signed certificates of \<open>crypto/ecdsa\<close> and \<open>crypto/x509\<close>.\<close>

record ca_crypto =
  cc_key :: "go_err + string"
  cc_create :: "ca_template \<Rightarrow> string \<Rightarrow> go_err + string"
  cc_marshal :: "string \<Rightarrow> go_err + string"

definition ca_for :: "int \<Rightarrow> string \<Rightarrow> timestamp \<Rightarrow> duration \<Rightarrow> ca_template" where
  "ca_for serial commonName now validity =
     \<lparr>ca_SerialNumber = serial, ca_CommonName = commonName, ca_Organization = ''EdgeAI Platform'', ca_NotBefore = now,
      ca_NotAfter = now + validity, ca_IsCA = True, ca_CertSign = True, ca_CRLSign = True,
      ca_BasicConstraintsValid = True, ca_MaxPathLen = 1\<rparr>"

definition GenerateSelfSignedCA :: "crypto \<Rightarrow> ca_crypto \<Rightarrow> timestamp \<Rightarrow> string \<Rightarrow> duration \<Rightarrow> go_err + string \<times> string" where
  "GenerateSelfSignedCA cr cc now commonName validity =
     (case cc_key cc of
        Inl e \<Rightarrow> Inl (wrap ''pki: generate key'' e)
      | Inr key \<Rightarrow>
          (case rand_serial cr of
             Inl e \<Rightarrow> Inl (wrap ''pki: generate serial'' e)
           | Inr serial \<Rightarrow>
               (case cc_create cc (ca_for serial commonName now validity) key of
                  Inl e \<Rightarrow> Inl (wrap ''pki: create CA cert'' e)
                | Inr certDER \<Rightarrow>
                    (case cc_marshal cc key of
                       Inl e \<Rightarrow> Inl (wrap ''pki: marshal key'' e)
                     | Inr keyDER \<Rightarrow> Inr (pem_encode cr ''CERTIFICATE'' certDER, pem_encode cr ''EC PRIVATE KEY'' keyDER)))))"

section \<open>The API server\<close>

definition newSelfSignedSigner :: "crypto \<Rightarrow> ca_crypto \<Rightarrow> timestamp \<Rightarrow> go_err + Signer" where
  "newSelfSignedSigner cr cc now =
     (case GenerateSelfSignedCA cr cc now ''EdgeAI Dev CA'' (10 * 365 * 24 * hour) of
        Inl e \<Rightarrow> Inl e | Inr (cert, key) \<Rightarrow> NewSigner cr cert key 0)"

definition initSigner :: "crypto \<Rightarrow> ca_crypto \<Rightarrow> environment \<Rightarrow> (string, Signer) hostm" where
  "initSigner cr cc env =
     (let certPath = envOrDefault env ''CA_CERT_PATH'' []; keyPath = envOrDefault env ''CA_KEY_PATH'' [] in
      if certPath = [] \<or> keyPath = [] then (\<lambda>h. (newSelfSignedSigner cr cc (host_now h), h))
      else
        bindE (os_ReadFile certPath) (\<lambda>certPEM.
        bindE (os_ReadFile keyPath) (\<lambda>keyPEM. lift_result (NewSigner cr certPEM keyPEM 0))))"

record apiserver_config =
  as_db :: pool
  as_signer :: Signer
  as_grpcAddr :: string
  as_httpAddr :: string

definition apiserver_main :: "sql_driver \<Rightarrow> crypto \<Rightarrow> ca_crypto \<Rightarrow> environment \<Rightarrow> (string, apiserver_config) hostm" where
  "apiserver_main dr cr cc env =
     bindE (map_err (wrap ''apiserver: connect database'') (lift_result (store_New dr (db_config env)))) (\<lambda>db.
     bindE (map_err (wrap ''apiserver: init signer'') (initSigner cr cc env)) (\<lambda>signer.
       returnE \<lparr>as_db = db, as_signer = signer, as_grpcAddr = envOrDefault env ''GRPC_ADDR'' '':9091'',
         as_httpAddr = envOrDefault env ''HTTP_ADDR'' '':8081''\<rparr>))"

text \<open>What the standard library promises of PEM and of the encodings of keys and certificates.\<close>

definition ca_laws :: "crypto \<Rightarrow> ca_crypto \<Rightarrow> bool" where
  "ca_laws cr cc =
     ((\<forall>ty bytes. pem_decode cr (pem_encode cr ty bytes) = Some (ty, bytes))
      \<and> (\<forall>t k der. cc_create cc t k = Inr der \<longrightarrow> parse_certificate cr der = Inr der)
      \<and> (\<forall>k der. cc_marshal cc k = Inr der \<longrightarrow> parse_ec cr der = Inr k))"

text \<open>The authority that an API server without configured paths generates is one its signer accepts, with
  certificates of ninety days.\<close>

lemma dev_signer:
  assumes "ca_laws cr cc" "GenerateSelfSignedCA cr cc now ''EdgeAI Dev CA'' (10 * 365 * 24 * hour) = Inr (cert, key)"
  shows "\<exists>der k. newSelfSignedSigner cr cc now = Inr \<lparr>sg_caCert = der, sg_caKey = k, sg_caPEM = cert, sg_certValidity = 90 * 24 * hour\<rparr>
    \<and> (\<exists>serial. cc_create cc (ca_for serial ''EdgeAI Dev CA'' now (10 * 365 * 24 * hour)) k = Inr der)"
proof -
  from assms(2) obtain k serial der kder where
    g: "cc_key cc = Inr k" "rand_serial cr = Inr serial" "cc_marshal cc k = Inr kder"
      "cc_create cc (ca_for serial ''EdgeAI Dev CA'' now (10 * 365 * 24 * hour)) k = Inr der"
      "cert = pem_encode cr ''CERTIFICATE'' der" "key = pem_encode cr ''EC PRIVATE KEY'' kder"
    by (auto simp: GenerateSelfSignedCA_def split: sum.splits)
  with assms show ?thesis
    by (auto simp: newSelfSignedSigner_def NewSigner_def parsePrivateKeyPEM_def ca_laws_def)
qed

section \<open>The controller\<close>

definition NewController_interval :: "duration \<Rightarrow> duration" where
  "NewController_interval cfgPollInterval = (if cfgPollInterval = 0 then 10 * second else cfgPollInterval)"

text \<open>The loop through its ticks, at the times given; a ticker with an interval that is not positive panics: no result.\<close>

definition Controller_Run :: "task_creator_fn \<Rightarrow> duration \<Rightarrow> timestamp list \<Rightarrow> session \<Rightarrow> session option" where
  "Controller_Run create interval ticks d =
     (if interval \<le> 0 then None else Some (fold (\<lambda>now d. after (reconcile create) (d\<lparr>clock := now\<rparr>)) ticks d))"

definition controller_main :: "sql_driver \<Rightarrow> time_env \<Rightarrow> environment \<Rightarrow> timestamp list \<Rightarrow> session \<Rightarrow> go_err + session option" where
  "controller_main dr te env ticks d =
     (case store_New dr (db_config env) of
        Inl e \<Rightarrow> Inl (wrap ''controller: connect database'' e)
      | Inr _ \<Rightarrow> Inr (Controller_Run CreateDeploymentTask
          (NewController_interval (envOrDefaultDuration te env ''POLL_INTERVAL'' (10 * second))) ticks d))"

lemma controller_keeps_schema:
  "db_wf (tabs d) \<Longrightarrow> controller_main dr te env ticks d = Inr (Some d1) \<Longrightarrow> db_wf (tabs d1)"
proof -
  have "db_wf (tabs d) \<Longrightarrow> db_wf (tabs (fold (\<lambda>now d. after (reconcile CreateDeploymentTask) (d\<lparr>clock := now\<rparr>)) ticks d))" for d
    by (induction ticks arbitrary: d) (simp_all add: keep_after [OF keep_reconcile])
  then show "db_wf (tabs d) \<Longrightarrow> controller_main dr te env ticks d = Inr (Some d1) \<Longrightarrow> db_wf (tabs d1)"
    by (auto simp: controller_main_def Controller_Run_def split: sum.splits if_splits)
qed

text \<open>A negative interval in the environment ends the process with a panic.\<close>

lemma controller_panics:
  "env ''POLL_INTERVAL'' \<noteq> [] \<Longrightarrow> te_parse te (env ''POLL_INTERVAL'') = Inr i \<Longrightarrow> i < 0 \<Longrightarrow> store_New dr (db_config env) = Inr p \<Longrightarrow>
     controller_main dr te env ticks d = Inr None"
  by (simp add: controller_main_def envOrDefaultDuration_def NewController_interval_def Controller_Run_def)

section \<open>The gateway\<close>

text \<open>The options of the gRPC server: none, or TLS that requires and verifies client certificates, with the
  interceptor. Parsing a pair and a pool are those of \<open>agent_crypto\<close>.\<close>

datatype server_options = Plain_Server | MTLS_Server "string list" string AuthInterceptorConfig

definition skip_methods :: "string list" where
  "skip_methods =
     [''/edge.ai.api.v1.NodeOnboardingService/Bootstrap'', ''/edge.ai.api.v1.GatewaySyncService/PushRegionalTask'',
      ''/edge.ai.api.v1.GatewaySyncService/SyncGatewayStatus'', ''/edge.ai.api.v1.GatewaySyncService/NotifyIdentityEvent'']"

definition grpcServerOptions :: "agent_crypto \<Rightarrow> string \<Rightarrow> string \<Rightarrow> string \<Rightarrow> string \<Rightarrow> (string, server_options) hostm" where
  "grpcServerOptions ak gatewayID certPath keyPath caPath =
     (if certPath = [] \<or> keyPath = [] \<or> caPath = [] then returnE Plain_Server
      else
        bindE (LoadX509KeyPair ak certPath keyPath) (\<lambda>cert.
        bindE (os_ReadFile caPath) (\<lambda>caPEM.
        if \<not> ak_pool ak caPEM then failE (GoErr ''failed to parse gateway CA cert'')
        else returnE (MTLS_Server cert caPEM \<lparr>ac_GatewayID = gatewayID, ac_SkipMethods = skip_methods\<rparr>))))"

text \<open>A call of the server: its handler, behind the interceptor if there is one.\<close>

definition serve_rpc ::
  "(string \<Rightarrow> string) \<Rightarrow> server_options \<Rightarrow> string \<Rightarrow> ('q, gwstate, 'p) handler \<Rightarrow> ('q, gwstate, 'p) handler" where
  "serve_rpc digest opts fullMethod handler =
     (case opts of
        Plain_Server \<Rightarrow> handler
      | MTLS_Server _ _ cfg \<Rightarrow> NewAuthInterceptor digest Lookup cfg fullMethod handler)"

record 's gateway_world =
  gm_disk :: "string host"
  gm_upstream :: 's

definition gm_on_disk :: "(string, 'a) hostm \<Rightarrow> ('s gateway_world, 'a) em" where
  "gm_on_disk m w = (case m (gm_disk w) of (r, h) \<Rightarrow> (r, w\<lparr>gm_disk := h\<rparr>))"

definition gm_on_upstream :: "('s, 'a) em \<Rightarrow> ('s gateway_world, 'a) em" where
  "gm_on_upstream m w = (case m (gm_upstream w) of (r, s) \<Rightarrow> (r, w\<lparr>gm_upstream := s\<rparr>))"

definition self_register_config :: "environment \<Rightarrow> string \<Rightarrow> SelfRegisterConfig" where
  "self_register_config env gatewayID =
     \<lparr>sc_GatewayID = gatewayID, sc_Region = envOrDefault env ''GATEWAY_REGION'' [], sc_Endpoint = envOrDefault env ''GATEWAY_ENDPOINT'' [],
      sc_Name = envOrDefault env ''GATEWAY_NAME'' [],
      sc_Labels = [(''node_name'', gatewayID), (''runtime_source'', ''gateway-runtime'')]\<rparr>"

record gateway_config =
  gc_gatewayID :: string
  gc_db :: pool
  gc_registered :: "SelfRegisterResult option"
  gc_cache :: IdentityCache
  gc_dispatcher :: Dispatcher
  gc_options :: server_options
  gc_artifacts :: ArtifactHandler
  gc_monitor :: ConnectivityMonitor
  gc_grpcAddr :: string
  gc_httpAddr :: string

definition gateway_main ::
  "sql_driver \<Rightarrow> agent_crypto \<Rightarrow> time_env \<Rightarrow> environment \<Rightarrow> 's create_fn \<Rightarrow> 's list_fn \<Rightarrow> ('s gateway_world, gateway_config) em" where
  "gateway_main dr ak te env create lst =
     (let gatewayID = envOrDefault env ''GATEWAY_ID'' [] in
      if gatewayID = [] then failE (GoErr ''gateway-runtime: GATEWAY_ID is required'')
      else
        bindE (map_err (wrap ''gateway-runtime: connect database'') (lift_result (store_New dr (db_config env)))) (\<lambda>db.
        bindE (if envBool env ''GATEWAY_AUTO_REGISTER''
               then bindE (map_err (wrap ''gateway-runtime: self-register'')
                      (gm_on_upstream (SelfRegister create lst (self_register_config env gatewayID)))) (\<lambda>r. returnE (Some r))
               else returnE None) (\<lambda>registered.
        bindE (map_err (wrap ''gateway-runtime: TLS config'')
          (gm_on_disk (grpcServerOptions ak gatewayID (envOrDefault env ''GATEWAY_TLS_CERT_PATH'' [])
             (envOrDefault env ''GATEWAY_TLS_KEY_PATH'' []) (envOrDefault env ''GATEWAY_CA_CERT_PATH'' [])))) (\<lambda>opts.
        (\<lambda>w. (Inr
          \<lparr>gc_gatewayID = gatewayID, gc_db = db, gc_registered = registered,
           gc_cache = NewIdentityCache (envOrDefaultDuration te env ''IDENTITY_CACHE_TTL'' (30 * second)),
           gc_dispatcher = NewDispatcher gatewayID (envOrDefaultDuration te env ''TASK_CLAIM_DURATION'' (5 * minute)),
           gc_options = opts,
           gc_artifacts = NewArtifactHandler gatewayID (envOrDefault env ''CACHE_DIR'' ''./var/lib/gateway-runtime/cache'')
             (envOrDefault env ''UPSTREAM_BASE_URL'' ''http://localhost:9000''),
           gc_monitor = NewConnectivityMonitor (envOrDefault env ''CLOUD_HEALTH_URL'' [])
             (envOrDefaultDuration te env ''CONNECTIVITY_CHECK_INTERVAL'' (10 * second))
             (envOrDefaultDuration te env ''CONNECTIVITY_TIMEOUT'' (5 * second)) (host_now (gm_disk w)),
           gc_grpcAddr = envOrDefault env ''GRPC_ADDR'' '':9443'', gc_httpAddr = envOrDefault env ''HTTP_ADDR'' '':8081''\<rparr>, w))))))"

text \<open>The metrics endpoint: a line for each gauge of a snapshot, in some order, with the characters of a metric name
  that the format does not allow replaced. \<open>text\<close> is the decimal text of a float.\<close>

definition safe_name :: "string \<Rightarrow> string" where
  "safe_name name = map (\<lambda>c. if c \<in> set ''.-:'' then CHR ''_'' else c) name"

definition metrics_body :: "(float64 \<Rightarrow> string) \<Rightarrow> (string \<times> float64) list \<Rightarrow> string" where
  "metrics_body text snapshot = concat (map (\<lambda>(name, v). safe_name name @ '' '' @ text v @ [CHR 0x0A]) snapshot)"

text \<open>Different nodes can share a line: the name of a gauge joins node and metric with a colon.\<close>

lemma metric_names_collide: "safe_name (metric_key ''a-b'' ''x'') = safe_name (metric_key ''a.b'' ''x'')"
  by (simp add: safe_name_def metric_key_def)

section \<open>What the gateway serves\<close>

text \<open>C14: the gateway started with a path of its certificate, key or authority missing serves every call on the plain
  connection with no check at all, and a node id of the request is taken as it is. Started with all three,
  it reads files only, and a handler that is not exempt runs only for a client certificate whose fingerprint
  belongs to an identity of this gateway, cached or Active in the database.\<close>

theorem gateway_transport:
  assumes "grpcServerOptions ak gatewayID certPath keyPath caPath h = (Inr opts, h1)"
  shows "files h1 = files h \<and>
    (if certPath = [] \<or> keyPath = [] \<or> caPath = []
     then serve_rpc digest opts m handler = handler
       \<and> (NodeIDFromContext ctx = [] \<longrightarrow> validateAuthenticatedNode ctx nodeID = None)
     else m \<in> set skip_methods \<or>
       (case serve_rpc digest opts m handler ctx req s of (r, s2) \<Rightarrow>
         (\<exists>cert certs e s1. cx_peer ctx = Peer_TLS (cert # certs) \<and> cached_or_active s (digest cert) e
           \<and> equal_fold (ci_GatewayID e) gatewayID
           \<and> handler (ctx\<lparr>cx_NodeID := Some (ci_NodeID e), cx_GatewayID := Some (ci_GatewayID e)\<rparr>) req s1 = (r, s2))
         \<or> (\<exists>c msg. r = Inl (StatusErr c msg) \<and> c \<in> {Unauthenticated, PermissionDenied, Internal})))"
proof -
  let ?plain = "certPath = [] \<or> keyPath = [] \<or> caPath = []"
  let ?cfg = "\<lparr>ac_GatewayID = gatewayID, ac_SkipMethods = skip_methods\<rparr>"
  have rd: "os_ReadFile p a = (Inr c, b) \<Longrightarrow> files b = files a" for p a b and c :: string by (blast dest: os_reads(2))
  note run_defs = grpcServerOptions_def LoadX509KeyPair_def lift_result_def returnE_def failE_def
  have opts: "files h1 = files h"
    using assms by (auto simp: run_defs dest!: bindE_InrD split: if_splits) (metis rd)
  have mode: "if ?plain then opts = Plain_Server else \<exists>cert ca. opts = MTLS_Server cert ca ?cfg"
    using assms by (auto simp: run_defs dest!: bindE_InrD split: if_splits)
  show ?thesis
  proof (cases ?plain)
    case True
    with opts mode show ?thesis by (auto simp: serve_rpc_def validateAuthenticatedNode_def)
  next
    case False
    obtain r s2 where run: "serve_rpc digest opts m handler ctx req s = (r, s2)" by (rule prod.exhaust)
    with mode False have "NewAuthInterceptor digest Lookup ?cfg m handler ctx req s = (r, s2)" by (auto simp: serve_rpc_def)
    from gateway_identities.interceptor_sound [OF TrueI _ this] False opts run show ?thesis by auto
  qed
qed

definition tls_host :: "string host" where
  "tls_host = plain_host [([''tls.crt''], File ''c'' 0), ([''tls.key''], File ''k'' 0), ([''ca.crt''], File ''a'' 0)]"

lemma tls_host_serves:
  "grpcServerOptions trusting_crypto ''g1'' ''/tls.crt'' ''/tls.key'' ''/ca.crt'' tls_host =
     (Inr (MTLS_Server [''c''] ''a'' \<lparr>ac_GatewayID = ''g1'', ac_SkipMethods = skip_methods\<rparr>), tls_host)"
proof -
  have "path_of ''/tls.crt'' = [''tls.crt'']" "path_of ''/tls.key'' = [''tls.key'']" "path_of ''/ca.crt'' = [''ca.crt'']"
    by code_simp+
  then have "os_ReadFile ''/tls.crt'' tls_host = (Inr ''c'', tls_host)" "os_ReadFile ''/tls.key'' tls_host = (Inr ''k'', tls_host)"
    "os_ReadFile ''/ca.crt'' tls_host = (Inr ''a'', tls_host)"
    by (simp_all add: os_ReadFile_def quiet_read tls_host_def plain_host_def node_at_def)
  then show ?thesis
    by (simp add: grpcServerOptions_def LoadX509KeyPair_def bindE_def lift_result_def returnE_def trusting_crypto_def
        example_agent_crypto_def)
qed

theorem gateway_transport_witness:
  "\<exists>opts c msg s2. grpcServerOptions trusting_crypto ''g1'' ''/tls.crt'' ''/tls.key'' ''/ca.crt'' tls_host = (Inr opts, tls_host)
     \<and> serve_rpc (\<lambda>c. c) opts ''/Pull'' (\<lambda>ctx q s. (Inr (NodeIDFromContext ctx), s)) (example_ctx []) ()
          (NewIdentityCache 0, session_at identity_tables 9) = (Inl (StatusErr c msg), s2)"
proof -
  let ?cfg = "\<lparr>ac_GatewayID = ''g1'', ac_SkipMethods = skip_methods\<rparr>"
  let ?s = "(NewIdentityCache 0, session_at identity_tables 9)"
  let ?h = "\<lambda>ctx (q :: unit) s :: gwstate. (Inr (NodeIDFromContext ctx) :: go_err + string, s)"
  note run = tls_host_serves
  obtain r s2 where served: "serve_rpc (\<lambda>c. c) (MTLS_Server [''c''] ''a'' ?cfg) ''/Pull'' ?h (example_ctx []) () ?s = (r, s2)"
    by (rule prod.exhaust)
  have "''/Pull'' \<notin> set skip_methods" by (simp add: skip_methods_def)
  with gateway_transport [OF run, where digest = "\<lambda>c. c" and m = "''/Pull''" and handler = ?h and ctx = "example_ctx []" and req = "()" and s = ?s] served
  have "\<exists>c msg. r = Inl (StatusErr c msg)" by (auto simp: example_ctx_def)
  with run served show ?thesis by blast
qed

section \<open>Registration at the start\<close>

text \<open>A gateway that starts with \<open>GATEWAY_AUTO_REGISTER\<close> is in the registry of the control plane under its name.\<close>

lemma gateway_registered:
  assumes "gateway_main dr ak te env CreateGateway (ListGateways []) w = (Inr gc, w1)" "envBool env ''GATEWAY_AUTO_REGISTER''"
    and "registry_ready (gm_upstream w)" "length (gateways (tabs (gm_upstream w))) < 1000"
  shows "\<exists>g r. gc_registered gc = Some r \<and> g \<in> set (registry_known (gm_upstream w1)) \<and> gg_Id g = sres_GatewayID r
    \<and> gg_Name g = (if env ''GATEWAY_NAME'' = [] then gc_gatewayID gc else env ''GATEWAY_NAME'')"
proof -
  let ?gid = "envOrDefault env ''GATEWAY_ID'' []"
  let ?cfg = "self_register_config env ?gid"
  from assms(1,2) obtain r s1 where gid: "?gid \<noteq> []" "gc_gatewayID gc = ?gid" "gc_registered gc = Some r" "gm_upstream w1 = s1"
    and reg: "SelfRegister CreateGateway (ListGateways []) ?cfg (gm_upstream w) = (Inr r, s1)"
    by (auto simp: gateway_main_def Let_def failE_def lift_result_def returnE_def gm_on_upstream_def gm_on_disk_def
        dest!: bindE_InrD map_err_InrD split: if_splits prod.splits)
  have "length (registry_known (gm_upstream w)) < 1000" using assms(4) by (simp add: registry_known_def gateway_listing_all)
  with registry.register_idempotent [OF assms(3), of ?cfg] gid(1) reg obtain g where
    "g \<in> set (registry_known s1)" "gg_Name g = register_name ?cfg" "gg_Id g = sres_GatewayID r"
    by (auto simp: self_register_config_def)
  with gid show ?thesis
    by (intro exI [of _ g] exI [of _ r]) (simp add: register_name_def self_register_config_def envOrDefault_def)
qed

end
