(* ===== verification/Cli_Output.thy ===== *)
theory Cli_Output
  imports Error_Monad
begin

text \<open>
  What the commands of \<open>edgectl\<close> print with: times in the layout \<open>time.RFC3339\<close>, and the tables of
  \<open>text/tabwriter\<close> as \<open>cmd/edgectl\<close> configures it (cells end at a tab, columns are padded with blanks to the
  widest cell of a block of lines plus two). Widths count the characters of UTF-8 text; vertical tabs and
  form feeds in the data are not given their special meaning.
\<close>

section \<open>Times\<close>

text \<open>A day, counted from 1970-01-01, as year, month and day of the Gregorian calendar.\<close>

definition civil_from_days :: "int \<Rightarrow> int \<times> int \<times> int" where
  "civil_from_days days =
     (let z = days + 719468; era = z div 146097; doe = z mod 146097;
          yoe = (doe - doe div 1460 + doe div 36524 - doe div 146096) div 365;
          doy = doe - (365 * yoe + yoe div 4 - yoe div 100);
          mp = (5 * doy + 2) div 153;
          m = (if mp < 10 then mp + 3 else mp - 9)
      in (yoe + era * 400 + (if m \<le> 2 then 1 else 0), m, doy - (153 * mp + 2) div 5 + 1))"

definition zero_padded :: "nat \<Rightarrow> int \<Rightarrow> string" where
  "zero_padded n x =
     (let s = dec_of_nat (nat \<bar>x\<bar>) in (if x < 0 then ''-'' else []) @ replicate (n - length s) CHR ''0'' @ s)"

definition format_RFC3339 :: "timestamp \<Rightarrow> string" where
  "format_RFC3339 t =
     (let secs = t div second; day = secs mod 86400; (y, m, d) = civil_from_days (secs div 86400) in
      zero_padded 4 y @ ''-'' @ zero_padded 2 m @ ''-'' @ zero_padded 2 d @ ''T'' @
      zero_padded 2 (day div 3600) @ '':'' @ zero_padded 2 (day mod 3600 div 60) @ '':'' @ zero_padded 2 (day mod 60) @ ''Z'')"

lemma format_RFC3339_samples:
  "format_RFC3339 0 = ''1970-01-01T00:00:00Z''"
  "format_RFC3339 (951868799 * second + 999999999) = ''2000-02-29T23:59:59Z''"
  "format_RFC3339 (1709251200 * second) = ''2024-03-01T00:00:00Z''"
  by code_simp+

section \<open>Tables\<close>

definition rune_count :: "string \<Rightarrow> nat" where
  "rune_count s = length (filter (\<lambda>c. of_char c div 64 \<noteq> (2 :: nat)) s)"

fun split_on :: "char \<Rightarrow> string \<Rightarrow> string list" where
  "split_on c [] = [[]]"
| "split_on c (x # s) =
     (if x = c then [] # split_on c s
      else case split_on c s of [] \<Rightarrow> [[x]] | part # parts \<Rightarrow> (x # part) # parts)"

text \<open>The width of column \<open>j\<close> in every line that has a cell ended by a tab there: lines that follow each
  other make a block.\<close>

definition ends_column :: "nat \<Rightarrow> string list \<Rightarrow> bool" where
  "ends_column j cells = (Suc j < length cells)"

definition block_width :: "nat \<Rightarrow> string list list \<Rightarrow> nat" where
  "block_width j block = foldr (\<lambda>cells w. max (rune_count (cells ! j) + 2) w) block 0"

function column_widths :: "nat \<Rightarrow> string list list \<Rightarrow> nat list" where
  "column_widths j [] = []"
| "column_widths j (l # ls) =
     (if ends_column j l
      then let block = l # takeWhile (ends_column j) ls in
        replicate (length block) (block_width j block) @ column_widths j (dropWhile (ends_column j) ls)
      else 0 # column_widths j ls)"
  by pat_completeness auto
termination
  by (relation "measure (length \<circ> snd)") (auto simp: le_imp_less_Suc length_dropWhile_le)

definition render_line :: "(nat \<Rightarrow> nat) \<Rightarrow> string list \<Rightarrow> string" where
  "render_line width cells =
     concat (map (\<lambda>j. cells ! j @ replicate (width j - rune_count (cells ! j)) CHR '' '') [0..<length cells - 1]) @ last cells"

definition tabwriter :: "string list \<Rightarrow> string list" where
  "tabwriter text =
     (let ls = map (split_on CHR 0x09) (concat (map (split_on CHR 0x0A) text)) in
      map (\<lambda>i. render_line (\<lambda>j. column_widths j ls ! i) (ls ! i)) [0..<length ls])"

definition tab_separated :: "string list \<Rightarrow> string" where
  "tab_separated cells = concat (map (\<lambda>c. c @ [CHR 0x09]) (butlast cells)) @ last cells"

lemma split_on_nonempty [simp]: "split_on c s \<noteq> []"
  by (induction s) (auto split: list.splits)

lemma split_on_plain [simp]: "c \<notin> set s \<Longrightarrow> split_on c s = [s]"
  by (induction s) auto

lemma split_on_append: "c \<notin> set s \<Longrightarrow> split_on c (s @ c # t) = s # split_on c t"
  by (induction s) auto

lemma split_tab_separated:
  assumes "cells \<noteq> []" "\<forall>s \<in> set cells. CHR 0x09 \<notin> set s"
  shows "split_on CHR 0x09 (tab_separated cells) = cells"
  using assms
proof (induction cells rule: list_nonempty_induct)
  case (cons x xs)
  then show ?case by (simp add: tab_separated_def split_on_append)
qed (simp add: tab_separated_def)

lemma block_width_upper: "l \<in> set ls \<Longrightarrow> rune_count (l ! j) + 2 \<le> block_width j ls"
  by (induction ls) (auto simp: block_width_def le_max_iff_disj)

lemma column_widths_uniform:
  assumes "\<forall>l \<in> set ls. Suc j < length l"
  shows "column_widths j ls = replicate (length ls) (block_width j ls)"
proof (cases ls)
  case (Cons l rest)
  have "\<forall>l \<in> set rest. ends_column j l" "ends_column j l" using assms Cons by (simp_all add: ends_column_def)
  then show ?thesis
    using Cons by (simp add: Let_def takeWhile_eq_all_conv [THEN iffD2] dropWhile_eq_Nil_conv [THEN iffD2] del: replicate.simps)
qed simp

text \<open>A table of rows with the same number of cells, no cell with a tab or a newline: one line per row, and in
  every line column \<open>j\<close> takes the same width, at least two more than each of its cells.\<close>

lemma tabwriter_uniform:
  assumes "\<forall>r \<in> set rows. length r = Suc n \<and> (\<forall>s \<in> set r. CHR 0x09 \<notin> set s \<and> CHR 0x0A \<notin> set s)"
  shows "tabwriter (map tab_separated rows) = map (render_line (\<lambda>j. block_width j rows)) rows"
    and "r \<in> set rows \<Longrightarrow> j < n \<Longrightarrow> rune_count (r ! j) + 2 \<le> block_width j rows"
proof -
  have nl: "CHR 0x0A \<notin> set (tab_separated r)" if "r \<in> set rows" for r
  proof -
    have "r \<noteq> []" using assms that by auto
    with assms that show ?thesis by (auto simp: tab_separated_def dest!: in_set_butlastD)
  qed
  have "concat (map (split_on CHR 0x0A) (map tab_separated rows)) = map tab_separated rows"
    using nl by (induction rows) auto
  moreover have "map (split_on CHR 0x09) (map tab_separated rows) = rows"
    unfolding map_map comp_def
  proof (rule map_idI)
    fix r assume "r \<in> set rows"
    with assms show "split_on CHR 0x09 (tab_separated r) = r" by (intro split_tab_separated) auto
  qed
  ultimately have ls: "map (split_on CHR 0x09) (concat (map (split_on CHR 0x0A) (map tab_separated rows))) = rows" by simp
  have "render_line (\<lambda>j. column_widths j rows ! i) (rows ! i) = render_line (\<lambda>j. block_width j rows) (rows ! i)"
    if "i < length rows" for i
  proof -
    have len: "length (rows ! i) = Suc n" using assms that by (meson nth_mem)
    have "column_widths j rows ! i = block_width j rows" if "j < n" for j
      using column_widths_uniform [of rows j] assms that \<open>i < length rows\<close> by simp
    then show ?thesis unfolding render_line_def len by (intro arg_cong2 [where f = append] arg_cong [where f = concat] map_cong) auto
  qed
  then show "tabwriter (map tab_separated rows) = map (render_line (\<lambda>j. block_width j rows)) rows"
    unfolding tabwriter_def Let_def ls by (intro nth_equalityI) auto
  show "r \<in> set rows \<Longrightarrow> j < n \<Longrightarrow> rune_count (r ! j) + 2 \<le> block_width j rows"
    by (rule block_width_upper)
qed

section \<open>The state of a command\<close>

text \<open>The remote side, and the lines printed to standard output; the log is not modelled.\<close>

record 's cli =
  cl_remote :: 's
  cl_out :: "string list"

definition remote :: "('s, 'a) em \<Rightarrow> ('s cli, 'a) em" where
  "remote m = (\<lambda>w. case m (cl_remote w) of (r, s) \<Rightarrow> (r, w\<lparr>cl_remote := s\<rparr>))"

definition print_lines :: "string list \<Rightarrow> ('s cli, unit) em" where
  "print_lines ls = (\<lambda>w. (Inr (), w\<lparr>cl_out := cl_out w @ ls\<rparr>))"

lemma remote_run: "m (cl_remote w) = (r, s) \<Longrightarrow> remote m w = (r, w\<lparr>cl_remote := s\<rparr>)"
  by (simp add: remote_def)

lemma remote_InrD: "remote m w = (Inr x, w1) \<Longrightarrow> m (cl_remote w) = (Inr x, cl_remote w1) \<and> cl_out w1 = cl_out w"
  by (auto simp: remote_def split: prod.splits)

end
