(* ===== verification/Edgectl.thy ===== *)
theory Edgectl
  imports Cli_Output Self_Register Task_Service Agent_Config "HOL-Library.AList"
begin

text \<open>
  The administrator's command line (\<open>cmd/edgectl\<close>): one definition per command, from its flags to the calls
  it makes and the lines it prints. Parsing the command line and checking required flags is done by cobra:
  a command gets its flags, an optional one with the default of the source. The services are reached through
  a connection, a record of functions on the state of the remote side that take the outgoing metadata;
  \<open>grpc.NewClient\<close> and \<open>Close\<close> may fail with any error.
\<close>

section \<open>Connection and metadata\<close>

type_synonym metadata = "(string \<times> string) list"

record 's connection =
  cn_dial :: "go_err option"
  cn_close :: "go_err option"
  cn_CreateBootstrapToken :: "metadata \<Rightarrow> CreateBootstrapTokenRequest \<Rightarrow> ('s, BootstrapToken \<times> string) em"
  cn_ListBootstrapTokens :: "metadata \<Rightarrow> string \<Rightarrow> PageRequest option \<Rightarrow> ('s, BootstrapToken list) em"
  cn_ListNodes :: "metadata \<Rightarrow> string \<Rightarrow> PageRequest option \<Rightarrow> ('s, EdgeNode list \<times> PageResponse) em"
  cn_RevokeIdentity :: "metadata \<Rightarrow> string \<Rightarrow> string \<Rightarrow> ('s, unit) em"
  cn_CreateTask :: "metadata \<Rightarrow> CreateTaskRequest \<Rightarrow> ('s, TaskMsg) em"
  cn_ListTasks :: "metadata \<Rightarrow> ListTasksRequest \<Rightarrow> ('s, TaskMsg list \<times> PageResponse) em"
  cn_GetTask :: "metadata \<Rightarrow> string \<Rightarrow> ('s, TaskMsg) em"
  cn_CreateGateway :: "metadata \<Rightarrow> CreateGatewayRequest \<Rightarrow> ('s, GatewayMsg) em"
  cn_ListGateways :: "metadata \<Rightarrow> string \<Rightarrow> PageRequest option \<Rightarrow> ('s, GatewayMsg list \<times> PageResponse) em"
  cn_GetGateway :: "metadata \<Rightarrow> string \<Rightarrow> ('s, GatewayMsg) em"
  cn_UpdateGateway :: "metadata \<Rightarrow> UpdateGatewayRequest \<Rightarrow> ('s, GatewayMsg) em"
  cn_DeleteGateway :: "metadata \<Rightarrow> string \<Rightarrow> ('s, unit) em"

text \<open>The settings of the process: \<open>serverAddr\<close> and \<open>authToken\<close> from the flag or the environment, the build,
  and two functions of the standard library: \<open>time.ParseDuration\<close>, and the seconds of a duration as an
  \<open>int32\<close> (a conversion of a float).\<close>

record settings =
  se_server :: string
  se_token :: string
  se_build :: build_info
  se_parse :: "string \<Rightarrow> go_err + duration"
  se_seconds :: "duration \<Rightarrow> int"

definition edgectl_settings ::
  "environment \<Rightarrow> build_info \<Rightarrow> (string \<Rightarrow> go_err + duration) \<Rightarrow> (duration \<Rightarrow> int) \<Rightarrow> string option \<Rightarrow> string option \<Rightarrow> settings" where
  "edgectl_settings env build parse secs serverFlag tokenFlag =
     \<lparr>se_server = (case serverFlag of Some v \<Rightarrow> v | None \<Rightarrow> envOrDefault env ''EDGECTL_SERVER'' ''localhost:9090''),
      se_token = (case tokenFlag of Some v \<Rightarrow> v | None \<Rightarrow> env ''EDGECTL_TOKEN''),
      se_build = build, se_parse = parse, se_seconds = secs\<rparr>"

definition authCtx :: "settings \<Rightarrow> metadata" where
  "authCtx se = (if se_token se \<noteq> [] then [(''authorization'', ''Bearer '' @ se_token se)] else [])"

text \<open>Every command dials first, and closes when it returns: an error of the closing is the error of the command only
  if it has none.\<close>

definition with_conn :: "'s connection \<Rightarrow> string \<Rightarrow> ('s cli, unit) em \<Rightarrow> ('s cli, unit) em" where
  "with_conn cn name body =
     (case cn_dial cn of
        Some e \<Rightarrow> failE e
      | None \<Rightarrow> (\<lambda>w. case body w of
          (Inr _, w1) \<Rightarrow> (case cn_close cn of None \<Rightarrow> Inr () | Some e \<Rightarrow> Inl (wrap (''close '' @ name @ '' connection'') e), w1)
        | (Inl e, w1) \<Rightarrow> (Inl e, w1)))"

definition print_table :: "string list \<Rightarrow> string list list \<Rightarrow> ('s cli, unit) em" where
  "print_table header rows = print_lines (tabwriter (map tab_separated (header # rows)))"

definition opt_time :: "timestamp option \<Rightarrow> string" where
  "opt_time t = (case t of None \<Rightarrow> ''N/A'' | Some x \<Rightarrow> format_RFC3339 x)"

text \<open>The text of an enum value is its name, or the number of a value without a name.\<close>

fun TaskScope_String :: "TaskScope \<Rightarrow> string" where
  "TaskScope_String TASK_SCOPE_UNSPECIFIED = ''TASK_SCOPE_UNSPECIFIED''"
| "TaskScope_String TASK_SCOPE_REGION = ''TASK_SCOPE_REGION''"
| "TaskScope_String TASK_SCOPE_NODE = ''TASK_SCOPE_NODE''"
| "TaskScope_String (TASK_SCOPE_OTHER n) = itoa n"

fun TaskStatus_String :: "TaskStatus \<Rightarrow> string" where
  "TaskStatus_String TASK_STATUS_UNSPECIFIED = ''TASK_STATUS_UNSPECIFIED''"
| "TaskStatus_String TASK_STATUS_PENDING = ''TASK_STATUS_PENDING''"
| "TaskStatus_String TASK_STATUS_DISPATCHING = ''TASK_STATUS_DISPATCHING''"
| "TaskStatus_String TASK_STATUS_RUNNING = ''TASK_STATUS_RUNNING''"
| "TaskStatus_String TASK_STATUS_SUCCESS = ''TASK_STATUS_SUCCESS''"
| "TaskStatus_String TASK_STATUS_FAILED = ''TASK_STATUS_FAILED''"
| "TaskStatus_String TASK_STATUS_RETRYING = ''TASK_STATUS_RETRYING''"
| "TaskStatus_String TASK_STATUS_TIMEOUT = ''TASK_STATUS_TIMEOUT''"
| "TaskStatus_String TASK_STATUS_CANCELLED = ''TASK_STATUS_CANCELLED''"
| "TaskStatus_String TASK_STATUS_PARTIALLY_SUCCEEDED = ''TASK_STATUS_PARTIALLY_SUCCEEDED''"
| "TaskStatus_String (TASK_STATUS_OTHER n) = itoa n"

section \<open>Tokens\<close>

record token_create_flags =
  tf_gateway :: string
  tf_max_uses :: int
  tf_expires_in :: string
  tf_description :: string

text \<open>\<open>--max-uses\<close>, \<open>--expires-in\<close> and \<open>--description\<close> are optional.\<close>

definition tokenCreateFlags :: "string \<Rightarrow> int option \<Rightarrow> string option \<Rightarrow> string option \<Rightarrow> token_create_flags" where
  "tokenCreateFlags gateway maxUses expiresIn description =
     \<lparr>tf_gateway = gateway, tf_max_uses = case_option 10 id maxUses,
      tf_expires_in = case_option ''24h'' id expiresIn, tf_description = case_option [] id description\<rparr>"

definition tokenCreateCmd :: "settings \<Rightarrow> 's connection \<Rightarrow> token_create_flags \<Rightarrow> ('s cli, unit) em" where
  "tokenCreateCmd se cn fl = with_conn cn ''bootstrap token''
     (case se_parse se (tf_expires_in fl) of
        Inl e \<Rightarrow> failE (wrap ''invalid --expires-in'' e)
      | Inr dur \<Rightarrow>
          bindE (remote (cn_CreateBootstrapToken cn (authCtx se)
              \<lparr>cbt_GatewayId = tf_gateway fl, cbt_Description = tf_description fl, cbt_Labels = None,
               cbt_MaxUses = tf_max_uses fl, cbt_ExpiresInSeconds = se_seconds se dur\<rparr>)) (\<lambda>(tok, plain).
            print_lines
              [''Token ID:    '' @ bt_Id tok, ''Plaintext:   '' @ plain, ''Gateway:     '' @ bt_GatewayId tok,
               ''Max Uses:    '' @ itoa (bt_MaxUses tok), ''Expires At:  '' @ format_RFC3339 (bt_ExpiresAt tok)]))"

definition token_row :: "BootstrapToken \<Rightarrow> string list" where
  "token_row t = [bt_Id t, bt_GatewayId t, bt_Status t, itoa (bt_UsedCount t) @ ''/'' @ itoa (bt_MaxUses t), format_RFC3339 (bt_ExpiresAt t)]"

definition tokenListCmd :: "settings \<Rightarrow> 's connection \<Rightarrow> string \<Rightarrow> ('s cli, unit) em" where
  "tokenListCmd se cn gatewayID = with_conn cn ''bootstrap token''
     (bindE (remote (cn_ListBootstrapTokens cn (authCtx se) gatewayID None)) (\<lambda>tokens.
        print_table [''ID'', ''GATEWAY'', ''STATUS'', ''USED/MAX'', ''EXPIRES''] (map token_row tokens)))"

section \<open>Nodes\<close>

definition node_line :: "EdgeNode \<Rightarrow> string list" where
  "node_line n = [en_Id n, en_GatewayId n, en_Status n, if en_Online n then ''true'' else ''false'', en_AgentVersion n,
     opt_time (en_LastSeenAt n)]"

definition nodeListCmd :: "settings \<Rightarrow> 's connection \<Rightarrow> string \<Rightarrow> ('s cli, unit) em" where
  "nodeListCmd se cn gatewayID = with_conn cn ''node''
     (bindE (remote (cn_ListNodes cn (authCtx se) gatewayID None)) (\<lambda>(nodes, _).
        print_table [''ID'', ''GATEWAY'', ''STATUS'', ''ONLINE'', ''VERSION'', ''LAST SEEN''] (map node_line nodes)))"

definition nodeRevokeCmd :: "settings \<Rightarrow> 's connection \<Rightarrow> string \<Rightarrow> ('s cli, unit) em" where
  "nodeRevokeCmd se cn arg = with_conn cn ''identity''
     (bindE (remote (cn_RevokeIdentity cn (authCtx se) arg ''revoked via edgectl'')) (\<lambda>_.
        print_lines [''Node '' @ arg @ '' revoked successfully'']))"

section \<open>Deployments and tasks\<close>

text \<open>\<open>json.Marshal\<close> writes the keys of a map in order.\<close>

definition deployment_task :: "string \<Rightarrow> string \<Rightarrow> string \<Rightarrow> CreateTaskRequest" where
  "deployment_task model gatewayID runtime =
     \<lparr>ct_Type = ''DeployModel'', ct_Scope = TASK_SCOPE_REGION, ct_TargetGatewayId = gatewayID, ct_TargetNodeId = [],
      ct_Payload = Raw_JSON (json_of_smap [(''gateway_id'', gatewayID), (''model'', model), (''runtime'', runtime)]),
      ct_MaxRetries = 0, ct_TimeoutSeconds = 0, ct_CreatedBy = ''edgectl''\<rparr>"

definition deploymentCreateCmd :: "settings \<Rightarrow> 's connection \<Rightarrow> string \<Rightarrow> string \<Rightarrow> string option \<Rightarrow> ('s cli, unit) em" where
  "deploymentCreateCmd se cn model gatewayID runtimeFlag = with_conn cn ''deployment''
     (bindE (remote (cn_CreateTask cn (authCtx se) (deployment_task model gatewayID (case_option ''auto'' id runtimeFlag)))) (\<lambda>t.
        print_lines
          [''Task ID:   '' @ tm_Id t, ''Type:      '' @ tm_Type t, ''Status:    '' @ TaskStatus_String (tm_Status t),
           ''Gateway:   '' @ tm_TargetGatewayId t]))"

definition task_line :: "TaskMsg \<Rightarrow> string list" where
  "task_line t = [tm_Id t, tm_Type t, TaskStatus_String (tm_Status t), tm_TargetGatewayId t, tm_TargetNodeId t,
     format_RFC3339 (tm_CreatedAt t)]"

definition taskListCmd :: "settings \<Rightarrow> 's connection \<Rightarrow> string \<Rightarrow> ('s cli, unit) em" where
  "taskListCmd se cn gatewayID = with_conn cn ''task''
     (bindE (remote (cn_ListTasks cn (authCtx se)
         \<lparr>lt_TargetGatewayId = gatewayID, lt_TargetNodeId = [], lt_Status = TASK_STATUS_UNSPECIFIED, lt_Type = [], lt_Page = None\<rparr>))
       (\<lambda>(ts, _). print_table [''ID'', ''TYPE'', ''STATUS'', ''GATEWAY'', ''NODE'', ''CREATED''] (map task_line ts)))"

text \<open>The bytes of a payload or result: nil or empty prints nothing.\<close>

definition raw_line :: "(raw \<Rightarrow> string) \<Rightarrow> string \<Rightarrow> raw \<Rightarrow> string list" where
  "raw_line bytes label r = (if bytes r = [] then [] else [label @ bytes r])"

definition task_details :: "(raw \<Rightarrow> string) \<Rightarrow> TaskMsg \<Rightarrow> string list" where
  "task_details bytes t =
     [''ID:        '' @ tm_Id t, ''Type:      '' @ tm_Type t, ''Scope:     '' @ TaskScope_String (tm_Scope t),
      ''Status:    '' @ TaskStatus_String (tm_Status t), ''Gateway:   '' @ tm_TargetGatewayId t,
      ''Node:      '' @ tm_TargetNodeId t, ''Retries:   '' @ itoa (tm_RetryCount t) @ ''/'' @ itoa (tm_MaxRetries t),
      ''Created:   '' @ format_RFC3339 (tm_CreatedAt t)]
     @ raw_line bytes ''Payload:   '' (tm_Payload t) @ raw_line bytes ''Result:    '' (tm_Result t)"

definition taskGetCmd :: "(raw \<Rightarrow> string) \<Rightarrow> settings \<Rightarrow> 's connection \<Rightarrow> string \<Rightarrow> ('s cli, unit) em" where
  "taskGetCmd bytes se cn arg = with_conn cn ''task''
     (bindE (remote (cn_GetTask cn (authCtx se) arg)) (\<lambda>t. print_lines (task_details bytes t)))"

section \<open>Gateways\<close>

text \<open>The loop over a label looks for the first \<open>=\<close>; a later label replaces an earlier one with the same key.\<close>

definition split_label :: "string \<Rightarrow> go_err + string \<times> string" where
  "split_label raw =
     (case dropWhile (\<lambda>c. c \<noteq> CHR ''='') raw of
        [] \<Rightarrow> Inl (GoErr (''invalid label '' @ quote raw @ '': expected key=value''))
      | _ # v \<Rightarrow>
          let k = takeWhile (\<lambda>c. c \<noteq> CHR ''='') raw in
          if k = [] then Inl (GoErr (''invalid label '' @ quote raw @ '': empty key'')) else Inr (k, v))"

fun add_labels :: "string list \<Rightarrow> smap \<Rightarrow> go_err + smap" where
  "add_labels [] out = Inr out"
| "add_labels (raw # items) out =
     (case split_label raw of Inl e \<Rightarrow> Inl e | Inr (k, v) \<Rightarrow> add_labels items (AList.update k v out))"

definition parseLabelPairs :: "string list \<Rightarrow> go_err + smap" where
  "parseLabelPairs items = add_labels items []"

definition summary_field :: "string \<Rightarrow> string \<Rightarrow> string list" where
  "summary_field label v = (if v \<noteq> [] then [label @ v] else [])"

fun join_labels :: "smap \<Rightarrow> string" where
  "join_labels [] = []"
| "join_labels [(k, v)] = k @ ''='' @ v"
| "join_labels ((k, v) # m) = k @ ''='' @ v @ '','' @ join_labels m"

definition printGatewaySummary :: "GatewayMsg \<Rightarrow> bool \<Rightarrow> string list" where
  "printGatewaySummary gw alreadyExisted =
     (if alreadyExisted then ''Gateway '' @ quote (gg_Name gw) @ '' already exists; using existing record.'' else ''Gateway registered.'')
     # [''ID:       '' @ gg_Id gw, ''Name:     '' @ gg_Name gw]
     @ summary_field ''Region:   '' (gg_Region gw) @ summary_field ''Endpoint: '' (gg_Endpoint gw)
     @ summary_field ''Status:   '' (gg_Status gw)
     @ (if gg_Labels gw \<noteq> [] then [''Labels:   '' @ join_labels (gg_Labels gw)] else [])"

definition print_gateway :: "GatewayMsg \<Rightarrow> bool \<Rightarrow> ('s cli, unit) em" where
  "print_gateway gw existed = print_lines (printGatewaySummary gw existed @ [''gateway_id: '' @ gg_Id gw])"

definition lookupGatewayByName :: "settings \<Rightarrow> 's connection \<Rightarrow> string \<Rightarrow> ('s, GatewayMsg) em" where
  "lookupGatewayByName se cn name =
     bindE (map_err (wrap ''list gateways'') (cn_ListGateways cn (authCtx se) [] (Some \<lparr>pg_PageSize = 1000, pg_PageToken = []\<rparr>)))
       (\<lambda>(gws, _). case find (\<lambda>g. gg_Name g = name) gws of
          Some g \<Rightarrow> returnE g
        | None \<Rightarrow> failE (StatusErr NotFound (''gateway '' @ quote name @ '' not found'')))"

definition resolveGateway :: "settings \<Rightarrow> 's connection \<Rightarrow> string \<Rightarrow> bool \<Rightarrow> ('s, GatewayMsg) em" where
  "resolveGateway se cn target byName =
     (if \<not> byName then map_err (wrap ''get gateway'') (cn_GetGateway cn (authCtx se) target)
      else lookupGatewayByName se cn target)"

record register_flags =
  rf_name :: string
  rf_region :: string
  rf_endpoint :: string
  rf_labels :: "string list"

definition gatewayRegisterCmd :: "settings \<Rightarrow> 's connection \<Rightarrow> register_flags \<Rightarrow> ('s cli, unit) em" where
  "gatewayRegisterCmd se cn fl = with_conn cn ''gateway''
     (case parseLabelPairs (rf_labels fl) of
        Inl e \<Rightarrow> failE e
      | Inr parsedLabels \<Rightarrow>
          bindE (result_of (remote (cn_CreateGateway cn (authCtx se)
              \<lparr>cg_Name = rf_name fl, cg_Region = rf_region fl,
               cg_Labels = (if parsedLabels \<noteq> [] then Some parsedLabels else None), cg_Endpoint = rf_endpoint fl\<rparr>))) (\<lambda>r.
            case r of
              Inr gw \<Rightarrow> print_gateway gw False
            | Inl e \<Rightarrow>
                if has_code AlreadyExists e
                then bindE (map_err (wrap (''gateway '' @ quote (rf_name fl) @ '' already exists but lookup failed''))
                         (remote (lookupGatewayByName se cn (rf_name fl)))) (\<lambda>gw. print_gateway gw True)
                else failE (wrap ''register gateway'' e)))"

definition gateway_line :: "GatewayMsg \<Rightarrow> string list" where
  "gateway_line g = [gg_Id g, gg_Name g, gg_Region g, gg_Status g, gg_Endpoint g, opt_time (Some (gg_CreatedAt g))]"

definition gatewayListCmd :: "settings \<Rightarrow> 's connection \<Rightarrow> string \<Rightarrow> ('s cli, unit) em" where
  "gatewayListCmd se cn region = with_conn cn ''gateway''
     (bindE (map_err (wrap ''list gateways'') (remote (cn_ListGateways cn (authCtx se) region None))) (\<lambda>(gws, _).
        print_table [''ID'', ''NAME'', ''REGION'', ''STATUS'', ''ENDPOINT'', ''CREATED''] (map gateway_line gws)))"

definition gatewayGetCmd :: "settings \<Rightarrow> 's connection \<Rightarrow> string \<Rightarrow> bool \<Rightarrow> ('s cli, unit) em" where
  "gatewayGetCmd se cn arg byName = with_conn cn ''gateway''
     (bindE (remote (resolveGateway se cn arg byName)) (\<lambda>gw. print_gateway gw False))"

text \<open>\<open>--region\<close> and \<open>--endpoint\<close> are options: whether the flag was given (\<open>Changed\<close>) matters.\<close>

record update_flags =
  uf_by_name :: bool
  uf_region :: "string option"
  uf_endpoint :: "string option"
  uf_labels :: "string list"
  uf_clear :: bool

definition update_request :: "string \<Rightarrow> update_flags \<Rightarrow> smap \<Rightarrow> UpdateGatewayRequest" where
  "update_request i fl parsedLabels =
     \<lparr>ug_Id = i,
      ug_Labels = (if uf_clear fl then Some [] else if parsedLabels \<noteq> [] then Some parsedLabels else None),
      ug_Endpoint = case_option [] id (uf_endpoint fl), ug_Region = case_option [] id (uf_region fl)\<rparr>"

definition gatewayUpdateCmd :: "settings \<Rightarrow> 's connection \<Rightarrow> string \<Rightarrow> update_flags \<Rightarrow> ('s cli, unit) em" where
  "gatewayUpdateCmd se cn arg fl =
     (case parseLabelPairs (uf_labels fl) of
        Inl e \<Rightarrow> failE e
      | Inr parsedLabels \<Rightarrow>
          if uf_clear fl \<and> parsedLabels \<noteq> []
          then failE (GoErr ''--clear-labels cannot be combined with --label (they are mutually exclusive)'')
          else if uf_region fl = None \<and> uf_endpoint fl = None \<and> \<not> uf_clear fl \<and> parsedLabels = []
          then failE (GoErr ''no update fields provided: pass at least one of --region / --endpoint / --label / --clear-labels'')
          else with_conn cn ''gateway''
            (bindE (remote (resolveGateway se cn arg (uf_by_name fl))) (\<lambda>gw.
             bindE (map_err (wrap ''update gateway'') (remote (cn_UpdateGateway cn (authCtx se) (update_request (gg_Id gw) fl parsedLabels))))
               (\<lambda>gw1. print_gateway gw1 False))))"

definition gatewayDeleteCmd :: "settings \<Rightarrow> 's connection \<Rightarrow> string \<Rightarrow> ('s cli, unit) em" where
  "gatewayDeleteCmd se cn arg = with_conn cn ''gateway''
     (bindE (map_err (wrap ''delete gateway'') (remote (cn_DeleteGateway cn (authCtx se) arg))) (\<lambda>_.
        print_lines [''Gateway '' @ arg @ '' deleted'']))"

section \<open>The program\<close>

datatype command =
    Token_Create token_create_flags | Token_List string | Node_List string | Node_Revoke string
  | Deployment_Create string string "string option" | Task_List string | Task_Get string
  | Gateway_Register register_flags | Gateway_List string | Gateway_Get string bool
  | Gateway_Update string update_flags | Gateway_Delete string | Version_Command

fun run_command :: "(raw \<Rightarrow> string) \<Rightarrow> settings \<Rightarrow> 's connection \<Rightarrow> command \<Rightarrow> ('s cli, unit) em" where
  "run_command bytes se cn (Token_Create fl) = tokenCreateCmd se cn fl"
| "run_command bytes se cn (Token_List g) = tokenListCmd se cn g"
| "run_command bytes se cn (Node_List g) = nodeListCmd se cn g"
| "run_command bytes se cn (Node_Revoke arg) = nodeRevokeCmd se cn arg"
| "run_command bytes se cn (Deployment_Create m g r) = deploymentCreateCmd se cn m g r"
| "run_command bytes se cn (Task_List g) = taskListCmd se cn g"
| "run_command bytes se cn (Task_Get arg) = taskGetCmd bytes se cn arg"
| "run_command bytes se cn (Gateway_Register fl) = gatewayRegisterCmd se cn fl"
| "run_command bytes se cn (Gateway_List region) = gatewayListCmd se cn region"
| "run_command bytes se cn (Gateway_Get arg byName) = gatewayGetCmd se cn arg byName"
| "run_command bytes se cn (Gateway_Update arg fl) = gatewayUpdateCmd se cn arg fl"
| "run_command bytes se cn (Gateway_Delete arg) = gatewayDeleteCmd se cn arg"
| "run_command bytes se cn Version_Command = print_lines [Version_Info (se_build se) ''edgectl'']"

text \<open>The exit status of \<open>main\<close>.\<close>

definition edgectl_main :: "(raw \<Rightarrow> string) \<Rightarrow> settings \<Rightarrow> 's connection \<Rightarrow> command \<Rightarrow> 's \<Rightarrow> int \<times> string list \<times> 's" where
  "edgectl_main bytes se cn c s =
     (case run_command bytes se cn c \<lparr>cl_remote = s, cl_out = []\<rparr> of
        (r, w) \<Rightarrow> (if isl r then 1 else 0, cl_out w, cl_remote w))"

end
