(* ===== verification/Edgectl_Correct.thy ===== *)
theory Edgectl_Correct
  imports Edgectl Platform
begin

text \<open>
  The commands of \<open>edgectl\<close> against the services of the control plane: what registering a gateway, creating a
  deployment, revoking a node and updating a gateway do to the database, and what they print.
\<close>

section \<open>Labels\<close>

lemma split_at_equals:
  assumes "CHR ''='' \<notin> set k"
  shows "dropWhile (\<lambda>c. c \<noteq> CHR ''='') (k @ CHR ''='' # v) = CHR ''='' # v"
    and "takeWhile (\<lambda>c. c \<noteq> CHR ''='') (k @ CHR ''='' # v) = k"
  using assms by (induction k) auto

lemma split_label_pair: "k \<noteq> [] \<Longrightarrow> CHR ''='' \<notin> set k \<Longrightarrow> split_label (k @ ''='' @ v) = Inr (k, v)"
  by (simp add: split_label_def split_at_equals)

lemma update_new_key: "k \<notin> fst ` set m \<Longrightarrow> AList.update k v m = m @ [(k, v)]"
  by (induction m) auto

lemma add_labels_pairs:
  assumes "distinct (map fst (out @ m))" "\<forall>(k, v) \<in> set m. k \<noteq> [] \<and> CHR ''='' \<notin> set k"
  shows "add_labels (map (\<lambda>(k, v). k @ ''='' @ v) m) out = Inr (out @ m)"
  using assms
proof (induction m arbitrary: out)
  case (Cons kv m)
  obtain k v where kv: "kv = (k, v)" by (cases kv)
  have "k \<notin> fst ` set out" using Cons.prems(1) kv by auto
  then have "AList.update k v out = out @ [(k, v)]" by (rule update_new_key)
  moreover have "split_label (k @ ''='' @ v) = Inr (k, v)" using Cons.prems(2) kv by (intro split_label_pair) auto
  ultimately show ?case using Cons kv by auto
qed simp

text \<open>Parsing the labels a map is written as gives the map.\<close>

lemma parse_labels_roundtrip:
  "distinct (map fst m) \<Longrightarrow> \<forall>(k, v) \<in> set m. k \<noteq> [] \<and> CHR ''='' \<notin> set k \<Longrightarrow>
     parseLabelPairs (map (\<lambda>(k, v). k @ ''='' @ v) m) = Inr m"
  unfolding parseLabelPairs_def using add_labels_pairs [of "[]" m] by simp

lemma split_label_sound: "split_label raw = Inr (k, v) \<Longrightarrow> raw = k @ ''='' @ v \<and> k \<noteq> [] \<and> CHR ''='' \<notin> set k"
proof -
  assume s: "split_label raw = Inr (k, v)"
  then obtain c where d: "dropWhile (\<lambda>c. c \<noteq> CHR ''='') raw = c # v" "k = takeWhile (\<lambda>c. c \<noteq> CHR ''='') raw" "k \<noteq> []"
    by (auto simp: split_label_def Let_def split: list.splits if_splits)
  then have "c = CHR ''=''" by (metis (mono_tags, lifting) dropWhile_eq_Cons_conv)
  with d show ?thesis by (metis (mono_tags, lifting) append_Cons append_Nil set_takeWhileD takeWhile_dropWhile_id)
qed

section \<open>Registering a gateway\<close>

definition register_config :: "register_flags \<Rightarrow> smap \<Rightarrow> SelfRegisterConfig" where
  "register_config fl labels = \<lparr>sc_GatewayID = rf_name fl, sc_Region = rf_region fl, sc_Endpoint = rf_endpoint fl,
     sc_Name = rf_name fl, sc_Labels = labels\<rparr>"

lemma lookup_is_find:
  "lookupGatewayByName se cn name = findGatewayByName (cn_ListGateways cn (authCtx se) []) name"
  by (rule ext) (auto simp: lookupGatewayByName_def findGatewayByName_def bindE_def map_err_def returnE_def failE_def
      split: prod.splits sum.splits option.splits)

lemma print_gateway_run:
  "print_gateway gw b w = (Inr (), w\<lparr>cl_out := cl_out w @ printGatewaySummary gw b @ [''gateway_id: '' @ gg_Id gw]\<rparr>)"
  by (simp add: print_gateway_def print_lines_def)

lemma register_like_gateway:
  assumes "cn_dial cn = None" "cn_close cn = None" "rf_name fl \<noteq> []" "parseLabelPairs (rf_labels fl) = Inr labels"
  shows "case SelfRegister (cn_CreateGateway cn (authCtx se)) (cn_ListGateways cn (authCtx se) []) (register_config fl labels) (cl_remote w) of
      (Inr r, s1) \<Rightarrow> \<exists>out. gatewayRegisterCmd se cn fl w =
        (Inr (), w\<lparr>cl_remote := s1, cl_out := cl_out w @ out @ [''gateway_id: '' @ sres_GatewayID r]\<rparr>)
    | (Inl e, s1) \<Rightarrow> \<exists>e1. gatewayRegisterCmd se cn fl w = (Inl e1, w\<lparr>cl_remote := s1\<rparr>)"
proof -
  let ?req = "\<lparr>cg_Name = rf_name fl, cg_Region = rf_region fl,
      cg_Labels = (if labels \<noteq> [] then Some labels else None), cg_Endpoint = rf_endpoint fl\<rparr>"
  have req: "register_request (register_config fl labels) = ?req"
    and nm: "register_name (register_config fl labels) = rf_name fl" and gid: "sc_GatewayID (register_config fl labels) = rf_name fl"
    using assms(3) by (simp_all add: register_request_def register_name_def register_config_def)
  obtain r s1 where c: "cn_CreateGateway cn (authCtx se) ?req (cl_remote w) = (r, s1)" by force
  obtain r2 s2 where l: "findGatewayByName (cn_ListGateways cn (authCtx se) []) (rf_name fl) s1 = (r2, s2)" by force
  note cmd = gatewayRegisterCmd_def with_conn_def assms(1,2,4) bindE_def result_of_def map_err_def failE_def
    lookup_is_find remote_def c l
  show ?thesis
  proof (cases r)
    case (Inr gw)
    with assms(3) req nm gid c show ?thesis by (auto simp: SelfRegister_def Let_def cmd print_gateway_run)
  next
    case (Inl e)
    show ?thesis
    proof (cases "has_code AlreadyExists e")
      case False
      with Inl assms(3) req nm gid c show ?thesis by (simp add: SelfRegister_def Let_def cmd)
    next
      case True
      with Inl assms(3) req nm gid c l show ?thesis
        by (cases r2) (auto simp: SelfRegister_def Let_def cmd print_gateway_run)
    qed
  qed
qed

section \<open>The control plane\<close>

text \<open>The services of a control plane; its server has no interceptors, so the metadata are ignored. \<open>rnd\<close> are the
  random bytes of a new token.\<close>

definition control_plane :: "platform \<Rightarrow> go_err + string \<Rightarrow> session connection" where
  "control_plane pf rnd =
     \<lparr>cn_dial = None, cn_close = None,
      cn_CreateBootstrapToken = (\<lambda>_. CreateBootstrapToken (pf_crypto pf) rnd),
      cn_ListBootstrapTokens = (\<lambda>_. ListBootstrapTokens), cn_ListNodes = (\<lambda>_. ListNodes), cn_RevokeIdentity = (\<lambda>_. RevokeIdentity),
      cn_CreateTask = (\<lambda>_. Service_CreateTask), cn_ListTasks = (\<lambda>_. Service_ListTasks), cn_GetTask = (\<lambda>_. Service_GetTask),
      cn_CreateGateway = (\<lambda>_. CreateGateway), cn_ListGateways = (\<lambda>_. ListGateways), cn_GetGateway = (\<lambda>_. GetGateway),
      cn_UpdateGateway = (\<lambda>_. UpdateGateway), cn_DeleteGateway = (\<lambda>_. DeleteGateway)\<rparr>"

lemma control_plane_simps [simp]:
  "cn_dial (control_plane pf rnd) = None" "cn_close (control_plane pf rnd) = None"
  "cn_RevokeIdentity (control_plane pf rnd) m = RevokeIdentity" "cn_CreateTask (control_plane pf rnd) m = Service_CreateTask"
  "cn_GetTask (control_plane pf rnd) m = Service_GetTask" "cn_CreateGateway (control_plane pf rnd) m = CreateGateway"
  "cn_ListGateways (control_plane pf rnd) m = ListGateways" "cn_GetGateway (control_plane pf rnd) m = GetGateway"
  "cn_UpdateGateway (control_plane pf rnd) m = UpdateGateway" "cn_DeleteGateway (control_plane pf rnd) m = DeleteGateway"
  by (simp_all add: control_plane_def)

definition shell_on :: "session \<Rightarrow> session cli" where
  "shell_on d = \<lparr>cl_remote = d, cl_out = []\<rparr>"

lemma shell_on_simps [simp]: "cl_remote (shell_on d) = d" "cl_out (shell_on d) = []"
  by (simp_all add: shell_on_def)

text \<open>C37: registering a gateway from the command line is the self-registration of a gateway with the same name,
  region, endpoint and labels: the same calls, an error exactly when the other has one, and the id of the
  answer on the last line. And like it, it depends on the labels: on the control plane a registration
  without a \<open>--label\<close> always fails, even when the gateway exists, and stores nothing.\<close>

theorem register_entry_points:
  assumes "cn_dial cn = None" "cn_close cn = None" "rf_name fl \<noteq> []" "parseLabelPairs (rf_labels fl) = Inr labels"
  shows "(case SelfRegister (cn_CreateGateway cn (authCtx se)) (cn_ListGateways cn (authCtx se) []) (register_config fl labels) (cl_remote w) of
      (Inr r, s1) \<Rightarrow> \<exists>out. gatewayRegisterCmd se cn fl w =
        (Inr (), w\<lparr>cl_remote := s1, cl_out := cl_out w @ out @ [''gateway_id: '' @ sres_GatewayID r]\<rparr>)
    | (Inl e, s1) \<Rightarrow> \<exists>e1. gatewayRegisterCmd se cn fl w = (Inl e1, w\<lparr>cl_remote := s1\<rparr>))
    \<and> (labels = [] \<and> quiet d \<longrightarrow> (\<exists>e d1. gatewayRegisterCmd se (control_plane pf rnd) fl (shell_on d) = (Inl e, shell_on d1)
        \<and> tabs d1 = tabs d))"
proof (intro conjI impI)
  assume "labels = [] \<and> quiet d"
  with create_without_labels [of d "\<lparr>cg_Name = rf_name fl, cg_Region = rf_region fl, cg_Labels = None, cg_Endpoint = rf_endpoint fl\<rparr>"] assms(3)
  obtain m d1 where "CreateGateway \<lparr>cg_Name = rf_name fl, cg_Region = rf_region fl, cg_Labels = None, cg_Endpoint = rf_endpoint fl\<rparr> d =
      (Inl (StatusErr Internal m), d1)" "tabs d1 = tabs d" by auto
  then show "\<exists>e d1. gatewayRegisterCmd se (control_plane pf rnd) fl (shell_on d) = (Inl e, shell_on d1) \<and> tabs d1 = tabs d"
    using assms(4) \<open>labels = [] \<and> quiet d\<close>
    by (simp add: gatewayRegisterCmd_def with_conn_def bindE_def result_of_def remote_def has_code_def status_from_error_def
        failE_def shell_on_def)
qed (rule register_like_gateway [OF assms])

section \<open>Deployments\<close>

lemma deliver_rows_InrD: "deliver_rows g n rs d = (Inr out, d1) \<Longrightarrow> out = map node_task rs"
  by (induction rs arbitrary: d out d1) (auto simp: returnE_def dest!: bindE_InrD)

lemma PullTasks_InrD:
  assumes "PullTasks g ctx n m d = (Inr ts, d1)"
  shows "ts = map node_task (pull_candidates g n (max_tasks m) (tabs d))"
proof -
  from assms obtain d1' where "WithTx (pull_body g n (max_tasks m)) d = (Inr ts, d1')"
    by (auto simp: PullTasks_def with_node_def failE_def split: if_splits option.splits dest!: map_err_InrD)
  then obtain d2 d3 where "pull_body g n (max_tasks m) d2 = (Inr ts, d3)" "tabs d2 = tabs d"
    by (blast dest: WithTx_InrD)
  then show ?thesis
    by (auto simp: pull_body_def dest!: bindE_InrD map_err_InrD sql_read_InrD deliver_rows_InrD)
qed

lemma regional_not_pulled:
  assumes "db_wf (tabs d)" "r \<in> set (tasks (tabs d))" "t_Scope r \<noteq> ''Node''" "PullTasks g ctx n m d = (Inr ts, d1)"
  shows "t_ID r \<notin> nt_TaskId ` set ts"
proof
  assume "t_ID r \<in> nt_TaskId ` set ts"
  with PullTasks_InrD [OF assms(4)] obtain x where "x \<in> set (pull_candidates g n (max_tasks m) (tabs d))" "t_ID x = t_ID r"
    by (auto simp: node_task_def)
  with pull_candidates_mem have "pullable g n x" "x = r" using assms(1,2) task_id_eq by blast+
  with assms(3) show False by (simp add: pullable_def)
qed

text \<open>C8: a deployment created from the command line goes nowhere. For a gateway that exists, \<open>edgectl deployment create\<close>
  adds a Pending task of the region and prints its id; but as long as the task stays as it is, no pull of any
  node through any gateway hands it out, and \<open>edgectl task get\<close> with the printed id fails.\<close>

theorem deployment_stranded:
  assumes "quiet d" "fresh_supply d" "gatewayID \<in> gateway_ids (tabs d)"
  shows "\<exists>r d1 out. deploymentCreateCmd se (control_plane pf rnd) model gatewayID rt (shell_on d) =
      (Inr (), \<lparr>cl_remote = d1, cl_out = (''Task ID:   '' @ t_ID r) # out\<rparr>)
    \<and> tasks (tabs d1) = tasks (tabs d) @ [r] \<and> t_Status r = ''Pending'' \<and> t_Type r = ''DeployModel''
    \<and> (\<forall>d2. db_wf (tabs d2) \<and> r \<in> set (tasks (tabs d2)) \<longrightarrow>
        (\<forall>g ctx n m ts d3. PullTasks g ctx n m d2 = (Inr ts, d3) \<longrightarrow> t_ID r \<notin> nt_TaskId ` set ts)
        \<and> (\<exists>e w2. taskGetCmd bytes se (control_plane pf rnd) (t_ID r) (shell_on d2) = (Inl e, w2)))"
proof -
  let ?req = "deployment_task model gatewayID (case_option ''auto'' id rt)"
  let ?r = "created_task ?req ''Region'' d"
  obtain d1 ev where run: "Service_CreateTask ?req d = (Inr (rowToProto ?r), d1)"
    "tabs d1 = (tabs d)\<lparr>tasks := tasks (tabs d) @ [?r], task_events := task_events (tabs d) @ [ev]\<rparr>"
    by (rule Service_CreateTask_quiet [OF assms(1,2), of ?req "''Region''"])
      (use assms(3) in \<open>auto simp: deployment_task_def protoToScope_def\<close>)
  have r: "t_Status ?r = ''Pending''" "t_Type ?r = ''DeployModel''" "t_Scope ?r = ''Region''" "t_Result ?r = Nil_Raw"
    by (simp_all add: created_task_def new_task_row_def deployment_task_def)
  have out: "\<exists>out. deploymentCreateCmd se (control_plane pf rnd) model gatewayID rt (shell_on d) =
      (Inr (), \<lparr>cl_remote = d1, cl_out = (''Task ID:   '' @ t_ID ?r) # out\<rparr>)"
    using run(1) by (simp add: deploymentCreateCmd_def with_conn_def bindE_def remote_def print_lines_def shell_on_def rowToProto_def)
  have stuck: "\<exists>e w2. taskGetCmd bytes se (control_plane pf rnd) (t_ID ?r) (shell_on d2) = (Inl e, w2)"
    if "db_wf (tabs d2)" "?r \<in> set (tasks (tabs d2))" for d2
  proof (cases "t_ID ?r = []")
    case True
    then show ?thesis
      by (simp add: taskGetCmd_def with_conn_def bindE_def remote_def Service_GetTask_def failE_def shell_on_def)
  next
    case False
    from get_task_null [OF task_by_id_wf [OF that] r(4) False] obtain m d3 where
      "Service_GetTask (t_ID ?r) d2 = (Inl (StatusErr Internal m), d3)" by blast
    then show ?thesis by (simp add: taskGetCmd_def with_conn_def bindE_def remote_def shell_on_def)
  qed
  have away: "t_ID ?r \<notin> nt_TaskId ` set ts"
    if "db_wf (tabs d2)" "?r \<in> set (tasks (tabs d2))" "PullTasks g ctx n m d2 = (Inr ts, d3)" for d2 g ctx n m ts d3
    using regional_not_pulled [OF that(1,2) _ that(3)] r(3) by simp
  have new: "tasks (tabs d1) = tasks (tabs d) @ [?r]" using run(2) by simp
  from out obtain out where "deploymentCreateCmd se (control_plane pf rnd) model gatewayID rt (shell_on d) =
      (Inr (), \<lparr>cl_remote = d1, cl_out = (''Task ID:   '' @ t_ID ?r) # out\<rparr>)" by blast
  with new r(1,2) away stuck show ?thesis by blast
qed

section \<open>Revoking a node\<close>

text \<open>C25: a node cannot be revoked, neither by the service nor from the command line: \<open>edgectl node revoke\<close> fails and
  changes nothing, because the transaction of \<open>RevokeNode\<close> never commits (its audit event names an
  identity as the task, which no task is).\<close>

theorem node_revoke_never:
  assumes "\<forall>i \<in> set (edge_identities (tabs d)). id_NodeID i = nodeID \<longrightarrow> id_ID i \<notin> task_ids (tabs d)"
  shows "(\<exists>e d1. RevokeNode nodeID reason d = (Inl e, d1) \<and> tabs d1 = tabs d)
    \<and> (\<exists>e d1. nodeRevokeCmd se (control_plane pf rnd) nodeID (shell_on d) = (Inl e, shell_on d1) \<and> tabs d1 = tabs d)"
proof
  show "\<exists>e d1. RevokeNode nodeID reason d = (Inl e, d1) \<and> tabs d1 = tabs d" using assms by (rule revoke_never_commits)
  obtain e d1 where "RevokeNode nodeID ''revoked via edgectl'' d = (Inl e, d1)" "tabs d1 = tabs d"
    using revoke_never_commits [OF assms] by blast
  then show "\<exists>e d1. nodeRevokeCmd se (control_plane pf rnd) nodeID (shell_on d) = (Inl e, shell_on d1) \<and> tabs d1 = tabs d"
    by (simp add: nodeRevokeCmd_def with_conn_def bindE_def remote_def RevokeIdentity_def failE_def map_err_def shell_on_def)
qed

section \<open>Updating a gateway\<close>

definition patched_gateway :: "update_flags \<Rightarrow> smap \<Rightarrow> timestamp \<Rightarrow> gatewayRow \<Rightarrow> gatewayRow" where
  "patched_gateway fl labels now r =
     r\<lparr>gw_Labels := (if uf_clear fl then empty_object else if labels \<noteq> [] then Raw_JSON (json_of_smap labels) else gw_Labels r),
       gw_Endpoint := (if uf_endpoint fl \<in> {None, Some []} then gw_Endpoint r else the (uf_endpoint fl)),
       gw_Region := (if uf_region fl \<in> {None, Some []} then gw_Region r else the (uf_region fl)), gw_UpdatedAt := now\<rparr>"

lemma updated_patched: "updated_gateway (update_request i fl labels) now r = patched_gateway fl labels now r"
  by (simp add: updated_gateway_def update_request_def patched_gateway_def marshalLabels_def nonempty_or_def empty_object_def
      split: option.splits)

lemma GetGateway_quiet:
  assumes "quiet d" "db_wf (tabs d)" "r \<in> set (gateways (tabs d))" "gw_ID r \<noteq> []"
  shows "GetGateway (gw_ID r) d = (Inr (rowToGatewayProto r), d\<lparr>stmt_no := Suc (stmt_no d)\<rparr>)"
  using assms(1,4) gateway_row_find [OF assms(2,3)] by (simp add: GetGateway_def getGatewayRow_def run_defs sql_row_quiet)

lemma UpdateGateway_patches:
  assumes "quiet d" "db_wf (tabs d)" "r \<in> set (gateways (tabs d))" "gw_ID r \<noteq> []"
  obtains d1 where
    "UpdateGateway (update_request (gw_ID r) fl labels) d = (Inr (rowToGatewayProto (patched_gateway fl labels (clock d) r)), d1)"
    "tabs d1 = (tabs d)\<lparr>gateways := map (\<lambda>x. if x = r then patched_gateway fl labels (clock d) r else x) (gateways (tabs d))\<rparr>"
proof -
  have same: "x = r" if "x \<in> set (gateways (tabs d))" "gw_ID x = gw_ID r" for x
    using that assms(2,3) by (auto simp: db_wf_def gateways_wf_def distinct_map inj_on_def)
  have "ug_Id (update_request (gw_ID r) fl labels) = gw_ID r" by (simp add: update_request_def)
  with gateway_update_delete [OF assms, of "update_request (gw_ID r) fl labels"] obtain d1 where
    "UpdateGateway (update_request (gw_ID r) fl labels) d = (Inr (rowToGatewayProto (patched_gateway fl labels (clock d) r)), d1)"
    "tabs d1 = (tabs d)\<lparr>gateways := update_where (\<lambda>x. gw_ID x = gw_ID r) (patched_gateway fl labels (clock d)) (gateways (tabs d))\<rparr>"
    unfolding updated_patched by blast
  moreover have "update_where (\<lambda>x. gw_ID x = gw_ID r) (patched_gateway fl labels (clock d)) (gateways (tabs d)) =
      map (\<lambda>x. if x = r then patched_gateway fl labels (clock d) r else x) (gateways (tabs d))"
    unfolding update_where_def using same by (intro map_cong) auto
  ultimately show thesis using that by simp
qed

text \<open>Updating a gateway from the command line. Flags that contradict each other, or none, or a malformed label
  fail before any call. Otherwise the gateway of the id gets exactly the attributes of the flags and the
  time of the update, no other row changes, and its id is on the last line; but a region or endpoint
  given as the empty text is dropped without a word.\<close>

lemma gateway_update_command:
  assumes "quiet d" "db_wf (tabs d)" "r \<in> set (gateways (tabs d))" "gw_ID r = arg" "arg \<noteq> []" "\<not> uf_by_name fl"
  shows "case parseLabelPairs (uf_labels fl) of
      Inl e \<Rightarrow> gatewayUpdateCmd se (control_plane pf rnd) arg fl (shell_on d) = (Inl e, shell_on d)
    | Inr labels \<Rightarrow>
        if uf_clear fl \<and> labels \<noteq> [] \<or> \<not> uf_clear fl \<and> labels = [] \<and> uf_region fl = None \<and> uf_endpoint fl = None
        then \<exists>e. gatewayUpdateCmd se (control_plane pf rnd) arg fl (shell_on d) = (Inl e, shell_on d)
        else \<exists>d1 out. gatewayUpdateCmd se (control_plane pf rnd) arg fl (shell_on d) =
              (Inr (), \<lparr>cl_remote = d1, cl_out = out @ [''gateway_id: '' @ arg]\<rparr>)
            \<and> tabs d1 = (tabs d)\<lparr>gateways := map (\<lambda>x. if x = r then patched_gateway fl labels (clock d) r else x) (gateways (tabs d))\<rparr>"
proof (cases "parseLabelPairs (uf_labels fl)")
  case (Inl e)
  then show ?thesis by (simp add: gatewayUpdateCmd_def failE_def)
next
  case (Inr labels)
  let ?bad = "uf_clear fl \<and> labels \<noteq> [] \<or> \<not> uf_clear fl \<and> labels = [] \<and> uf_region fl = None \<and> uf_endpoint fl = None"
  show ?thesis
  proof (cases ?bad)
    case True
    then have "\<exists>e. gatewayUpdateCmd se (control_plane pf rnd) arg fl (shell_on d) = (Inl e, shell_on d)"
      using Inr by (auto simp: gatewayUpdateCmd_def failE_def)
    with True Inr show ?thesis by simp
  next
    case False
    let ?d = "d\<lparr>stmt_no := Suc (stmt_no d)\<rparr>"
    have got: "GetGateway arg d = (Inr (rowToGatewayProto r), ?d)" using GetGateway_quiet assms by blast
    have d: "quiet ?d" "db_wf (tabs ?d)" "r \<in> set (gateways (tabs ?d))" "gw_ID r \<noteq> []" using assms by simp_all
    obtain d1 where
      "UpdateGateway (update_request (gw_ID r) fl labels) ?d = (Inr (rowToGatewayProto (patched_gateway fl labels (clock ?d) r)), d1)"
      "tabs d1 = (tabs ?d)\<lparr>gateways := map (\<lambda>x. if x = r then patched_gateway fl labels (clock ?d) r else x) (gateways (tabs ?d))\<rparr>"
      by (rule UpdateGateway_patches [OF d])
    then have upd: "UpdateGateway (update_request arg fl labels) ?d =
          (Inr (rowToGatewayProto (patched_gateway fl labels (clock d) r)), d1)"
      "tabs d1 = (tabs d)\<lparr>gateways := map (\<lambda>x. if x = r then patched_gateway fl labels (clock d) r else x) (gateways (tabs d))\<rparr>"
      using assms(4) by simp_all
    have ids: "gg_Id (rowToGatewayProto r) = arg" "gg_Id (rowToGatewayProto (patched_gateway fl labels (clock d) r)) = arg"
      using assms(4) by (simp_all add: rowToGatewayProto_def patched_gateway_def)
    have "gatewayUpdateCmd se (control_plane pf rnd) arg fl (shell_on d) =
        (Inr (), \<lparr>cl_remote = d1, cl_out = printGatewaySummary (rowToGatewayProto (patched_gateway fl labels (clock d) r)) False
           @ [''gateway_id: '' @ arg]\<rparr>)"
      using False Inr assms(6) got upd(1) ids
      by (auto simp: gatewayUpdateCmd_def with_conn_def bindE_def remote_def map_err_def resolveGateway_def print_gateway_run shell_on_def)
    with upd(2) False Inr show ?thesis by auto
  qed
qed

section \<open>Examples\<close>

definition example_settings :: settings where
  "example_settings = \<lparr>se_server = ''localhost:9090'', se_token = [], se_build = dev_build, se_parse = (\<lambda>s. Inr (24 * hour)),
     se_seconds = (\<lambda>d. d div second)\<rparr>"

definition one_gateway :: session where
  "one_gateway = session_at (empty_tables\<lparr>gateways := [example_gateway]\<rparr>) 9"

abbreviation example_plane :: "session connection" where
  "example_plane \<equiv> control_plane example_platform (Inr ''r'')"

lemma one_gateway_facts:
  "quiet one_gateway" "db_wf (tabs one_gateway)" "fresh_supply one_gateway" "gateways (tabs one_gateway) = [example_gateway]"
  "clock one_gateway = 9" "gw_ID example_gateway = ''g1''" "tasks (tabs one_gateway) = []"
proof -
  show "fresh_supply one_gateway"
    unfolding one_gateway_def by (rule session_at_fresh) (simp add: all_ids_def empty_tables_def example_gateway_def)
  show "db_wf (tabs one_gateway)"
    by (simp add: one_gateway_def db_wf_def table_wf_defs table_ids empty_tables_def example_gateway_def)
qed (simp_all add: one_gateway_def empty_tables_def example_gateway_def)

theorem register_entry_points_witness:
  "\<exists>e d1. gatewayRegisterCmd example_settings example_plane \<lparr>rf_name = ''gw-eu'', rf_region = ''eu'', rf_endpoint = [], rf_labels = []\<rparr>
     (shell_on one_gateway) = (Inl e, shell_on d1) \<and> gateways (tabs d1) = [example_gateway]"
proof -
  let ?fl = "\<lparr>rf_name = ''gw-eu'', rf_region = ''eu'', rf_endpoint = [], rf_labels = []\<rparr>"
  have "parseLabelPairs (rf_labels ?fl) = Inr []" by (simp add: parseLabelPairs_def)
  then obtain e d1 where "gatewayRegisterCmd example_settings example_plane ?fl (shell_on one_gateway) = (Inl e, shell_on d1)"
      "tabs d1 = tabs one_gateway"
    using register_entry_points [of example_plane ?fl "[]" example_settings "shell_on one_gateway" one_gateway example_platform "Inr ''r''"]
      one_gateway_facts(1) by auto
  with one_gateway_facts(4) show ?thesis by (intro exI [of _ e] exI [of _ d1]) simp
qed

theorem deployment_stranded_witness:
  "\<exists>r d1 out. deploymentCreateCmd example_settings example_plane ''m:1'' ''g1'' None (shell_on one_gateway) =
      (Inr (), \<lparr>cl_remote = d1, cl_out = (''Task ID:   '' @ t_ID r) # out\<rparr>) \<and> tasks (tabs d1) = [r]"
proof -
  have "''g1'' \<in> gateway_ids (tabs one_gateway)" using one_gateway_facts(4,6) by (simp add: table_ids)
  from deployment_stranded [OF one_gateway_facts(1,3) this, of example_settings example_platform "Inr ''r''" "''m:1''" None "\<lambda>_. []"]
  show ?thesis using one_gateway_facts(7) by auto
qed

theorem node_revoke_never_witness:
  "\<exists>t e d1. length (edge_identities t) = 1
     \<and> nodeRevokeCmd example_settings example_plane ''n1'' (shell_on (session_at t 9)) = (Inl e, shell_on d1) \<and> tabs d1 = t"
proof -
  let ?i = "new_identity example_input ''n1'' \<lparr>sr_CertPEM = [], sr_Fingerprint = [], sr_ExpiresAt = 90\<rparr> ''i1'' 0"
  let ?t = "empty_tables\<lparr>gateways := [example_gateway], edge_nodes := [Integrity.example_node], edge_identities := [?i]\<rparr>"
  have "\<forall>i \<in> set (edge_identities (tabs (session_at ?t 9))). id_NodeID i = ''n1'' \<longrightarrow> id_ID i \<notin> task_ids (tabs (session_at ?t 9))"
    by (simp add: task_ids_def empty_tables_def)
  from node_revoke_never [OF this, of "[]" example_settings example_platform "Inr ''r''"] show ?thesis
    by (intro exI [of _ ?t]) auto
qed

lemma gateway_update_example:
  "\<exists>d1 out. gatewayUpdateCmd example_settings example_plane ''g1''
       \<lparr>uf_by_name = False, uf_region = Some ''us'', uf_endpoint = Some [], uf_labels = [''env=prod''], uf_clear = False\<rparr> (shell_on one_gateway) =
      (Inr (), \<lparr>cl_remote = d1, cl_out = out @ [''gateway_id: g1'']\<rparr>)
     \<and> gateways (tabs d1) = [example_gateway\<lparr>gw_Labels := Raw_JSON (json_of_smap [(''env'', ''prod'')]), gw_Region := ''us'', gw_UpdatedAt := 9\<rparr>]"
proof -
  let ?fl = "\<lparr>uf_by_name = False, uf_region = Some ''us'', uf_endpoint = Some [], uf_labels = [''env=prod''], uf_clear = False\<rparr>"
  have p: "parseLabelPairs (uf_labels ?fl) = Inr [(''env'', ''prod'')]" by code_simp
  have g: "example_gateway \<in> set (gateways (tabs one_gateway))" using one_gateway_facts(4) by simp
  have new: "patched_gateway ?fl [(''env'', ''prod'')] 9 example_gateway =
      example_gateway\<lparr>gw_Labels := Raw_JSON (json_of_smap [(''env'', ''prod'')]), gw_Region := ''us'', gw_UpdatedAt := 9\<rparr>"
    by (simp add: patched_gateway_def example_gateway_def)
  from gateway_update_command [OF one_gateway_facts(1,2) g one_gateway_facts(6), of ?fl example_settings example_platform "Inr ''r''"]
  show ?thesis unfolding p using one_gateway_facts(4,5) new by auto
qed

end
