(* ===== verification/Mem_Driver.thy ===== *)
theory Mem_Driver
  imports Error_Monad "HOL-Library.AList"
begin

text \<open>
  The in-memory SQL driver of the unit tests (\<open>internal/store/memdriver.go\<close>): canned answers, found by a part
  of the text of a query. A Go map is an association list, and the order in which a loop visits its keys is a
  parameter, \<open>visit\<close>: Go leaves it open.
\<close>

datatype driver_value = DV_Nil | DV_Int int | DV_Float string | DV_Bool bool | DV_Bytes string | DV_String string | DV_Time timestamp

record memDB =
  rowByQuery :: "(string \<times> driver_value list) list"
  rowsByQuery :: "(string \<times> driver_value list list) list"
  noRowsByQuery :: "(string \<times> bool) list"
  rowsAffectedByQuery :: "(string \<times> int) list"
  errorsByQuery :: "(string \<times> go_err) list"
  defaultEmptyNoRows :: bool
  nextID :: int

section \<open>Setting up\<close>

definition ResetMemDB :: memDB where
  "ResetMemDB = \<lparr>rowByQuery = [], rowsByQuery = [], noRowsByQuery = [], rowsAffectedByQuery = [], errorsByQuery = [],
     defaultEmptyNoRows = True, nextID = 0\<rparr>"

definition SetDefaultEmptyNoRows :: "bool \<Rightarrow> memDB \<Rightarrow> memDB" where
  "SetDefaultEmptyNoRows enabled m = m\<lparr>defaultEmptyNoRows := enabled\<rparr>"

definition SetRowForQuery :: "string \<Rightarrow> driver_value list \<Rightarrow> memDB \<Rightarrow> memDB" where
  "SetRowForQuery substring row m =
     (let lc = to_lower substring in
      m\<lparr>rowByQuery := AList.update lc row (rowByQuery m), noRowsByQuery := AList.delete lc (noRowsByQuery m)\<rparr>)"

definition SetRowsForQuery :: "string \<Rightarrow> driver_value list list \<Rightarrow> memDB \<Rightarrow> memDB" where
  "SetRowsForQuery substring rows m = m\<lparr>rowsByQuery := AList.update (to_lower substring) rows (rowsByQuery m)\<rparr>"

definition SetNoRowsForQuery :: "string \<Rightarrow> memDB \<Rightarrow> memDB" where
  "SetNoRowsForQuery substring m =
     (let lc = to_lower substring in
      m\<lparr>noRowsByQuery := AList.update lc True (noRowsByQuery m), rowByQuery := AList.delete lc (rowByQuery m)\<rparr>)"

definition SetRowsAffectedForQuery :: "string \<Rightarrow> int \<Rightarrow> memDB \<Rightarrow> memDB" where
  "SetRowsAffectedForQuery substring n m = m\<lparr>rowsAffectedByQuery := AList.update (to_lower substring) n (rowsAffectedByQuery m)\<rparr>"

definition SetErrorForQuery :: "string \<Rightarrow> go_err \<Rightarrow> memDB \<Rightarrow> memDB" where
  "SetErrorForQuery substring e m = m\<lparr>errorsByQuery := AList.update (to_lower substring) e (errorsByQuery m)\<rparr>"

definition NextID :: "memDB \<Rightarrow> string \<times> memDB" where
  "NextID m = (let n = wrap64 (nextID m + 1) in (itoa n, m\<lparr>nextID := n\<rparr>))"

definition fingerprint :: "driver_value list \<Rightarrow> string" where
  "fingerprint args = (case args of DV_String s # _ \<Rightarrow> s | DV_Int n # _ \<Rightarrow> itoa n | _ \<Rightarrow> [])"

section \<open>Finding an answer\<close>

text \<open>The maps are searched in turn: errors, single rows, lists of rows, no rows, rows affected.\<close>

definition registered :: "memDB \<Rightarrow> string list list" where
  "registered m = [map fst (errorsByQuery m), map fst (rowByQuery m), map fst (rowsByQuery m), map fst (noRowsByQuery m),
     map fst (rowsAffectedByQuery m)]"

fun first_key :: "(string list \<Rightarrow> string list) \<Rightarrow> string \<Rightarrow> string list list \<Rightarrow> string option" where
  "first_key visit lc [] = None"
| "first_key visit lc (ks # rest) =
     (case find (contains_str lc) (visit ks) of Some k \<Rightarrow> Some k | None \<Rightarrow> first_key visit lc rest)"

definition findFirstMatch :: "(string list \<Rightarrow> string list) \<Rightarrow> memDB \<Rightarrow> string \<Rightarrow> string option" where
  "findFirstMatch visit m lc = first_key visit lc (registered m)"

definition memStmt_Exec :: "(string list \<Rightarrow> string list) \<Rightarrow> string \<Rightarrow> memDB \<Rightarrow> go_err + int" where
  "memStmt_Exec visit query m =
     (case findFirstMatch visit m (to_lower query) of
        None \<Rightarrow> Inr 1
      | Some k \<Rightarrow>
          (case map_of (errorsByQuery m) k of
             Some e \<Rightarrow> Inl e
           | None \<Rightarrow> (case map_of (rowsAffectedByQuery m) k of Some n \<Rightarrow> Inr n | None \<Rightarrow> Inr 1)))"

text \<open>A result set: a single row, a list of rows, or an error for the first \<open>Next\<close>.\<close>

record memRows =
  mr_row :: "driver_value list option"
  mr_rows :: "driver_value list list"
  mr_idx :: nat
  mr_err :: "go_err option"

definition EOF :: go_err where "EOF = GoErr ''EOF''"

definition single_row :: "driver_value list \<Rightarrow> memRows" where
  "single_row row = \<lparr>mr_row = Some row, mr_rows = [], mr_idx = 0, mr_err = None\<rparr>"

definition no_row :: memRows where
  "no_row = \<lparr>mr_row = None, mr_rows = [], mr_idx = 0, mr_err = Some EOF\<rparr>"

definition memStmt_QueryContext :: "(string list \<Rightarrow> string list) \<Rightarrow> string \<Rightarrow> driver_value list \<Rightarrow> memDB \<Rightarrow> go_err + memRows" where
  "memStmt_QueryContext visit query args m =
     (let fallback = (if args = [] \<and> defaultEmptyNoRows m then Inr (single_row [DV_Int 0]) else Inr no_row) in
      case findFirstMatch visit m (to_lower query) of
        None \<Rightarrow> fallback
      | Some k \<Rightarrow>
          (case map_of (errorsByQuery m) k of
             Some e \<Rightarrow> Inl e
           | None \<Rightarrow>
               if map_of (noRowsByQuery m) k = Some True then Inr no_row
               else (case map_of (rowByQuery m) k of
                 Some row \<Rightarrow> Inr (single_row row)
               | None \<Rightarrow>
                   (case map_of (rowsByQuery m) k of
                      Some rows \<Rightarrow> Inr \<lparr>mr_row = None, mr_rows = rows, mr_idx = 0, mr_err = None\<rparr>
                    | None \<Rightarrow> fallback))))"

definition memRows_Columns :: "memRows \<Rightarrow> string list" where
  "memRows_Columns r =
     (let names = (\<lambda>n. map (\<lambda>i. ''c'' @ itoa (int i)) [0..<n]) in
      case mr_row r of
        Some row \<Rightarrow> names (length row)
      | None \<Rightarrow> (case mr_rows r of first # _ \<Rightarrow> names (length first) | [] \<Rightarrow> []))"

text \<open>The values of a row go to the destinations there are.\<close>

definition fill :: "driver_value list \<Rightarrow> driver_value list \<Rightarrow> driver_value list" where
  "fill row dest = take (length dest) row @ drop (length row) dest"

definition memRows_Next :: "driver_value list \<Rightarrow> memRows \<Rightarrow> (go_err + driver_value list) \<times> memRows" where
  "memRows_Next dest r =
     (case mr_err r of
        Some e \<Rightarrow> (Inl e, r)
      | None \<Rightarrow>
          (case mr_row r of
             Some row \<Rightarrow> if mr_idx r > 0 then (Inl EOF, r) else (Inr (fill row dest), r\<lparr>mr_idx := Suc (mr_idx r)\<rparr>)
           | None \<Rightarrow>
               if mr_idx r \<ge> length (mr_rows r) then (Inl EOF, r)
               else (Inr (fill (mr_rows r ! mr_idx r) dest), r\<lparr>mr_idx := Suc (mr_idx r)\<rparr>)))"

section \<open>Canned answers\<close>

text \<open>All rows of a result set, for a query with as many destinations as columns.\<close>

lemma next_row: "length dest = length row \<Longrightarrow> fill row dest = row"
  by (simp add: fill_def)

lemma find_unique_key:
  assumes "\<forall>x \<in> set xs. P x \<longrightarrow> x = k" "P k"
  shows "find P xs = (if k \<in> set xs then Some k else None)"
proof (cases "find P xs")
  case None
  with assms(2) show ?thesis by (auto simp: find_None_iff)
next
  case (Some y)
  then have y: "y \<in> set xs" "P y" using find_Some_set by force+
  then have "y = k" using bspec [OF assms(1) y(1)] by simp
  with Some y(1) show ?thesis by simp
qed

text \<open>If one registered part alone occurs in a query, the answer does not depend on the order of visits; with two
  parts in the same map it does: it is not the first registered that wins.\<close>

lemma match_unambiguous:
  assumes "\<forall>ks. set (visit ks) = set ks" "k \<in> set (concat (registered m))" "contains_str lc k"
    and "\<forall>x \<in> set (concat (registered m)). contains_str lc x \<longrightarrow> x = k"
  shows "findFirstMatch visit m lc = Some k"
proof -
  have "first_key visit lc kss = (if k \<in> set (concat kss) then Some k else None)"
    if "\<forall>x \<in> set (concat kss). contains_str lc x \<longrightarrow> x = k" for kss
    using that
  proof (induction kss)
    case (Cons ks kss)
    have "\<forall>x \<in> set (visit ks). contains_str lc x \<longrightarrow> x = k" using Cons.prems assms(1) by simp
    from find_unique_key [OF this assms(3)] assms(1) have "find (contains_str lc) (visit ks) = (if k \<in> set ks then Some k else None)"
      by simp
    moreover have "first_key visit lc kss = (if k \<in> set (concat kss) then Some k else None)"
      using Cons.prems by (intro Cons.IH) simp
    ultimately show ?case by simp
  qed simp
  from this [OF assms(4)] assms(2) show ?thesis by (simp add: findFirstMatch_def)
qed

lemma configured_row_served:
  assumes "\<forall>ks. set (visit ks) = set ks" "contains_str (to_lower query) (to_lower part)"
  shows "memStmt_QueryContext visit query args (SetRowForQuery part row ResetMemDB) = Inr (single_row row)"
    "length dest = length row \<Longrightarrow> fst (memRows_Next dest (single_row row)) = Inr row"
proof -
  let ?m = "SetRowForQuery part row ResetMemDB"
  have reg: "set (concat (registered ?m)) = {to_lower part}"
    by (simp add: registered_def SetRowForQuery_def ResetMemDB_def)
  have "findFirstMatch visit ?m (to_lower query) = Some (to_lower part)"
    by (rule match_unambiguous) (use assms reg in auto)
  then show "memStmt_QueryContext visit query args ?m = Inr (single_row row)"
    by (simp add: memStmt_QueryContext_def Let_def) (simp add: SetRowForQuery_def ResetMemDB_def)
qed (simp add: memRows_Next_def single_row_def next_row)

lemma match_depends_on_order:
  assumes "r1 \<noteq> r2"
  shows "\<exists>m query. memStmt_QueryContext id query [] m \<noteq> memStmt_QueryContext rev query [] m
    \<and> m = SetRowForQuery ''b'' r2 (SetRowForQuery ''a'' r1 ResetMemDB)"
proof -
  let ?m = "SetRowForQuery ''b'' r2 (SetRowForQuery ''a'' r1 ResetMemDB)"
  have low: "to_lower ''a'' = ''a''" "to_lower ''b'' = ''b''" "to_lower ''ab'' = ''ab''" by (simp_all add: str)
  have rows: "rowByQuery ?m = [(''a'', r1), (''b'', r2)]" "errorsByQuery ?m = []" "noRowsByQuery ?m = []"
    by (simp_all add: SetRowForQuery_def ResetMemDB_def low)
  have c: "contains_str ''ab'' ''a''" "contains_str ''ab'' ''b''" by (simp_all add: str)
  have "findFirstMatch id ?m ''ab'' = Some ''a''" "findFirstMatch rev ?m ''ab'' = Some ''b''"
    by (simp_all add: findFirstMatch_def registered_def rows c del: contains_str.simps)
  then have "memStmt_QueryContext id ''ab'' [] ?m = Inr (single_row r1)" "memStmt_QueryContext rev ''ab'' [] ?m = Inr (single_row r2)"
    by (simp_all add: memStmt_QueryContext_def low rows)
  then show ?thesis using assms by (intro exI [of _ ?m] exI [of _ "''ab''"]) (simp add: single_row_def)
qed

end
