(* ===== verification/Task_Results.thy ===== *)
theory Task_Results
  imports Platform Task_Runner
begin

text \<open>
  What becomes of the tasks of the platform. The store reads the result of a task into a
  \<open>json.RawMessage\<close>, and \<open>database/sql\<close> cannot scan the NULL a task is created with into it; here it is proved
  that no sequence of calls replaces that NULL, so that no task is ever finished.
\<close>

section \<open>Open tasks\<close>

definition open_task :: "TaskRow \<Rightarrow> bool" where
  "open_task r = (t_Result r = Nil_Raw \<and> t_Status r \<in> {''Pending'', ''Running''})"

definition all_open :: "tables \<Rightarrow> bool" where
  "all_open t = list_all open_task (tasks t)"

text \<open>A lookup finds nothing it can read, so the operations that start with one leave the tables alone.\<close>

lemma GetTaskForUpdate_fails:
  assumes "all_open (tabs d)"
  obtains e d1 where "GetTaskForUpdate i d = (Inl e, d1)" "tabs d1 = tabs d"
proof -
  obtain q d1 where run: "GetTaskForUpdate i d = (q, d1)" by force
  have same: "tabs d1 = tabs d" using keepD [OF keep_GetTaskForUpdate [of "\<lambda>t. t = tabs d"] _ run] by simp
  have "q \<noteq> Inr r" for r
  proof
    assume "q = Inr r"
    with run obtain r' d2 where "sql_row (task_by_id i) d = (Inr r', d2)" "scan_task r' d2 = (Inr r, d1)"
      by (auto simp: GetTaskForUpdate_def dest!: map_err_InrD bindE_InrD)
    then have "r \<in> set (tasks (tabs d))" "t_Result r \<noteq> Nil_Raw"
      by (auto simp: scan_task_def failE_def returnE_def task_by_id_def find_Some_iff dest!: sql_row_InrD split: if_splits)
    with assms show False by (auto simp: all_open_def open_task_def list_all_iff)
  qed
  with run same that show ?thesis by (cases q) blast+
qed

lemma blocked_body:
  assumes "\<And>d. all_open (tabs d) \<Longrightarrow> \<exists>e d1. m d = (Inl e, d1) \<and> tabs d1 = tabs d"
  shows "keep all_open (WithTx m)" "all_open (tabs d) \<Longrightarrow> isl (fst (WithTx m d))"
proof -
  have "\<exists>e d1. WithTx m d = (Inl e, d1) \<and> tabs d1 = tabs d \<and> True" if "all_open (tabs d)" for d
    by (rule tx_lookup_fails) (metis assms that, simp)
  note run = this
  show "keep all_open (WithTx m)" by (rule keepI) (metis run prod.inject)
  show "isl (fst (WithTx m d))" if "all_open (tabs d)" using run [OF that] by auto
qed

lemma cancel_blocked: "all_open (tabs d) \<Longrightarrow> \<exists>e d1. cancel_body i reason d = (Inl e, d1) \<and> tabs d1 = tabs d"
  by (auto simp: cancel_body_def bindE_def elim: GetTaskForUpdate_fails [of d i])

lemma report_blocked: "all_open (tabs d) \<Longrightarrow> \<exists>e d1. report_body req st d = (Inl e, d1) \<and> tabs d1 = tabs d"
  by (auto simp: report_body_def Let_def bindE_def elim: GetTaskForUpdate_fails [of d "rr_TaskId req"])

section \<open>Statements\<close>

lemma keep_open_inserts [keeps]:
  "keep all_open (insert_gateway g)" "keep all_open (insert_node n)" "keep all_open (insert_identity i)"
  "keep all_open (insert_token k)" "keep all_open (insert_run r)" "keep all_open (insert_event e)"
  "keep all_open (insert_model m)" "keep all_open (insert_profile p)" "keep all_open (insert_deployment d)"
  unfolding insert_gateway_def insert_node_def insert_identity_def insert_token_def insert_run_def insert_event_def
    insert_model_def insert_profile_def insert_deployment_def
  by (rule keep_sql; simp add: Let_def guarded_Inr all_open_def; fastforce)+

lemma keep_open_updates [keeps]:
  "keep all_open (update_gateways c1 p1 f1)" "keep all_open (update_nodes c2 p2 f2)" "keep all_open (update_tokens p3 f3)"
  "keep all_open (update_identities p4 f4)" "keep all_open (update_runs c5 p5 f5)"
  "keep all_open (update_deployments c6 p6 f6)"
  unfolding update_gateways_def update_nodes_def update_tokens_def update_identities_def update_runs_def update_deployments_def
  by (rule keep_sql; simp add: Let_def guarded_Inr all_open_def; fastforce)+

lemma keep_open_direct [keeps]:
  "keep all_open (Touch g m v n)" "keep all_open (EvictLRU c g)" "keep all_open (UpsertRuntimeState n' m' v' r s j)"
  "keep all_open (Token_UpdateStatus i s')" "keep all_open (audit_revocation n'' reason)"
  unfolding Touch_def EvictLRU_def UpsertRuntimeState_def Token_UpdateStatus_def audit_revocation_def Let_def
  by (intro keeps keep_sql; (auto simp: guarded_Inr all_open_def split: if_splits)?)+

lemma keep_open_insert_task: "(\<And>i now. open_task (mk i now)) \<Longrightarrow> keep all_open (insert_task mk)"
  unfolding insert_task_def by (rule keep_sql) (auto simp: Let_def guarded_Inr all_open_def)

lemma keep_open_update_tasks: "(\<And>now r. open_task r \<Longrightarrow> open_task (f now r)) \<Longrightarrow> keep all_open (update_tasks cs p f)"
  unfolding update_tasks_def
  by (rule keep_sql) (auto simp: guarded_Inr all_open_def list_all_iff update_where_def)

section \<open>Operations\<close>

lemma keep_open_store [keeps]:
  "keep all_open (createEventTx a b c e f j)" "keep all_open (CreateTaskEvent a b c e f j)"
  "keep all_open (AtomicClaim i owner dur)" "keep all_open (MarkDelivered i)"
  unfolding createEventTx_def CreateTaskEvent_def AtomicClaim_def MarkDelivered_def Let_def
  by (intro keeps keep_open_update_tasks; simp add: open_task_def)+

lemma keep_open_CreateTask: "t_Status row \<in> {''Pending'', ''Running''} \<Longrightarrow> keep all_open (CreateTask row)"
  unfolding CreateTask_def by (intro keeps keep_open_insert_task) (simp add: open_task_def)

lemma keep_open_task_service [keeps]:
  "keep all_open (Service_CreateTask req)" "keep all_open (Service_GetTask i)"
  "keep all_open (Service_ListTasks lt)" "keep all_open (Service_CancelTask i reason)"
proof -
  show "keep all_open (Service_CreateTask req)"
    unfolding Service_CreateTask_def Let_def by (intro keeps keep_open_CreateTask) (simp add: new_task_row_def)
  show "keep all_open (Service_CancelTask i reason)"
    unfolding Service_CancelTask_def by (intro keeps blocked_body cancel_blocked)
qed (simp_all add: keeps keep_reads Service_ListTasks_def Let_def case_prod_unfold)

lemma keep_open_deploy_service [keeps]:
  "keep all_open (Service_CreateDeployment dc)" "keep all_open (Service_GetDeployment i)"
  "keep all_open (Service_ListDeployments dl)" "keep all_open (Service_UpdateDeployment du)"
  unfolding Service_CreateDeployment_def Service_GetDeployment_def Service_UpdateDeployment_def Service_ListDeployments_def
    update_deployment_body_def CreateDeployment_def Store_UpdateDeployment_def Let_def case_prod_unfold
  by (intro keeps)+

lemma keep_open_create_nodes [keeps]: "keep all_open (create_node_tasks p payload ns)"
  by (induction ns) (auto intro!: keeps keep_open_insert_task simp: open_task_def default_task_def)

lemma keep_open_reconcile [keeps]: "keep all_open (reconcile CreateDeploymentTask)"
proof -
  have create: "keep all_open (CreateDeploymentTask dep m v rt ns payload)" for dep m v rt ns payload
    unfolding CreateDeploymentTask_def
    by (intro keeps keep_open_insert_task) (simp add: open_task_def default_task_def)
  have one: "keep all_open (reconcileOne CreateDeploymentTask d)" for d
    unfolding reconcileOne_def reconcile_body_def dispatch_tasks_def count_states_def UpdateDeploymentStatus_def
    by (auto intro!: keeps create split: prod.splits bool.splits)
  have "keep all_open (reconcile_each CreateDeploymentTask ds)" for ds
    by (induction ds) (auto intro!: keeps one)
  then show ?thesis unfolding reconcile_def by (intro keeps)
qed

lemma keep_open_sync [keeps]: "keep all_open (SyncGatewayStatus dp g)"
  unfolding SyncGatewayStatus_def by (intro keeps)

lemma keep_open_dispatcher [keeps]: "keep all_open (PushRegionalTask dp req)"
proof -
  have one: "keep all_open (expandAndClaim dp req n)" for n
    unfolding expandAndClaim_def expand_body_def
    by (intro keeps keep_open_CreateTask) (simp add: node_task_row_def)
  have "keep all_open (expand_nodes dp req ns x c)" for ns x c
  proof (induction ns arbitrary: x c)
    case (Cons n ns)
    show ?case
    proof (rule keepI)
      fix d :: session and r d1
      assume t: "all_open (tabs d)" and run: "expand_nodes dp req (n # ns) x c d = (r, d1)"
      obtain q d2 where e: "expandAndClaim dp req n d = (q, d2)" by force
      with run obtain x' c' where "expand_nodes dp req ns x' c' d2 = (r, d1)" by (cases q) auto
      with Cons.IH keepD [OF one t e] show "all_open (tabs d1)" by (rule keepD)
    qed
  qed (simp add: keeps)
  then show ?thesis unfolding PushRegionalTask_def by (intro keeps)
qed

lemma keep_open_deliver [keeps]: "keep all_open (deliver_rows g n rs)"
  by (induction rs) (auto intro!: keeps keep_open_update_tasks simp: mark_delivered_row_def open_task_def)

lemma keep_open_agent_service [keeps]:
  "keep all_open (ReportHeartbeat ctx n v ts)" "keep all_open (PullTasks g ctx n m)"
  "keep all_open (ReportTaskResult ctx req)" "keep all_open (ReportRuntimeState ctx n es)"
proof -
  have "keep all_open (upsert_entries n es)" for n es by (induction es) (auto intro!: keeps)
  then show "keep all_open (ReportRuntimeState ctx n es)"
    unfolding ReportRuntimeState_def HandleRuntimeState_def by (intro keeps)
  show "keep all_open (ReportTaskResult ctx req)"
    unfolding ReportTaskResult_def by (auto intro!: keeps blocked_body report_blocked split: sum.splits)
qed (unfold ReportHeartbeat_def PullTasks_def pull_body_def Let_def, (intro keeps)+)

lemma keep_open_bootstrap [keeps]:
  "keep all_open (Bootstrap cr s inp)" "keep all_open (Renew cr dt s n c)" "keep all_open (RevokeNode n reason)"
  unfolding Bootstrap_def bootstrap_body_def check_serial_def create_edge_node_def create_identity_def ValidateAndConsume_def
    Renew_def RevokeNode_def revoke_body_def Let_def by (intro keeps)+

lemma keep_open_onboarding [keeps]:
  "keep all_open (CreateBootstrapToken cr rnd tr)" "keep all_open (GetBootstrapToken i)" "keep all_open (ListBootstrapTokens g p)"
  "keep all_open (FreezeBootstrapToken i)" "keep all_open (RevokeBootstrapToken i)"
  "keep all_open (GetIdentity i)" "keep all_open (ListIdentities n p)" "keep all_open (RevokeIdentity i reason)"
  "keep all_open (GetNode i)" "keep all_open (ListNodes g p)" "keep all_open (UpdateNode i l)"
  "keep all_open (OnboardingGRPC_Bootstrap cr s inp)" "keep all_open (OnboardingGRPC_Renew cr dt s peer c)"
proof -
  have "keep all_open (TokenStore_Create cr rnd g de l m e)" for g de l m e
    unfolding TokenStore_Create_def by (auto intro!: keeps split: sum.splits)
  then show "keep all_open (CreateBootstrapToken cr rnd tr)" unfolding CreateBootstrapToken_def case_prod_unfold by (intro keeps)
qed (unfold GetBootstrapToken_def ListBootstrapTokens_def FreezeBootstrapToken_def RevokeBootstrapToken_def
    GetIdentity_def ListIdentities_def RevokeIdentity_def GetNode_def ListNodes_def UpdateNode_def OnboardingGRPC_Bootstrap_def
    OnboardingGRPC_Renew_def Let_def case_prod_unfold, (intro keeps)+)

lemma keep_open_proxy [keeps]:
  "keep all_open (Proxy_Bootstrap g (OnboardingGRPC_Bootstrap cr s) r)" "keep all_open (Proxy_Renew (OnboardingGRPC_Renew cr dt s) peer c)"
  unfolding Proxy_Bootstrap_def Proxy_Renew_def by (intro keeps)+

lemma keep_open_registries [keeps]:
  "keep all_open (CreateGateway gc)" "keep all_open (GetGateway i)" "keep all_open (ListGateways rg p)"
  "keep all_open (UpdateGateway gu)" "keep all_open (DeleteGateway i)"
  "keep all_open (CreateModel mc)" "keep all_open (GetModel mg)" "keep all_open (ListModels ml)"
  unfolding CreateGateway_def GetGateway_def getGatewayRow_def ListGateways_def UpdateGateway_def DeleteGateway_def
    CreateModel_def Model_Create_def GetModel_def Model_GetByID_def Model_GetByNameVersion_def model_scanOne_def
    ListModels_def Model_List_def Let_def case_prod_unfold by (intro keeps)+

lemma open_serveModel: "all_open (tabs d) \<Longrightarrow> all_open (tabs (fst (snd (serveModel h req (d, w)))))"
proof -
  assume t: "all_open (tabs d)"
  have read: "keep all_open (Model_GetByNameVersion n v)" for n v
    unfolding Model_GetByNameVersion_def model_scanOne_def by (intro keeps)
  have touch: "all_open (tabs (snd (Touch g m v n e)))" "all_open (tabs (snd (EvictLRU c g e)))" if "all_open (tabs e)"
    for g m v n c e using that keep_open_direct by (auto simp: keep_def)
  show ?thesis
    using t touch keepD [OF read t]
    by (auto simp: serveModel_def Let_def split: if_splits option.splits prod.splits sum.splits)
qed

lemma act_open: "all_open (tabs d) \<Longrightarrow> all_open (tabs (act pf a d))"
proof (cases a)
  case (At_control_plane c)
  then show "all_open (tabs d) \<Longrightarrow> ?thesis"
    by (cases c) (simp_all, (rule keep_after, rule keeps, assumption)+)
next
  case (At_gateway g c)
  then show "all_open (tabs d) \<Longrightarrow> ?thesis"
    by (cases c) (simp_all add: open_serveModel, (rule keep_after, rule keeps keep_reads, assumption)+)
qed (auto intro: keep_after keeps)

lemma run_open: "all_open (tabs d) \<Longrightarrow> all_open (tabs (fold (act pf) actions d))"
  by (induction actions arbitrary: d) (simp_all add: act_open)

section \<open>No task is ever finished\<close>

lemma GetTask_fails: "all_open (tabs d) \<Longrightarrow> isl (fst (Service_GetTask i d))"
proof (cases "\<exists>m d1. Service_GetTask i d = (Inr m, d1)")
  case True
  then obtain m d1 where "Service_GetTask i d = (Inr m, d1)" by blast
  moreover assume "all_open (tabs d)"
  ultimately show ?thesis
    by (auto simp: Service_GetTask_def GetTask_def all_open_def open_task_def scan_task_def failE_def returnE_def task_by_id_def
        find_Some_iff list_all_iff dest!: bindE_InrD map_err_InrD sql_row_InrD split: if_splits)
next
  case False
  then show ?thesis by (metis isl_def prod.collapse sum.collapse(2))
qed

lemma CancelTask_fails: "all_open (tabs d) \<Longrightarrow> isl (fst (Service_CancelTask i reason d))"
proof -
  assume "all_open (tabs d)"
  then have "isl (fst (WithTx (cancel_body i reason) d))" by (rule blocked_body(2) [rotated]) (rule cancel_blocked)
  then show ?thesis by (auto simp: Service_CancelTask_def bindE_def map_err_def failE_def split: prod.splits sum.splits)
qed

lemma ReportTaskResult_fails: "all_open (tabs d) \<Longrightarrow> isl (fst (ReportTaskResult ctx req d))"
proof -
  assume "all_open (tabs d)"
  then have "isl (fst (WithTx (report_body req st) d))" for st by (rule blocked_body(2) [rotated]) (rule report_blocked)
  then have "WithTx (report_body req st) d \<noteq> (Inr u, d1)" for st u d1 by (metis fst_conv sum.disc(2))
  then show ?thesis
    by (auto simp: ReportTaskResult_def with_node_def bindE_def map_err_def failE_def validateAuthenticatedNode_def
        split: prod.splits sum.splits)
qed

text \<open>C4: however the services are called and the controller runs, every task of the platform stays Pending or Running
  with no result: a task can be created, handed out and executed, but it can never be read by its id, cancelled or
  reported, by anyone and at any time.\<close>

theorem no_task_finishes:
  "let d = fold (act pf) actions (session_at empty_tables now) in
     list_all (\<lambda>r. t_Status r \<in> {''Pending'', ''Running''} \<and> t_Result r = Nil_Raw) (tasks (tabs d))
     \<and> isl (fst (Service_GetTask i d)) \<and> isl (fst (Service_CancelTask i reason d)) \<and> isl (fst (ReportTaskResult ctx req d))"
proof -
  let ?d = "fold (act pf) actions (session_at empty_tables now)"
  have o: "all_open (tabs ?d)" by (rule run_open) (simp add: all_open_def session_at_def empty_tables_def)
  then have "list_all (\<lambda>r. t_Status r \<in> {''Pending'', ''Running''} \<and> t_Result r = Nil_Raw) (tasks (tabs ?d))"
    by (auto simp: all_open_def open_task_def list_all_iff)
  with o show ?thesis by (simp add: Let_def GetTask_fails CancelTask_fails ReportTaskResult_fails)
qed

definition deployment_request :: CreateTaskRequest where
  "deployment_request = \<lparr>ct_Type = ''DeployModel'', ct_Scope = TASK_SCOPE_REGION, ct_TargetGatewayId = [], ct_TargetNodeId = [],
     ct_Payload = Nil_Raw, ct_MaxRetries = 0, ct_TimeoutSeconds = 0, ct_CreatedBy = ''ops''\<rparr>"

theorem no_task_finishes_witness:
  "let d = fold (act example_platform) [At_control_plane (CreateTask_call deployment_request), Environment 12 []]
       (session_at empty_tables 9) in
     length (tasks (tabs d)) = 1 \<and> isl (fst (Service_GetTask (t_ID (hd (tasks (tabs d)))) d))"
proof -
  have q: "quiet (session_at empty_tables 9)" "fresh_supply (session_at empty_tables 9)"
    by (simp_all add: session_at_fresh all_ids_def empty_tables_def)
  obtain d1 ev where run: "Service_CreateTask deployment_request (session_at empty_tables 9) = (Inr (rowToProto (created_task deployment_request ''Region'' (session_at empty_tables 9))), d1)"
    and t: "tabs d1 = (tabs (session_at empty_tables 9))\<lparr>tasks := tasks (tabs (session_at empty_tables 9)) @
        [created_task deployment_request ''Region'' (session_at empty_tables 9)],
        task_events := task_events (tabs (session_at empty_tables 9)) @ [ev]\<rparr>"
    by (rule Service_CreateTask_quiet [OF q, of deployment_request "''Region''" JNull])
      (simp_all add: deployment_request_def protoToScope_def)
  show ?thesis
    using no_task_finishes [of example_platform "[At_control_plane (CreateTask_call deployment_request), Environment 12 []]" 9]
      run t by (simp add: Let_def after_def session_at_def empty_tables_def)
qed

section \<open>An agent attached to the platform\<close>

text \<open>The runner of an agent whose calls are served by its gateway; \<open>of_bytes\<close> is the column for the bytes of a result.
  Meanwhile the services serve other calls.\<close>

definition agent_task_of :: "NodeTask \<Rightarrow> agent_task" where
  "agent_task_of t = \<lparr>at_TaskId = nt_TaskId t, at_Type = nt_Type t, at_Payload = nt_Payload t, at_TimeoutSeconds = nt_TimeoutSeconds t\<rparr>"

definition report_request :: "(string \<Rightarrow> raw) \<Rightarrow> pendingResult \<Rightarrow> ReportTaskResultRequest" where
  "report_request of_bytes pr = \<lparr>rr_TaskId = pr_TaskID pr, rr_NodeId = pr_NodeID pr, rr_Status = pr_Status pr,
     rr_ErrorMessage = pr_ErrorMessage pr, rr_Result = of_bytes (pr_Result pr)\<rparr>"

definition gateway_tasks :: "(string \<Rightarrow> raw) \<Rightarrow> string \<Rightarrow> rpc_ctx \<Rightarrow> session agent_client" where
  "gateway_tasks of_bytes g ctx =
     \<lparr>cl_pull = (\<lambda>n m. bindE (PullTasks g ctx n m) (\<lambda>ts. returnE (map agent_task_of ts))),
      cl_report = (\<lambda>pr. ReportTaskResult ctx (report_request of_bytes pr))\<rparr>"

inductive attached :: "platform \<Rightarrow> ('e, session) TaskRunner \<Rightarrow> ('e, session) runner \<Rightarrow> event list \<Rightarrow> ('e, session) runner \<Rightarrow> bool"
  for pf r w0 where
  start: "attached pf r w0 [] w0"
| poll: "attached pf r w0 evs w \<Longrightarrow> attached pf r w0 evs (poll r w)"
| job: "attached pf r w0 evs w \<Longrightarrow> i < length (rn_jobs w) \<Longrightarrow> advance_job r i w = (es, w1) \<Longrightarrow> attached pf r w0 (evs @ es) w1"
| crash: "attached pf r w0 evs w \<Longrightarrow> restart_runner r e w = (es, w1) \<Longrightarrow> attached pf r w0 (evs @ es) w1"
| platform: "attached pf r w0 evs w \<Longrightarrow> attached pf r w0 evs (w\<lparr>rn_gateway := act pf a (rn_gateway w)\<rparr>)"

lemma report_refused:
  assumes "all_open (tabs g)"
  obtains e g1 where "cl_report (gateway_tasks of_bytes gw ctx) pr g = (Inl e, g1)" "all_open (tabs g1)"
proof -
  obtain q g1 where run: "ReportTaskResult ctx (report_request of_bytes pr) g = (q, g1)" by force
  then obtain e where "q = Inl e" using ReportTaskResult_fails [OF assms, of ctx "report_request of_bytes pr"] by (auto elim: isl_def [THEN iffD1, THEN exE])
  moreover have "all_open (tabs g1)" by (rule keepD [OF keep_open_agent_service(3) assms run])
  ultimately show ?thesis using run that by (simp add: gateway_tasks_def)
qed

lemma start_tasks_gateway: "rn_gateway (fold start_task ts w) = rn_gateway w"
  by (induction ts arbitrary: w) (simp_all add: start_task_def markProcessed_def)

lemma poll_open:
  assumes "tr_client r = gateway_tasks of_bytes gw ctx" "all_open (tabs (rn_gateway w))"
  shows "all_open (tabs (rn_gateway (poll r w)))"
proof -
  have "keep all_open (cl_pull (tr_client r) n m)" for n m
    unfolding assms(1) gateway_tasks_def by (simp, intro keeps)
  then show ?thesis
    using assms(2) by (auto simp: poll_def start_tasks_gateway dest: keepD split: prod.splits sum.splits)
qed

lemma drain_open:
  assumes "tr_client r = gateway_tasks of_bytes gw ctx"
  shows "all_open (tabs (rn_gateway w)) \<Longrightarrow> case drain_entries r es w of (evs, w1) \<Rightarrow> evs = [] \<and> all_open (tabs (rn_gateway w1))"
proof (induction es arbitrary: w)
  case (Cons x es)
  obtain name node where x: "x = (name, node)" by force
  obtain q d where read: "os_ReadFile (filepath_Join [pendingDir (tr_cfg r), name]) (rn_disk w) = (q, d)" by force
  show ?case
  proof (cases "is_dir (Some node) \<or> filepath_Ext name \<noteq> ''.json'' \<or> isl q \<or> unmarshal_pending (projr q) = None")
    case True
    with Cons.prems Cons.IH [of w] Cons.IH [of "w\<lparr>rn_disk := d\<rparr>"] show ?thesis by (cases q) (auto simp: x read)
  next
    case False
    then obtain pr where pr: "unmarshal_pending (projr q) = Some pr" by blast
    from report_refused [OF Cons.prems] obtain e g where
      "cl_report (gateway_tasks of_bytes gw ctx) pr (rn_gateway w) = (Inl e, g)" "all_open (tabs g)" .
    with Cons.IH False pr show ?thesis by (cases q) (simp_all add: x read assms Let_def markProcessed_def)
  qed
qed simp

text \<open>No result is ever delivered: an agent reports in vain, whatever it executes and however often it starts again.\<close>

lemma job_open:
  assumes "tr_client r = gateway_tasks of_bytes gw ctx" "all_open (tabs (rn_gateway w))"
  shows "case advance_job r i w of (evs, w1) \<Rightarrow> all_open (tabs (rn_gateway w1)) \<and> (\<forall>pr. Report pr \<notin> set evs)"
proof (cases "rn_jobs w ! i")
  case (Saved pr)
  from report_refused [OF assms(2)] obtain e g where
    "cl_report (gateway_tasks of_bytes gw ctx) pr (rn_gateway w) = (Inl e, g)" "all_open (tabs g)" .
  with Saved assms(1) show ?thesis by (simp add: advance_job_def)
qed (use assms in \<open>auto simp: advance_job_def split: prod.splits\<close>)

lemma nothing_delivered:
  assumes "attached pf r w0 evs w" "tr_client r = gateway_tasks of_bytes gw ctx" "all_open (tabs (rn_gateway w0))"
  shows "all_open (tabs (rn_gateway w)) \<and> (\<forall>pr. Report pr \<notin> set evs)"
  using assms(1)
proof induction
  case start
  then show ?case using assms(3) by simp
next
  case (poll evs w)
  then show ?case using poll_open [OF assms(2)] by simp
next
  case (job evs w i es w1)
  then show ?case using job_open [OF assms(2), of w i] by auto
next
  case (crash evs w e es w1)
  obtain q d where read: "os_ReadDir (pendingDir (tr_cfg r)) (rn_disk w) = (q, d)" by force
  have "es = [] \<and> all_open (tabs (rn_gateway w1))"
    using crash drain_open [OF assms(2), of "w\<lparr>rn_exec := e, rn_processed := {}, rn_jobs := [], rn_disk := d\<rparr>" "projr q"]
    by (cases q) (auto simp: restart_runner_def drainPendingResults_def read)
  with crash show ?case by simp
next
  case (platform evs w a)
  then show ?case by (simp add: act_open)
qed

end
