(* ===== verification/Http_Front.thy ===== *)
theory Http_Front
  imports Task_Results
begin

text \<open>
  The HTTP front of the API server: the reverse proxy generated from the API
  (\<open>api/gen/go/edge/ai/api/v1/*.pb.gw.go\<close>) as \<open>registerGatewayHandlers\<close> of \<open>cmd/apiserver\<close> installs it. A request
  is decoded from JSON and sent to the gRPC server of the same process. The library of the proxy
  (\<open>grpc-gateway\<close>) is not in the repository: the JSON decoding of each request and the check of the
  headers are parameters, and which handler a path selects is left open.
\<close>

section \<open>Requests\<close>

text \<open>What decoding a body gives: nothing when it is empty, an error, or a message.\<close>

datatype 'm decoding = Decoded_EOF | Malformed string | Message 'm

record proxy_request =
  pq_Headers :: smap
  pq_Body :: string

record messages =
  js_CreateGateway :: "string \<Rightarrow> CreateGatewayRequest decoding"
  js_GetGateway :: "string \<Rightarrow> string decoding"
  js_ListGateways :: "string \<Rightarrow> (string \<times> PageRequest option) decoding"
  js_UpdateGateway :: "string \<Rightarrow> UpdateGatewayRequest decoding"
  js_DeleteGateway :: "string \<Rightarrow> string decoding"
  js_GetNode :: "string \<Rightarrow> string decoding"
  js_ListNodes :: "string \<Rightarrow> (string \<times> PageRequest option) decoding"
  js_UpdateNode :: "string \<Rightarrow> (string \<times> smap option) decoding"
  js_GetIdentity :: "string \<Rightarrow> string decoding"
  js_ListIdentities :: "string \<Rightarrow> (string \<times> PageRequest option) decoding"
  js_RevokeIdentity :: "string \<Rightarrow> (string \<times> string) decoding"
  js_Bootstrap :: "string \<Rightarrow> BootstrapInput decoding"
  js_Renew :: "string \<Rightarrow> string decoding"
  js_CreateBootstrapToken :: "string \<Rightarrow> CreateBootstrapTokenRequest decoding"
  js_GetBootstrapToken :: "string \<Rightarrow> string decoding"
  js_ListBootstrapTokens :: "string \<Rightarrow> (string \<times> PageRequest option) decoding"
  js_FreezeBootstrapToken :: "string \<Rightarrow> string decoding"
  js_RevokeBootstrapToken :: "string \<Rightarrow> string decoding"
  js_CreateTask :: "string \<Rightarrow> CreateTaskRequest decoding"
  js_GetTask :: "string \<Rightarrow> string decoding"
  js_ListTasks :: "string \<Rightarrow> ListTasksRequest decoding"
  js_CancelTask :: "string \<Rightarrow> (string \<times> string) decoding"
  js_CreateModel :: "string \<Rightarrow> CreateModelRequest decoding"
  js_GetModel :: "string \<Rightarrow> GetModelRequest decoding"
  js_ListModels :: "string \<Rightarrow> ListModelsRequest decoding"
  js_CreateDeployment :: "string \<Rightarrow> CreateDeploymentRequest decoding"
  js_GetDeployment :: "string \<Rightarrow> string decoding"
  js_ListDeployments :: "string \<Rightarrow> ListDeploymentsRequest decoding"
  js_UpdateDeployment :: "string \<Rightarrow> UpdateDeploymentRequest decoding"

text \<open>An empty body is a message without any field; the answer of the call is passed on.\<close>

definition request_rpc ::
  "(string \<Rightarrow> 'm decoding) \<Rightarrow> 'm \<Rightarrow> ('m \<Rightarrow> ('s, 'r) em) \<Rightarrow> string \<Rightarrow> ('s, 'r) em" where
  "request_rpc decode zero call body =
     (case decode body of
        Malformed e \<Rightarrow> failE (StatusErr InvalidArgument e)
      | Decoded_EOF \<Rightarrow> call zero
      | Message m \<Rightarrow> call m)"

definition request_GatewayService_CreateGateway_0 :: "messages \<Rightarrow> string \<Rightarrow> GatewayMsg dbm" where
  "request_GatewayService_CreateGateway_0 js =
     request_rpc (js_CreateGateway js) \<lparr>cg_Name = [], cg_Region = [], cg_Labels = None, cg_Endpoint = []\<rparr>
       CreateGateway"

definition request_GatewayService_GetGateway_0 :: "messages \<Rightarrow> string \<Rightarrow> GatewayMsg dbm" where
  "request_GatewayService_GetGateway_0 js = request_rpc (js_GetGateway js) [] GetGateway"

definition request_GatewayService_ListGateways_0 ::
  "messages \<Rightarrow> string \<Rightarrow> (GatewayMsg list \<times> PageResponse) dbm" where
  "request_GatewayService_ListGateways_0 js =
     request_rpc (js_ListGateways js) ([], None)
       (\<lambda>(g, p). ListGateways g p)"

definition request_GatewayService_UpdateGateway_0 :: "messages \<Rightarrow> string \<Rightarrow> GatewayMsg dbm" where
  "request_GatewayService_UpdateGateway_0 js =
     request_rpc (js_UpdateGateway js) \<lparr>ug_Id = [], ug_Labels = None, ug_Endpoint = [], ug_Region = []\<rparr>
       UpdateGateway"

definition request_GatewayService_DeleteGateway_0 :: "messages \<Rightarrow> string \<Rightarrow> unit dbm" where
  "request_GatewayService_DeleteGateway_0 js = request_rpc (js_DeleteGateway js) [] DeleteGateway"

definition request_NodeService_GetNode_0 :: "messages \<Rightarrow> string \<Rightarrow> EdgeNode dbm" where
  "request_NodeService_GetNode_0 js = request_rpc (js_GetNode js) [] GetNode"

definition request_NodeService_ListNodes_0 ::
  "messages \<Rightarrow> string \<Rightarrow> (EdgeNode list \<times> PageResponse) dbm" where
  "request_NodeService_ListNodes_0 js = request_rpc (js_ListNodes js) ([], None) (\<lambda>(g, p). ListNodes g p)"

definition request_NodeService_UpdateNode_0 :: "messages \<Rightarrow> string \<Rightarrow> EdgeNode dbm" where
  "request_NodeService_UpdateNode_0 js = request_rpc (js_UpdateNode js) ([], None) (\<lambda>(i, l). UpdateNode i l)"

definition request_IdentityService_GetIdentity_0 :: "messages \<Rightarrow> string \<Rightarrow> EdgeIdentity dbm" where
  "request_IdentityService_GetIdentity_0 js = request_rpc (js_GetIdentity js) [] GetIdentity"

definition request_IdentityService_ListIdentities_0 ::
  "messages \<Rightarrow> string \<Rightarrow> EdgeIdentity list dbm" where
  "request_IdentityService_ListIdentities_0 js =
     request_rpc (js_ListIdentities js) ([], None)
       (\<lambda>(n, p). ListIdentities n p)"

definition request_IdentityService_RevokeIdentity_0 :: "messages \<Rightarrow> string \<Rightarrow> unit dbm" where
  "request_IdentityService_RevokeIdentity_0 js =
     request_rpc (js_RevokeIdentity js) ([], [])
       (\<lambda>(i, r). RevokeIdentity i r)"

definition request_NodeOnboardingService_Bootstrap_0 ::
  "platform \<Rightarrow> messages \<Rightarrow> string \<Rightarrow> BootstrapOutput dbm" where
  "request_NodeOnboardingService_Bootstrap_0 pf js =
     request_rpc (js_Bootstrap js)
       \<lparr>bi_Token = [], bi_GatewayID = [], bi_CSRPEM = [], bi_Serial = [], bi_HardwareInfo = None, bi_Labels = None\<rparr>
       (OnboardingGRPC_Bootstrap (pf_crypto pf) (pf_signer pf))"

definition request_NodeOnboardingService_Renew_0 ::
  "platform \<Rightarrow> messages \<Rightarrow> string \<Rightarrow> RenewOutput dbm" where
  "request_NodeOnboardingService_Renew_0 pf js =
     request_rpc (js_Renew js) []
       (OnboardingGRPC_Renew (pf_crypto pf) (pf_duration_text pf) (pf_signer pf) TLS_Other)"

definition request_BootstrapTokenService_CreateBootstrapToken_0 ::
  "platform \<Rightarrow> go_err + string \<Rightarrow> messages \<Rightarrow> string \<Rightarrow> (BootstrapToken \<times> string) dbm" where
  "request_BootstrapTokenService_CreateBootstrapToken_0 pf rnd js =
     request_rpc (js_CreateBootstrapToken js)
       \<lparr>cbt_GatewayId = [], cbt_Description = [], cbt_Labels = None, cbt_MaxUses = 0, cbt_ExpiresInSeconds = 0\<rparr>
       (CreateBootstrapToken (pf_crypto pf) rnd)"

definition request_BootstrapTokenService_GetBootstrapToken_0 ::
  "messages \<Rightarrow> string \<Rightarrow> BootstrapToken dbm" where
  "request_BootstrapTokenService_GetBootstrapToken_0 js = request_rpc (js_GetBootstrapToken js) [] GetBootstrapToken"

definition request_BootstrapTokenService_ListBootstrapTokens_0 ::
  "messages \<Rightarrow> string \<Rightarrow> BootstrapToken list dbm" where
  "request_BootstrapTokenService_ListBootstrapTokens_0 js =
     request_rpc (js_ListBootstrapTokens js) ([], None)
       (\<lambda>(g, p). ListBootstrapTokens g p)"

definition request_BootstrapTokenService_FreezeBootstrapToken_0 ::
  "messages \<Rightarrow> string \<Rightarrow> BootstrapToken dbm" where
  "request_BootstrapTokenService_FreezeBootstrapToken_0 js =
     request_rpc (js_FreezeBootstrapToken js) []
       FreezeBootstrapToken"

definition request_BootstrapTokenService_RevokeBootstrapToken_0 ::
  "messages \<Rightarrow> string \<Rightarrow> BootstrapToken dbm" where
  "request_BootstrapTokenService_RevokeBootstrapToken_0 js =
     request_rpc (js_RevokeBootstrapToken js) []
       RevokeBootstrapToken"

definition request_TaskService_CreateTask_0 :: "messages \<Rightarrow> string \<Rightarrow> TaskMsg dbm" where
  "request_TaskService_CreateTask_0 js =
     request_rpc (js_CreateTask js) \<lparr>ct_Type = [], ct_Scope = TASK_SCOPE_UNSPECIFIED, ct_TargetGatewayId = [], ct_TargetNodeId = [],
       ct_Payload = Nil_Raw, ct_MaxRetries = 0, ct_TimeoutSeconds = 0, ct_CreatedBy = []\<rparr>
       Service_CreateTask"

definition request_TaskService_GetTask_0 :: "messages \<Rightarrow> string \<Rightarrow> TaskMsg dbm" where
  "request_TaskService_GetTask_0 js = request_rpc (js_GetTask js) [] Service_GetTask"

definition request_TaskService_ListTasks_0 ::
  "messages \<Rightarrow> string \<Rightarrow> (TaskMsg list \<times> PageResponse) dbm" where
  "request_TaskService_ListTasks_0 js =
     request_rpc (js_ListTasks js)
       \<lparr>lt_TargetGatewayId = [], lt_TargetNodeId = [], lt_Status = TASK_STATUS_UNSPECIFIED, lt_Type = [], lt_Page = None\<rparr>
       Service_ListTasks"

definition request_TaskService_CancelTask_0 :: "messages \<Rightarrow> string \<Rightarrow> TaskMsg dbm" where
  "request_TaskService_CancelTask_0 js =
     request_rpc (js_CancelTask js) ([], [])
       (\<lambda>(i, r). Service_CancelTask i r)"

definition request_ModelService_CreateModel_0 :: "messages \<Rightarrow> string \<Rightarrow> ModelMsg dbm" where
  "request_ModelService_CreateModel_0 js =
     request_rpc (js_CreateModel js) \<lparr>cm_Name = [], cm_Version = [], cm_Format = MODEL_FORMAT_UNSPECIFIED, cm_Checksum = [], cm_Size = 0,
       cm_ArtifactUri = [], cm_SignatureUri = [], cm_Labels = None\<rparr>
       CreateModel"

definition request_ModelService_GetModel_0 :: "messages \<Rightarrow> string \<Rightarrow> ModelMsg dbm" where
  "request_ModelService_GetModel_0 js =
     request_rpc (js_GetModel js) \<lparr>gm_Id = [], gm_Name = [], gm_Version = []\<rparr>
       GetModel"

definition request_ModelService_ListModels_0 ::
  "messages \<Rightarrow> string \<Rightarrow> (ModelMsg list \<times> PageResponse) dbm" where
  "request_ModelService_ListModels_0 js =
     request_rpc (js_ListModels js) \<lparr>lm_Name = [], lm_Format = MODEL_FORMAT_UNSPECIFIED, lm_Page = None\<rparr>
       ListModels"

definition request_DeploymentService_CreateDeployment_0 ::
  "messages \<Rightarrow> string \<Rightarrow> ModelDeploymentMsg dbm" where
  "request_DeploymentService_CreateDeployment_0 js =
     request_rpc (js_CreateDeployment js)
       \<lparr>cd_ModelName = [], cd_ModelVersion = [], cd_Target = None, cd_Runtime = [], cd_Rollout = None\<rparr>
       Service_CreateDeployment"

definition request_DeploymentService_GetDeployment_0 ::
  "messages \<Rightarrow> string \<Rightarrow> ModelDeploymentMsg dbm" where
  "request_DeploymentService_GetDeployment_0 js = request_rpc (js_GetDeployment js) [] Service_GetDeployment"

definition request_DeploymentService_ListDeployments_0 ::
  "messages \<Rightarrow> string \<Rightarrow> (ModelDeploymentMsg list \<times> PageResponse) dbm" where
  "request_DeploymentService_ListDeployments_0 js =
     request_rpc (js_ListDeployments js) \<lparr>ld_ModelName = [], ld_Phase = DEPLOYMENT_PHASE_UNSPECIFIED, ld_Page = None\<rparr>
       Service_ListDeployments"

definition request_DeploymentService_UpdateDeployment_0 ::
  "messages \<Rightarrow> string \<Rightarrow> ModelDeploymentMsg dbm" where
  "request_DeploymentService_UpdateDeployment_0 js =
     request_rpc (js_UpdateDeployment js) \<lparr>ud_Id = [], ud_Runtime = [], ud_Rollout = None, ud_Phase = DEPLOYMENT_PHASE_UNSPECIFIED\<rparr>
       Service_UpdateDeployment"

lemmas request_defs =
  request_GatewayService_CreateGateway_0_def request_GatewayService_GetGateway_0_def request_GatewayService_ListGateways_0_def
  request_GatewayService_UpdateGateway_0_def request_GatewayService_DeleteGateway_0_def request_NodeService_GetNode_0_def
  request_NodeService_ListNodes_0_def request_NodeService_UpdateNode_0_def request_IdentityService_GetIdentity_0_def
  request_IdentityService_ListIdentities_0_def request_IdentityService_RevokeIdentity_0_def request_NodeOnboardingService_Bootstrap_0_def
  request_NodeOnboardingService_Renew_0_def request_BootstrapTokenService_CreateBootstrapToken_0_def request_BootstrapTokenService_GetBootstrapToken_0_def
  request_BootstrapTokenService_ListBootstrapTokens_0_def request_BootstrapTokenService_FreezeBootstrapToken_0_def request_BootstrapTokenService_RevokeBootstrapToken_0_def
  request_TaskService_CreateTask_0_def request_TaskService_GetTask_0_def request_TaskService_ListTasks_0_def
  request_TaskService_CancelTask_0_def request_ModelService_CreateModel_0_def request_ModelService_GetModel_0_def
  request_ModelService_ListModels_0_def request_DeploymentService_CreateDeployment_0_def request_DeploymentService_GetDeployment_0_def
  request_DeploymentService_ListDeployments_0_def request_DeploymentService_UpdateDeployment_0_def

section \<open>Routes\<close>

text \<open>A handler answers with an error or with the message of the call.\<close>

type_synonym http_handler = "proxy_request \<Rightarrow> session \<Rightarrow> go_err option \<times> session"
type_synonym route = "(string \<times> string list) \<times> http_handler"

definition proxy_handler ::
  "(smap \<Rightarrow> go_err option) \<Rightarrow> (string \<Rightarrow> 'r dbm) \<Rightarrow> http_handler" where
  "proxy_handler annotate request rq d =
     (case annotate (pq_Headers rq) of
        Some e \<Rightarrow> (Some e, d)
      | None \<Rightarrow> (case request (pq_Body rq) d of (Inl e, d1) \<Rightarrow> (Some e, d1) | (Inr _, d1) \<Rightarrow> (None, d1)))"

definition rpc_path :: "string \<Rightarrow> string \<Rightarrow> string list" where
  "rpc_path service rpc = [''edge.ai.api.v1.'' @ service, rpc]"

definition post_rpc :: "string \<Rightarrow> string \<Rightarrow> http_handler \<Rightarrow> route" where
  "post_rpc service rpc h = ((''POST'', rpc_path service rpc), h)"

definition RegisterGatewayServiceHandlerClient ::
  "(smap \<Rightarrow> go_err option) \<Rightarrow> messages \<Rightarrow> route list" where
  "RegisterGatewayServiceHandlerClient an js =
    [post_rpc ''GatewayService'' ''CreateGateway'' (proxy_handler an (request_GatewayService_CreateGateway_0 js)),
     post_rpc ''GatewayService'' ''GetGateway'' (proxy_handler an (request_GatewayService_GetGateway_0 js)),
     post_rpc ''GatewayService'' ''ListGateways'' (proxy_handler an (request_GatewayService_ListGateways_0 js)),
     post_rpc ''GatewayService'' ''UpdateGateway'' (proxy_handler an (request_GatewayService_UpdateGateway_0 js)),
     post_rpc ''GatewayService'' ''DeleteGateway'' (proxy_handler an (request_GatewayService_DeleteGateway_0 js))]"

definition RegisterNodeServiceHandlerClient ::
  "(smap \<Rightarrow> go_err option) \<Rightarrow> messages \<Rightarrow> route list" where
  "RegisterNodeServiceHandlerClient an js =
    [post_rpc ''NodeService'' ''GetNode'' (proxy_handler an (request_NodeService_GetNode_0 js)),
     post_rpc ''NodeService'' ''ListNodes'' (proxy_handler an (request_NodeService_ListNodes_0 js)),
     post_rpc ''NodeService'' ''UpdateNode'' (proxy_handler an (request_NodeService_UpdateNode_0 js))]"

definition RegisterIdentityServiceHandlerClient ::
  "(smap \<Rightarrow> go_err option) \<Rightarrow> messages \<Rightarrow> route list" where
  "RegisterIdentityServiceHandlerClient an js =
    [post_rpc ''IdentityService'' ''GetIdentity'' (proxy_handler an (request_IdentityService_GetIdentity_0 js)),
     post_rpc ''IdentityService'' ''ListIdentities'' (proxy_handler an (request_IdentityService_ListIdentities_0 js)),
     post_rpc ''IdentityService'' ''RevokeIdentity'' (proxy_handler an (request_IdentityService_RevokeIdentity_0 js))]"

definition RegisterNodeOnboardingServiceHandlerClient ::
  "(smap \<Rightarrow> go_err option) \<Rightarrow> platform \<Rightarrow> messages \<Rightarrow> route list" where
  "RegisterNodeOnboardingServiceHandlerClient an pf js =
    [post_rpc ''NodeOnboardingService'' ''Bootstrap'' (proxy_handler an (request_NodeOnboardingService_Bootstrap_0 pf js)),
     post_rpc ''NodeOnboardingService'' ''Renew'' (proxy_handler an (request_NodeOnboardingService_Renew_0 pf js))]"

definition RegisterBootstrapTokenServiceHandlerClient ::
  "(smap \<Rightarrow> go_err option) \<Rightarrow> platform \<Rightarrow> go_err + string \<Rightarrow> messages \<Rightarrow> route list" where
  "RegisterBootstrapTokenServiceHandlerClient an pf rnd js =
    [post_rpc ''BootstrapTokenService'' ''CreateBootstrapToken'' (proxy_handler an (request_BootstrapTokenService_CreateBootstrapToken_0 pf rnd js)),
     post_rpc ''BootstrapTokenService'' ''GetBootstrapToken'' (proxy_handler an (request_BootstrapTokenService_GetBootstrapToken_0 js)),
     post_rpc ''BootstrapTokenService'' ''ListBootstrapTokens'' (proxy_handler an (request_BootstrapTokenService_ListBootstrapTokens_0 js)),
     post_rpc ''BootstrapTokenService'' ''FreezeBootstrapToken'' (proxy_handler an (request_BootstrapTokenService_FreezeBootstrapToken_0 js)),
     post_rpc ''BootstrapTokenService'' ''RevokeBootstrapToken'' (proxy_handler an (request_BootstrapTokenService_RevokeBootstrapToken_0 js))]"

definition RegisterTaskServiceHandlerClient ::
  "(smap \<Rightarrow> go_err option) \<Rightarrow> messages \<Rightarrow> route list" where
  "RegisterTaskServiceHandlerClient an js =
    [post_rpc ''TaskService'' ''CreateTask'' (proxy_handler an (request_TaskService_CreateTask_0 js)),
     post_rpc ''TaskService'' ''GetTask'' (proxy_handler an (request_TaskService_GetTask_0 js)),
     post_rpc ''TaskService'' ''ListTasks'' (proxy_handler an (request_TaskService_ListTasks_0 js)),
     post_rpc ''TaskService'' ''CancelTask'' (proxy_handler an (request_TaskService_CancelTask_0 js))]"

definition RegisterModelServiceHandlerClient ::
  "(smap \<Rightarrow> go_err option) \<Rightarrow> messages \<Rightarrow> route list" where
  "RegisterModelServiceHandlerClient an js =
    [post_rpc ''ModelService'' ''CreateModel'' (proxy_handler an (request_ModelService_CreateModel_0 js)),
     post_rpc ''ModelService'' ''GetModel'' (proxy_handler an (request_ModelService_GetModel_0 js)),
     post_rpc ''ModelService'' ''ListModels'' (proxy_handler an (request_ModelService_ListModels_0 js))]"

definition RegisterDeploymentServiceHandlerClient ::
  "(smap \<Rightarrow> go_err option) \<Rightarrow> messages \<Rightarrow> route list" where
  "RegisterDeploymentServiceHandlerClient an js =
    [post_rpc ''DeploymentService'' ''CreateDeployment'' (proxy_handler an (request_DeploymentService_CreateDeployment_0 js)),
     post_rpc ''DeploymentService'' ''GetDeployment'' (proxy_handler an (request_DeploymentService_GetDeployment_0 js)),
     post_rpc ''DeploymentService'' ''ListDeployments'' (proxy_handler an (request_DeploymentService_ListDeployments_0 js)),
     post_rpc ''DeploymentService'' ''UpdateDeployment'' (proxy_handler an (request_DeploymentService_UpdateDeployment_0 js))]"

text \<open>The handlers over a connection: those over the client of the connection.\<close>

definition RegisterGatewayServiceHandler ::
  "(smap \<Rightarrow> go_err option) \<Rightarrow> messages \<Rightarrow> route list" where
  "RegisterGatewayServiceHandler an js = RegisterGatewayServiceHandlerClient an js"

definition RegisterNodeServiceHandler ::
  "(smap \<Rightarrow> go_err option) \<Rightarrow> messages \<Rightarrow> route list" where
  "RegisterNodeServiceHandler an js = RegisterNodeServiceHandlerClient an js"

definition RegisterIdentityServiceHandler ::
  "(smap \<Rightarrow> go_err option) \<Rightarrow> messages \<Rightarrow> route list" where
  "RegisterIdentityServiceHandler an js = RegisterIdentityServiceHandlerClient an js"

definition RegisterNodeOnboardingServiceHandler ::
  "(smap \<Rightarrow> go_err option) \<Rightarrow> platform \<Rightarrow> messages \<Rightarrow> route list" where
  "RegisterNodeOnboardingServiceHandler an pf js = RegisterNodeOnboardingServiceHandlerClient an pf js"

definition RegisterBootstrapTokenServiceHandler ::
  "(smap \<Rightarrow> go_err option) \<Rightarrow> platform \<Rightarrow> go_err + string \<Rightarrow> messages \<Rightarrow> route list" where
  "RegisterBootstrapTokenServiceHandler an pf rnd js = RegisterBootstrapTokenServiceHandlerClient an pf rnd js"

definition RegisterTaskServiceHandler ::
  "(smap \<Rightarrow> go_err option) \<Rightarrow> messages \<Rightarrow> route list" where
  "RegisterTaskServiceHandler an js = RegisterTaskServiceHandlerClient an js"

definition RegisterModelServiceHandler ::
  "(smap \<Rightarrow> go_err option) \<Rightarrow> messages \<Rightarrow> route list" where
  "RegisterModelServiceHandler an js = RegisterModelServiceHandlerClient an js"

definition RegisterDeploymentServiceHandler ::
  "(smap \<Rightarrow> go_err option) \<Rightarrow> messages \<Rightarrow> route list" where
  "RegisterDeploymentServiceHandler an js = RegisterDeploymentServiceHandlerClient an js"

definition registerGatewayHandlers ::
  "(smap \<Rightarrow> go_err option) \<Rightarrow> platform \<Rightarrow> go_err + string \<Rightarrow> messages \<Rightarrow> route list" where
  "registerGatewayHandlers an pf rnd js =
     RegisterGatewayServiceHandler an js @
     RegisterNodeServiceHandler an js @
     RegisterIdentityServiceHandler an js @
     RegisterNodeOnboardingServiceHandler an pf js @
     RegisterBootstrapTokenServiceHandler an pf rnd js @
     RegisterTaskServiceHandler an js @
     RegisterModelServiceHandler an js @
     RegisterDeploymentServiceHandler an js"

lemmas handler_defs =
  RegisterGatewayServiceHandler_def RegisterNodeServiceHandler_def
  RegisterIdentityServiceHandler_def RegisterNodeOnboardingServiceHandler_def
  RegisterBootstrapTokenServiceHandler_def RegisterTaskServiceHandler_def
  RegisterModelServiceHandler_def RegisterDeploymentServiceHandler_def

lemmas route_defs = registerGatewayHandlers_def handler_defs
  RegisterGatewayServiceHandlerClient_def RegisterNodeServiceHandlerClient_def
  RegisterIdentityServiceHandlerClient_def RegisterNodeOnboardingServiceHandlerClient_def
  RegisterBootstrapTokenServiceHandlerClient_def RegisterTaskServiceHandlerClient_def
  RegisterModelServiceHandlerClient_def RegisterDeploymentServiceHandlerClient_def

section \<open>The proxy and the services\<close>

text \<open>The pattern of a call of the API.\<close>

fun rpc_pattern :: "api_call \<Rightarrow> string list" where
  "rpc_pattern (CreateGateway_call _) = rpc_path ''GatewayService'' ''CreateGateway''"
| "rpc_pattern (GetGateway_call _) = rpc_path ''GatewayService'' ''GetGateway''"
| "rpc_pattern (ListGateways_call _ _) = rpc_path ''GatewayService'' ''ListGateways''"
| "rpc_pattern (UpdateGateway_call _) = rpc_path ''GatewayService'' ''UpdateGateway''"
| "rpc_pattern (DeleteGateway_call _) = rpc_path ''GatewayService'' ''DeleteGateway''"
| "rpc_pattern (GetNode_call _) = rpc_path ''NodeService'' ''GetNode''"
| "rpc_pattern (ListNodes_call _ _) = rpc_path ''NodeService'' ''ListNodes''"
| "rpc_pattern (UpdateNode_call _ _) = rpc_path ''NodeService'' ''UpdateNode''"
| "rpc_pattern (GetIdentity_call _) = rpc_path ''IdentityService'' ''GetIdentity''"
| "rpc_pattern (ListIdentities_call _ _) = rpc_path ''IdentityService'' ''ListIdentities''"
| "rpc_pattern (RevokeIdentity_call _ _) = rpc_path ''IdentityService'' ''RevokeIdentity''"
| "rpc_pattern (Bootstrap_call _) = rpc_path ''NodeOnboardingService'' ''Bootstrap''"
| "rpc_pattern (Renew_call _ _) = rpc_path ''NodeOnboardingService'' ''Renew''"
| "rpc_pattern (CreateBootstrapToken_call _ _) = rpc_path ''BootstrapTokenService'' ''CreateBootstrapToken''"
| "rpc_pattern (GetBootstrapToken_call _) = rpc_path ''BootstrapTokenService'' ''GetBootstrapToken''"
| "rpc_pattern (ListBootstrapTokens_call _ _) = rpc_path ''BootstrapTokenService'' ''ListBootstrapTokens''"
| "rpc_pattern (FreezeBootstrapToken_call _) = rpc_path ''BootstrapTokenService'' ''FreezeBootstrapToken''"
| "rpc_pattern (RevokeBootstrapToken_call _) = rpc_path ''BootstrapTokenService'' ''RevokeBootstrapToken''"
| "rpc_pattern (CreateTask_call _) = rpc_path ''TaskService'' ''CreateTask''"
| "rpc_pattern (GetTask_call _) = rpc_path ''TaskService'' ''GetTask''"
| "rpc_pattern (ListTasks_call _) = rpc_path ''TaskService'' ''ListTasks''"
| "rpc_pattern (CancelTask_call _ _) = rpc_path ''TaskService'' ''CancelTask''"
| "rpc_pattern (CreateModel_call _) = rpc_path ''ModelService'' ''CreateModel''"
| "rpc_pattern (GetModel_call _) = rpc_path ''ModelService'' ''GetModel''"
| "rpc_pattern (ListModels_call _) = rpc_path ''ModelService'' ''ListModels''"
| "rpc_pattern (CreateDeployment_call _) = rpc_path ''DeploymentService'' ''CreateDeployment''"
| "rpc_pattern (GetDeployment_call _) = rpc_path ''DeploymentService'' ''GetDeployment''"
| "rpc_pattern (ListDeployments_call _) = rpc_path ''DeploymentService'' ''ListDeployments''"
| "rpc_pattern (UpdateDeployment_call _) = rpc_path ''DeploymentService'' ''UpdateDeployment''"

text \<open>A handler that serves the call of a pattern: it refuses the request and changes nothing, or does what the call does.\<close>

definition serves :: "platform \<Rightarrow> route \<Rightarrow> bool" where
  "serves pf = (\<lambda>((m, p), h). m = ''POST'' \<and>
     (\<forall>rq d. snd (h rq d) = d \<or> (\<exists>c. rpc_pattern c = p \<and> snd (h rq d) = serve_api pf c d)))"

lemma servesI:
  assumes "\<And>m. rpc_pattern (cl m) = rpc_path service rpc \<and> serve_api pf (cl m) = after (call m)"
  shows "serves pf (post_rpc service rpc (proxy_handler an (request_rpc decode zero call)))"
proof -
  have "snd (proxy_handler an m rq d) \<in> {d, snd (m (pq_Body rq) d)}" for m :: "string \<Rightarrow> 'b dbm" and rq d
    by (auto simp: proxy_handler_def split: option.splits prod.splits sum.splits)
  moreover have "\<exists>m. snd (request_rpc decode zero call b d) \<in> {d, after (call m) d}" for b d
    by (auto simp: request_rpc_def failE_def after_def split: decoding.splits)
  ultimately show ?thesis
    using assms unfolding serves_def post_rpc_def by (auto; metis insertE singletonD)
qed

lemma serves_GatewayService: "list_all (serves pf) (RegisterGatewayServiceHandlerClient an js)"
  unfolding RegisterGatewayServiceHandlerClient_def request_defs list.pred_inject
  by (intro conjI TrueI,
    rule servesI [where cl = "CreateGateway_call"], simp add: case_prod_unfold,
    rule servesI [where cl = "GetGateway_call"], simp add: case_prod_unfold,
    rule servesI [where cl = "case_prod ListGateways_call"], simp add: case_prod_unfold,
    rule servesI [where cl = "UpdateGateway_call"], simp add: case_prod_unfold,
    rule servesI [where cl = "DeleteGateway_call"], simp add: case_prod_unfold, simp)

lemma serves_NodeService: "list_all (serves pf) (RegisterNodeServiceHandlerClient an js)"
  unfolding RegisterNodeServiceHandlerClient_def request_defs list.pred_inject
  by (intro conjI TrueI,
    rule servesI [where cl = "GetNode_call"], simp add: case_prod_unfold,
    rule servesI [where cl = "case_prod ListNodes_call"], simp add: case_prod_unfold,
    rule servesI [where cl = "case_prod UpdateNode_call"], simp add: case_prod_unfold, simp)

lemma serves_IdentityService: "list_all (serves pf) (RegisterIdentityServiceHandlerClient an js)"
  unfolding RegisterIdentityServiceHandlerClient_def request_defs list.pred_inject
  by (intro conjI TrueI,
    rule servesI [where cl = "GetIdentity_call"], simp add: case_prod_unfold,
    rule servesI [where cl = "case_prod ListIdentities_call"], simp add: case_prod_unfold,
    rule servesI [where cl = "case_prod RevokeIdentity_call"], simp add: case_prod_unfold, simp)

lemma serves_NodeOnboardingService: "list_all (serves pf) (RegisterNodeOnboardingServiceHandlerClient an pf js)"
  unfolding RegisterNodeOnboardingServiceHandlerClient_def request_defs list.pred_inject
  by (intro conjI TrueI,
    rule servesI [where cl = "Bootstrap_call"], simp add: case_prod_unfold,
    rule servesI [where cl = "Renew_call TLS_Other"], simp add: case_prod_unfold, simp)

lemma serves_BootstrapTokenService: "list_all (serves pf) (RegisterBootstrapTokenServiceHandlerClient an pf rnd js)"
  unfolding RegisterBootstrapTokenServiceHandlerClient_def request_defs list.pred_inject
  by (intro conjI TrueI,
    rule servesI [where cl = "CreateBootstrapToken_call rnd"], simp add: case_prod_unfold,
    rule servesI [where cl = "GetBootstrapToken_call"], simp add: case_prod_unfold,
    rule servesI [where cl = "case_prod ListBootstrapTokens_call"], simp add: case_prod_unfold,
    rule servesI [where cl = "FreezeBootstrapToken_call"], simp add: case_prod_unfold,
    rule servesI [where cl = "RevokeBootstrapToken_call"], simp add: case_prod_unfold, simp)

lemma serves_TaskService: "list_all (serves pf) (RegisterTaskServiceHandlerClient an js)"
  unfolding RegisterTaskServiceHandlerClient_def request_defs list.pred_inject
  by (intro conjI TrueI,
    rule servesI [where cl = "CreateTask_call"], simp add: case_prod_unfold,
    rule servesI [where cl = "GetTask_call"], simp add: case_prod_unfold,
    rule servesI [where cl = "ListTasks_call"], simp add: case_prod_unfold,
    rule servesI [where cl = "case_prod CancelTask_call"], simp add: case_prod_unfold, simp)

lemma serves_ModelService: "list_all (serves pf) (RegisterModelServiceHandlerClient an js)"
  unfolding RegisterModelServiceHandlerClient_def request_defs list.pred_inject
  by (intro conjI TrueI,
    rule servesI [where cl = "CreateModel_call"], simp add: case_prod_unfold,
    rule servesI [where cl = "GetModel_call"], simp add: case_prod_unfold,
    rule servesI [where cl = "ListModels_call"], simp add: case_prod_unfold, simp)

lemma serves_DeploymentService: "list_all (serves pf) (RegisterDeploymentServiceHandlerClient an js)"
  unfolding RegisterDeploymentServiceHandlerClient_def request_defs list.pred_inject
  by (intro conjI TrueI,
    rule servesI [where cl = "CreateDeployment_call"], simp add: case_prod_unfold,
    rule servesI [where cl = "GetDeployment_call"], simp add: case_prod_unfold,
    rule servesI [where cl = "ListDeployments_call"], simp add: case_prod_unfold,
    rule servesI [where cl = "UpdateDeployment_call"], simp add: case_prod_unfold, simp)

definition api_rpcs :: "(string \<times> string) list" where
  "api_rpcs =
    [(''GatewayService'', ''CreateGateway''), (''GatewayService'', ''GetGateway''), (''GatewayService'', ''ListGateways''),
     (''GatewayService'', ''UpdateGateway''), (''GatewayService'', ''DeleteGateway''), (''NodeService'', ''GetNode''),
     (''NodeService'', ''ListNodes''), (''NodeService'', ''UpdateNode''), (''IdentityService'', ''GetIdentity''),
     (''IdentityService'', ''ListIdentities''), (''IdentityService'', ''RevokeIdentity''), (''NodeOnboardingService'', ''Bootstrap''),
     (''NodeOnboardingService'', ''Renew''), (''BootstrapTokenService'', ''CreateBootstrapToken''), (''BootstrapTokenService'', ''GetBootstrapToken''),
     (''BootstrapTokenService'', ''ListBootstrapTokens''), (''BootstrapTokenService'', ''FreezeBootstrapToken''), (''BootstrapTokenService'', ''RevokeBootstrapToken''),
     (''TaskService'', ''CreateTask''), (''TaskService'', ''GetTask''), (''TaskService'', ''ListTasks''),
     (''TaskService'', ''CancelTask''), (''ModelService'', ''CreateModel''), (''ModelService'', ''GetModel''),
     (''ModelService'', ''ListModels''), (''DeploymentService'', ''CreateDeployment''), (''DeploymentService'', ''GetDeployment''),
     (''DeploymentService'', ''ListDeployments''), (''DeploymentService'', ''UpdateDeployment'')]"

lemma route_patterns: "map fst (registerGatewayHandlers an pf rnd js) = map (\<lambda>(s, r). (''POST'', rpc_path s r)) api_rpcs"
  by (simp add: route_defs post_rpc_def api_rpcs_def)

lemma api_rpcs_distinct: "distinct api_rpcs"
  by (simp add: api_rpcs_def)

lemma all_serve: "list_all (serves pf) (registerGatewayHandlers an pf rnd js)"
  unfolding registerGatewayHandlers_def handler_defs list_all_append
  by (intro conjI serves_GatewayService serves_NodeService serves_IdentityService serves_NodeOnboardingService
      serves_BootstrapTokenService serves_TaskService serves_ModelService serves_DeploymentService)


text \<open>So what all calls of the API keep, all requests keep: the schema, and that no task is finished.\<close>

lemma http_keeps:
  assumes "((m, p), h) \<in> set (registerGatewayHandlers an pf rnd js)" "\<And>c d. I (tabs d) \<Longrightarrow> I (tabs (serve_api pf c d))"
  shows "I (tabs d) \<Longrightarrow> I (tabs (snd (h rq d)))"
proof -
  assume i: "I (tabs d)"
  have "serves pf ((m, p), h)" by (rule bspec [OF all_serve [unfolded list_all_iff] assms(1)])
  then have "\<forall>rq d. snd (h rq d) = d \<or> (\<exists>c. rpc_pattern c = p \<and> snd (h rq d) = serve_api pf c d)"
    by (simp add: serves_def)
  from this [rule_format, of rq d] have "snd (h rq d) = d \<or> (\<exists>c. snd (h rq d) = serve_api pf c d)" by blast
  then show ?thesis by (elim disjE exE) (simp_all add: i assms(2) [OF i])
qed

lemma http_keeps_schema_and_tasks:
  assumes "((m, p), h) \<in> set (registerGatewayHandlers an pf rnd js)"
  shows "db_wf (tabs d) \<Longrightarrow> db_wf (tabs (snd (h rq d)))" "all_open (tabs d) \<Longrightarrow> all_open (tabs (snd (h rq d)))"
proof -
  have "all_open (tabs d) \<Longrightarrow> all_open (tabs (serve_api pf c d))" for c d
    using act_open [of d pf "At_control_plane c"] by simp
  then show "all_open (tabs d) \<Longrightarrow> all_open (tabs (snd (h rq d)))" by (rule http_keeps [OF assms])
  show "db_wf (tabs d) \<Longrightarrow> db_wf (tabs (snd (h rq d)))" by (rule http_keeps [OF assms]) (rule serve_api_wf)
qed

text \<open>The connection of the proxy carries no certificate, so a renewal over HTTP is always refused.\<close>

lemma http_renew_refused: "\<exists>e. proxy_handler an (request_NodeOnboardingService_Renew_0 pf js) rq d = (Some e, d)"
  by (auto simp: proxy_handler_def request_defs request_rpc_def OnboardingGRPC_Renew_def failE_def
      split: option.splits decoding.splits)

end
