(* ===== verification/Http_Inprocess.thy ===== *)
theory Http_Inprocess
  imports Http_Front
begin

text \<open>
  The second set of handlers that the generator of the HTTP front writes (\<open>local_request_*\<close> and
  \<open>Register*HandlerServer\<close> in \<open>api/gen/go/edge/ai/api/v1/*.pb.gw.go\<close>). They call a server in the same process
  and not a connection, so interceptors are not run and the context carries no peer. No process of the
  repository installs them; the lemmas say what a change from one set to the other would mean for the API server.
\<close>

section \<open>Requests\<close>

definition local_request_GatewayService_CreateGateway_0 ::
  "messages \<Rightarrow> string \<Rightarrow> GatewayMsg dbm" where
  "local_request_GatewayService_CreateGateway_0 js =
     request_rpc (js_CreateGateway js) \<lparr>cg_Name = [], cg_Region = [], cg_Labels = None, cg_Endpoint = []\<rparr>
       CreateGateway"

definition local_request_GatewayService_GetGateway_0 ::
  "messages \<Rightarrow> string \<Rightarrow> GatewayMsg dbm" where
  "local_request_GatewayService_GetGateway_0 js = request_rpc (js_GetGateway js) [] GetGateway"

definition local_request_GatewayService_ListGateways_0 ::
  "messages \<Rightarrow> string \<Rightarrow> (GatewayMsg list \<times> PageResponse) dbm" where
  "local_request_GatewayService_ListGateways_0 js =
     request_rpc (js_ListGateways js) ([], None)
       (\<lambda>(g, p). ListGateways g p)"

definition local_request_GatewayService_UpdateGateway_0 ::
  "messages \<Rightarrow> string \<Rightarrow> GatewayMsg dbm" where
  "local_request_GatewayService_UpdateGateway_0 js =
     request_rpc (js_UpdateGateway js) \<lparr>ug_Id = [], ug_Labels = None, ug_Endpoint = [], ug_Region = []\<rparr>
       UpdateGateway"

definition local_request_GatewayService_DeleteGateway_0 ::
  "messages \<Rightarrow> string \<Rightarrow> unit dbm" where
  "local_request_GatewayService_DeleteGateway_0 js = request_rpc (js_DeleteGateway js) [] DeleteGateway"

definition local_request_NodeService_GetNode_0 :: "messages \<Rightarrow> string \<Rightarrow> EdgeNode dbm" where
  "local_request_NodeService_GetNode_0 js = request_rpc (js_GetNode js) [] GetNode"

definition local_request_NodeService_ListNodes_0 ::
  "messages \<Rightarrow> string \<Rightarrow> (EdgeNode list \<times> PageResponse) dbm" where
  "local_request_NodeService_ListNodes_0 js = request_rpc (js_ListNodes js) ([], None) (\<lambda>(g, p). ListNodes g p)"

definition local_request_NodeService_UpdateNode_0 :: "messages \<Rightarrow> string \<Rightarrow> EdgeNode dbm" where
  "local_request_NodeService_UpdateNode_0 js = request_rpc (js_UpdateNode js) ([], None) (\<lambda>(i, l). UpdateNode i l)"

definition local_request_IdentityService_GetIdentity_0 ::
  "messages \<Rightarrow> string \<Rightarrow> EdgeIdentity dbm" where
  "local_request_IdentityService_GetIdentity_0 js = request_rpc (js_GetIdentity js) [] GetIdentity"

definition local_request_IdentityService_ListIdentities_0 ::
  "messages \<Rightarrow> string \<Rightarrow> EdgeIdentity list dbm" where
  "local_request_IdentityService_ListIdentities_0 js =
     request_rpc (js_ListIdentities js) ([], None)
       (\<lambda>(n, p). ListIdentities n p)"

definition local_request_IdentityService_RevokeIdentity_0 ::
  "messages \<Rightarrow> string \<Rightarrow> unit dbm" where
  "local_request_IdentityService_RevokeIdentity_0 js =
     request_rpc (js_RevokeIdentity js) ([], [])
       (\<lambda>(i, r). RevokeIdentity i r)"

definition local_request_NodeOnboardingService_Bootstrap_0 ::
  "platform \<Rightarrow> messages \<Rightarrow> string \<Rightarrow> BootstrapOutput dbm" where
  "local_request_NodeOnboardingService_Bootstrap_0 pf js =
     request_rpc (js_Bootstrap js)
       \<lparr>bi_Token = [], bi_GatewayID = [], bi_CSRPEM = [], bi_Serial = [], bi_HardwareInfo = None, bi_Labels = None\<rparr>
       (OnboardingGRPC_Bootstrap (pf_crypto pf) (pf_signer pf))"

definition local_request_NodeOnboardingService_Renew_0 ::
  "platform \<Rightarrow> messages \<Rightarrow> string \<Rightarrow> RenewOutput dbm" where
  "local_request_NodeOnboardingService_Renew_0 pf js =
     request_rpc (js_Renew js) []
       (OnboardingGRPC_Renew (pf_crypto pf) (pf_duration_text pf) (pf_signer pf) TLS_No_Peer)"

definition local_request_BootstrapTokenService_CreateBootstrapToken_0 ::
  "platform \<Rightarrow> go_err + string \<Rightarrow> messages \<Rightarrow> string \<Rightarrow> (BootstrapToken \<times> string) dbm" where
  "local_request_BootstrapTokenService_CreateBootstrapToken_0 pf rnd js =
     request_rpc (js_CreateBootstrapToken js)
       \<lparr>cbt_GatewayId = [], cbt_Description = [], cbt_Labels = None, cbt_MaxUses = 0, cbt_ExpiresInSeconds = 0\<rparr>
       (CreateBootstrapToken (pf_crypto pf) rnd)"

definition local_request_BootstrapTokenService_GetBootstrapToken_0 ::
  "messages \<Rightarrow> string \<Rightarrow> BootstrapToken dbm" where
  "local_request_BootstrapTokenService_GetBootstrapToken_0 js = request_rpc (js_GetBootstrapToken js) [] GetBootstrapToken"

definition local_request_BootstrapTokenService_ListBootstrapTokens_0 ::
  "messages \<Rightarrow> string \<Rightarrow> BootstrapToken list dbm" where
  "local_request_BootstrapTokenService_ListBootstrapTokens_0 js =
     request_rpc (js_ListBootstrapTokens js) ([], None)
       (\<lambda>(g, p). ListBootstrapTokens g p)"

definition local_request_BootstrapTokenService_FreezeBootstrapToken_0 ::
  "messages \<Rightarrow> string \<Rightarrow> BootstrapToken dbm" where
  "local_request_BootstrapTokenService_FreezeBootstrapToken_0 js =
     request_rpc (js_FreezeBootstrapToken js) []
       FreezeBootstrapToken"

definition local_request_BootstrapTokenService_RevokeBootstrapToken_0 ::
  "messages \<Rightarrow> string \<Rightarrow> BootstrapToken dbm" where
  "local_request_BootstrapTokenService_RevokeBootstrapToken_0 js =
     request_rpc (js_RevokeBootstrapToken js) []
       RevokeBootstrapToken"

definition local_request_TaskService_CreateTask_0 :: "messages \<Rightarrow> string \<Rightarrow> TaskMsg dbm" where
  "local_request_TaskService_CreateTask_0 js =
     request_rpc (js_CreateTask js) \<lparr>ct_Type = [], ct_Scope = TASK_SCOPE_UNSPECIFIED, ct_TargetGatewayId = [], ct_TargetNodeId = [],
       ct_Payload = Nil_Raw, ct_MaxRetries = 0, ct_TimeoutSeconds = 0, ct_CreatedBy = []\<rparr>
       Service_CreateTask"

definition local_request_TaskService_GetTask_0 :: "messages \<Rightarrow> string \<Rightarrow> TaskMsg dbm" where
  "local_request_TaskService_GetTask_0 js = request_rpc (js_GetTask js) [] Service_GetTask"

definition local_request_TaskService_ListTasks_0 ::
  "messages \<Rightarrow> string \<Rightarrow> (TaskMsg list \<times> PageResponse) dbm" where
  "local_request_TaskService_ListTasks_0 js =
     request_rpc (js_ListTasks js)
       \<lparr>lt_TargetGatewayId = [], lt_TargetNodeId = [], lt_Status = TASK_STATUS_UNSPECIFIED, lt_Type = [], lt_Page = None\<rparr>
       Service_ListTasks"

definition local_request_TaskService_CancelTask_0 :: "messages \<Rightarrow> string \<Rightarrow> TaskMsg dbm" where
  "local_request_TaskService_CancelTask_0 js =
     request_rpc (js_CancelTask js) ([], [])
       (\<lambda>(i, r). Service_CancelTask i r)"

definition local_request_ModelService_CreateModel_0 ::
  "messages \<Rightarrow> string \<Rightarrow> ModelMsg dbm" where
  "local_request_ModelService_CreateModel_0 js =
     request_rpc (js_CreateModel js) \<lparr>cm_Name = [], cm_Version = [], cm_Format = MODEL_FORMAT_UNSPECIFIED, cm_Checksum = [], cm_Size = 0,
       cm_ArtifactUri = [], cm_SignatureUri = [], cm_Labels = None\<rparr>
       CreateModel"

definition local_request_ModelService_GetModel_0 :: "messages \<Rightarrow> string \<Rightarrow> ModelMsg dbm" where
  "local_request_ModelService_GetModel_0 js =
     request_rpc (js_GetModel js) \<lparr>gm_Id = [], gm_Name = [], gm_Version = []\<rparr>
       GetModel"

definition local_request_ModelService_ListModels_0 ::
  "messages \<Rightarrow> string \<Rightarrow> (ModelMsg list \<times> PageResponse) dbm" where
  "local_request_ModelService_ListModels_0 js =
     request_rpc (js_ListModels js) \<lparr>lm_Name = [], lm_Format = MODEL_FORMAT_UNSPECIFIED, lm_Page = None\<rparr>
       ListModels"

definition local_request_DeploymentService_CreateDeployment_0 ::
  "messages \<Rightarrow> string \<Rightarrow> ModelDeploymentMsg dbm" where
  "local_request_DeploymentService_CreateDeployment_0 js =
     request_rpc (js_CreateDeployment js)
       \<lparr>cd_ModelName = [], cd_ModelVersion = [], cd_Target = None, cd_Runtime = [], cd_Rollout = None\<rparr>
       Service_CreateDeployment"

definition local_request_DeploymentService_GetDeployment_0 ::
  "messages \<Rightarrow> string \<Rightarrow> ModelDeploymentMsg dbm" where
  "local_request_DeploymentService_GetDeployment_0 js = request_rpc (js_GetDeployment js) [] Service_GetDeployment"

definition local_request_DeploymentService_ListDeployments_0 ::
  "messages \<Rightarrow> string \<Rightarrow> (ModelDeploymentMsg list \<times> PageResponse) dbm" where
  "local_request_DeploymentService_ListDeployments_0 js =
     request_rpc (js_ListDeployments js) \<lparr>ld_ModelName = [], ld_Phase = DEPLOYMENT_PHASE_UNSPECIFIED, ld_Page = None\<rparr>
       Service_ListDeployments"

definition local_request_DeploymentService_UpdateDeployment_0 ::
  "messages \<Rightarrow> string \<Rightarrow> ModelDeploymentMsg dbm" where
  "local_request_DeploymentService_UpdateDeployment_0 js =
     request_rpc (js_UpdateDeployment js) \<lparr>ud_Id = [], ud_Runtime = [], ud_Rollout = None, ud_Phase = DEPLOYMENT_PHASE_UNSPECIFIED\<rparr>
       Service_UpdateDeployment"

lemmas local_request_defs =
  local_request_GatewayService_CreateGateway_0_def local_request_GatewayService_GetGateway_0_def local_request_GatewayService_ListGateways_0_def
  local_request_GatewayService_UpdateGateway_0_def local_request_GatewayService_DeleteGateway_0_def local_request_NodeService_GetNode_0_def
  local_request_NodeService_ListNodes_0_def local_request_NodeService_UpdateNode_0_def local_request_IdentityService_GetIdentity_0_def
  local_request_IdentityService_ListIdentities_0_def local_request_IdentityService_RevokeIdentity_0_def local_request_NodeOnboardingService_Bootstrap_0_def
  local_request_NodeOnboardingService_Renew_0_def local_request_BootstrapTokenService_CreateBootstrapToken_0_def local_request_BootstrapTokenService_GetBootstrapToken_0_def
  local_request_BootstrapTokenService_ListBootstrapTokens_0_def local_request_BootstrapTokenService_FreezeBootstrapToken_0_def local_request_BootstrapTokenService_RevokeBootstrapToken_0_def
  local_request_TaskService_CreateTask_0_def local_request_TaskService_GetTask_0_def local_request_TaskService_ListTasks_0_def
  local_request_TaskService_CancelTask_0_def local_request_ModelService_CreateModel_0_def local_request_ModelService_GetModel_0_def
  local_request_ModelService_ListModels_0_def local_request_DeploymentService_CreateDeployment_0_def local_request_DeploymentService_GetDeployment_0_def
  local_request_DeploymentService_ListDeployments_0_def local_request_DeploymentService_UpdateDeployment_0_def

section \<open>Routes\<close>

definition RegisterGatewayServiceHandlerServer ::
  "(smap \<Rightarrow> go_err option) \<Rightarrow> messages \<Rightarrow> route list" where
  "RegisterGatewayServiceHandlerServer an js =
    [post_rpc ''GatewayService'' ''CreateGateway'' (proxy_handler an (local_request_GatewayService_CreateGateway_0 js)),
     post_rpc ''GatewayService'' ''GetGateway'' (proxy_handler an (local_request_GatewayService_GetGateway_0 js)),
     post_rpc ''GatewayService'' ''ListGateways'' (proxy_handler an (local_request_GatewayService_ListGateways_0 js)),
     post_rpc ''GatewayService'' ''UpdateGateway'' (proxy_handler an (local_request_GatewayService_UpdateGateway_0 js)),
     post_rpc ''GatewayService'' ''DeleteGateway'' (proxy_handler an (local_request_GatewayService_DeleteGateway_0 js))]"

definition RegisterNodeServiceHandlerServer ::
  "(smap \<Rightarrow> go_err option) \<Rightarrow> messages \<Rightarrow> route list" where
  "RegisterNodeServiceHandlerServer an js =
    [post_rpc ''NodeService'' ''GetNode'' (proxy_handler an (local_request_NodeService_GetNode_0 js)),
     post_rpc ''NodeService'' ''ListNodes'' (proxy_handler an (local_request_NodeService_ListNodes_0 js)),
     post_rpc ''NodeService'' ''UpdateNode'' (proxy_handler an (local_request_NodeService_UpdateNode_0 js))]"

definition RegisterIdentityServiceHandlerServer ::
  "(smap \<Rightarrow> go_err option) \<Rightarrow> messages \<Rightarrow> route list" where
  "RegisterIdentityServiceHandlerServer an js =
    [post_rpc ''IdentityService'' ''GetIdentity'' (proxy_handler an (local_request_IdentityService_GetIdentity_0 js)),
     post_rpc ''IdentityService'' ''ListIdentities'' (proxy_handler an (local_request_IdentityService_ListIdentities_0 js)),
     post_rpc ''IdentityService'' ''RevokeIdentity'' (proxy_handler an (local_request_IdentityService_RevokeIdentity_0 js))]"

definition RegisterNodeOnboardingServiceHandlerServer ::
  "(smap \<Rightarrow> go_err option) \<Rightarrow> platform \<Rightarrow> messages \<Rightarrow> route list" where
  "RegisterNodeOnboardingServiceHandlerServer an pf js =
    [post_rpc ''NodeOnboardingService'' ''Bootstrap'' (proxy_handler an (local_request_NodeOnboardingService_Bootstrap_0 pf js)),
     post_rpc ''NodeOnboardingService'' ''Renew'' (proxy_handler an (local_request_NodeOnboardingService_Renew_0 pf js))]"

definition RegisterBootstrapTokenServiceHandlerServer ::
  "(smap \<Rightarrow> go_err option) \<Rightarrow> platform \<Rightarrow> go_err + string \<Rightarrow> messages \<Rightarrow> route list" where
  "RegisterBootstrapTokenServiceHandlerServer an pf rnd js =
    [post_rpc ''BootstrapTokenService'' ''CreateBootstrapToken'' (proxy_handler an (local_request_BootstrapTokenService_CreateBootstrapToken_0 pf rnd js)),
     post_rpc ''BootstrapTokenService'' ''GetBootstrapToken'' (proxy_handler an (local_request_BootstrapTokenService_GetBootstrapToken_0 js)),
     post_rpc ''BootstrapTokenService'' ''ListBootstrapTokens'' (proxy_handler an (local_request_BootstrapTokenService_ListBootstrapTokens_0 js)),
     post_rpc ''BootstrapTokenService'' ''FreezeBootstrapToken'' (proxy_handler an (local_request_BootstrapTokenService_FreezeBootstrapToken_0 js)),
     post_rpc ''BootstrapTokenService'' ''RevokeBootstrapToken'' (proxy_handler an (local_request_BootstrapTokenService_RevokeBootstrapToken_0 js))]"

definition RegisterTaskServiceHandlerServer ::
  "(smap \<Rightarrow> go_err option) \<Rightarrow> messages \<Rightarrow> route list" where
  "RegisterTaskServiceHandlerServer an js =
    [post_rpc ''TaskService'' ''CreateTask'' (proxy_handler an (local_request_TaskService_CreateTask_0 js)),
     post_rpc ''TaskService'' ''GetTask'' (proxy_handler an (local_request_TaskService_GetTask_0 js)),
     post_rpc ''TaskService'' ''ListTasks'' (proxy_handler an (local_request_TaskService_ListTasks_0 js)),
     post_rpc ''TaskService'' ''CancelTask'' (proxy_handler an (local_request_TaskService_CancelTask_0 js))]"

definition RegisterModelServiceHandlerServer ::
  "(smap \<Rightarrow> go_err option) \<Rightarrow> messages \<Rightarrow> route list" where
  "RegisterModelServiceHandlerServer an js =
    [post_rpc ''ModelService'' ''CreateModel'' (proxy_handler an (local_request_ModelService_CreateModel_0 js)),
     post_rpc ''ModelService'' ''GetModel'' (proxy_handler an (local_request_ModelService_GetModel_0 js)),
     post_rpc ''ModelService'' ''ListModels'' (proxy_handler an (local_request_ModelService_ListModels_0 js))]"

definition RegisterDeploymentServiceHandlerServer ::
  "(smap \<Rightarrow> go_err option) \<Rightarrow> messages \<Rightarrow> route list" where
  "RegisterDeploymentServiceHandlerServer an js =
    [post_rpc ''DeploymentService'' ''CreateDeployment'' (proxy_handler an (local_request_DeploymentService_CreateDeployment_0 js)),
     post_rpc ''DeploymentService'' ''GetDeployment'' (proxy_handler an (local_request_DeploymentService_GetDeployment_0 js)),
     post_rpc ''DeploymentService'' ''ListDeployments'' (proxy_handler an (local_request_DeploymentService_ListDeployments_0 js)),
     post_rpc ''DeploymentService'' ''UpdateDeployment'' (proxy_handler an (local_request_DeploymentService_UpdateDeployment_0 js))]"

lemmas local_route_defs =
  RegisterGatewayServiceHandlerServer_def RegisterGatewayServiceHandlerClient_def
  RegisterNodeServiceHandlerServer_def RegisterNodeServiceHandlerClient_def
  RegisterIdentityServiceHandlerServer_def RegisterIdentityServiceHandlerClient_def
  RegisterNodeOnboardingServiceHandlerServer_def RegisterNodeOnboardingServiceHandlerClient_def
  RegisterBootstrapTokenServiceHandlerServer_def RegisterBootstrapTokenServiceHandlerClient_def
  RegisterTaskServiceHandlerServer_def RegisterTaskServiceHandlerClient_def
  RegisterModelServiceHandlerServer_def RegisterModelServiceHandlerClient_def
  RegisterDeploymentServiceHandlerServer_def RegisterDeploymentServiceHandlerClient_def

section \<open>The two sets\<close>

text \<open>The API server runs no interceptor, and the renewal of a certificate, the only call that looks at its peer, refuses
  a peer that is missing as it refuses one without TLS. So the two sets answer alike.\<close>

lemma renew_without_peer: "OnboardingGRPC_Renew cr dt signer TLS_No_Peer = OnboardingGRPC_Renew cr dt signer TLS_Other"
  by (simp add: OnboardingGRPC_Renew_def fun_eq_iff)

lemma local_requests_agree:
  "RegisterGatewayServiceHandlerServer an js = RegisterGatewayServiceHandlerClient an js"
  "RegisterNodeServiceHandlerServer an js = RegisterNodeServiceHandlerClient an js"
  "RegisterIdentityServiceHandlerServer an js = RegisterIdentityServiceHandlerClient an js"
  "RegisterNodeOnboardingServiceHandlerServer an pf js = RegisterNodeOnboardingServiceHandlerClient an pf js"
  "RegisterBootstrapTokenServiceHandlerServer an pf rnd js = RegisterBootstrapTokenServiceHandlerClient an pf rnd js"
  "RegisterTaskServiceHandlerServer an js = RegisterTaskServiceHandlerClient an js"
  "RegisterModelServiceHandlerServer an js = RegisterModelServiceHandlerClient an js"
  "RegisterDeploymentServiceHandlerServer an js = RegisterDeploymentServiceHandlerClient an js"
  by (simp_all add: local_route_defs request_defs local_request_defs renew_without_peer)

end
