(* ===== verification/Agent_Main.thy ===== *)
theory Agent_Main
  imports Server_Main Agent_Exec Task_Results
begin

text \<open>
  The process of the agent (\<open>cmd/edge-agent/main.go\<close>): from the command line, the environment and the disk to the
  components it runs, and these components behind a gateway that was started as \<open>Server_Main\<close> says. The configuration
  file and the files of the identity are on two views of the disk, as their contents have different types.
\<close>

section \<open>Start\<close>

text \<open>A connection presents a client certificate or none; \<open>client_of\<close> are the calls over it, and dialing may fail.\<close>

record 'g agent_process =
  ap_config :: Config
  ap_identity :: Identity
  ap_certificate :: "string list option"
  ap_runner :: "(agent_state, 'g) TaskRunner"
  ap_renewer :: CertRenewer

datatype 'g agent_start = Version_Printed string | Started "'g agent_process"

record 'g agent_env =
  ae_args :: "string list"
  ae_build :: build_info
  ae_vars :: environment
  ae_times :: time_env
  ae_crypto :: agent_crypto
  ae_release :: release_env
  ae_stamp :: "timestamp \<Rightarrow> string"
  ae_dial :: "go_err option"
  ae_client :: "string list option \<Rightarrow> 'g agent_client"

definition MTLSDialOption :: "Identity \<Rightarrow> string list option" where
  "MTLSDialOption i = Some (ag_Cert i)"

definition downloaderTLSConfig :: "Identity \<Rightarrow> bool \<Rightarrow> string list option" where
  "downloaderTLSConfig i useMTLS = (if \<not> useMTLS then None else Some (ag_Cert i))"

text \<open>The executors main registers, for a configuration and an identity.\<close>

definition main_mux :: "'g agent_env \<Rightarrow> Config \<Rightarrow> Identity \<Rightarrow> bool \<Rightarrow> agent_state ExecutorMux" where
  "main_mux ae cfg i useMTLS =
     (let base = deriveGatewayHTTPAddr cfg useMTLS in
      agent_mux (ae_release ae) (NewDownloader base (cf_DataDir cfg) 0) (cf_DataDir cfg)
        (NewUpdater (cf_AgentVersion cfg) (envOrDefault (ae_vars ae) ''EDGE_AGENT_BINARY_PATH'' ''/usr/local/bin/edge-agent'')
           (cf_DataDir cfg) [])
        (NewLogCollector (ae_stamp ae) (ag_NodeID i) base))"

definition agent_components :: "'g agent_env \<Rightarrow> Config \<Rightarrow> Identity \<Rightarrow> go_err + 'g agent_process" where
  "agent_components ae cfg i =
     (let useMTLS = envOrDefaultBool (ae_vars ae) ''EDGE_USE_MTLS'' False;
          cert = (if useMTLS then MTLSDialOption i else None) in
      case ae_dial ae of
        Some e \<Rightarrow> Inl (wrap ''edge-agent: dial gateway'' e)
      | None \<Rightarrow> Inr
         \<lparr>ap_config = cfg, ap_identity = i, ap_certificate = cert,
          ap_runner = NewTaskRunner (ae_client ae cert) (ag_NodeID i) (Mux_Execute (main_mux ae cfg i useMTLS))
            \<lparr>tc_PollInterval = 0, tc_MaxTasks = 0, tc_DataDir = cf_DataDir cfg\<rparr>,
          ap_renewer = NewCertRenewer cfg i 0 0\<rparr>)"

definition edge_agent_main ::
  "'g agent_env \<Rightarrow> 'o onboarding_client \<Rightarrow> string \<Rightarrow> (raw host \<times> 'o agent_world, 'g agent_start) em" where
  "edge_agent_main ae onboarding configPath = (\<lambda>(f, w).
     if ShouldPrint (ae_args ae) then (Inr (Version_Printed (Version_Info (ae_build ae) ''edge-agent'')), (f, w))
      else
        (case LoadConfig (ae_times ae) (ae_vars ae) configPath f of
           (Inl e, f1) \<Rightarrow> (Inl (wrap ''edge-agent: load config'' e), (f1, w))
         | (Inr c, f1) \<Rightarrow>
             let cfg = c\<lparr>cf_AgentVersion := EffectiveVersion (ae_build ae) (cf_AgentVersion c)\<rparr> in
             (case bindE (map_err (wrap ''edge-agent: prepare data dir'') (on_disk_of (os_MkdirAll (cf_DataDir cfg)))) (\<lambda>_.
                   bindE (map_err (wrap ''edge-agent: load/bootstrap identity'') (LoadOrBootstrap (ae_crypto ae) onboarding cfg)) (\<lambda>i.
                   lift_result (agent_components ae cfg i))) w of
                (Inl e, w1) \<Rightarrow> (Inl e, (f1, w1))
              | (Inr p, w1) \<Rightarrow> (Inr (Started p), (f1, w1)))))"

text \<open>The renewal loop through its ticks.\<close>

definition CertRenewer_Run :: "agent_crypto \<Rightarrow> 'g onboarding_client \<Rightarrow> CertRenewer \<Rightarrow> nat \<Rightarrow> 'g agent_world \<Rightarrow> (CertRenewer \<times> 'g agent_world) option" where
  "CertRenewer_Run ak client cr ticks w =
     (if cw_checkInterval cr \<le> 0 then None else Some (((\<lambda>(cr, w). checkAndRenew ak client cr w) ^^ ticks) (cr, w)))"

lemma agent_components_D:
  assumes "agent_components ae cfg i = Inr p"
  shows "tr_client (ap_runner p) = ae_client ae (if envOrDefaultBool (ae_vars ae) ''EDGE_USE_MTLS'' False then Some (ag_Cert i) else None)"
    and "tr_nodeID (ap_runner p) = ag_NodeID i"
  using assms by (auto simp: agent_components_def Let_def NewTaskRunner_def MTLSDialOption_def split: option.splits)

lemma edge_agent_main_StartedD:
  assumes "edge_agent_main ae onboarding configPath (f, w) = (Inr (Started p), (f1, w1))"
  shows "agent_components ae (ap_config p) (ap_identity p) = Inr p"
    and "cf_GatewayAddr (ap_config p) \<noteq> []" "cf_DataDir (ap_config p) \<noteq> []"
    and "\<exists>w2. LoadOrBootstrap (ae_crypto ae) onboarding (ap_config p) w2 = (Inr (ap_identity p), w1)"
proof -
  from assms obtain c where load: "LoadConfig (ae_times ae) (ae_vars ae) configPath f = (Inr c, f1)"
    by (auto simp: edge_agent_main_def Let_def split: if_splits prod.splits sum.splits)
  let ?cfg = "c\<lparr>cf_AgentVersion := EffectiveVersion (ae_build ae) (cf_AgentVersion c)\<rparr>"
  from assms load have "bindE (map_err (wrap ''edge-agent: prepare data dir'') (on_disk_of (os_MkdirAll (cf_DataDir ?cfg)))) (\<lambda>_.
        bindE (map_err (wrap ''edge-agent: load/bootstrap identity'') (LoadOrBootstrap (ae_crypto ae) onboarding ?cfg)) (\<lambda>i.
        lift_result (agent_components ae ?cfg i))) w = (Inr p, w1)"
    by (simp add: edge_agent_main_def Let_def split: if_splits prod.splits sum.splits)
  then obtain i w2 where id: "LoadOrBootstrap (ae_crypto ae) onboarding ?cfg w2 = (Inr i, w1)"
    and p: "agent_components ae ?cfg i = Inr p"
    by (auto dest!: bindE_InrD map_err_InrD simp: lift_result_def)
  then have same: "ap_config p = ?cfg" "ap_identity p = i"
    by (auto simp: agent_components_def Let_def split: option.splits)
  show "agent_components ae (ap_config p) (ap_identity p) = Inr p" using p by (simp add: same)
  show "cf_GatewayAddr (ap_config p) \<noteq> []" "cf_DataDir (ap_config p) \<noteq> []"
    using load_config_sound(1,2) [OF load] by (simp_all add: same)
  show "\<exists>w2. LoadOrBootstrap (ae_crypto ae) onboarding (ap_config p) w2 = (Inr (ap_identity p), w1)"
    using id by (auto simp: same)
qed

section \<open>Behind a gateway\<close>

text \<open>The calls of an agent over its connection: through the interceptor the gateway was started with, to the service.\<close>

definition on_database :: "'a dbm \<Rightarrow> gwstate \<Rightarrow> (go_err + 'a) \<times> gwstate" where
  "on_database m = (\<lambda>(c, d). case m d of (r, d1) \<Rightarrow> (r, (c, d1)))"

definition agent_ctx :: "string list option \<Rightarrow> rpc_ctx" where
  "agent_ctx cert = \<lparr>cx_peer = (case cert of None \<Rightarrow> Peer_Without_TLS | Some cs \<Rightarrow> Peer_TLS cs), cx_metadata = None,
     cx_NodeID = None, cx_GatewayID = None, cx_AdminSubject = None\<rparr>"

definition served_agent ::
  "(string \<Rightarrow> string) \<Rightarrow> server_options \<Rightarrow> (string \<Rightarrow> raw) \<Rightarrow> string \<Rightarrow> string list option \<Rightarrow> gwstate agent_client" where
  "served_agent digest opts of_bytes g cert =
     \<lparr>cl_pull = (\<lambda>n m. bindE
        (serve_rpc digest opts ''/edge.ai.api.v1.AgentService/PullTasks'' (\<lambda>ctx q. on_database (PullTasks g ctx n m)) (agent_ctx cert) ())
        (\<lambda>ts. returnE (map agent_task_of ts))),
      cl_report = (\<lambda>pr. serve_rpc digest opts ''/edge.ai.api.v1.AgentService/ReportTaskResult''
        (\<lambda>ctx q. on_database (ReportTaskResult ctx (report_request of_bytes pr))) (agent_ctx cert) ())\<rparr>"

lemma grpcServerOptions_mtls:
  assumes "grpcServerOptions ak g certPath keyPath caPath h = (Inr opts, h1)" "certPath \<noteq> []" "keyPath \<noteq> []" "caPath \<noteq> []"
  shows "\<exists>c ca. opts = MTLS_Server c ca \<lparr>ac_GatewayID = g, ac_SkipMethods = skip_methods\<rparr>"
  using assms by (auto simp: grpcServerOptions_def returnE_def failE_def dest!: bindE_InrD split: if_splits)

lemma agent_methods: "''/edge.ai.api.v1.AgentService/PullTasks'' \<notin> set skip_methods"
  "''/edge.ai.api.v1.AgentService/ReportTaskResult'' \<notin> set skip_methods"
  by (simp_all add: skip_methods_def)

lemma refused_without_certificate:
  assumes "m \<notin> set skip_methods"
  shows "serve_rpc digest (MTLS_Server c ca \<lparr>ac_GatewayID = g, ac_SkipMethods = skip_methods\<rparr>) m handler (agent_ctx None) q s
    = (Inl (StatusErr Unauthenticated ''no TLS info''), s)"
  using assms by (simp add: serve_rpc_def NewAuthInterceptor_def extractFingerprint_def agent_ctx_def)

lemma served_pull_identity:
  assumes "opts = MTLS_Server c ca \<lparr>ac_GatewayID = g, ac_SkipMethods = skip_methods\<rparr>"
    and "cl_pull (served_agent digest opts of_bytes g (Some cs)) n m s = (Inr ts, s1)"
  shows "\<exists>leaf rest e. cs = leaf # rest \<and> cached_or_active s (digest leaf) e \<and> equal_fold (ci_GatewayID e) g \<and> ci_NodeID e \<in> {[], n}"
proof -
  let ?m = "''/edge.ai.api.v1.AgentService/PullTasks''" and ?h = "\<lambda>ctx (q :: unit). on_database (PullTasks g ctx n m)"
  from assms(2) obtain out where
    "serve_rpc digest opts ?m ?h (agent_ctx (Some cs)) () s = (Inr out, s1)"
    by (auto simp: served_agent_def returnE_def dest!: bindE_InrD)
  then have run: "NewAuthInterceptor digest Lookup \<lparr>ac_GatewayID = g, ac_SkipMethods = skip_methods\<rparr> ?m ?h (agent_ctx (Some cs)) () s = (Inr out, s1)"
    by (simp add: assms(1) serve_rpc_def)
  from gateway_identities.interceptor_sound [OF TrueI _ run] agent_methods(1) obtain leaf rest e s2 where
    e: "cs = leaf # rest" "cached_or_active s (digest leaf) e" "equal_fold (ci_GatewayID e) g"
    and h: "?h ((agent_ctx (Some cs))\<lparr>cx_NodeID := Some (ci_NodeID e), cx_GatewayID := Some (ci_GatewayID e)\<rparr>) () s2 = (Inr out, s1)"
    by (auto simp: agent_ctx_def)
  from h have "ci_NodeID e \<in> {[], n}"
    by (auto simp: on_database_def PullTasks_def with_node_def validateAuthenticatedNode_def NodeIDFromContext_def ctx_string_def failE_def
        split: prod.splits if_splits option.splits)
  with e show ?thesis by blast
qed

lemma poll_without_pull: "cl_pull (tr_client r) (tr_nodeID r) (tc_MaxTasks (tr_cfg r)) (rn_gateway w) = (Inl e, g) \<Longrightarrow> poll r w = w\<lparr>rn_gateway := g\<rparr>"
  by (simp add: poll_def)

text \<open>C15: an agent and a gateway that was started with certificate, key and authority. If EDGE_USE_MTLS of the agent is
  not set to yes, the default, its polls and reports are refused and change nothing, so it never gets a task. If it
  is, a poll starts jobs only when the certificate of the identity that the agent loaded or registered at its start
  belongs, in the cache or the database, to an identity of this gateway and of the node the agent names.\<close>

theorem agent_needs_certificate:
  assumes "edge_agent_main ae onboarding configPath s0 = (Inr (Started p), s1)"
    and "grpcServerOptions ak g certPath keyPath caPath h = (Inr opts, h1)" "certPath \<noteq> []" "keyPath \<noteq> []" "caPath \<noteq> []"
    and "ae_client ae = served_agent digest opts of_bytes g"
  shows "if envOrDefaultBool (ae_vars ae) ''EDGE_USE_MTLS'' False
    then rn_jobs (poll (ap_runner p) w) = rn_jobs w
      \<or> (\<exists>leaf rest e. ag_Cert (ap_identity p) = leaf # rest \<and> cached_or_active (rn_gateway w) (digest leaf) e
           \<and> equal_fold (ci_GatewayID e) g \<and> ci_NodeID e \<in> {[], ag_NodeID (ap_identity p)})
    else poll (ap_runner p) w = w \<and> (\<exists>e. cl_report (tr_client (ap_runner p)) pr s = (Inl e, s))"
proof -
  obtain f w0 f1 w1 where s: "s0 = (f, w0)" "s1 = (f1, w1)" by (metis surj_pair)
  note parts = edge_agent_main_StartedD(1) [OF assms(1) [unfolded s]]
  let ?tls = "envOrDefaultBool (ae_vars ae) ''EDGE_USE_MTLS'' False"
  have runner: "tr_client (ap_runner p) = served_agent digest opts of_bytes g (if ?tls then Some (ag_Cert (ap_identity p)) else None)"
    "tr_nodeID (ap_runner p) = ag_NodeID (ap_identity p)"
    using agent_components_D [OF parts] assms(6) by simp_all
  obtain c ca where opts: "opts = MTLS_Server c ca \<lparr>ac_GatewayID = g, ac_SkipMethods = skip_methods\<rparr>"
    using grpcServerOptions_mtls [OF assms(2-5)] by blast
  show ?thesis
  proof (cases ?tls)
    case False
    have "cl_pull (tr_client (ap_runner p)) n m s = (Inl (StatusErr Unauthenticated ''no TLS info''), s)" for n m s
      using False by (simp add: runner(1) served_agent_def bindE_def opts refused_without_certificate agent_methods)
    then have "poll (ap_runner p) w = w" by (simp add: poll_def)
    moreover have "cl_report (tr_client (ap_runner p)) pr s = (Inl (StatusErr Unauthenticated ''no TLS info''), s)"
      using False by (simp add: runner(1) served_agent_def opts refused_without_certificate agent_methods)
    ultimately show ?thesis using False by simp
  next
    case True
    obtain q g1 where pull: "cl_pull (tr_client (ap_runner p)) (tr_nodeID (ap_runner p)) (tc_MaxTasks (tr_cfg (ap_runner p))) (rn_gateway w) = (q, g1)"
      by (rule prod.exhaust)
    show ?thesis
    proof (cases q)
      case (Inl e)
      with pull True show ?thesis by (simp add: poll_def)
    next
      case (Inr ts)
      with pull True have "cl_pull (served_agent digest opts of_bytes g (Some (ag_Cert (ap_identity p)))) (ag_NodeID (ap_identity p))
          (tc_MaxTasks (tr_cfg (ap_runner p))) (rn_gateway w) = (Inr ts, g1)" by (simp add: runner)
      from served_pull_identity [OF opts this] True show ?thesis by auto
    qed
  qed
qed

definition agent_vars :: environment where
  "agent_vars v = (if v = ''EDGE_GATEWAY_ADDR'' then ''gw:9443'' else if v = ''EDGE_DATA_DIR'' then ''/d'' else [])"

definition example_agent_env :: "server_options \<Rightarrow> gwstate agent_env" where
  "example_agent_env opts = \<lparr>ae_args = [], ae_build = dev_build, ae_vars = agent_vars, ae_times = example_times, ae_crypto = trusting_crypto,
     ae_release = example_release_env, ae_stamp = (\<lambda>t. []), ae_dial = None, ae_client = served_agent (\<lambda>c. c) opts (\<lambda>b. Raw_Text b) ''g1''\<rparr>"

lemma example_loaded:
  assumes "cf_DataDir c = ''/d''"
  shows "LoadOrBootstrap trusting_crypto onboarding c (example_node 1 example_files []) =
    (Inr \<lparr>ag_NodeID = ''n1'', ag_Cert = [''cert-k0''], ag_CACert = ''ca'', ag_CAPool = ''ca''\<rparr>, example_node 1 example_files [])"
proof -
  have dir: "path_of (cf_DataDir c) = [''d'']" by (simp add: assms path_of_def)
  note paths = identity_paths [of c, unfolded dir, simplified]
  show ?thesis
    by (simp add: LoadOrBootstrap_def catchE_def on_disk_of_def loadIdentity_def LoadX509KeyPair_def bindE_def os_ReadFile_def quiet_read
        plain_host_def example_node_def paths node_at_def example_files_def identity_files_def lift_result_def trusting_crypto_def
        example_agent_crypto_def ca_certificate_def returnE_def)
qed

lemma example_start:
  "\<exists>p. edge_agent_main (example_agent_env opts) onboarding [] (plain_host [], example_node 1 example_files []) =
     (Inr (Started p), (plain_host [], example_node 1 example_files []))"
proof -
  have "LoadConfig example_times agent_vars [] (plain_host []) = (Inr (zero_Config\<lparr>cf_GatewayAddr := ''gw:9443'', cf_DataDir := ''/d'',
      cf_HeartbeatInterval := 10 * second, cf_AgentVersion := ''dev''\<rparr>), plain_host [])"
    by (simp add: LoadConfig_def read_config_def bindE_def returnE_def env_heartbeat_def env_overrides_def env_or_def agent_vars_def
        config_defaults_def config_validate_def zero_Config_def Let_def second_def)
  moreover have "on_disk_of (os_MkdirAll ''/d'') (example_node 1 example_files []) = (Inr (), example_node 1 example_files [])"
    by (simp add: on_disk_of_def example_node_def os_MkdirAll_def quiet_write plain_host_def example_files_def identity_files_def
        path_of_def node_at_def)
  ultimately show ?thesis
    by (simp add: edge_agent_main_def example_agent_env_def ShouldPrint_def Let_def bindE_def map_err_def
        example_loaded lift_result_def agent_components_def del: One_nat_def)
qed

theorem agent_needs_certificate_witness:
  "\<exists>opts p s1. grpcServerOptions trusting_crypto ''g1'' ''/tls.crt'' ''/tls.key'' ''/ca.crt'' tls_host = (Inr opts, tls_host)
     \<and> edge_agent_main (example_agent_env opts) example_onboarding [] (plain_host [], example_node 1 example_files []) = (Inr (Started p), s1)
     \<and> (\<forall>w. poll (ap_runner p) w = w)"
proof -
  obtain opts where run: "grpcServerOptions trusting_crypto ''g1'' ''/tls.crt'' ''/tls.key'' ''/ca.crt'' tls_host = (Inr opts, tls_host)"
    using tls_host_serves by blast
  obtain p where p: "edge_agent_main (example_agent_env opts) example_onboarding [] (plain_host [], example_node 1 example_files []) =
      (Inr (Started p), (plain_host [], example_node 1 example_files []))" using example_start by blast
  have off: "\<not> envOrDefaultBool (ae_vars (example_agent_env opts)) ''EDGE_USE_MTLS'' False"
    by (simp add: example_agent_env_def agent_vars_def envOrDefaultBool_def to_lower_def trim_space_def Let_def)
  have c: "ae_client (example_agent_env opts) = served_agent (\<lambda>c. c) opts (\<lambda>b. Raw_Text b) ''g1''"
    by (simp add: example_agent_env_def)
  have "poll (ap_runner p) w = w" for w
    using agent_needs_certificate [OF p run _ _ _ c] off by simp
  with run p show ?thesis by blast
qed

end
