(* ===== verification/Gateway_Front.thy ===== *)
theory Gateway_Front
  imports Agent_Main Http_Front
begin

text \<open>
  The services of the gateway as its gRPC server registers them (\<open>cmd/gateway-runtime\<close>), who reaches them, and the
  HTTP handlers that the generator writes for them (\<open>agent.pb.gw.go\<close>, \<open>gateway_sync.pb.gw.go\<close> under
  \<open>api/gen/go/edge/ai/api/v1\<close>). The gateway does not install these handlers; the lemmas say whom they would let in.
\<close>

section \<open>Services and connections\<close>

text \<open>The interfaces of the two services, which the server implements and a connection offers to its clients.\<close>

record 's agent_api =
  aa_ReportHeartbeat :: "(string \<times> string \<times> timestamp option, 's, timestamp) handler"
  aa_PullTasks :: "(string \<times> int, 's, NodeTask list) handler"
  aa_ReportTaskResult :: "(ReportTaskResultRequest, 's, unit) handler"
  aa_ReportMetrics :: "(string \<times> (string \<times> float64) list, 's, unit) handler"
  aa_ReportRuntimeState :: "(string \<times> RuntimeStateEntry list, 's, unit) handler"

record 's sync_api =
  sa_PushRegionalTask :: "(PushRegionalTaskRequest, 's, int \<times> int) handler"
  sa_SyncGatewayStatus :: "(string, 's, unit) handler"
  sa_NotifyIdentityEvent :: "(NotifyIdentityEventRequest, 's, unit) handler"

text \<open>The state of the gateway: the identity cache, its session and the gauges.\<close>

type_synonym gateway_state = "gwstate \<times> MetricRegistry"

definition on_gauges :: "(MetricRegistry \<Rightarrow> (go_err + 'a) \<times> MetricRegistry) \<Rightarrow> (gateway_state, 'a) em" where
  "on_gauges m = (\<lambda>(gw, reg). case m reg of (r, reg1) \<Rightarrow> (r, (gw, reg1)))"

definition on_gw :: "(gwstate \<Rightarrow> (go_err + 'a) \<times> gwstate) \<Rightarrow> (gateway_state, 'a) em" where
  "on_gw m = (\<lambda>(gw, reg). case m gw of (r, gw1) \<Rightarrow> (r, (gw1, reg)))"

definition on_cache :: "(IdentityCache \<Rightarrow> (go_err + 'a) \<times> IdentityCache) \<Rightarrow> (gateway_state, 'a) em" where
  "on_cache m = on_gw (\<lambda>(c, d). case m c of (r, c1) \<Rightarrow> (r, (c1, d)))"

definition AgentService :: "string \<Rightarrow> gateway_state agent_api" where
  "AgentService g =
     \<lparr>aa_ReportHeartbeat = (\<lambda>ctx (n, v, ts). on_gw (on_database (ReportHeartbeat ctx n v ts))),
      aa_PullTasks = (\<lambda>ctx (n, m). on_gw (on_database (PullTasks g ctx n m))),
      aa_ReportTaskResult = (\<lambda>ctx q. on_gw (on_database (ReportTaskResult ctx q))),
      aa_ReportMetrics = (\<lambda>ctx (n, ms). on_gauges (ReportMetrics ctx n ms)),
      aa_ReportRuntimeState = (\<lambda>ctx (n, es). on_gw (on_database (ReportRuntimeState ctx n es)))\<rparr>"

definition GatewaySyncService :: "Dispatcher \<Rightarrow> gateway_state sync_api" where
  "GatewaySyncService dp =
     \<lparr>sa_PushRegionalTask = (\<lambda>ctx q. on_gw (on_database (PushRegionalTask dp q))),
      sa_SyncGatewayStatus = (\<lambda>ctx q. on_gw (on_database (SyncGatewayStatus dp q))),
      sa_NotifyIdentityEvent = (\<lambda>ctx q. on_cache (NotifyIdentityEvent (ne_IdentityId q) q))\<rparr>"

text \<open>A call over a connection with a certificate or none: through the interceptor of the server, in a context of its own.\<close>

definition over_conn ::
  "(string \<Rightarrow> string) \<Rightarrow> server_options \<Rightarrow> string list option \<Rightarrow> string \<Rightarrow> string
     \<Rightarrow> ('q, gateway_state, 'p) handler \<Rightarrow> ('q, gateway_state, 'p) handler" where
  "over_conn digest opts cert service rpc h = (\<lambda>ctx.
     (case opts of
        Plain_Server \<Rightarrow> h
      | MTLS_Server _ _ cfg \<Rightarrow>
          NewAuthInterceptor digest (\<lambda>fp. on_gw (Lookup fp)) cfg (''/edge.ai.api.v1.'' @ service @ ''/'' @ rpc) h) (agent_ctx cert))"

definition NewAgentServiceClient ::
  "(string \<Rightarrow> string) \<Rightarrow> server_options \<Rightarrow> string list option \<Rightarrow> gateway_state agent_api \<Rightarrow> gateway_state agent_api" where
  "NewAgentServiceClient digest opts cert srv =
     \<lparr>aa_ReportHeartbeat = over_conn digest opts cert ''AgentService'' ''ReportHeartbeat'' (aa_ReportHeartbeat srv),
      aa_PullTasks = over_conn digest opts cert ''AgentService'' ''PullTasks'' (aa_PullTasks srv),
      aa_ReportTaskResult = over_conn digest opts cert ''AgentService'' ''ReportTaskResult'' (aa_ReportTaskResult srv),
      aa_ReportMetrics = over_conn digest opts cert ''AgentService'' ''ReportMetrics'' (aa_ReportMetrics srv),
      aa_ReportRuntimeState = over_conn digest opts cert ''AgentService'' ''ReportRuntimeState'' (aa_ReportRuntimeState srv)\<rparr>"

definition NewGatewaySyncServiceClient ::
  "(string \<Rightarrow> string) \<Rightarrow> server_options \<Rightarrow> string list option \<Rightarrow> gateway_state sync_api \<Rightarrow> gateway_state sync_api" where
  "NewGatewaySyncServiceClient digest opts cert srv =
     \<lparr>sa_PushRegionalTask = over_conn digest opts cert ''GatewaySyncService'' ''PushRegionalTask'' (sa_PushRegionalTask srv),
      sa_SyncGatewayStatus = over_conn digest opts cert ''GatewaySyncService'' ''SyncGatewayStatus'' (sa_SyncGatewayStatus srv),
      sa_NotifyIdentityEvent = over_conn digest opts cert ''GatewaySyncService'' ''NotifyIdentityEvent'' (sa_NotifyIdentityEvent srv)\<rparr>"

section \<open>Requests\<close>

record gateway_messages =
  jg_ReportHeartbeat :: "string \<Rightarrow> (string \<times> string \<times> timestamp option) decoding"
  jg_PullTasks :: "string \<Rightarrow> (string \<times> int) decoding"
  jg_ReportTaskResult :: "string \<Rightarrow> (ReportTaskResultRequest) decoding"
  jg_ReportMetrics :: "string \<Rightarrow> (string \<times> (string \<times> float64) list) decoding"
  jg_ReportRuntimeState :: "string \<Rightarrow> (string \<times> RuntimeStateEntry list) decoding"
  jg_PushRegionalTask :: "string \<Rightarrow> (PushRegionalTaskRequest) decoding"
  jg_SyncGatewayStatus :: "string \<Rightarrow> (string) decoding"
  jg_NotifyIdentityEvent :: "string \<Rightarrow> (NotifyIdentityEventRequest) decoding"

definition request_AgentService_ReportHeartbeat_0 ::
  "gateway_messages \<Rightarrow> 's agent_api \<Rightarrow> rpc_ctx \<Rightarrow> string \<Rightarrow> ('s, timestamp) em" where
  "request_AgentService_ReportHeartbeat_0 js client = (\<lambda>ctx. request_rpc (jg_ReportHeartbeat js) ([], [], None) (aa_ReportHeartbeat client ctx))"

definition request_AgentService_PullTasks_0 ::
  "gateway_messages \<Rightarrow> 's agent_api \<Rightarrow> rpc_ctx \<Rightarrow> string \<Rightarrow> ('s, NodeTask list) em" where
  "request_AgentService_PullTasks_0 js client = (\<lambda>ctx. request_rpc (jg_PullTasks js) ([], 0) (aa_PullTasks client ctx))"

definition request_AgentService_ReportTaskResult_0 ::
  "gateway_messages \<Rightarrow> 's agent_api \<Rightarrow> rpc_ctx \<Rightarrow> string \<Rightarrow> ('s, unit) em" where
  "request_AgentService_ReportTaskResult_0 js client = (\<lambda>ctx. request_rpc (jg_ReportTaskResult js) 
       \<lparr>rr_TaskId = [], rr_NodeId = [], rr_Status = [], rr_ErrorMessage = [], rr_Result = Nil_Raw\<rparr>
       (aa_ReportTaskResult client ctx))"

definition request_AgentService_ReportMetrics_0 ::
  "gateway_messages \<Rightarrow> 's agent_api \<Rightarrow> rpc_ctx \<Rightarrow> string \<Rightarrow> ('s, unit) em" where
  "request_AgentService_ReportMetrics_0 js client = (\<lambda>ctx. request_rpc (jg_ReportMetrics js) ([], []) (aa_ReportMetrics client ctx))"

definition request_AgentService_ReportRuntimeState_0 ::
  "gateway_messages \<Rightarrow> 's agent_api \<Rightarrow> rpc_ctx \<Rightarrow> string \<Rightarrow> ('s, unit) em" where
  "request_AgentService_ReportRuntimeState_0 js client = (\<lambda>ctx. request_rpc (jg_ReportRuntimeState js) ([], []) (aa_ReportRuntimeState client ctx))"

definition local_request_AgentService_ReportHeartbeat_0 ::
  "gateway_messages \<Rightarrow> 's agent_api \<Rightarrow> rpc_ctx \<Rightarrow> string \<Rightarrow> ('s, timestamp) em" where
  "local_request_AgentService_ReportHeartbeat_0 js srv = (\<lambda>ctx. request_rpc (jg_ReportHeartbeat js) ([], [], None) (aa_ReportHeartbeat srv ctx))"

definition local_request_AgentService_PullTasks_0 ::
  "gateway_messages \<Rightarrow> 's agent_api \<Rightarrow> rpc_ctx \<Rightarrow> string \<Rightarrow> ('s, NodeTask list) em" where
  "local_request_AgentService_PullTasks_0 js srv = (\<lambda>ctx. request_rpc (jg_PullTasks js) ([], 0) (aa_PullTasks srv ctx))"

definition local_request_AgentService_ReportTaskResult_0 ::
  "gateway_messages \<Rightarrow> 's agent_api \<Rightarrow> rpc_ctx \<Rightarrow> string \<Rightarrow> ('s, unit) em" where
  "local_request_AgentService_ReportTaskResult_0 js srv = (\<lambda>ctx. request_rpc (jg_ReportTaskResult js) 
       \<lparr>rr_TaskId = [], rr_NodeId = [], rr_Status = [], rr_ErrorMessage = [], rr_Result = Nil_Raw\<rparr>
       (aa_ReportTaskResult srv ctx))"

definition local_request_AgentService_ReportMetrics_0 ::
  "gateway_messages \<Rightarrow> 's agent_api \<Rightarrow> rpc_ctx \<Rightarrow> string \<Rightarrow> ('s, unit) em" where
  "local_request_AgentService_ReportMetrics_0 js srv = (\<lambda>ctx. request_rpc (jg_ReportMetrics js) ([], []) (aa_ReportMetrics srv ctx))"

definition local_request_AgentService_ReportRuntimeState_0 ::
  "gateway_messages \<Rightarrow> 's agent_api \<Rightarrow> rpc_ctx \<Rightarrow> string \<Rightarrow> ('s, unit) em" where
  "local_request_AgentService_ReportRuntimeState_0 js srv = (\<lambda>ctx. request_rpc (jg_ReportRuntimeState js) ([], []) (aa_ReportRuntimeState srv ctx))"

definition request_GatewaySyncService_PushRegionalTask_0 ::
  "gateway_messages \<Rightarrow> 's sync_api \<Rightarrow> rpc_ctx \<Rightarrow> string \<Rightarrow> ('s, int \<times> int) em" where
  "request_GatewaySyncService_PushRegionalTask_0 js client = (\<lambda>ctx. request_rpc (jg_PushRegionalTask js) 
       \<lparr>pt_TaskId = [], pt_GatewayId = [], pt_Type = [], pt_Payload = Nil_Raw, pt_TargetNodeIds = []\<rparr>
       (sa_PushRegionalTask client ctx))"

definition request_GatewaySyncService_SyncGatewayStatus_0 ::
  "gateway_messages \<Rightarrow> 's sync_api \<Rightarrow> rpc_ctx \<Rightarrow> string \<Rightarrow> ('s, unit) em" where
  "request_GatewaySyncService_SyncGatewayStatus_0 js client = (\<lambda>ctx. request_rpc (jg_SyncGatewayStatus js) [] (sa_SyncGatewayStatus client ctx))"

definition request_GatewaySyncService_NotifyIdentityEvent_0 ::
  "gateway_messages \<Rightarrow> 's sync_api \<Rightarrow> rpc_ctx \<Rightarrow> string \<Rightarrow> ('s, unit) em" where
  "request_GatewaySyncService_NotifyIdentityEvent_0 js client = (\<lambda>ctx. request_rpc (jg_NotifyIdentityEvent js) 
       \<lparr>ne_IdentityId = [], ne_NodeId = [], ne_Fingerprint = [], ne_EventType = IDENTITY_EVENT_TYPE_UNSPECIFIED\<rparr>
       (sa_NotifyIdentityEvent client ctx))"

definition local_request_GatewaySyncService_PushRegionalTask_0 ::
  "gateway_messages \<Rightarrow> 's sync_api \<Rightarrow> rpc_ctx \<Rightarrow> string \<Rightarrow> ('s, int \<times> int) em" where
  "local_request_GatewaySyncService_PushRegionalTask_0 js srv = (\<lambda>ctx. request_rpc (jg_PushRegionalTask js) 
       \<lparr>pt_TaskId = [], pt_GatewayId = [], pt_Type = [], pt_Payload = Nil_Raw, pt_TargetNodeIds = []\<rparr>
       (sa_PushRegionalTask srv ctx))"

definition local_request_GatewaySyncService_SyncGatewayStatus_0 ::
  "gateway_messages \<Rightarrow> 's sync_api \<Rightarrow> rpc_ctx \<Rightarrow> string \<Rightarrow> ('s, unit) em" where
  "local_request_GatewaySyncService_SyncGatewayStatus_0 js srv = (\<lambda>ctx. request_rpc (jg_SyncGatewayStatus js) [] (sa_SyncGatewayStatus srv ctx))"

definition local_request_GatewaySyncService_NotifyIdentityEvent_0 ::
  "gateway_messages \<Rightarrow> 's sync_api \<Rightarrow> rpc_ctx \<Rightarrow> string \<Rightarrow> ('s, unit) em" where
  "local_request_GatewaySyncService_NotifyIdentityEvent_0 js srv = (\<lambda>ctx. request_rpc (jg_NotifyIdentityEvent js) 
       \<lparr>ne_IdentityId = [], ne_NodeId = [], ne_Fingerprint = [], ne_EventType = IDENTITY_EVENT_TYPE_UNSPECIFIED\<rparr>
       (sa_NotifyIdentityEvent srv ctx))"

section \<open>Routes\<close>

text \<open>The library derives the context of the call from the headers, or refuses them.\<close>

type_synonym gateway_route = "(string \<times> string list) \<times> (proxy_request \<Rightarrow> gateway_state \<Rightarrow> go_err option \<times> gateway_state)"

definition ctx_handler ::
  "(smap \<Rightarrow> go_err + rpc_ctx) \<Rightarrow> (rpc_ctx \<Rightarrow> string \<Rightarrow> ('s, 'r) em) \<Rightarrow> proxy_request \<Rightarrow> 's \<Rightarrow> go_err option \<times> 's" where
  "ctx_handler annotate request rq s =
     (case annotate (pq_Headers rq) of
        Inl e \<Rightarrow> (Some e, s)
      | Inr ctx \<Rightarrow> (case request ctx (pq_Body rq) s of (Inl e, s1) \<Rightarrow> (Some e, s1) | (Inr _, s1) \<Rightarrow> (None, s1)))"

definition RegisterAgentServiceHandlerClient ::
  "(smap \<Rightarrow> go_err + rpc_ctx) \<Rightarrow> gateway_messages \<Rightarrow> gateway_state agent_api \<Rightarrow> gateway_route list" where
  "RegisterAgentServiceHandlerClient an js client =
    [((''POST'', rpc_path ''AgentService'' ''ReportHeartbeat''), ctx_handler an (request_AgentService_ReportHeartbeat_0 js client)),
     ((''POST'', rpc_path ''AgentService'' ''PullTasks''), ctx_handler an (request_AgentService_PullTasks_0 js client)),
     ((''POST'', rpc_path ''AgentService'' ''ReportTaskResult''), ctx_handler an (request_AgentService_ReportTaskResult_0 js client)),
     ((''POST'', rpc_path ''AgentService'' ''ReportMetrics''), ctx_handler an (request_AgentService_ReportMetrics_0 js client)),
     ((''POST'', rpc_path ''AgentService'' ''ReportRuntimeState''), ctx_handler an (request_AgentService_ReportRuntimeState_0 js client))]"

definition RegisterAgentServiceHandlerServer ::
  "(smap \<Rightarrow> go_err + rpc_ctx) \<Rightarrow> gateway_messages \<Rightarrow> gateway_state agent_api \<Rightarrow> gateway_route list" where
  "RegisterAgentServiceHandlerServer an js srv =
    [((''POST'', rpc_path ''AgentService'' ''ReportHeartbeat''), ctx_handler an (local_request_AgentService_ReportHeartbeat_0 js srv)),
     ((''POST'', rpc_path ''AgentService'' ''PullTasks''), ctx_handler an (local_request_AgentService_PullTasks_0 js srv)),
     ((''POST'', rpc_path ''AgentService'' ''ReportTaskResult''), ctx_handler an (local_request_AgentService_ReportTaskResult_0 js srv)),
     ((''POST'', rpc_path ''AgentService'' ''ReportMetrics''), ctx_handler an (local_request_AgentService_ReportMetrics_0 js srv)),
     ((''POST'', rpc_path ''AgentService'' ''ReportRuntimeState''), ctx_handler an (local_request_AgentService_ReportRuntimeState_0 js srv))]"

definition RegisterGatewaySyncServiceHandlerClient ::
  "(smap \<Rightarrow> go_err + rpc_ctx) \<Rightarrow> gateway_messages \<Rightarrow> gateway_state sync_api \<Rightarrow> gateway_route list" where
  "RegisterGatewaySyncServiceHandlerClient an js client =
    [((''POST'', rpc_path ''GatewaySyncService'' ''PushRegionalTask''), ctx_handler an (request_GatewaySyncService_PushRegionalTask_0 js client)),
     ((''POST'', rpc_path ''GatewaySyncService'' ''SyncGatewayStatus''), ctx_handler an (request_GatewaySyncService_SyncGatewayStatus_0 js client)),
     ((''POST'', rpc_path ''GatewaySyncService'' ''NotifyIdentityEvent''), ctx_handler an (request_GatewaySyncService_NotifyIdentityEvent_0 js client))]"

definition RegisterGatewaySyncServiceHandlerServer ::
  "(smap \<Rightarrow> go_err + rpc_ctx) \<Rightarrow> gateway_messages \<Rightarrow> gateway_state sync_api \<Rightarrow> gateway_route list" where
  "RegisterGatewaySyncServiceHandlerServer an js srv =
    [((''POST'', rpc_path ''GatewaySyncService'' ''PushRegionalTask''), ctx_handler an (local_request_GatewaySyncService_PushRegionalTask_0 js srv)),
     ((''POST'', rpc_path ''GatewaySyncService'' ''SyncGatewayStatus''), ctx_handler an (local_request_GatewaySyncService_SyncGatewayStatus_0 js srv)),
     ((''POST'', rpc_path ''GatewaySyncService'' ''NotifyIdentityEvent''), ctx_handler an (local_request_GatewaySyncService_NotifyIdentityEvent_0 js srv))]"

lemmas gateway_request_defs =
  request_AgentService_ReportHeartbeat_0_def request_AgentService_PullTasks_0_def request_AgentService_ReportTaskResult_0_def
  request_AgentService_ReportMetrics_0_def request_AgentService_ReportRuntimeState_0_def local_request_AgentService_ReportHeartbeat_0_def
  local_request_AgentService_PullTasks_0_def local_request_AgentService_ReportTaskResult_0_def local_request_AgentService_ReportMetrics_0_def
  local_request_AgentService_ReportRuntimeState_0_def request_GatewaySyncService_PushRegionalTask_0_def request_GatewaySyncService_SyncGatewayStatus_0_def
  request_GatewaySyncService_NotifyIdentityEvent_0_def local_request_GatewaySyncService_PushRegionalTask_0_def local_request_GatewaySyncService_SyncGatewayStatus_0_def
  local_request_GatewaySyncService_NotifyIdentityEvent_0_def RegisterAgentServiceHandlerClient_def RegisterAgentServiceHandlerServer_def
  RegisterGatewaySyncServiceHandlerClient_def RegisterGatewaySyncServiceHandlerServer_def

section \<open>Who is let in\<close>

text \<open>The options of a gateway that was started with certificate, key and authority.\<close>

definition gateway_tls :: "string \<Rightarrow> server_options \<Rightarrow> bool" where
  "gateway_tls g opts = (\<exists>c ca. opts = MTLS_Server c ca \<lparr>ac_GatewayID = g, ac_SkipMethods = skip_methods\<rparr>)"

lemma over_conn_refused:
  assumes "gateway_tls g opts" "''/edge.ai.api.v1.'' @ service @ ''/'' @ rpc \<notin> set skip_methods"
  shows "over_conn digest opts None service rpc h ctx q s = (Inl (StatusErr Unauthenticated ''no TLS info''), s)"
  using assms by (auto simp: gateway_tls_def over_conn_def NewAuthInterceptor_def extractFingerprint_def agent_ctx_def)

lemma over_conn_exempt:
  assumes "gateway_tls g opts \<or> opts = Plain_Server" "''/edge.ai.api.v1.'' @ service @ ''/'' @ rpc \<in> set skip_methods"
  shows "over_conn digest opts cert service rpc h ctx = h (agent_ctx cert)"
  using assms by (auto simp: gateway_tls_def over_conn_def NewAuthInterceptor_def fun_eq_iff)

text \<open>The calls of the control plane are exempt: with any certificate that the authority signed, of another gateway, of a
  node or of an identity that is revoked, they do what they do without the interceptor.\<close>

lemma sync_calls_unchecked:
  assumes "gateway_tls g opts \<or> opts = Plain_Server"
  shows "NewGatewaySyncServiceClient digest opts cert (GatewaySyncService dp) = GatewaySyncService dp"
  by (simp add: NewGatewaySyncServiceClient_def GatewaySyncService_def over_conn_exempt [OF assms] skip_methods_def fun_eq_iff)

text \<open>So both sets of handlers of these calls let everyone in.\<close>

lemma sync_routes_agree:
  assumes "gateway_tls g opts \<or> opts = Plain_Server"
  shows "RegisterGatewaySyncServiceHandlerClient an js (NewGatewaySyncServiceClient digest opts cert (GatewaySyncService dp)) =
    RegisterGatewaySyncServiceHandlerServer an js (GatewaySyncService dp)"
  unfolding sync_calls_unchecked [OF assms] by (simp add: gateway_request_defs)

text \<open>The handlers of the calls of agents, over a connection without a certificate as that of the API server, refuse
  every request and change nothing.\<close>

lemma agent_routes_refuse:
  assumes "gateway_tls g opts"
    and "(p, h) \<in> set (RegisterAgentServiceHandlerClient an js (NewAgentServiceClient digest opts None api))"
  shows "\<exists>e. h rq s = (Some e, s)"
proof -
  note refused = over_conn_refused [OF assms(1), of "''AgentService''"]
  show ?thesis using assms(2)
    by (auto simp: gateway_request_defs NewAgentServiceClient_def ctx_handler_def request_rpc_def failE_def refused skip_methods_def
        split: sum.splits decoding.splits)
qed

text \<open>The handlers in the process hand out the tasks of every node to everyone, as the context has no identity.\<close>

lemma local_pull_of_any_node:
  assumes "an (pq_Headers rq) = Inr ctx" "cx_NodeID ctx = None" "jg_PullTasks js (pq_Body rq) = Message (n, m)" "n \<noteq> []"
    and "WithTx (pull_body g n (max_tasks m)) d = (Inr ts, d1)"
  shows "ctx_handler an (local_request_AgentService_PullTasks_0 js (AgentService g)) rq ((c, d), reg) = (None, ((c, d1), reg))"
  using assms by (simp add: ctx_handler_def local_request_AgentService_PullTasks_0_def request_rpc_def AgentService_def on_gw_def
      on_database_def PullTasks_def with_node_def validateAuthenticatedNode_def NodeIDFromContext_def ctx_string_def map_err_def)

end
